(* ===== verification/Prelude.thy ===== *)
theory Prelude
  imports Complex_Main
begin

text \<open>
  Shared vocabulary of the development: the exceptions of the program as one datatype, computations
  that may raise while they change a state (the shape of every coroutine of the source that talks to
  a service), decimal text as Python's \<open>str(int)\<close> writes it, and list facts several components use.

  Text is \<open>string\<close>: one \<open>char\<close> stands for one code point, so the model covers the code points below
  256 (Latin-1); the program treats the others the same way.
\<close>

section \<open>Hint collections\<close>

named_theorems io_simps \<open>unfolding of computations that may raise\<close>
named_theorems handler_defs \<open>definitions of request handlers and jobs\<close>

section \<open>Exceptions\<close>

text \<open>
  The exceptions the source raises or tells apart. \<open>OtherError\<close> carries the class name of an
  exception raised by a library (a driver error, a connection error); \<open>CancelledError\<close> is the one
  that is not an \<open>Exception\<close> in Python, so \<open>except Exception\<close> lets it through.
\<close>

record http_error =
  status_code :: int
  code :: "string option"
  message :: string
  headers :: "(string \<times> string) list"

datatype exn =
    HTTPException http_error
  | ValueError string
  | RuntimeError string
  | CacheBusyError
  | CacheValueTooLargeError
  | ProviderUnavailableError string
  | ProviderResponseTooLargeError string
  | ProviderQuotaError string
  | ProviderRequestError string
  | CelestrakNotModifiedError string
  | TimeoutError
  | OtherError string
  | CancelledError

definition is_Exception :: "exn \<Rightarrow> bool" where
  "is_Exception e \<longleftrightarrow> e \<noteq> CancelledError"

section \<open>Computations that may raise\<close>

type_synonym ('s, 'a) io = "'s \<Rightarrow> (exn + 'a) \<times> 's"

definition ret :: "'a \<Rightarrow> ('s, 'a) io" where
  "ret a = (\<lambda>s. (Inr a, s))"

definition throw :: "exn \<Rightarrow> ('s, 'a) io" where
  "throw e = (\<lambda>s. (Inl e, s))"

text \<open>A result that needs no service.\<close>

definition pure :: "exn + 'a \<Rightarrow> ('s, 'a) io" where
  "pure r = (\<lambda>s. (r, s))"

definition bindc :: "('s, 'a) io \<Rightarrow> ('a \<Rightarrow> ('s, 'b) io) \<Rightarrow> ('s, 'b) io" where
  "bindc m f = (\<lambda>s. case m s of (Inl e, s') \<Rightarrow> (Inl e, s') | (Inr a, s') \<Rightarrow> f a s')"

text \<open>\<open>try: m except Exception as e: h(e)\<close>.\<close>

definition catchc :: "('s, 'a) io \<Rightarrow> (exn \<Rightarrow> ('s, 'a) io) \<Rightarrow> ('s, 'a) io" where
  "catchc m h = (\<lambda>s. case m s of
      (Inl e, s') \<Rightarrow> (if is_Exception e then h e s' else (Inl e, s'))
    | (Inr a, s') \<Rightarrow> (Inr a, s'))"

lemma ret_apply [simp, io_simps]: "ret a s = (Inr a, s)"
  by (simp add: ret_def)

lemma throw_apply [simp, io_simps]: "throw e s = (Inl e, s)"
  by (simp add: throw_def)

lemma bindc_apply [io_simps]:
  "bindc m f s = (case m s of (Inl e, s') \<Rightarrow> (Inl e, s') | (Inr a, s') \<Rightarrow> f a s')"
  by (simp add: bindc_def)

lemma catchc_apply [io_simps]:
  "catchc m h s = (case m s of
      (Inl e, s') \<Rightarrow> (if is_Exception e then h e s' else (Inl e, s'))
    | (Inr a, s') \<Rightarrow> (Inr a, s'))"
  by (simp add: catchc_def)

lemma bindc_ret [simp]: "bindc (ret a) f = f a"
  by (rule ext) (simp add: bindc_def)

lemma bindc_Inr: "m s = (Inr a, s') \<Longrightarrow> bindc m f s = f a s'"
  by (simp add: bindc_def)

lemma bindc_InrE:
  assumes "bindc m f s = (Inr b, s'')"
  obtains a s' where "m s = (Inr a, s')" and "f a s' = (Inr b, s'')"
  using assms by (auto simp: bindc_def split: prod.splits sum.splits)

lemma bindcE:
  assumes "bindc m f s = (x, s'')"
  obtains e where "m s = (Inl e, s'')" "x = Inl e" | a s' where "m s = (Inr a, s')" "f a s' = (x, s'')"
  using assms by (auto simp: bindc_def split: prod.splits sum.splits)

lemma catchc_Inr: "m s = (Inr a, s') \<Longrightarrow> catchc m h s = (Inr a, s')"
  by (simp add: catchc_def)

text \<open>A reply is data or an exception.\<close>

definition replies :: "('s, 'a) io \<Rightarrow> 's \<Rightarrow> bool" where
  "replies m s \<longleftrightarrow> (\<exists>a s'. m s = (Inr a, s'))"

text \<open>A computation that swallows every \<open>Exception\<close>; only a cancellation gets out of it.\<close>

definition polite :: "('s, 'a) io \<Rightarrow> bool" where
  "polite m \<longleftrightarrow> (\<forall>s e s'. m s = (Inl e, s') \<longrightarrow> \<not> is_Exception e)"

lemma polite_catch [intro]: "polite (catchc m (\<lambda>_. ret a))"
  by (auto simp: polite_def catchc_apply split: prod.splits sum.splits if_splits)

lemma polite_ret [simp]: "polite (ret a)"
  by (simp add: polite_def)

lemma polite_bindc [intro]: "polite m \<Longrightarrow> (\<And>a. polite (f a)) \<Longrightarrow> polite (bindc m f)"
  unfolding polite_def bindc_apply by (fastforce split: prod.splits sum.splits)

lemma politeD: "polite m \<Longrightarrow> m s = (Inl e, s') \<Longrightarrow> e = CancelledError"
  by (auto simp: polite_def is_Exception_def)

text \<open>A computation that leaves a part of the state as it is, however it ends.\<close>

definition keeps :: "('s \<Rightarrow> 'v) \<Rightarrow> ('s, 'a) io \<Rightarrow> bool" where
  "keeps view m \<longleftrightarrow> (\<forall>s r s'. m s = (r, s') \<longrightarrow> view s' = view s)"

lemma keepsD: "keeps view m \<Longrightarrow> m s = (r, s') \<Longrightarrow> view s' = view s"
  by (auto simp: keeps_def)

lemma keeps_simps [simp]: "keeps view (ret a)" "keeps view (throw e)" "keeps view (pure r)"
  by (simp_all add: keeps_def pure_def)

lemma keeps_bindc [intro]: "keeps view m \<Longrightarrow> (\<And>a. keeps view (f a)) \<Longrightarrow> keeps view (bindc m f)"
  unfolding keeps_def bindc_apply by (fastforce split: prod.splits sum.splits)

lemma keeps_catchc [intro]: "keeps view m \<Longrightarrow> (\<And>e. keeps view (h e)) \<Longrightarrow> keeps view (catchc m h)"
  unfolding keeps_def catchc_apply by (fastforce split: prod.splits sum.splits if_splits)

section \<open>Numbers\<close>

text \<open>\<open>int(x)\<close> of a float cuts towards zero.\<close>

definition py_int :: "rat \<Rightarrow> int" where
  "py_int q = (if q < 0 then \<lceil>q\<rceil> else \<lfloor>q\<rfloor>)"

text \<open>Seconds as the milliseconds of a clock, rounded up.\<close>

definition millis :: "rat \<Rightarrow> nat" where
  "millis q = nat \<lceil>1000 * q\<rceil>"

section \<open>Decimal text\<close>

text \<open>\<open>str(n)\<close> of a Python integer, and \<open>int(s)\<close> on the text it writes.\<close>

definition digit :: "nat \<Rightarrow> char" where
  "digit d = char_of (48 + d)"

definition is_digit :: "char \<Rightarrow> bool" where
  "is_digit c \<longleftrightarrow> 48 \<le> (of_char c :: nat) \<and> (of_char c :: nat) \<le> 57"

definition digit_val :: "char \<Rightarrow> nat" where
  "digit_val c = of_char c - 48"

fun show_nat :: "nat \<Rightarrow> string" where
  "show_nat n = (if n < 10 then [digit n] else show_nat (n div 10) @ [digit (n mod 10)])"

declare show_nat.simps [simp del]

definition show_int :: "int \<Rightarrow> string" where
  "show_int i = (if i < 0 then CHR ''-'' # show_nat (nat (- i)) else show_nat (nat i))"

definition parse_nat :: "string \<Rightarrow> nat option" where
  "parse_nat cs = (if cs \<noteq> [] \<and> list_all is_digit cs
     then Some (foldl (\<lambda>n c. 10 * n + digit_val c) 0 cs) else None)"

fun parse_int :: "string \<Rightarrow> int option" where
  "parse_int (CHR ''-'' # cs) = map_option (\<lambda>n. - int n) (parse_nat cs)"
| "parse_int cs = map_option int (parse_nat cs)"

lemma of_char_digit: "d < 10 \<Longrightarrow> (of_char (digit d) :: nat) = 48 + d"
  by (simp add: digit_def)

lemma is_digit_digit [simp]: "d < 10 \<Longrightarrow> is_digit (digit d)"
  by (simp add: is_digit_def of_char_digit)

lemma digit_val_digit [simp]: "d < 10 \<Longrightarrow> digit_val (digit d) = d"
  by (simp add: digit_val_def of_char_digit)

lemma show_nat_nonempty [simp]: "show_nat n \<noteq> []"
  by (subst show_nat.simps) simp

lemma show_nat_digits: "list_all is_digit (show_nat n)"
proof (induction n rule: show_nat.induct)
  case (1 n)
  then show ?case by (subst show_nat.simps) simp
qed

lemma show_nat_value: "foldl (\<lambda>n c. 10 * n + digit_val c) 0 (show_nat n) = n"
proof (induction n rule: show_nat.induct)
  case (1 n)
  then show ?case by (subst show_nat.simps) simp
qed

lemma parse_show_nat [simp]: "parse_nat (show_nat n) = Some n"
  by (simp add: parse_nat_def show_nat_digits show_nat_value)

lemma show_nat_first_digit: "\<exists>c cs. show_nat n = c # cs \<and> is_digit c"
  using show_nat_digits [of n] by (cases "show_nat n") auto

lemma parse_int_digit: "is_digit c \<Longrightarrow> parse_int (c # cs) = map_option int (parse_nat (c # cs))"
  by (cases "(c # cs)" rule: parse_int.cases) (auto simp: is_digit_def)

lemma parse_show_int [simp]: "parse_int (show_int i) = Some i"
proof (cases "i < 0")
  case True
  then show ?thesis by (simp add: show_int_def)
next
  case False
  obtain c cs where "show_nat (nat i) = c # cs" "is_digit c"
    using show_nat_first_digit by blast
  with parse_int_digit [of c cs] parse_show_nat [of "nat i"] False show ?thesis
    by (simp add: show_int_def)
qed

lemma show_int_inject [simp]: "show_int i = show_int j \<longleftrightarrow> i = j"
  by (metis option.inject parse_show_int)

lemma show_int_no_colon: "CHR '':'' \<notin> set (show_int i)"
proof -
  have "CHR '':'' \<notin> set (show_nat n)" for n
    using show_nat_digits [of n] by (auto simp: list_all_iff is_digit_def)
  then show ?thesis by (simp add: show_int_def)
qed

text \<open>Hexadecimal digits.\<close>

definition hex_val :: "char \<Rightarrow> nat option" where
  "hex_val c = (let n = of_char c :: nat in
     if 48 \<le> n \<and> n \<le> 57 then Some (n - 48)
     else if 97 \<le> n \<and> n \<le> 102 then Some (n - 87)
     else if 65 \<le> n \<and> n \<le> 70 then Some (n - 55) else None)"

section \<open>Text\<close>

text \<open>\<open>s.split(c)\<close> for a one-character separator, \<open>c.join(parts)\<close>, \<open>s.strip()\<close>, \<open>s.split()\<close>.\<close>

fun split_on :: "char \<Rightarrow> string \<Rightarrow> string list" where
  "split_on c [] = [[]]"
| "split_on c (x # xs) =
     (if x = c then [] # split_on c xs
      else (case split_on c xs of p # ps \<Rightarrow> (x # p) # ps | [] \<Rightarrow> [[x]]))"

fun join_with :: "string \<Rightarrow> string list \<Rightarrow> string" where
  "join_with sep [] = []"
| "join_with sep [p] = p"
| "join_with sep (p # ps) = p @ sep @ join_with sep ps"

definition is_space :: "char \<Rightarrow> bool" where
  "is_space c \<longleftrightarrow> (let n = of_char c :: nat in
     9 \<le> n \<and> n \<le> 13 \<or> 28 \<le> n \<and> n \<le> 32 \<or> n = 133 \<or> n = 160)"

definition rstrip :: "string \<Rightarrow> string" where
  "rstrip s = rev (dropWhile is_space (rev s))"

definition strip :: "string \<Rightarrow> string" where
  "strip s = rstrip (dropWhile is_space s)"

fun words_acc :: "string \<Rightarrow> string \<Rightarrow> string list" where
  "words_acc w [] = (if w = [] then [] else [rev w])"
| "words_acc w (c # cs) =
     (if is_space c then (if w = [] then words_acc [] cs else rev w # words_acc [] cs)
      else words_acc (c # w) cs)"

definition split_ws :: "string \<Rightarrow> string list" where
  "split_ws s = words_acc [] s"

lemma split_on_nonempty [simp]: "split_on c s \<noteq> []"
  by (induction s) (auto split: list.splits)

lemma join_split [simp]: "join_with [c] (split_on c s) = s"
proof (induction s)
  case Nil
  then show ?case by simp
next
  case (Cons x xs)
  then show ?case
    by (cases "split_on c xs"; cases "tl (split_on c xs)") auto
qed

lemma split_on_no_sep: "p \<in> set (split_on c s) \<Longrightarrow> c \<notin> set p"
  by (induction s arbitrary: p) (auto split: list.splits if_splits)

section \<open>Lists\<close>

text \<open>Cutting a text at the first separator is unambiguous when the first part has none.\<close>

lemma append_sep_inject:
  assumes "c \<notin> set xs" "c \<notin> set xs'"
  shows "xs @ c # ys = xs' @ c # ys' \<longleftrightarrow> xs = xs' \<and> ys = ys'"
  using assms
proof (induction xs arbitrary: xs')
  case Nil
  then show ?case by (cases xs') auto
next
  case (Cons x xs)
  then show ?case by (cases xs') auto
qed

end
