(* ===== verification/Valkey.thy ===== *)
theory Valkey
  imports Prelude
begin

text \<open>
  The interface of the Valkey service the program uses (through the package \<open>valkey.asyncio\<close>): the
  commands it sends, as a record of operations that is a parameter of every definition using the
  service. The locale \<open>valkey_service\<close> states what the program relies on: whenever a command replies,
  the reply and the new contents are those of the documented command. A command may also raise; then
  nothing is promised, except that a \<open>SET\<close> that raised was either executed or not. \<open>valkey_up\<close> adds that a well-formed command does reply.

  The documented commands are written out on a finite picture of the contents (\<open>kv\<close>): a key has a
  value and possibly an expiry instant, and an entry whose instant has passed is not there. Time is
  the server's clock in milliseconds; \<open>EX\<close> and \<open>EXPIRE\<close> take seconds.
\<close>

section \<open>Commands\<close>

record 's valkey =
  vk_get :: "nat \<Rightarrow> string \<Rightarrow> ('s, string option) io"
  vk_set :: "nat \<Rightarrow> string \<Rightarrow> string \<Rightarrow> nat option \<Rightarrow> bool \<Rightarrow> ('s, bool) io"
  vk_delete :: "nat \<Rightarrow> string list \<Rightarrow> ('s, unit) io"
  vk_exists :: "nat \<Rightarrow> string \<Rightarrow> ('s, bool) io"
  vk_incr :: "nat \<Rightarrow> string \<Rightarrow> ('s, int) io"
  vk_expire :: "nat \<Rightarrow> string \<Rightarrow> nat \<Rightarrow> ('s, unit) io"
  vk_ttl :: "nat \<Rightarrow> string \<Rightarrow> ('s, int) io"
  vk_hget :: "nat \<Rightarrow> string \<Rightarrow> string \<Rightarrow> ('s, string option) io"
  vk_hset :: "nat \<Rightarrow> string \<Rightarrow> (string \<times> string) list \<Rightarrow> ('s, unit) io"

section \<open>The documented commands\<close>

datatype vk_value = VStr string | VHash "string \<Rightarrow> string option"

record vk_entry =
  payload :: vk_value
  expires :: "nat option"

type_synonym kv = "string \<Rightarrow> vk_entry option"

definition live :: "nat \<Rightarrow> vk_entry \<Rightarrow> bool" where
  "live t e = (case expires e of None \<Rightarrow> True | Some x \<Rightarrow> t < x)"

definition peek :: "nat \<Rightarrow> string \<Rightarrow> kv \<Rightarrow> vk_entry option" where
  "peek t k m = (case m k of None \<Rightarrow> None | Some e \<Rightarrow> if live t e then Some e else None)"

definition deadline :: "nat \<Rightarrow> nat \<Rightarrow> nat" where
  "deadline t secs = t + 1000 * secs"

text \<open>A command answers an error for a value of the wrong type; the client raises it.\<close>

definition wrong_type :: "(kv, 'a) io" where
  "wrong_type = throw (OtherError ''ResponseError'')"

definition doc_get :: "nat \<Rightarrow> string \<Rightarrow> (kv, string option) io" where
  "doc_get t k m = (case peek t k m of
      None \<Rightarrow> ret None m
    | Some e \<Rightarrow> (case payload e of VStr v \<Rightarrow> ret (Some v) m | VHash _ \<Rightarrow> wrong_type m))"

definition doc_set :: "nat \<Rightarrow> string \<Rightarrow> string \<Rightarrow> nat option \<Rightarrow> bool \<Rightarrow> (kv, bool) io" where
  "doc_set t k v ex nx m =
     (if ex = Some 0 then wrong_type m
      else if nx \<and> peek t k m \<noteq> None then ret False m
      else ret True (m(k \<mapsto> \<lparr>payload = VStr v, expires = map_option (deadline t) ex\<rparr>)))"

definition doc_delete :: "nat \<Rightarrow> string list \<Rightarrow> (kv, unit) io" where
  "doc_delete t ks m = ret () (\<lambda>k. if k \<in> set ks then None else m k)"

definition doc_exists :: "nat \<Rightarrow> string \<Rightarrow> (kv, bool) io" where
  "doc_exists t k m = ret (peek t k m \<noteq> None) m"

definition doc_incr :: "nat \<Rightarrow> string \<Rightarrow> (kv, int) io" where
  "doc_incr t k m = (case peek t k m of
      None \<Rightarrow> ret 1 (m(k \<mapsto> \<lparr>payload = VStr (show_int 1), expires = None\<rparr>))
    | Some e \<Rightarrow> (case payload e of
          VHash _ \<Rightarrow> wrong_type m
        | VStr v \<Rightarrow> (case parse_int v of
              None \<Rightarrow> wrong_type m
            | Some n \<Rightarrow> (if n + 1 < 2 ^ 63
                then ret (n + 1) (m(k \<mapsto> e\<lparr>payload := VStr (show_int (n + 1))\<rparr>))
                else wrong_type m))))"

definition doc_expire :: "nat \<Rightarrow> string \<Rightarrow> nat \<Rightarrow> (kv, unit) io" where
  "doc_expire t k secs m = (case peek t k m of
      None \<Rightarrow> ret () m
    | Some e \<Rightarrow> ret () (m(k \<mapsto> e\<lparr>expires := Some (deadline t secs)\<rparr>)))"

text \<open>Half a second rounds up; the locale below asks less of the service.\<close>

definition doc_ttl :: "nat \<Rightarrow> string \<Rightarrow> (kv, int) io" where
  "doc_ttl t k m = ret (case peek t k m of
      None \<Rightarrow> - 2
    | Some e \<Rightarrow> (case expires e of None \<Rightarrow> - 1 | Some x \<Rightarrow> int ((x - t + 500) div 1000))) m"

definition doc_hget :: "nat \<Rightarrow> string \<Rightarrow> string \<Rightarrow> (kv, string option) io" where
  "doc_hget t k f m = (case peek t k m of
      None \<Rightarrow> ret None m
    | Some e \<Rightarrow> (case payload e of VHash h \<Rightarrow> ret (h f) m | VStr _ \<Rightarrow> wrong_type m))"

definition doc_hset :: "nat \<Rightarrow> string \<Rightarrow> (string \<times> string) list \<Rightarrow> (kv, unit) io" where
  "doc_hset t k fs m = (case peek t k m of
      None \<Rightarrow> ret () (m(k \<mapsto> \<lparr>payload = VHash (map_of (rev fs)), expires = None\<rparr>))
    | Some e \<Rightarrow> (case payload e of
          VHash h \<Rightarrow> ret () (m(k \<mapsto> e\<lparr>payload := VHash (h ++ map_of (rev fs))\<rparr>))
        | VStr _ \<Rightarrow> wrong_type m))"

definition doc_valkey :: "kv valkey" where
  "doc_valkey = \<lparr>vk_get = doc_get, vk_set = doc_set, vk_delete = doc_delete,
     vk_exists = doc_exists, vk_incr = doc_incr, vk_expire = doc_expire, vk_ttl = doc_ttl,
     vk_hget = doc_hget, vk_hset = doc_hset\<rparr>"

named_theorems doc_defs \<open>the documented commands\<close>

lemmas [doc_defs] = doc_get_def doc_set_def doc_delete_def doc_exists_def doc_incr_def
  doc_expire_def doc_hget_def doc_hset_def

lemma doc_valkey_sel [simp]:
  "vk_get doc_valkey = doc_get" "vk_set doc_valkey = doc_set"
  "vk_delete doc_valkey = doc_delete" "vk_exists doc_valkey = doc_exists"
  "vk_incr doc_valkey = doc_incr" "vk_expire doc_valkey = doc_expire"
  "vk_ttl doc_valkey = doc_ttl" "vk_hget doc_valkey = doc_hget" "vk_hset doc_valkey = doc_hset"
  by (simp_all add: doc_valkey_def)

section \<open>Contents\<close>

lemma peek_empty [simp]: "peek t k Map.empty = None"
  by (simp add: peek_def)

lemma peek_upd [simp]:
  "peek t k (m(k' \<mapsto> e)) = (if k = k' then if live t e then Some e else None else peek t k m)"
  by (simp add: peek_def)

lemma peek_del [simp]:
  "peek t k (\<lambda>k'. if k' \<in> K then None else m k') = (if k \<in> K then None else peek t k m)"
  by (simp add: peek_def)

lemma live_simps [simp]:
  "live t \<lparr>payload = v, expires = None\<rparr>"
  "live t \<lparr>payload = v, expires = Some x\<rparr> \<longleftrightarrow> t < x"
  "live t (e\<lparr>expires := Some x\<rparr>) \<longleftrightarrow> t < x"
  "live t (e\<lparr>payload := v\<rparr>) \<longleftrightarrow> live t e"
  by (simp_all add: live_def)

lemma peek_Some: "peek t k m = Some e \<longleftrightarrow> m k = Some e \<and> live t e"
  by (auto simp: peek_def split: option.splits)

lemma peek_None: "peek t k m = None \<longleftrightarrow> (\<forall>e. m k = Some e \<longrightarrow> \<not> live t e)"
  by (auto simp: peek_def split: option.splits)

lemma live_anti: "live t e \<Longrightarrow> u \<le> t \<Longrightarrow> live u e"
  by (auto simp: live_def split: option.splits)

lemma peek_None_mono: "peek t k m = None \<Longrightarrow> t \<le> u \<Longrightarrow> peek u k m = None"
  by (meson live_anti peek_None)

section \<open>Simulation\<close>

text \<open>
  \<open>sim view m d\<close>: whenever the computation \<open>m\<close> over the service replies, the computation \<open>d\<close> over the
  documented commands gives the same reply and the same contents. It is closed under sequencing, so
  a script over the service simulates the same script over the documented commands.
\<close>

definition sim :: "('s \<Rightarrow> kv) \<Rightarrow> ('s, 'a) io \<Rightarrow> (kv, 'a) io \<Rightarrow> bool" where
  "sim view m d \<longleftrightarrow> (\<forall>s a s'. m s = (Inr a, s') \<longrightarrow> d (view s) = (Inr a, view s'))"

lemma simD: "sim view m d \<Longrightarrow> m s = (Inr a, s') \<Longrightarrow> d (view s) = (Inr a, view s')"
  by (simp add: sim_def)

lemma sim_ret [simp]: "sim view (ret a) (ret a)"
  by (simp add: sim_def)

lemma sim_throw [simp]: "sim view (throw e) d"
  by (simp add: sim_def)

lemma sim_bindc [intro]:
  assumes "sim view m d" and "\<And>a. sim view (f a) (g a)"
  shows "sim view (bindc m f) (bindc d g)"
  unfolding sim_def
proof (intro allI impI)
  fix s b s''
  assume "bindc m f s = (Inr b, s'')"
  then obtain a s' where "m s = (Inr a, s')" and "f a s' = (Inr b, s'')"
    by (rule bindc_InrE)
  then have "d (view s) = (Inr a, view s')" "g a (view s') = (Inr b, view s'')"
    using assms by (auto dest: simD)
  then show "bindc d g (view s) = (Inr b, view s'')"
    by (simp add: bindc_apply)
qed

text \<open>
  \<open>impl view m d\<close> is the other direction, for a service that is up: where the documented commands
  reply, so does \<open>m\<close>, with the same reply and contents.
\<close>

definition impl :: "('s \<Rightarrow> kv) \<Rightarrow> ('s, 'a) io \<Rightarrow> (kv, 'a) io \<Rightarrow> bool" where
  "impl view m d \<longleftrightarrow>
     (\<forall>s a m'. d (view s) = (Inr a, m') \<longrightarrow> (\<exists>s'. m s = (Inr a, s') \<and> view s' = m'))"

lemma implE:
  assumes "impl view m d" "d (view s) = (Inr a, m')"
  obtains s' where "m s = (Inr a, s')" "view s' = m'"
  using assms unfolding impl_def by blast

lemma impl_ret [simp]: "impl view (ret a) (ret a)"
  by (simp add: impl_def)

lemma impl_bindc [intro]:
  assumes "impl view m d" and "\<And>a. impl view (f a) (g a)"
  shows "impl view (bindc m f) (bindc d g)"
  unfolding impl_def
proof (intro allI impI)
  fix s b m''
  assume "bindc d g (view s) = (Inr b, m'')"
  then obtain a m' where d: "d (view s) = (Inr a, m')" and g: "g a m' = (Inr b, m'')"
    by (rule bindc_InrE)
  from assms(1) d obtain s' where s': "m s = (Inr a, s')" "view s' = m'" by (rule implE)
  from g s'(2) have "g a (view s') = (Inr b, m'')" by simp
  with assms(2) obtain s'' where "f a s' = (Inr b, s'')" "view s'' = m''" by (rule implE)
  with s' show "\<exists>s''. bindc m f s = (Inr b, s'') \<and> view s'' = m''"
    by (simp add: bindc_apply)
qed

lemma sim_replies_impl:
  assumes "sim view m d" and "\<And>s. replies d (view s) \<Longrightarrow> replies m s"
  shows "impl view m d"
  unfolding impl_def
proof (intro allI impI)
  fix s a m'
  assume d: "d (view s) = (Inr a, m')"
  then have "replies m s" by (intro assms(2)) (auto simp: replies_def)
  then obtain b s' where m: "m s = (Inr b, s')" by (auto simp: replies_def)
  with simD [OF assms(1) m] d show "\<exists>s'. m s = (Inr a, s') \<and> view s' = m'" by simp
qed

section \<open>What the program relies on\<close>

locale valkey_service =
  fixes V :: "'s valkey" and view :: "'s \<Rightarrow> kv"
  assumes get_sim [intro]: "sim view (vk_get V t k) (doc_get t k)"
    and set_sim [intro]: "sim view (vk_set V t k v ex nx) (doc_set t k v ex nx)"
    and delete_sim [intro]: "sim view (vk_delete V t ks) (doc_delete t ks)"
    and exists_sim [intro]: "sim view (vk_exists V t k) (doc_exists t k)"
    and incr_sim [intro]: "sim view (vk_incr V t k) (doc_incr t k)"
    and expire_sim [intro]: "sim view (vk_expire V t k secs) (doc_expire t k secs)"
    and hget_sim [intro]: "sim view (vk_hget V t k f) (doc_hget t k f)"
    and hset_sim [intro]: "sim view (vk_hset V t k fs) (doc_hset t k fs)"
    and set_atomic: "vk_set V t k v ex nx s = (Inl err, s') \<Longrightarrow>
      view s' = view s \<or> (\<exists>b. doc_set t k v ex nx (view s) = (Inr b, view s'))"
    and ttl_quiet: "vk_ttl V t k s = (Inl err, s') \<Longrightarrow> view s' = view s"
    and ttl_view: "vk_ttl V t k s = (Inr r, s') \<Longrightarrow> view s' = view s"
    and ttl_absent: "vk_ttl V t k s = (Inr r, s') \<Longrightarrow> peek t k (view s) = None \<Longrightarrow> r = - 2"
    and ttl_close: "vk_ttl V t k s = (Inr r, s') \<Longrightarrow> peek t k (view s) = Some e \<Longrightarrow>
      expires e = Some x \<Longrightarrow> \<bar>1000 * r - (int x - int t)\<bar> < 1000"

locale valkey_up = valkey_service +
  assumes get_up: "replies (doc_get t k) (view s) \<Longrightarrow> replies (vk_get V t k) s"
    and set_up: "replies (doc_set t k v ex nx) (view s) \<Longrightarrow> replies (vk_set V t k v ex nx) s"
    and delete_up: "replies (vk_delete V t ks) s"
    and exists_up: "replies (vk_exists V t k) s"
    and incr_up: "replies (doc_incr t k) (view s) \<Longrightarrow> replies (vk_incr V t k) s"
    and expire_up: "replies (vk_expire V t k secs) s"
    and ttl_up: "replies (vk_ttl V t k) s"
    and hget_up: "replies (doc_hget t k f) (view s) \<Longrightarrow> replies (vk_hget V t k f) s"
    and hset_up: "replies (doc_hset t k fs) (view s) \<Longrightarrow> replies (vk_hset V t k fs) s"

context valkey_up
begin

lemmas get_impl [intro] = sim_replies_impl [OF get_sim get_up]
lemmas set_impl [intro] = sim_replies_impl [OF set_sim set_up]
lemmas delete_impl [intro] = sim_replies_impl [OF delete_sim delete_up]
lemmas exists_impl [intro] = sim_replies_impl [OF exists_sim exists_up]
lemmas incr_impl [intro] = sim_replies_impl [OF incr_sim incr_up]
lemmas expire_impl [intro] = sim_replies_impl [OF expire_sim expire_up]
lemmas hget_impl [intro] = sim_replies_impl [OF hget_sim hget_up]
lemmas hset_impl [intro] = sim_replies_impl [OF hset_sim hset_up]

end

text \<open>
  The documented commands meet the interface, so neither set of laws is contradictory; the
  witnesses of the development use this instance.
\<close>

lemma doc_ttl_close:
  assumes "t < x" shows "\<bar>1000 * int ((x - t + 500) div 1000) - (int x - int t)\<bar> < 1000"
  using assms by linarith

interpretation doc: valkey_up doc_valkey "\<lambda>m. m"
proof unfold_locales
  fix t k and s s' :: kv and r e x
  assume "vk_ttl doc_valkey t k s = (Inr r, s')" "peek t k s = Some e" "expires e = Some x"
  then show "\<bar>1000 * r - (int x - int t)\<bar> < 1000"
    using doc_ttl_close [of t x] by (auto simp: doc_ttl_def peek_Some live_def)
qed (auto simp: sim_def replies_def doc_ttl_def doc_delete_def doc_exists_def doc_expire_def
       doc_set_def wrong_type_def split: option.splits if_splits)

end
