(* ===== verification/Counters.thy ===== *)
theory Counters
  imports Valkey
begin

text \<open>
  Window counters in Valkey, as the rate limiter and the upstream budget use them: \<open>INCR\<close> a key that
  names the window, and set its expiry when it was created. The invariant of such a counter and the
  effect of one increment.
\<close>

definition bump :: "'s valkey \<Rightarrow> nat \<Rightarrow> string \<Rightarrow> nat \<Rightarrow> ('s, int) io" where
  "bump V t key ttl =
     bindc (vk_incr V t key) (\<lambda>n.
     bindc (if n = 1 then vk_expire V t key ttl else ret ()) (\<lambda>_. ret n))"

text \<open>
  The counter stands at \<open>n\<close> and is kept until the window is over: absent at 0, and not expiring
  before \<open>until\<close> otherwise.
\<close>

definition counter_ok :: "nat \<Rightarrow> kv \<Rightarrow> string \<Rightarrow> nat \<Rightarrow> nat \<Rightarrow> bool" where
  "counter_ok t m key n until \<longleftrightarrow>
     (if n = 0 then peek t key m = None
      else \<exists>x. m key = Some \<lparr>payload = VStr (show_int (int n)), expires = Some x\<rparr> \<and> until \<le> x)"

lemma counter_ok_other: "k \<noteq> key \<Longrightarrow> counter_ok t (m(k \<mapsto> e)) key n u \<longleftrightarrow> counter_ok t m key n u"
  by (simp add: counter_ok_def)

lemma counter_ok_later: "counter_ok t m key n u \<Longrightarrow> t \<le> t' \<Longrightarrow> counter_ok t' m key n u"
  by (auto simp: counter_ok_def intro: peek_None_mono)

lemma bump_counter:
  assumes ok: "counter_ok t m key n until" and t: "t < until" "until \<le> deadline t ttl"
    and small: "int n + 1 < 2 ^ 63"
  obtains e where "bump doc_valkey t key ttl m = (Inr (int n + 1), m(key \<mapsto> e))"
    "counter_ok t (m(key \<mapsto> e)) key (Suc n) until"
proof (cases "n = 0")
  case True
  with ok have "peek t key m = None" by (simp add: counter_ok_def)
  then have "bump doc_valkey t key ttl m =
      (Inr (int n + 1), m(key \<mapsto> \<lparr>payload = VStr (show_int 1), expires = Some (deadline t ttl)\<rparr>))"
    using True by (simp add: bump_def bindc_apply doc_incr_def doc_expire_def)
  moreover have "counter_ok t (m(key \<mapsto> \<lparr>payload = VStr (show_int 1), expires = Some (deadline t ttl)\<rparr>)) key (Suc n) until"
    using True t by (simp add: counter_ok_def)
  ultimately show thesis by (rule that)
next
  case False
  with ok obtain x where x: "m key = Some \<lparr>payload = VStr (show_int (int n)), expires = Some x\<rparr>" "until \<le> x"
    by (auto simp: counter_ok_def)
  let ?e = "\<lparr>payload = VStr (show_int (int n + 1)), expires = Some x\<rparr>"
  have "peek t key m = Some \<lparr>payload = VStr (show_int (int n)), expires = Some x\<rparr>"
    using x t by (simp add: peek_Some)
  then have "bump doc_valkey t key ttl m = (Inr (int n + 1), m(key \<mapsto> ?e))"
    using False small by (simp add: bump_def bindc_apply doc_incr_def)
  moreover have "counter_ok t (m(key \<mapsto> ?e)) key (Suc n) until"
    using x by (simp add: counter_ok_def add.commute)
  ultimately show thesis by (rule that)
qed

context valkey_up
begin

lemma bump_impl: "impl view (bump V t key ttl) (bump doc_valkey t key ttl)"
  unfolding bump_def by (auto intro!: impl_bindc)

end

end
