(* ===== verification/Rate_Limit.thy ===== *)
theory Rate_Limit
  imports Counters
begin

text \<open>
  The inbound rate limiter (\<open>src/core/rate_limit.py\<close>): the quota table, the Lua script of the fixed
  window, and the dependency that runs before a route's handler. The abstract limiter at the end
  counts requests per client, class and minute; the theorems say the code is that limiter.
\<close>

section \<open>The model\<close>

definition quotas :: "string \<Rightarrow> int option" where
  "quotas = map_of [(''public_light'', 600), (''public_standard'', 240),
     (''public_expensive'', 60), (''mutation'', 30)]"

text \<open>The constructor refuses an unknown class; the limiter is its class.\<close>

definition RateLimiter :: "string \<Rightarrow> exn + string" where
  "RateLimiter limit_class =
     (if quotas limit_class = None
      then Inl (ValueError (''Unknown rate-limit class: '' @ limit_class))
      else Inr limit_class)"

text \<open>\<open>_LUA_FIXED_WINDOW\<close>; the script runs as one step of the service, at its time \<open>t\<close>.\<close>

definition fixed_window :: "'s valkey \<Rightarrow> nat \<Rightarrow> string \<Rightarrow> int \<Rightarrow> nat \<Rightarrow> ('s, int \<times> int) io" where
  "fixed_window V t key limit ttl =
     bindc (bump V t key ttl) (\<lambda>count.
       ret (if count > limit then (- 1, limit) else (limit - count, limit)))"

text \<open>What the call leaves in \<open>request.state\<close>.\<close>

record rl_state =
  rl_limit :: int
  rl_remaining :: int
  rl_reset :: int

definition window_seconds :: nat where
  "window_seconds = 60"

definition rl_window :: "nat \<Rightarrow> nat" where
  "rl_window now_ms = now_ms div 1000 div window_seconds"

definition rl_key :: "string \<Rightarrow> string \<Rightarrow> nat \<Rightarrow> string" where
  "rl_key limit_class client_id window =
     ''rl:'' @ limit_class @ '':'' @ client_id @ '':'' @ show_int (int window)"

definition rl_unavailable :: exn where
  "rl_unavailable = HTTPException \<lparr>status_code = 503, code = None,
     message = ''Rate limiter unavailable'', headers = []\<rparr>"

definition rl_exceeded :: "int \<Rightarrow> int \<Rightarrow> exn" where
  "rl_exceeded limit_value reset_at = HTTPException \<lparr>status_code = 429, code = None,
     message = ''Rate limit exceeded'',
     headers = [(''Retry-After'', show_int (int window_seconds)),
       (''RateLimit-Limit'', show_int limit_value), (''RateLimit-Remaining'', ''0''),
       (''RateLimit-Reset'', show_int reset_at)]\<rparr>"

text \<open>
  \<open>RateLimiter.__call__\<close>. The clocks are in milliseconds: \<open>now\<close> is read for the window, \<open>t\<close> is the
  service's clock when the script runs, \<open>later\<close> is read for the reset time. The result is the new
  request state, if it was written, and the outcome of the call.
\<close>

definition rate_limiter_call ::
  "'s valkey \<Rightarrow> string \<Rightarrow> string \<Rightarrow> nat \<Rightarrow> nat \<Rightarrow> nat \<Rightarrow> 's \<Rightarrow> (rl_state option \<times> (exn + unit)) \<times> 's" where
  "rate_limiter_call V limit_class client_id now t later s =
     (let quota = the (quotas limit_class);
          key = rl_key limit_class client_id (rl_window now)
      in case fixed_window V t key quota window_seconds s of
           (Inl e, s') \<Rightarrow> ((None, Inl (if is_Exception e then rl_unavailable else e)), s')
         | (Inr (remaining, limit_value), s') \<Rightarrow>
             (let reset_at = int (later div 1000) + int window_seconds;
                  st = \<lparr>rl_limit = limit_value, rl_remaining = max remaining 0, rl_reset = reset_at\<rparr>
              in if remaining < 0 then ((Some st, Inl (rl_exceeded limit_value reset_at)), s')
                 else ((Some st, Inr ()), s')))"

text \<open>A run of the limiter over incoming requests, all clocks agreeing within one request.\<close>

record rl_request =
  rq_class :: string
  rq_client :: string
  rq_time :: nat

fun rl_run :: "'s valkey \<Rightarrow> rl_request list \<Rightarrow> 's \<Rightarrow> (exn + unit) list \<times> 's" where
  "rl_run V [] s = ([], s)"
| "rl_run V (q # qs) s =
     (case rate_limiter_call V (rq_class q) (rq_client q) (rq_time q) (rq_time q) (rq_time q) s of
        ((_, r), s') \<Rightarrow> (case rl_run V qs s' of (rs, s'') \<Rightarrow> (r # rs, s'')))"

section \<open>The abstract limiter\<close>

type_synonym rl_bucket = "string \<times> string \<times> nat"

definition bucket :: "rl_request \<Rightarrow> rl_bucket" where
  "bucket q = (rq_class q, rq_client q, rl_window (rq_time q))"

text \<open>
  \<open>seen b\<close> requests of bucket \<open>b\<close> came before; a request passes when fewer than the quota did.
\<close>

fun rl_spec :: "(rl_bucket \<Rightarrow> nat) \<Rightarrow> rl_request list \<Rightarrow> bool list" where
  "rl_spec seen [] = []"
| "rl_spec seen (q # qs) =
     (int (seen (bucket q)) < the (quotas (rq_class q)))
       # rl_spec (seen(bucket q := Suc (seen (bucket q)))) qs"

definition passed :: "exn + unit \<Rightarrow> bool" where
  "passed r \<longleftrightarrow> r = Inr ()"

section \<open>Keys and windows\<close>

text \<open>Client ids are hexadecimal digests and class names come from the table: neither has a colon.\<close>

definition wf_request :: "rl_request \<Rightarrow> bool" where
  "wf_request q \<longleftrightarrow> quotas (rq_class q) \<noteq> None \<and> CHR '':'' \<notin> set (rq_client q)"

lemma quotas_Some:
  "quotas c = Some n \<Longrightarrow> 0 < n \<and> n < 1000 \<and> CHR '':'' \<notin> set c"
  by (auto simp: quotas_def split: if_splits)

lemma rl_key_inject:
  assumes "quotas c \<noteq> None" "quotas c' \<noteq> None" "CHR '':'' \<notin> set i" "CHR '':'' \<notin> set i'"
  shows "rl_key c i w = rl_key c' i' w' \<longleftrightarrow> c = c' \<and> i = i' \<and> w = w'"
proof -
  have "CHR '':'' \<notin> set c" "CHR '':'' \<notin> set c'"
    using assms(1,2) quotas_Some by blast+
  then show ?thesis
    using assms(3,4) by (simp add: rl_key_def append_sep_inject)
qed

lemma window_end: "now < 60000 * Suc (rl_window now)"
  by (simp add: rl_window_def window_seconds_def)

lemma window_start: "60000 * rl_window now \<le> now"
  by (simp add: rl_window_def window_seconds_def)

lemma rl_window_mono: "t \<le> u \<Longrightarrow> rl_window t \<le> rl_window u"
  by (simp add: rl_window_def div_le_mono)

section \<open>The script\<close>

text \<open>The script over the service is the script over the documented commands.\<close>

context valkey_up
begin

lemma fixed_window_impl:
  "impl view (fixed_window V t key limit ttl) (fixed_window doc_valkey t key limit ttl)"
  unfolding fixed_window_def by (auto intro!: impl_bindc bump_impl)

end

section \<open>The invariant of a run\<close>

text \<open>
  In the current and every later minute, the counter of a bucket is absent before its first request
  and then holds the number of requests seen, until after the minute is over.
\<close>

definition counts :: "nat \<Rightarrow> (rl_bucket \<Rightarrow> nat) \<Rightarrow> kv \<Rightarrow> bool" where
  "counts t seen m \<longleftrightarrow> (\<forall>c i w. quotas c \<noteq> None \<longrightarrow> CHR '':'' \<notin> set i \<longrightarrow> rl_window t \<le> w \<longrightarrow>
     counter_ok t m (rl_key c i w) (seen (c, i, w)) (60000 * Suc w))"

lemma countsD:
  "counts t seen m \<Longrightarrow> quotas c \<noteq> None \<Longrightarrow> CHR '':'' \<notin> set i \<Longrightarrow> rl_window t \<le> w \<Longrightarrow>
    counter_ok t m (rl_key c i w) (seen (c, i, w)) (60000 * Suc w)"
  unfolding counts_def by blast

lemma counts_later: "counts t seen m \<Longrightarrow> t \<le> u \<Longrightarrow> counts u seen m"
  unfolding counts_def by (meson order_trans counter_ok_later rl_window_mono)

text \<open>
  Writing the incremented counter of the bucket of a request made at \<open>t\<close> keeps the invariant.
\<close>

lemma counts_update:
  assumes inv: "counts t seen m" and wf: "quotas c \<noteq> None" "CHR '':'' \<notin> set i"
    and e: "counter_ok t (m(rl_key c i (rl_window t) \<mapsto> e)) (rl_key c i (rl_window t)) n (60000 * Suc (rl_window t))"
  shows "counts t (seen((c, i, rl_window t) := n)) (m(rl_key c i (rl_window t) \<mapsto> e))"
    (is "counts t ?seen ?m")
  unfolding counts_def
proof (intro allI impI)
  fix c' i' w'
  assume wf': "quotas c' \<noteq> None" "CHR '':'' \<notin> set i'" "rl_window t \<le> w'"
  let ?k = "rl_key c i (rl_window t)" and ?k' = "rl_key c' i' w'"
  show "counter_ok t ?m ?k' (?seen (c', i', w')) (60000 * Suc w')"
  proof (cases "(c', i', w') = (c, i, rl_window t)")
    case True
    with e show ?thesis by simp
  next
    case False
    with rl_key_inject [OF wf(1) wf'(1) wf(2) wf'(2)] have "?k \<noteq> ?k'" by metis
    moreover from False have "?seen (c', i', w') = seen (c', i', w')" by (rule fun_upd_other)
    ultimately show ?thesis using countsD [OF inv wf'] counter_ok_other by metis
  qed
qed

text \<open>One request: the script counts it and says how many are left.\<close>

lemma fixed_window_counts:
  assumes inv: "counts t seen m" and wf: "quotas c \<noteq> None" "CHR '':'' \<notin> set i"
    and n: "n = Suc (seen (c, i, rl_window t))" and small: "int n < 2 ^ 63"
  obtains m' where
    "fixed_window doc_valkey t (rl_key c i (rl_window t)) limit window_seconds m =
       (Inr (if int n > limit then (- 1, limit) else (limit - int n, limit)), m')"
    "counts t (seen((c, i, rl_window t) := n)) m'"
proof -
  have "60000 * Suc (rl_window t) \<le> deadline t window_seconds"
    using window_start [of t] by (simp add: deadline_def window_seconds_def)
  then obtain e where
    "bump doc_valkey t (rl_key c i (rl_window t)) window_seconds m = (Inr (int n), m(rl_key c i (rl_window t) \<mapsto> e))"
    and "counter_ok t (m(rl_key c i (rl_window t) \<mapsto> e)) (rl_key c i (rl_window t)) n (60000 * Suc (rl_window t))"
    using bump_counter [OF countsD [OF inv wf order_refl] window_end] n small
    by (metis add.commute of_nat_Suc)
  with counts_update [OF inv wf] that show thesis
    by (simp add: fixed_window_def bindc_apply)
qed

section \<open>The limiter is the abstract limiter\<close>

context valkey_up
begin

lemma rl_run_spec_from:
  assumes "counts t seen (view s)" "sorted (map rq_time qs)" "\<forall>q\<in>set qs. t \<le> rq_time q \<and> wf_request q"
    "\<forall>b. int (seen b + length qs) < 2 ^ 63"
  shows "map passed (fst (rl_run V qs s)) = rl_spec seen qs"
  using assms
proof (induction qs arbitrary: t seen s)
  case Nil
  then show ?case by simp
next
  case (Cons q qs)
  let ?t = "rq_time q" and ?c = "rq_class q" and ?i = "rq_client q"
  let ?b = "(?c, ?i, rl_window ?t)" and ?q = "the (quotas ?c)"
  define n where "n = Suc (seen ?b)"
  from Cons.prems(3) have wf: "quotas ?c \<noteq> None" "CHR '':'' \<notin> set ?i" "t \<le> ?t"
    by (auto simp: wf_request_def)
  from Cons.prems(1) wf(3) have inv: "counts ?t seen (view s)" by (rule counts_later)
  have small: "int n < 2 ^ 63" using Cons.prems(4) [rule_format, of ?b] by (simp add: n_def)
  obtain m' where fw: "fixed_window doc_valkey ?t (rl_key ?c ?i (rl_window ?t)) ?q window_seconds (view s) =
       (Inr (if int n > ?q then (- 1, ?q) else (?q - int n, ?q)), m')"
    and inv': "counts ?t (seen(?b := n)) m'"
    using fixed_window_counts [OF inv wf(1,2) n_def small] by blast
  from fixed_window_impl fw obtain s' where
    s': "fixed_window V ?t (rl_key ?c ?i (rl_window ?t)) ?q window_seconds s =
       (Inr (if int n > ?q then (- 1, ?q) else (?q - int n, ?q)), s')" "view s' = m'"
    by (rule implE)
  have rest: "map passed (fst (rl_run V qs s')) = rl_spec (seen(?b := n)) qs"
  proof (rule Cons.IH)
    show "counts ?t (seen(?b := n)) (view s')" using inv' s' by simp
    show "sorted (map rq_time qs)" "\<forall>q'\<in>set qs. ?t \<le> rq_time q' \<and> wf_request q'"
      using Cons.prems(2,3) by auto
    show "\<forall>b. int ((seen(?b := n)) b + length qs) < 2 ^ 63"
    proof
      fix b
      from Cons.prems(4) have "int (seen b + length (q # qs)) < 2 ^ 63" by blast
      then show "int ((seen(?b := n)) b + length qs) < 2 ^ 63"
        by (cases "b = ?b") (simp_all only: fun_upd_same fun_upd_other n_def list.size, simp_all)
    qed
  qed
  obtain st r where call: "rate_limiter_call V ?c ?i ?t ?t ?t s = ((st, r), s')"
    and r: "passed r \<longleftrightarrow> int (seen ?b) < ?q"
  proof (cases "int n > ?q")
    case True
    with s'(1) that show thesis by (simp add: rate_limiter_call_def passed_def n_def Let_def)
  next
    case False
    with s'(1) that show thesis by (simp add: rate_limiter_call_def passed_def n_def Let_def)
  qed
  from call rest r show ?case
    by (cases "rl_run V qs s'") (simp add: bucket_def n_def)
qed

end

lemma counts_fresh:
  assumes "\<forall>c i w. peek t (rl_key c i w) m = None"
  shows "counts t (\<lambda>_. 0) m"
  using assms by (simp add: counts_def counter_ok_def)

text \<open>
  C1: The limiter implements the fixed-window specification. Starting from a store without
  live counters, the requests that pass are exactly those that find fewer than the class's quota
  of earlier requests of the same client, class and minute, whatever other clients and classes
  are interleaved with them.
\<close>

theorem rate_limiter_refines_spec:
  assumes "valkey_up V view" "\<forall>c i w. peek 0 (rl_key c i w) (view s) = None"
    "sorted (map rq_time qs)" "\<forall>q\<in>set qs. wf_request q" "int (length qs) < 2 ^ 63"
  shows "map passed (fst (rl_run V qs s)) = rl_spec (\<lambda>_. 0) qs"
  by (rule valkey_up.rl_run_spec_from [OF assms(1) counts_fresh [OF assms(2)]]) (use assms in auto)

theorem rate_limiter_refines_spec_witness:
  "map passed (fst (rl_run doc_valkey
     [\<lparr>rq_class = ''mutation'', rq_client = ''a1'', rq_time = 5\<rparr>,
      \<lparr>rq_class = ''mutation'', rq_client = ''a1'', rq_time = 70000\<rparr>] Map.empty)) = [True, True]"
  by (subst rate_limiter_refines_spec [OF doc.valkey_up_axioms])
     (simp_all add: wf_request_def quotas_def bucket_def rl_window_def window_seconds_def)

end
