(* ===== verification/Json.thy ===== *)
theory Json
  imports Prelude
begin

text \<open>
  The values the program passes through \<open>json.dumps\<close> and \<open>json.loads\<close> of the standard library: cache
  entries (\<open>src/core/cache_layer.py\<close>), the events column and the message envelopes of the webhooks
  (\<open>src/api/routers/webhooks.py\<close>, \<open>src/ingestion\<close>). \<open>dumps\<close> is the compact form
  \<open>separators=(",", ":")\<close> with \<open>default=str\<close>; \<open>loads\<close> is the decoder. The theorem is the round trip:
  what comes back is the value with every object JSON does not know replaced by its \<open>str\<close>.
\<close>

section \<open>Values\<close>

text \<open>
  A float is kept as its \<open>repr\<close>; \<open>PObject s\<close> is an object with \<open>str(o) = s\<close> that JSON has no form
  for, such as a \<open>datetime\<close> or a \<open>UUID\<close>.
\<close>

datatype pyval =
    PNone
  | PBool bool
  | PInt int
  | PFloat string
  | PStr string
  | PList "pyval list"
  | PDict "(string \<times> pyval) list"
  | PObject string

fun jsonify :: "pyval \<Rightarrow> pyval" where
  "jsonify (PObject s) = PStr s"
| "jsonify (PList vs) = PList (map jsonify vs)"
| "jsonify (PDict kvs) = PDict (map (\<lambda>(k, v). (k, jsonify v)) kvs)"
| "jsonify v = v"

section \<open>Encoding\<close>

abbreviation quote :: char where "quote \<equiv> CHR 0x22"
abbreviation backslash :: char where "backslash \<equiv> CHR 0x5C"

definition hex_digit :: "nat \<Rightarrow> char" where
  "hex_digit n = (if n < 10 then char_of (48 + n) else char_of (87 + n))"

definition escape_u :: "char \<Rightarrow> string" where
  "escape_u c = (let n = of_char c :: nat in
     [backslash, CHR ''u'', CHR ''0'', CHR ''0'', hex_digit (n div 16), hex_digit (n mod 16)])"

text \<open>\<open>ensure_ascii\<close> is on: printable ASCII stays, the rest is escaped.\<close>

definition escape_char :: "char \<Rightarrow> string" where
  "escape_char c = (let n = of_char c :: nat in
     if c = quote then [backslash, quote]
     else if c = backslash then [backslash, backslash]
     else if n = 8 then [backslash, CHR ''b'']
     else if n = 9 then [backslash, CHR ''t'']
     else if n = 10 then [backslash, CHR ''n'']
     else if n = 12 then [backslash, CHR ''f'']
     else if n = 13 then [backslash, CHR ''r'']
     else if n < 32 \<or> 126 < n then escape_u c
     else [c])"

definition dumps_str :: "string \<Rightarrow> string" where
  "dumps_str s = quote # concat (map escape_char s) @ [quote]"

fun dumps :: "pyval \<Rightarrow> string"
  and dumps_elems :: "pyval list \<Rightarrow> string"
  and dumps_members :: "(string \<times> pyval) list \<Rightarrow> string" where
  "dumps PNone = ''null''"
| "dumps (PBool b) = (if b then ''true'' else ''false'')"
| "dumps (PInt n) = show_int n"
| "dumps (PFloat r) = r"
| "dumps (PStr s) = dumps_str s"
| "dumps (PObject s) = dumps_str s"
| "dumps (PList vs) = CHR ''['' # (if vs = [] then '']'' else dumps_elems vs)"
| "dumps (PDict kvs) = CHR ''{'' # (if kvs = [] then ''}'' else dumps_members kvs)"
| "dumps_elems [] = []"
| "dumps_elems (v # vs) = dumps v @ (if vs = [] then '']'' else CHR '','' # dumps_elems vs)"
| "dumps_members [] = []"
| "dumps_members ((k, v) # kvs) =
     dumps_str k @ CHR '':'' # dumps v @ (if kvs = [] then ''}'' else CHR '','' # dumps_members kvs)"

section \<open>Decoding\<close>

definition is_ws :: "char \<Rightarrow> bool" where
  "is_ws c \<longleftrightarrow> (of_char c :: nat) \<in> {32, 9, 10, 13}"

definition skip_ws :: "string \<Rightarrow> string" where
  "skip_ws = dropWhile is_ws"

text \<open>Four hexadecimal digits; a code point of 256 or more has no \<open>char\<close> here.\<close>

definition hex4 :: "string \<Rightarrow> nat option" where
  "hex4 cs = (case map hex_val (take 4 cs) of
      [Some a, Some b, Some c, Some d] \<Rightarrow>
        (let n = 4096 * a + 256 * b + 16 * c + d in if n < 256 then Some n else None)
    | _ \<Rightarrow> None)"

definition unescape :: "char \<Rightarrow> char option" where
  "unescape e =
     (if e = quote \<or> e = backslash \<or> e = CHR ''/'' then Some e
      else if e = CHR ''b'' then Some (char_of (8 :: nat))
      else if e = CHR ''t'' then Some (char_of (9 :: nat))
      else if e = CHR ''n'' then Some (char_of (10 :: nat))
      else if e = CHR ''f'' then Some (char_of (12 :: nat))
      else if e = CHR ''r'' then Some (char_of (13 :: nat)) else None)"

text \<open>The text of a string after its opening quote.\<close>

fun parse_str :: "string \<Rightarrow> (string \<times> string) option" where
  "parse_str [] = None"
| "parse_str (c # cs) =
     (if c = quote then Some ([], cs)
      else if c = backslash then
        (case cs of [] \<Rightarrow> None
         | e # cs' \<Rightarrow>
             (if e = CHR ''u'' then
                (case hex4 cs' of None \<Rightarrow> None
                 | Some n \<Rightarrow> map_option (\<lambda>(s, r). (char_of n # s, r)) (parse_str (drop 4 cs')))
              else (case unescape e of None \<Rightarrow> None
                 | Some d \<Rightarrow> map_option (\<lambda>(s, r). (d # s, r)) (parse_str cs'))))
      else if (of_char c :: nat) < 32 then None
      else map_option (\<lambda>(s, r). (c # s, r)) (parse_str cs))"

text \<open>A number is the longest run of its characters; with none of \<open>. e E\<close> it is an integer.\<close>

definition is_num_char :: "char \<Rightarrow> bool" where
  "is_num_char c \<longleftrightarrow> is_digit c \<or> c \<in> set ''+-.eE''"

definition wf_float :: "string \<Rightarrow> bool" where
  "wf_float r \<longleftrightarrow> r \<noteq> [] \<and> list_all is_num_char r \<and> (is_digit (hd r) \<or> hd r = CHR ''-'')
     \<and> (\<exists>c\<in>set r. c \<in> set ''.eE'')"

definition parse_num :: "string \<Rightarrow> pyval option" where
  "parse_num r = (if wf_float r then Some (PFloat r) else map_option PInt (parse_int r))"

definition parse_word :: "string \<Rightarrow> pyval \<Rightarrow> string \<Rightarrow> (pyval \<times> string) option" where
  "parse_word w v cs = (if take (length w) cs = w then Some (v, drop (length w) cs) else None)"

fun parse_val :: "nat \<Rightarrow> string \<Rightarrow> (pyval \<times> string) option"
  and parse_elems :: "nat \<Rightarrow> string \<Rightarrow> (pyval list \<times> string) option"
  and parse_members :: "nat \<Rightarrow> string \<Rightarrow> ((string \<times> pyval) list \<times> string) option" where
  "parse_val 0 cs = None"
| "parse_val (Suc n) cs =
     (case cs of [] \<Rightarrow> None
      | c # cs' \<Rightarrow>
          (if c = quote then map_option (\<lambda>(s, r). (PStr s, r)) (parse_str cs')
           else if c = CHR ''['' then
             (case skip_ws cs' of [] \<Rightarrow> None
              | d # ds \<Rightarrow> (if d = CHR '']'' then Some (PList [], ds)
                  else map_option (\<lambda>(vs, r). (PList vs, r)) (parse_elems n (d # ds))))
           else if c = CHR ''{'' then
             (case skip_ws cs' of [] \<Rightarrow> None
              | d # ds \<Rightarrow> (if d = CHR ''}'' then Some (PDict [], ds)
                  else map_option (\<lambda>(kvs, r). (PDict kvs, r)) (parse_members n (d # ds))))
           else if c = CHR ''n'' then parse_word ''null'' PNone cs
           else if c = CHR ''t'' then parse_word ''true'' (PBool True) cs
           else if c = CHR ''f'' then parse_word ''false'' (PBool False) cs
           else map_option (\<lambda>v. (v, dropWhile is_num_char cs)) (parse_num (takeWhile is_num_char cs))))"
| "parse_elems 0 cs = None"
| "parse_elems (Suc n) cs =
     (case parse_val n (skip_ws cs) of None \<Rightarrow> None
      | Some (v, r) \<Rightarrow>
          (case skip_ws r of [] \<Rightarrow> None
           | d # ds \<Rightarrow> (if d = CHR '']'' then Some ([v], ds)
               else if d = CHR '','' then map_option (\<lambda>(vs, r). (v # vs, r)) (parse_elems n ds)
               else None)))"
| "parse_members 0 cs = None"
| "parse_members (Suc n) cs =
     (case skip_ws cs of [] \<Rightarrow> None
      | q # qs \<Rightarrow>
          (if q \<noteq> quote then None
           else (case parse_str qs of None \<Rightarrow> None
             | Some (k, r) \<Rightarrow>
                 (case skip_ws r of [] \<Rightarrow> None
                  | d # ds \<Rightarrow> (if d \<noteq> CHR '':'' then None
                      else (case parse_val n (skip_ws ds) of None \<Rightarrow> None
                        | Some (v, r') \<Rightarrow>
                            (case skip_ws r' of [] \<Rightarrow> None
                             | e # es \<Rightarrow> (if e = CHR ''}'' then Some ([(k, v)], es)
                                 else if e = CHR '','' then
                                   map_option (\<lambda>(kvs, r). ((k, v) # kvs, r)) (parse_members n es)
                                 else None))))))))"

text \<open>
  Every second call consumes a character, so twice the length is fuel for the whole text. A
  repeated key keeps its last value, as in a Python dictionary.
\<close>

fun dict_of :: "(string \<times> pyval) list \<Rightarrow> (string \<times> pyval) list" where
  "dict_of [] = []"
| "dict_of ((k, v) # kvs) =
     (if k \<in> fst ` set kvs
      then (k, the (map_of (rev kvs) k)) # filter (\<lambda>p. fst p \<noteq> k) (dict_of kvs)
      else (k, v) # dict_of kvs)"

fun dedup :: "pyval \<Rightarrow> pyval" where
  "dedup (PList vs) = PList (map dedup vs)"
| "dedup (PDict kvs) = PDict (dict_of (map (\<lambda>(k, v). (k, dedup v)) kvs))"
| "dedup v = v"

definition loads :: "string \<Rightarrow> pyval option" where
  "loads cs = (case parse_val (2 * length cs + 2) (skip_ws cs) of
      Some (v, r) \<Rightarrow> if skip_ws r = [] then Some (dedup v) else None
    | None \<Rightarrow> None)"

section \<open>Round trip\<close>

text \<open>Values as the program builds them: a dictionary has each key once, a float its \<open>repr\<close>.\<close>

fun wf_val :: "pyval \<Rightarrow> bool" where
  "wf_val (PFloat r) \<longleftrightarrow> wf_float r"
| "wf_val (PList vs) \<longleftrightarrow> (\<forall>v\<in>set vs. wf_val v)"
| "wf_val (PDict kvs) \<longleftrightarrow> distinct (map fst kvs) \<and> (\<forall>p\<in>set kvs. wf_val (snd p))"
| "wf_val v \<longleftrightarrow> True"

fun need :: "pyval \<Rightarrow> nat"
  and needs :: "pyval list \<Rightarrow> nat"
  and needm :: "(string \<times> pyval) list \<Rightarrow> nat" where
  "need (PList vs) = Suc (needs vs)"
| "need (PDict kvs) = Suc (needm kvs)"
| "need v = 1"
| "needs [] = 0"
| "needs (v # vs) = Suc (max (need v) (needs vs))"
| "needm [] = 0"
| "needm ((k, v) # kvs) = Suc (max (need v) (needm kvs))"

definition delim :: "string \<Rightarrow> bool" where
  "delim rest \<longleftrightarrow> (case rest of [] \<Rightarrow> True | c # _ \<Rightarrow> \<not> is_num_char c)"

lemma delim_simps [simp]:
  "delim []" "delim (CHR '']'' # r)" "delim (CHR '','' # r)" "delim (CHR ''}'' # r)"
  by (simp_all add: delim_def is_num_char_def is_digit_def)

lemma not_ws [simp]:
  "\<not> is_ws quote" "\<not> is_ws (CHR ''['')" "\<not> is_ws (CHR ''{'')" "\<not> is_ws (CHR '']'')"
  "\<not> is_ws (CHR ''}'')" "\<not> is_ws (CHR '','')" "\<not> is_ws (CHR '':'')" "\<not> is_ws (CHR ''n'')"
  "\<not> is_ws (CHR ''t'')" "\<not> is_ws (CHR ''f'')" "\<not> is_ws (CHR ''-'')"
  by (simp_all add: is_ws_def)

lemma skip_ws_simps [simp]: "skip_ws [] = []" "\<not> is_ws c \<Longrightarrow> skip_ws (c # cs) = c # cs"
  by (simp_all add: skip_ws_def)

subsection \<open>Strings\<close>

lemma hex_val_digit [simp]: "n < 16 \<Longrightarrow> hex_val (hex_digit n) = Some n"
  by (auto simp: hex_val_def hex_digit_def)

lemma hex4_escape: "hex4 (CHR ''0'' # CHR ''0'' # hex_digit (of_char c div 16) #
    hex_digit (of_char c mod 16) # cs) = Some (of_char c)"
proof -
  have "(of_char c :: nat) < 256" using nat_of_char_less_256 by simp
  then have "(of_char c :: nat) div 16 < 16"
    by (intro less_mult_imp_div_less) simp
  moreover have "hex_val (CHR ''0'') = Some 0" by (simp add: hex_val_def)
  ultimately show ?thesis using \<open>(of_char c :: nat) < 256\<close>
    by (simp add: hex4_def Let_def mult.commute [of 16])
qed

lemma parse_escape_char:
  "parse_str (escape_char c @ cs) = map_option (\<lambda>(s, r). (c # s, r)) (parse_str cs)"
proof -
  let ?n = "of_char c :: nat"
  have c: "c = char_of ?n" by simp
  consider "c = quote" | "c = backslash" | "?n \<in> {8, 9, 10, 12, 13}"
    | "c \<noteq> quote" "c \<noteq> backslash" "?n \<notin> {8, 9, 10, 12, 13}" "?n < 32 \<or> 126 < ?n"
    | "c \<noteq> quote" "c \<noteq> backslash" "32 \<le> ?n" "?n \<le> 126"
    by force
  then show ?thesis
  proof cases
    case 3
    then show ?thesis by (auto simp: escape_char_def unescape_def Let_def) (metis c)+
  next
    case 4
    then have "escape_char c = escape_u c" by (auto simp: escape_char_def Let_def)
    with hex4_escape [of c cs] show ?thesis by (simp add: escape_u_def Let_def)
  qed (auto simp: escape_char_def unescape_def Let_def)
qed

lemma parse_dumps_str:
  "parse_str (concat (map escape_char s) @ quote # rest) = Some (s, rest)"
  by (induction s) (simp_all add: parse_escape_char)

subsection \<open>Numbers\<close>

lemma takeWhile_delim:
  assumes "list_all p cs" and "delim rest" and "p = is_num_char"
  shows "takeWhile p (cs @ rest) = cs" "dropWhile p (cs @ rest) = rest"
  using assms by (cases rest; auto simp: list_all_iff delim_def)+

lemma show_int_chars: "c \<in> set (show_int n) \<Longrightarrow> is_digit c \<or> c = CHR ''-''"
  using show_nat_digits by (auto simp: show_int_def list_all_iff split: if_splits)

lemma show_int_num: "list_all is_num_char (show_int n)"
  using show_int_chars by (auto simp: list_all_iff is_num_char_def)

lemma parse_num_show_int: "parse_num (show_int n) = Some (PInt n)"
proof -
  have "\<not> wf_float (show_int n)"
    using show_int_chars by (force simp: wf_float_def is_digit_def)
  then show ?thesis by (simp add: parse_num_def)
qed

lemma show_int_head: "\<exists>c cs. show_int n = c # cs \<and> (is_digit c \<or> c = CHR ''-'')"
  by (cases "n < 0") (simp_all add: show_int_def show_nat_first_digit, metis show_nat_first_digit)

lemma num_head:
  assumes "is_digit c \<or> c = CHR ''-''"
  shows "c \<noteq> quote" "c \<noteq> CHR ''[''" "c \<noteq> CHR ''{''" "c \<noteq> CHR ''n''" "c \<noteq> CHR ''t''" "c \<noteq> CHR ''f''"
    "\<not> is_ws c" "c \<noteq> CHR '']''"
  using assms by (auto simp: is_digit_def is_ws_def)

lemma parse_val_num:
  assumes "r \<noteq> []" "is_digit (hd r) \<or> hd r = CHR ''-''" "list_all is_num_char r" "delim rest"
  shows "parse_val (Suc n) (r @ rest) = map_option (\<lambda>v. (v, rest)) (parse_num r)"
proof -
  obtain c cs where r: "r = c # cs" using assms(1) by (cases r) auto
  note tw = takeWhile_delim [OF assms(3,4) refl]
  from tw num_head [of c] assms(2) show ?thesis unfolding r by simp
qed

subsection \<open>Values\<close>

lemma dumps_head: "wf_val v \<Longrightarrow> \<exists>c cs. dumps v = c # cs \<and> \<not> is_ws c \<and> c \<noteq> CHR '']''"
proof (cases v)
  case (PInt n)
  obtain c cs where "show_int n = c # cs" "is_digit c \<or> c = CHR ''-''"
    using show_int_head by blast
  with PInt num_head [of c] show ?thesis by auto
next
  case (PFloat r)
  assume "wf_val v"
  with PFloat obtain c cs where "r = c # cs" "is_digit c \<or> c = CHR ''-''"
    by (cases r) (auto simp: wf_float_def)
  with PFloat num_head [of c] show ?thesis by auto
qed (simp_all add: dumps_str_def)

lemma dumps_skip: "wf_val v \<Longrightarrow> skip_ws (dumps v @ r) = dumps v @ r"
  using dumps_head [of v] by auto

lemma need_le: "wf_val v \<Longrightarrow> need v \<le> 2 * length (dumps v)"
  and "vs \<noteq> [] \<Longrightarrow> \<forall>v\<in>set vs. wf_val v \<Longrightarrow> needs vs \<le> 2 * length (dumps_elems vs)"
  and "kvs \<noteq> [] \<Longrightarrow> \<forall>p\<in>set kvs. wf_val (snd p) \<Longrightarrow> needm kvs \<le> 2 * length (dumps_members kvs)"
proof (induction v and vs and kvs rule: dumps_dumps_elems_dumps_members.induct)
  case (3 n)
  then show ?case using show_int_head [of n] by auto
next
  case (4 r)
  then show ?case by (cases r) (auto simp: wf_float_def)
qed (auto simp: dumps_str_def)

lemma parse_dumps:
  "wf_val v \<Longrightarrow> need v \<le> n \<Longrightarrow> delim rest \<Longrightarrow> parse_val n (dumps v @ rest) = Some (jsonify v, rest)"
  and "vs \<noteq> [] \<Longrightarrow> \<forall>v\<in>set vs. wf_val v \<Longrightarrow> needs vs \<le> n \<Longrightarrow>
    parse_elems n (dumps_elems vs @ rest) = Some (map jsonify vs, rest)"
  and "kvs \<noteq> [] \<Longrightarrow> \<forall>p\<in>set kvs. wf_val (snd p) \<Longrightarrow> needm kvs \<le> n \<Longrightarrow>
    parse_members n (dumps_members kvs @ rest) = Some (map (\<lambda>(k, v). (k, jsonify v)) kvs, rest)"
proof (induction v and vs and kvs arbitrary: n rest and n rest and n rest
    rule: dumps_dumps_elems_dumps_members.induct)
  case 1
  then show ?case by (cases n) (simp_all add: parse_word_def)
next
  case (2 b)
  then show ?case by (cases n) (simp_all add: parse_word_def)
next
  case (3 i)
  then obtain m where n: "n = Suc m" by (cases n) auto
  obtain c cs where "show_int i = c # cs" "is_digit c \<or> c = CHR ''-''"
    using show_int_head by blast
  with 3 show_int_num [of i] parse_num_show_int [of i] show ?case unfolding n
    by (simp only: dumps.simps) (subst parse_val_num, simp_all)
next
  case (4 r)
  then obtain m where n: "n = Suc m" by (cases n) auto
  from 4 show ?case unfolding n
    by (simp only: dumps.simps) (subst parse_val_num, simp_all add: wf_float_def parse_num_def)
next
  case (5 s)
  then show ?case by (cases n) (simp_all add: dumps_str_def parse_dumps_str)
next
  case (6 s)
  then show ?case by (cases n) (simp_all add: dumps_str_def parse_dumps_str)
next
  case (7 vs)
  then obtain m where n: "n = Suc m" by (cases n) auto
  show ?case
  proof (cases vs)
    case Nil
    then show ?thesis by (simp add: n)
  next
    case (Cons v ws)
    obtain c cs where d: "dumps v = c # cs" "\<not> is_ws c" "c \<noteq> CHR '']''"
      using dumps_head [of v] 7 Cons by auto
    obtain es where e: "dumps_elems vs = c # es" using d by (simp add: Cons)
    have ne: "vs \<noteq> []" by (simp add: Cons)
    have "parse_elems m (dumps_elems vs @ rest) = Some (map jsonify vs, rest)"
      by (rule "7.IH") (use 7 n ne in auto)
    then have "parse_elems m (c # es @ rest) = Some (map jsonify vs, rest)" by (simp add: e)
    moreover have "dumps (PList vs) @ rest = CHR ''['' # c # es @ rest" by (simp add: e ne)
    ultimately show ?thesis using d by (simp add: n)
  qed
next
  case (8 kvs)
  then obtain m where n: "n = Suc m" by (cases n) auto
  show ?case
  proof (cases kvs)
    case Nil
    then show ?thesis by (simp add: n)
  next
    case (Cons p qs)
    then obtain es where e: "dumps_members kvs = quote # es"
      by (cases p) (simp add: dumps_str_def)
    have ne: "kvs \<noteq> []" by (simp add: Cons)
    have "parse_members m (dumps_members kvs @ rest) =
        Some (map (\<lambda>(k, v). (k, jsonify v)) kvs, rest)"
      by (rule "8.IH") (use 8 n ne in auto)
    then have "parse_members m (quote # es @ rest) =
        Some (map (\<lambda>(k, v). (k, jsonify v)) kvs, rest)" by (simp add: e)
    moreover have "dumps (PDict kvs) @ rest = CHR ''{'' # quote # es @ rest" by (simp add: e ne)
    ultimately show ?thesis by (simp add: n)
  qed
next
  case 9
  then show ?case by simp
next
  case (10 v vs)
  then obtain m where n: "n = Suc m" by (cases n) auto
  from 10 n show ?case
    by (cases "vs = []") (simp_all add: dumps_skip)
next
  case 11
  then show ?case by simp
next
  case (12 k v kvs)
  then obtain m where n: "n = Suc m" by (cases n) auto
  from 12 n show ?case
    by (cases "kvs = []") (simp_all add: dumps_skip dumps_str_def parse_dumps_str)
qed

lemma fst_jsonify: "fst ` set (map (\<lambda>(k, v). (k, jsonify v)) kvs) = fst ` set kvs"
  by force

lemma dict_of_distinct: "distinct (map fst kvs) \<Longrightarrow> dict_of kvs = kvs"
  by (induction kvs rule: dict_of.induct) auto

lemma dedup_jsonify: "wf_val v \<Longrightarrow> dedup (jsonify v) = jsonify v"
proof (induction v rule: jsonify.induct)
  case (2 vs)
  then show ?case by simp
next
  case (3 kvs)
  then have "map (\<lambda>(k, v). (k, dedup v)) (map (\<lambda>(k, v). (k, jsonify v)) kvs)
      = map (\<lambda>(k, v). (k, jsonify v)) kvs" by auto
  moreover from 3 have "distinct (map fst (map (\<lambda>(k, v). (k, jsonify v)) kvs))"
    by (simp add: comp_def case_prod_unfold)
  ultimately show ?case by (simp only: dedup.simps jsonify.simps dict_of_distinct)
qed simp_all

lemma loads_dumps:
  assumes "wf_val v"
  shows "loads (dumps v) = Some (jsonify v)"
proof -
  have "parse_val (2 * length (dumps v) + 2) (dumps v @ []) = Some (jsonify v, [])"
    using need_le [OF assms] by (intro parse_dumps(1) assms) simp_all
  moreover have "skip_ws (dumps v) = dumps v" using dumps_skip [OF assms, of "[]"] by simp
  ultimately show ?thesis using dedup_jsonify [OF assms] by (simp add: loads_def)
qed

text \<open>Values made of what JSON knows come back as they were.\<close>

fun native :: "pyval \<Rightarrow> bool" where
  "native (PObject s) \<longleftrightarrow> False"
| "native (PList vs) \<longleftrightarrow> (\<forall>v\<in>set vs. native v)"
| "native (PDict kvs) \<longleftrightarrow> (\<forall>p\<in>set kvs. native (snd p))"
| "native v \<longleftrightarrow> True"

lemma jsonify_native: "native v \<Longrightarrow> jsonify v = v"
proof (induction v rule: jsonify.induct)
  case (2 vs)
  then show ?case by (simp add: map_idI)
next
  case (3 kvs)
  then have "map (\<lambda>(k, v). (k, jsonify v)) kvs = kvs" by (intro map_idI) auto
  then show ?case by simp
qed simp_all



end
