(* ===== verification/Settings.thy ===== *)
theory Settings
  imports Prelude Complex_Main
begin

text \<open>
  The process settings (\<open>src/core/settings.py\<close>): the fields the rest of the program reads, the range
  constraints declared on them, and the start-up validator that refuses weak production secrets.
  Floats are exact rationals. \<open>None\<close> and the empty string are both falsy; a setting that is tested
  for truth goes through \<open>truthy\<close>.
\<close>

record settings =
  environment :: string
  api_port :: int
  log_level :: string
  database_url :: string
  valkey_url :: string
  nats_url :: string
  ip_fingerprint_secret :: string
  webhook_encryption_key :: "string option"
  trusted_proxies :: string
  cors_origins :: string
  database_pool_size :: int
  database_max_overflow :: int
  database_pool_timeout_seconds :: rat
  database_statement_timeout_ms :: int
  cache_compute_timeout_seconds :: rat
  cache_wait_timeout_seconds :: rat
  cache_max_value_bytes :: int
  cache_background_refresh_limit :: int
  webhook_delivery_concurrency :: int
  webhook_batch_size :: int
  webhook_max_attempts :: int
  webhook_max_per_ip :: int
  webhook_timeout_seconds :: rat
  webhook_max_body_bytes :: int
  analytics_queue_size :: int
  analytics_batch_size :: int
  analytics_flush_seconds :: rat
  request_body_max_bytes :: int
  otel_exporter_otlp_endpoint :: "string option"
  nasa_api_key :: "string option"
  space_track_identity :: "string option"
  space_track_password :: "string option"
  the_space_devs_api_key :: "string option"
  enable_celestrak :: bool
  enable_noaa_swpc :: bool
  enable_jpl :: bool
  enable_esa :: bool
  enable_space_devs_public_api :: bool
  enable_rocketlaunch_live :: bool
  http_proxy :: "string option"

text \<open>The settings when only the four required variables are given.\<close>

definition default_settings :: "string \<Rightarrow> string \<Rightarrow> string \<Rightarrow> string \<Rightarrow> settings" where
  "default_settings db vk nats secret = \<lparr>
     environment = ''development'', api_port = 8000, log_level = ''info'',
     database_url = db, valkey_url = vk, nats_url = nats, ip_fingerprint_secret = secret,
     webhook_encryption_key = None, trusted_proxies = ''127.0.0.1'',
     cors_origins = ''https://uttg.example.com'', database_pool_size = 20,
     database_max_overflow = 10, database_pool_timeout_seconds = 2,
     database_statement_timeout_ms = 3000, cache_compute_timeout_seconds = 5,
     cache_wait_timeout_seconds = 2, cache_max_value_bytes = 2000000,
     cache_background_refresh_limit = 32, webhook_delivery_concurrency = 32,
     webhook_batch_size = 32, webhook_max_attempts = 5, webhook_max_per_ip = 5,
     webhook_timeout_seconds = 10, webhook_max_body_bytes = 262144,
     analytics_queue_size = 20000, analytics_batch_size = 500, analytics_flush_seconds = 1 / 2,
     request_body_max_bytes = 1048576, otel_exporter_otlp_endpoint = None, nasa_api_key = None,
     space_track_identity = None, space_track_password = None, the_space_devs_api_key = None,
     enable_celestrak = True, enable_noaa_swpc = True, enable_jpl = True, enable_esa = False,
     enable_space_devs_public_api = True, enable_rocketlaunch_live = True, http_proxy = None\<rparr>"

lemma default_settings_simps [simp]:
  "cache_compute_timeout_seconds (default_settings db vk nats secret) = 5"
  "cache_wait_timeout_seconds (default_settings db vk nats secret) = 2"
  "cache_max_value_bytes (default_settings db vk nats secret) = 2000000"
  "cache_background_refresh_limit (default_settings db vk nats secret) = 32"
  "webhook_max_attempts (default_settings db vk nats secret) = 5"
  "webhook_max_per_ip (default_settings db vk nats secret) = 5"
  "webhook_batch_size (default_settings db vk nats secret) = 32"
  "webhook_max_body_bytes (default_settings db vk nats secret) = 262144"
  "analytics_queue_size (default_settings db vk nats secret) = 20000"
  "analytics_batch_size (default_settings db vk nats secret) = 500"
  "request_body_max_bytes (default_settings db vk nats secret) = 1048576"
  "environment (default_settings db vk nats secret) = ''development''"
  "trusted_proxies (default_settings db vk nats secret) = ''127.0.0.1''"
  "ip_fingerprint_secret (default_settings db vk nats secret) = secret"
  "webhook_encryption_key (default_settings db vk nats secret) = None"
  by (simp_all add: default_settings_def)

definition truthy :: "string option \<Rightarrow> bool" where
  "truthy v = (case v of None \<Rightarrow> False | Some s \<Rightarrow> s \<noteq> [])"

text \<open>The \<open>Literal\<close> types and the bounds of each \<open>Field\<close>.\<close>

definition fields_ok :: "settings \<Rightarrow> bool" where
  "fields_ok c \<longleftrightarrow>
     environment c \<in> {''development'', ''test'', ''production''}
   \<and> 1 \<le> api_port c \<and> api_port c \<le> 65535
   \<and> log_level c \<in> {''debug'', ''info'', ''warning'', ''error'', ''critical''}
   \<and> 12 \<le> length (ip_fingerprint_secret c)
   \<and> 2 \<le> database_pool_size c \<and> database_pool_size c \<le> 200
   \<and> 0 \<le> database_max_overflow c \<and> database_max_overflow c \<le> 200
   \<and> 0 < database_pool_timeout_seconds c \<and> database_pool_timeout_seconds c \<le> 30
   \<and> 100 \<le> database_statement_timeout_ms c \<and> database_statement_timeout_ms c \<le> 60000
   \<and> 0 < cache_compute_timeout_seconds c \<and> cache_compute_timeout_seconds c \<le> 60
   \<and> 0 < cache_wait_timeout_seconds c \<and> cache_wait_timeout_seconds c \<le> 10
   \<and> 1024 \<le> cache_max_value_bytes c \<and> cache_max_value_bytes c \<le> 16000000
   \<and> 1 \<le> cache_background_refresh_limit c \<and> cache_background_refresh_limit c \<le> 512
   \<and> 1 \<le> webhook_delivery_concurrency c \<and> webhook_delivery_concurrency c \<le> 256
   \<and> 1 \<le> webhook_batch_size c \<and> webhook_batch_size c \<le> 256
   \<and> 1 \<le> webhook_max_attempts c \<and> webhook_max_attempts c \<le> 12
   \<and> 1 \<le> webhook_max_per_ip c \<and> webhook_max_per_ip c \<le> 100
   \<and> 0 < webhook_timeout_seconds c \<and> webhook_timeout_seconds c \<le> 60
   \<and> 1024 \<le> webhook_max_body_bytes c \<and> webhook_max_body_bytes c \<le> 2000000
   \<and> 100 \<le> analytics_queue_size c \<and> analytics_queue_size c \<le> 200000
   \<and> 10 \<le> analytics_batch_size c \<and> analytics_batch_size c \<le> 5000
   \<and> 0 < analytics_flush_seconds c \<and> analytics_flush_seconds c \<le> 10
   \<and> 1024 \<le> request_body_max_bytes c \<and> request_body_max_bytes c \<le> 16000000"

definition weak_values :: "string list" where
  "weak_values = [''change-this-secret-for-ip-hashing'', ''testipsecret'']"

definition validate_production_secrets :: "settings \<Rightarrow> exn + settings" where
  "validate_production_secrets c =
     (if environment c \<noteq> ''production'' then Inr c
      else if length (ip_fingerprint_secret c) < 32 \<or> ip_fingerprint_secret c \<in> set weak_values
      then Inl (ValueError ''UTTG_IP_FINGERPRINT_SECRET must be a unique 32+ character secret'')
      else if \<not> truthy (webhook_encryption_key c) \<or> length (the (webhook_encryption_key c)) < 32
      then Inl (ValueError ''UTTG_WEBHOOK_ENCRYPTION_KEY must be a unique 32+ character secret'')
      else if webhook_encryption_key c = Some (ip_fingerprint_secret c)
      then Inl (ValueError ''Webhook encryption and IP fingerprint secrets must be independent'')
      else if ''*'' \<in> set (map strip (split_on (CHR '','') (cors_origins c)))
      then Inl (ValueError ''Wildcard CORS origins are forbidden in production'')
      else Inr c)"

definition load_settings :: "settings \<Rightarrow> exn + settings" where
  "load_settings c =
     (if fields_ok c then validate_production_secrets c else Inl (ValueError ''validation error''))"

text \<open>Facts about loaded settings the components rely on.\<close>

lemma load_settings_id: "load_settings c = Inr c' \<Longrightarrow> c' = c \<and> fields_ok c"
  by (auto simp: load_settings_def validate_production_secrets_def split: if_splits)

lemma fields_okD:
  assumes "fields_ok c"
  shows "1 \<le> webhook_max_attempts c" "1 \<le> webhook_max_per_ip c" "1 \<le> analytics_batch_size c"
    "0 < cache_wait_timeout_seconds c" "0 < cache_compute_timeout_seconds c"
  using assms by (auto simp: fields_ok_def)

end
