(* ===== verification/Cache_Layer.thy ===== *)
theory Cache_Layer
  imports Valkey Json Settings
begin

text \<open>
  The single-flight, stale-while-revalidate cache (\<open>src/core/cache_layer.py\<close>): its three Lua scripts,
  the coroutine \<open>cached\<close> with its waiting loop and background refresh, the computing side, and the
  invalidation. The second half is the system of all callers of one key as a step relation: each
  script is one atomic step, callers interleave freely, and \<open>invalidate\<close> may come at any time.

  Clocks are milliseconds. A caller passes \<open>int(time.time())\<close>, whole seconds, to the scripts.
\<close>

section \<open>The Lua scripts\<close>

definition lock_seconds :: nat where
  "lock_seconds = 15"

definition take_lock :: "'s valkey \<Rightarrow> nat \<Rightarrow> string \<Rightarrow> string \<Rightarrow> ('s, bool) io" where
  "take_lock V t lock_key token = vk_set V t lock_key token (Some lock_seconds) True"

text \<open>\<open>_READ_LUA\<close>: value, age as text, and what the caller has to do.\<close>

definition read_lua ::
  "'s valkey \<Rightarrow> nat \<Rightarrow> string \<Rightarrow> string \<Rightarrow> int \<Rightarrow> int \<Rightarrow> int \<Rightarrow> string \<Rightarrow>
   ('s, string option \<times> string \<times> string) io" where
  "read_lua V t lock_key data_key ttl stale now token =
     bindc (vk_hget V t data_key ''v'') (\<lambda>value.
     bindc (vk_hget V t data_key ''t'') (\<lambda>t_field.
     let miss = bindc (take_lock V t lock_key token) (\<lambda>ok.
           ret (None, ''0'', if ok then ''miss_leader'' else ''miss_wait''))
     in case Option.bind t_field parse_int of
          None \<Rightarrow> miss
        | Some stored_at \<Rightarrow>
            (let age = now - stored_at
             in if age \<le> ttl then ret (value, show_int age, ''fresh'')
                else if age \<le> stale then bindc (take_lock V t lock_key token) (\<lambda>ok.
                  ret (value, show_int age, if ok then ''revalidate'' else ''stale''))
                else miss)))"

text \<open>\<open>_STORE_LUA\<close>: publish only while the caller still owns the lock.\<close>

definition store_lua ::
  "'s valkey \<Rightarrow> nat \<Rightarrow> string \<Rightarrow> string \<Rightarrow> string \<Rightarrow> string \<Rightarrow> int \<Rightarrow> nat \<Rightarrow> ('s, int) io" where
  "store_lua V t data_key lock_key token value now stale =
     bindc (vk_get V t lock_key) (\<lambda>owner.
       if owner \<noteq> Some token then ret 0
       else bindc (vk_hset V t data_key [(''v'', value), (''t'', show_int now)]) (\<lambda>_.
            bindc (vk_expire V t data_key stale) (\<lambda>_.
            bindc (vk_delete V t [lock_key]) (\<lambda>_. ret 1))))"

text \<open>\<open>_UNLOCK_LUA\<close>.\<close>

definition unlock_lua :: "'s valkey \<Rightarrow> nat \<Rightarrow> string \<Rightarrow> string \<Rightarrow> ('s, int) io" where
  "unlock_lua V t lock_key token =
     bindc (vk_get V t lock_key) (\<lambda>owner.
       if owner = Some token then bindc (vk_delete V t [lock_key]) (\<lambda>_. ret 1) else ret 0)"

section \<open>The coroutines\<close>

definition data_key_of :: "string \<Rightarrow> string" where
  "data_key_of cache_key = ''cache:v1:'' @ cache_key"

definition lock_key_of :: "string \<Rightarrow> string" where
  "lock_key_of cache_key = ''cache:v1:lock:'' @ cache_key"

text \<open>
  A computation takes some milliseconds and ends with a value or an exception;
  \<open>asyncio.wait_for\<close> turns one that takes too long into \<open>TimeoutError\<close>.
\<close>

type_synonym 's compute = "'s \<Rightarrow> (nat \<times> (exn + pyval)) \<times> 's"

definition wait_for :: "rat \<Rightarrow> nat \<Rightarrow> exn + 'a \<Rightarrow> exn + 'a" where
  "wait_for timeout dur outcome =
     (if 1000 * timeout < rat_of_nat dur then Inl TimeoutError else outcome)"

text \<open>How long \<open>asyncio.wait_for\<close> takes.\<close>

definition elapsed :: "rat \<Rightarrow> nat \<Rightarrow> nat" where
  "elapsed timeout dur = min dur (nat \<lfloor>1000 * timeout\<rfloor>)"

definition store_value ::
  "'s valkey \<Rightarrow> settings \<Rightarrow> nat \<Rightarrow> string \<Rightarrow> string \<Rightarrow> string \<Rightarrow> nat \<Rightarrow> pyval \<Rightarrow>
   ('s, pyval \<times> string \<times> int) io" where
  "store_value V cfg t data_key lock_key token stale value =
     (let serialized = dumps value
      in if int (length serialized) > cache_max_value_bytes cfg then throw CacheValueTooLargeError
         else bindc (store_lua V t data_key lock_key token serialized (int (t div 1000)) stale)
                (\<lambda>_. ret (value, ''fresh'', 0)))"

text \<open>\<open>_compute_and_store\<close>, started at \<open>t\<close>.\<close>

definition compute_and_store ::
  "'s valkey \<Rightarrow> settings \<Rightarrow> nat \<Rightarrow> 's compute \<Rightarrow> string \<Rightarrow> string \<Rightarrow> string \<Rightarrow> nat \<Rightarrow>
   ('s, pyval \<times> string \<times> int) io" where
  "compute_and_store V cfg t compute data_key lock_key token stale s =
     (case compute s of ((dur, outcome), s1) \<Rightarrow>
        (let t' = t + elapsed (cache_compute_timeout_seconds cfg) dur
         in catchc
          (case wait_for (cache_compute_timeout_seconds cfg) dur outcome of
             Inl e \<Rightarrow> throw e
           | Inr value \<Rightarrow> store_value V cfg t' data_key lock_key token stale value)
          (\<lambda>e. bindc (unlock_lua V t' lock_key token) (\<lambda>_. throw e)) s1))"

text \<open>
  \<open>_schedule_refresh\<close>: with too many tasks in flight the new one only gives the lock back.
\<close>

datatype bg_task = Bg_unlock | Bg_compute_and_store

definition schedule_refresh :: "settings \<Rightarrow> nat \<Rightarrow> bg_task" where
  "schedule_refresh cfg n_tasks =
     (if cache_background_refresh_limit cfg \<le> int n_tasks then Bg_unlock else Bg_compute_and_store)"

definition run_bg ::
  "'s valkey \<Rightarrow> settings \<Rightarrow> nat \<Rightarrow> 's compute \<Rightarrow> string \<Rightarrow> string \<Rightarrow> string \<Rightarrow> nat \<Rightarrow> bg_task \<Rightarrow>
   ('s, unit) io" where
  "run_bg V cfg t compute data_key lock_key token stale task =
     (case task of
        Bg_unlock \<Rightarrow> bindc (unlock_lua V t lock_key token) (\<lambda>_. ret ())
      | Bg_compute_and_store \<Rightarrow>
          bindc (compute_and_store V cfg t compute data_key lock_key token stale) (\<lambda>_. ret ()))"

definition json_error :: exn where
  "json_error = ValueError ''JSONDecodeError''"

text \<open>
  The waiting loop of a caller that lost the race. \<open>clock i\<close> is the event loop's clock before the
  \<open>i\<close>-th test and \<open>env i\<close> what the other callers do to the store during the \<open>i\<close>-th sleep; \<open>None\<close>
  would be a loop that never ends.
\<close>

partial_function (option) wait_fill ::
  "'s valkey \<Rightarrow> (nat \<Rightarrow> nat) \<Rightarrow> (nat \<Rightarrow> 's \<Rightarrow> 's) \<Rightarrow> string \<Rightarrow> rat \<Rightarrow> nat \<Rightarrow> 's \<Rightarrow>
   ((exn + (pyval \<times> string \<times> int)) \<times> 's) option" where
  "wait_fill V clock env data_key until i s =
     (if rat_of_nat (clock i) < until then
        (case vk_hget V (clock i + 25) data_key ''v'' (env i s) of
           (Inl e, s') \<Rightarrow> Some (Inl e, s')
         | (Inr (Some raw), s') \<Rightarrow>
             (case loads raw of None \<Rightarrow> Some (Inl json_error, s')
              | Some value \<Rightarrow> Some (Inr (value, ''fresh'', 0), s'))
         | (Inr None, s') \<Rightarrow> wait_fill V clock env data_key until (Suc i) s')
      else Some (Inl CacheBusyError, s))"

text \<open>
  \<open>cached\<close> at time \<open>t\<close>, with the background task it starts, if any. \<open>clock\<close> and \<open>env\<close> are those of
  the waiting loop, \<open>n_tasks\<close> the size of \<open>_background_tasks\<close>.
\<close>

type_synonym cache_answer = "(exn + (pyval \<times> string \<times> int)) \<times> bg_task option"

definition cached ::
  "'s valkey \<Rightarrow> settings \<Rightarrow> nat \<Rightarrow> (nat \<Rightarrow> nat) \<Rightarrow> (nat \<Rightarrow> 's \<Rightarrow> 's) \<Rightarrow> nat \<Rightarrow> string \<Rightarrow> 's compute \<Rightarrow>
   string \<Rightarrow> int \<Rightarrow> int \<Rightarrow> 's \<Rightarrow> (cache_answer \<times> 's) option" where
  "cached V cfg t clock env n_tasks token compute cache_key ttl stale s =
     (if ttl \<le> 0 \<or> stale < ttl then
        Some ((Inl (ValueError ''Cache stale duration must be greater than or equal to TTL''), None), s)
      else
        (let data_key = data_key_of cache_key; lock_key = lock_key_of cache_key
         in case read_lua V t lock_key data_key ttl stale (int (t div 1000)) token s of
              (Inl e, s1) \<Rightarrow> Some ((Inl e, None), s1)
            | (Inr (raw_value, raw_age, state), s1) \<Rightarrow>
                (case parse_int raw_age of
                   None \<Rightarrow> Some ((Inl (ValueError ''invalid literal for int()''), None), s1)
                 | Some age \<Rightarrow>
                     (case raw_value of
                        Some raw \<Rightarrow>
                          (case loads raw of
                             None \<Rightarrow> Some ((Inl json_error, None), s1)
                           | Some value \<Rightarrow> Some ((Inr (value,
                               if state = ''fresh'' then ''fresh'' else ''stale'', age),
                               if state = ''revalidate'' then Some (schedule_refresh cfg n_tasks)
                               else None), s1))
                      | None \<Rightarrow>
                          if state = ''miss_wait'' then
                            map_option (\<lambda>(r, s'). ((r, None), s'))
                              (wait_fill V clock env data_key
                                (rat_of_nat (clock 0) + 1000 * cache_wait_timeout_seconds cfg) 0 s1)
                          else
                            (case compute_and_store V cfg t compute data_key lock_key token
                                    (nat stale) s1 of
                               (r, s') \<Rightarrow> Some ((r, None), s'))))))"

definition invalidate :: "'s valkey \<Rightarrow> nat \<Rightarrow> string \<Rightarrow> ('s, unit) io" where
  "invalidate V t cache_key = vk_delete V t [data_key_of cache_key, lock_key_of cache_key]"

section \<open>The scripts over the documented commands\<close>

context valkey_service
begin

lemma take_lock_sim [intro]: "sim view (take_lock V t lk tok) (take_lock doc_valkey t lk tok)"
  by (auto simp: take_lock_def)

lemma read_lua_sim:
  "sim view (read_lua V t lk dk ttl stale now tok) (read_lua doc_valkey t lk dk ttl stale now tok)"
  unfolding read_lua_def Let_def
  by (auto intro!: sim_bindc split: option.splits)

lemma store_lua_sim:
  "sim view (store_lua V t dk lk tok v now stale) (store_lua doc_valkey t dk lk tok v now stale)"
  unfolding store_lua_def by (auto intro!: sim_bindc)

lemma unlock_lua_sim: "sim view (unlock_lua V t lk tok) (unlock_lua doc_valkey t lk tok)"
  unfolding unlock_lua_def by (auto intro!: sim_bindc)

end

context valkey_up
begin

lemma read_lua_impl:
  "impl view (read_lua V t lk dk ttl stale now tok) (read_lua doc_valkey t lk dk ttl stale now tok)"
  unfolding read_lua_def take_lock_def Let_def
  by (auto intro!: impl_bindc split: option.splits)

lemma store_lua_impl:
  "impl view (store_lua V t dk lk tok v now stale) (store_lua doc_valkey t dk lk tok v now stale)"
  unfolding store_lua_def by (auto intro!: impl_bindc)

lemma unlock_lua_impl: "impl view (unlock_lua V t lk tok) (unlock_lua doc_valkey t lk tok)"
  unfolding unlock_lua_def by (auto intro!: impl_bindc)

end

text \<open>Who owns the lock, and what the scripts do to it.\<close>

definition owner :: "nat \<Rightarrow> string \<Rightarrow> kv \<Rightarrow> vk_value option" where
  "owner t lk m = map_option payload (peek t lk m)"

lemma take_lock_doc:
  assumes "take_lock doc_valkey t lk tok m = (Inr ok, m')"
  shows "ok \<longleftrightarrow> peek t lk m = None"
    and "ok \<Longrightarrow> m' = m(lk \<mapsto> \<lparr>payload = VStr tok, expires = Some (deadline t lock_seconds)\<rparr>)"
    and "\<not> ok \<Longrightarrow> m' = m"
  using assms by (auto simp: take_lock_def doc_set_def lock_seconds_def split: if_splits)

lemma doc_hget_same: "doc_hget t k f m = (Inr v, m') \<Longrightarrow> m' = m"
  by (auto simp: doc_hget_def wrong_type_def split: option.splits vk_value.splits)

lemma doc_get_same:
  "doc_get t k m = (Inr v, m') \<Longrightarrow> m' = m \<and> (v = Some x \<longleftrightarrow> owner t k m = Some (VStr x))"
  by (auto simp: doc_get_def wrong_type_def owner_def split: option.splits vk_value.splits)

text \<open>The reader that has to compute is the one that took the free lock.\<close>

definition leads :: "string \<Rightarrow> bool" where
  "leads st \<longleftrightarrow> st = ''revalidate'' \<or> st = ''miss_leader''"

lemma leads_simps [simp]: "leads ''revalidate''" "leads ''miss_leader''" "\<not> leads ''fresh''"
  "\<not> leads ''stale''" "\<not> leads ''miss_wait''"
  by (simp_all add: leads_def)

lemma locked_doc:
  assumes "bindc (take_lock doc_valkey t lk tok) (\<lambda>ok. ret (v, a, if ok then x else y)) m
      = (Inr (v', a', st), m')"
    and "leads x" "\<not> leads y"
  shows "(leads st \<longleftrightarrow> peek t lk m = None) \<and> m' = (if leads st
        then m(lk \<mapsto> \<lparr>payload = VStr tok, expires = Some (deadline t lock_seconds)\<rparr>) else m)"
proof -
  from assms(1) obtain ok m1 where ok: "take_lock doc_valkey t lk tok m = (Inr ok, m1)"
    and r: "ret (v, a, if ok then x else y) m1 = (Inr (v', a', st), m')"
    by (rule bindc_InrE)
  from r assms(2,3) take_lock_doc [OF ok] show ?thesis by (cases ok) auto
qed

lemma read_lua_doc:
  assumes "read_lua doc_valkey t lk dk ttl stale now tok m = (Inr (v, a, st), m')"
  shows "m' = (if leads st
      then m(lk \<mapsto> \<lparr>payload = VStr tok, expires = Some (deadline t lock_seconds)\<rparr>) else m)
    \<and> (leads st \<longrightarrow> peek t lk m = None)"
proof -
  from assms obtain val tf where step: "(let miss = bindc (take_lock doc_valkey t lk tok)
           (\<lambda>ok. ret (None, ''0'', if ok then ''miss_leader'' else ''miss_wait''))
     in case Option.bind tf parse_int of
          None \<Rightarrow> miss
        | Some stored_at \<Rightarrow>
            (let age = now - stored_at
             in if age \<le> ttl then ret (val, show_int age, ''fresh'')
                else if age \<le> stale then bindc (take_lock doc_valkey t lk tok) (\<lambda>ok.
                  ret (val, show_int age, if ok then ''revalidate'' else ''stale''))
                else miss)) m = (Inr (v, a, st), m')"
    unfolding read_lua_def by (auto elim!: bindc_InrE dest!: doc_hget_same)
  consider (hit) n where "ret (val, show_int (now - n), ''fresh'') m = (Inr (v, a, st), m')"
    | (old) n where "bindc (take_lock doc_valkey t lk tok) (\<lambda>ok.
         ret (val, show_int (now - n), if ok then ''revalidate'' else ''stale'')) m = (Inr (v, a, st), m')"
    | (miss) "bindc (take_lock doc_valkey t lk tok) (\<lambda>ok.
         ret (None, ''0'', if ok then ''miss_leader'' else ''miss_wait'')) m = (Inr (v, a, st), m')"
    using step unfolding Let_def by (simp only: split: option.splits if_splits)
  then show ?thesis
  proof cases
    case hit
    then have "st = ''fresh''" "m' = m" by simp_all
    then show ?thesis by simp
  next
    case old
    from locked_doc [OF this] show ?thesis by simp
  next
    case miss
    from locked_doc [OF this] show ?thesis by simp
  qed
qed

lemma store_lua_doc:
  assumes "store_lua doc_valkey t dk lk tok v now stale m = (Inr r, m')"
  shows "if owner t lk m = Some (VStr tok) then r = 1 \<and> m' lk = None else r = 0 \<and> m' = m"
proof -
  from assms obtain o1 m1 where get: "doc_get t lk m = (Inr o1, m1)"
    and rest1: "(if o1 \<noteq> Some tok then ret 0
       else bindc (doc_hset t dk [(''v'', v), (''t'', show_int now)]) (\<lambda>_.
            bindc (doc_expire t dk stale) (\<lambda>_. bindc (doc_delete t [lk]) (\<lambda>_. ret 1)))) m1 = (Inr r, m')"
    unfolding store_lua_def doc_valkey_sel by (rule bindc_InrE)
  from get have "m1 = m" by (simp add: doc_get_same)
  with rest1 have rest: "(if o1 \<noteq> Some tok then ret 0
       else bindc (doc_hset t dk [(''v'', v), (''t'', show_int now)]) (\<lambda>_.
            bindc (doc_expire t dk stale) (\<lambda>_. bindc (doc_delete t [lk]) (\<lambda>_. ret 1)))) m = (Inr r, m')" by simp
  from get have o1: "o1 = Some tok \<longleftrightarrow> owner t lk m = Some (VStr tok)"
    using doc_get_same by blast
  show ?thesis
  proof (cases "o1 = Some tok")
    case True
    with rest have "r = 1 \<and> m' lk = None"
      by (auto elim!: bindc_InrE simp: doc_delete_def)
    with True o1 show ?thesis by simp
  next
    case False
    with rest o1 show ?thesis by simp
  qed
qed

lemma unlock_lua_doc:
  assumes "unlock_lua doc_valkey t lk tok m = (Inr r, m')"
  shows "if owner t lk m = Some (VStr tok) then r = 1 \<and> m' = m(lk := None) else r = 0 \<and> m' = m"
proof -
  from assms obtain o1 m1 where get: "doc_get t lk m = (Inr o1, m1)"
    and rest1: "(if o1 = Some tok then bindc (doc_delete t [lk]) (\<lambda>_. ret 1) else ret 0) m1 = (Inr r, m')"
    unfolding unlock_lua_def doc_valkey_sel by (rule bindc_InrE)
  from get have "m1 = m" by (simp add: doc_get_same)
  with rest1 have rest: "(if o1 = Some tok then bindc (doc_delete t [lk]) (\<lambda>_. ret 1) else ret 0) m = (Inr r, m')" by simp
  from get have o1: "o1 = Some tok \<longleftrightarrow> owner t lk m = Some (VStr tok)"
    using doc_get_same by blast
  show ?thesis
  proof (cases "o1 = Some tok")
    case True
    with rest have "r = 1 \<and> m' = m(lk := None)"
      by (auto elim!: bindc_InrE simp: doc_delete_def fun_upd_def)
    with True o1 show ?thesis by simp
  next
    case False
    with rest o1 show ?thesis by simp
  qed
qed

section \<open>All callers of one key\<close>

text \<open>
  A caller is known by its token. Between \<open>_READ_LUA\<close> and the script that ends its computation a
  caller that took the lock is \<open>Computing\<close>: since when, and in which \<open>epoch\<close>, the number of
  invalidations so far (a ghost, the program does not count them). A computation, retries of the
  event loop included, ends within \<open>limit\<close> milliseconds; it may also vanish with its process.
\<close>

datatype phase = Idle | Computing (since: nat) (epoch_of: nat) | Done

record 's cache_sys =
  cs_now :: nat
  cs_store :: 's
  cs_phase :: "string \<Rightarrow> phase"
  cs_epoch :: nat

inductive cache_step :: "'s valkey \<Rightarrow> string \<Rightarrow> nat \<Rightarrow> 's cache_sys \<Rightarrow> 's cache_sys \<Rightarrow> bool"
  for V :: "'s valkey" and cache_key :: string and limit :: nat where
  tick: "cs_now c \<le> t \<Longrightarrow>
    (\<And>tok u ep. cs_phase c tok = Computing u ep \<Longrightarrow> t < u + limit) \<Longrightarrow>
    cache_step V cache_key limit c (c\<lparr>cs_now := t\<rparr>)"
| read: "cs_phase c tok = Idle \<Longrightarrow>
    read_lua V (cs_now c) (lock_key_of cache_key) (data_key_of cache_key) ttl stale
      (int (cs_now c div 1000)) tok (cs_store c) = (Inr (v, age, st), s') \<Longrightarrow>
    cache_step V cache_key limit c (c\<lparr>cs_store := s', cs_phase := (cs_phase c)(tok :=
      (if leads st then Computing (cs_now c) (cs_epoch c) else Done))\<rparr>)"
| store: "cs_phase c tok = Computing u ep \<Longrightarrow>
    store_lua V (cs_now c) (data_key_of cache_key) (lock_key_of cache_key) tok v
      (int (cs_now c div 1000)) stale (cs_store c) = (Inr r, s') \<Longrightarrow>
    cache_step V cache_key limit c
      (c\<lparr>cs_store := s', cs_phase := (cs_phase c)(tok := Done)\<rparr>)"
| unlock: "cs_phase c tok = Computing u ep \<Longrightarrow>
    unlock_lua V (cs_now c) (lock_key_of cache_key) tok (cs_store c) = (Inr r, s') \<Longrightarrow>
    cache_step V cache_key limit c
      (c\<lparr>cs_store := s', cs_phase := (cs_phase c)(tok := Done)\<rparr>)"
| crash: "cs_phase c tok = Computing u ep \<Longrightarrow>
    cache_step V cache_key limit c (c\<lparr>cs_phase := (cs_phase c)(tok := Done)\<rparr>)"
| drop: "invalidate V (cs_now c) cache_key (cs_store c) = (Inr (), s') \<Longrightarrow>
    cache_step V cache_key limit c (c\<lparr>cs_store := s', cs_epoch := Suc (cs_epoch c)\<rparr>)"

inductive cache_reach :: "'s valkey \<Rightarrow> string \<Rightarrow> nat \<Rightarrow> 's \<Rightarrow> 's cache_sys \<Rightarrow> bool"
  for V :: "'s valkey" and cache_key :: string and limit :: nat and s0 :: 's where
  init: "cache_reach V cache_key limit s0
    \<lparr>cs_now = t, cs_store = s0, cs_phase = \<lambda>_. Idle, cs_epoch = 0\<rparr>"
| step: "cache_reach V cache_key limit s0 c \<Longrightarrow> cache_step V cache_key limit c c' \<Longrightarrow>
    cache_reach V cache_key limit s0 c'"

inductive_cases cache_stepE: "cache_step V cache_key limit c c'"

text \<open>
  The invariant: of one epoch at most one caller computes; a computing caller of the current epoch
  owns the lock until \<open>lock_seconds\<close> after it took it; and a lock is only ever owned by
  a caller that does not belong to an earlier epoch.
\<close>

definition single_flight :: "'s cache_sys \<Rightarrow> bool" where
  "single_flight c \<longleftrightarrow> (\<forall>x y u v ep. cs_phase c x = Computing u ep \<longrightarrow>
     cs_phase c y = Computing v ep \<longrightarrow> x = y)"

definition cache_inv :: "(  's \<Rightarrow> kv) \<Rightarrow> string \<Rightarrow> 's cache_sys \<Rightarrow> bool" where
  "cache_inv view lk c \<longleftrightarrow> single_flight c
   \<and> (\<forall>x u ep. cs_phase c x = Computing u ep \<longrightarrow> ep \<le> cs_epoch c)
   \<and> (\<forall>x u. cs_phase c x = Computing u (cs_epoch c) \<longrightarrow> cs_now c < deadline u lock_seconds \<and>
        view (cs_store c) lk = Some \<lparr>payload = VStr x, expires = Some (deadline u lock_seconds)\<rparr>)
   \<and> (\<forall>x u ep. cs_phase c x = Computing u ep \<longrightarrow> owner (cs_now c) lk (view (cs_store c)) = Some (VStr x)
        \<longrightarrow> ep = cs_epoch c)"

lemma lock_data_keys_differ [simp]: "data_key_of k \<noteq> lock_key_of k'" if "length k \<le> length k'"
proof
  assume "data_key_of k = lock_key_of k'"
  then have "length (data_key_of k) = length (lock_key_of k')" by simp
  with that show False by (simp add: data_key_of_def lock_key_of_def)
qed

lemma owner_Some: "owner t lk m = Some v \<longleftrightarrow> (\<exists>e. m lk = Some e \<and> live t e \<and> payload e = v)"
  by (auto simp: owner_def peek_Some)

lemma owner_mono: "owner u lk m = Some v \<Longrightarrow> t \<le> u \<Longrightarrow> owner t lk m = Some v"
  by (auto simp: owner_Some intro: live_anti)

lemma cache_invI:
  assumes "\<And>x y u v ep. cs_phase c x = Computing u ep \<Longrightarrow> cs_phase c y = Computing v ep \<Longrightarrow> x = y"
    and "\<And>x u ep. cs_phase c x = Computing u ep \<Longrightarrow> ep \<le> cs_epoch c"
    and "\<And>x u. cs_phase c x = Computing u (cs_epoch c) \<Longrightarrow> cs_now c < deadline u lock_seconds \<and>
      view (cs_store c) lk = Some \<lparr>payload = VStr x, expires = Some (deadline u lock_seconds)\<rparr>"
    and "\<And>x u ep. cs_phase c x = Computing u ep \<Longrightarrow>
      owner (cs_now c) lk (view (cs_store c)) = Some (VStr x) \<Longrightarrow> ep = cs_epoch c"
  shows "cache_inv view lk c"
  using assms unfolding cache_inv_def single_flight_def by blast

lemma cache_invD:
  assumes "cache_inv view lk c" "cs_phase c x = Computing u ep"
  shows "cs_phase c y = Computing v ep \<Longrightarrow> x = y" and "ep \<le> cs_epoch c"
    and "ep = cs_epoch c \<Longrightarrow> cs_now c < deadline u lock_seconds"
    and "ep = cs_epoch c \<Longrightarrow>
      view (cs_store c) lk = Some \<lparr>payload = VStr x, expires = Some (deadline u lock_seconds)\<rparr>"
    and "owner (cs_now c) lk (view (cs_store c)) = Some (VStr x) \<Longrightarrow> ep = cs_epoch c"
  using assms unfolding cache_inv_def single_flight_def by blast+

context valkey_service
begin

lemma read_view:
  assumes "read_lua V t lk dk ttl stale now tok s = (Inr (v, a, st), s')"
  shows "view s' = (if leads st
      then (view s)(lk \<mapsto> \<lparr>payload = VStr tok, expires = Some (deadline t lock_seconds)\<rparr>) else view s)
    \<and> (leads st \<longrightarrow> peek t lk (view s) = None)"
  by (rule read_lua_doc [OF simD [OF read_lua_sim assms]])

lemma store_view:
  assumes "store_lua V t dk lk tok v now stale s = (Inr r, s')"
  shows "if owner t lk (view s) = Some (VStr tok) then r = 1 \<and> view s' lk = None
    else r = 0 \<and> view s' = view s"
  by (rule store_lua_doc [OF simD [OF store_lua_sim assms]])

lemma unlock_view:
  assumes "unlock_lua V t lk tok s = (Inr r, s')"
  shows "if owner t lk (view s) = Some (VStr tok) then r = 1 \<and> view s' = (view s)(lk := None)
    else r = 0 \<and> view s' = view s"
  by (rule unlock_lua_doc [OF simD [OF unlock_lua_sim assms]])

lemma invalidate_view:
  assumes "invalidate V t cache_key s = (Inr (), s')"
  shows "view s' = (\<lambda>k. if k \<in> {data_key_of cache_key, lock_key_of cache_key} then None else view s k)"
  using simD [OF delete_sim assms [unfolded invalidate_def]] by (simp add: doc_delete_def)

text \<open>Freeing the lock, by its owner or by nobody, keeps the invariant.\<close>

lemma inv_done:
  assumes inv: "cache_inv view lk c" and x: "cs_phase c x = Computing u ep"
    and s': "if owner (cs_now c) lk (view (cs_store c)) = Some (VStr x) then view s' lk = None
      else view s' = view (cs_store c)"
  shows "cache_inv view lk (c\<lparr>cs_store := s', cs_phase := (cs_phase c)(x := Done)\<rparr>)"
proof (rule cache_invI, goal_cases)
  case (1 y z v w ep')
  then show ?case using cache_invD(1) [OF inv] by (simp split: if_splits)
next
  case (2 y v ep')
  then show ?case using cache_invD(2) [OF inv] by (simp split: if_splits)
next
  case (3 y v)
  then have y: "y \<noteq> x" "cs_phase c y = Computing v (cs_epoch c)" by (simp_all split: if_splits)
  have "view s' = view (cs_store c)"
  proof (cases "owner (cs_now c) lk (view (cs_store c)) = Some (VStr x)")
    case True
    with cache_invD(5) [OF inv x] have "ep = cs_epoch c" by simp
    with x cache_invD(1) [OF inv y(2)] y(1) show ?thesis by simp
  next
    case False
    with s' show ?thesis by simp
  qed
  with cache_invD(3,4) [OF inv y(2)] show ?case by simp
next
  case (4 y v ep')
  then have y: "cs_phase c y = Computing v ep'" and o: "owner (cs_now c) lk (view s') = Some (VStr y)"
    by (simp_all split: if_splits)
  from o s' have "owner (cs_now c) lk (view (cs_store c)) = Some (VStr y)"
    by (auto simp: owner_Some split: if_splits)
  with cache_invD(5) [OF inv y] show ?case by simp
qed

lemma inv_forget:
  assumes inv: "cache_inv view lk c" and s': "view s' = view (cs_store c)"
  shows "cache_inv view lk (c\<lparr>cs_store := s', cs_phase := (cs_phase c)(x := Done)\<rparr>)"
proof (rule cache_invI, goal_cases)
  case (1 y z v w ep)
  then have "cs_phase c y = Computing v ep" "cs_phase c z = Computing w ep"
    by (simp_all split: if_splits)
  then show ?case by (rule cache_invD(1) [OF inv])
next
  case (2 y v ep)
  then have "cs_phase c y = Computing v ep" by (simp split: if_splits)
  from cache_invD(2) [OF inv this] show ?case by simp
next
  case (3 y v)
  then have "cs_phase c y = Computing v (cs_epoch c)" by (simp split: if_splits)
  from cache_invD(3,4) [OF inv this] s' show ?case by simp
next
  case (4 y v ep)
  then have "cs_phase c y = Computing v ep" by (simp split: if_splits)
  from cache_invD(5) [OF inv this] 4 s' show ?case by simp
qed

text \<open>Every step keeps the invariant.\<close>

lemma cache_step_inv:
  assumes "cache_step V k limit c c'" "cache_inv view (lock_key_of k) c" "limit \<le> 1000 * lock_seconds"
  shows "cache_inv view (lock_key_of k) c'"
  using assms
proof (induction rule: cache_step.induct)
  case (tick c t)
  note inv = tick.prems(1)
  show ?case
  proof (rule cache_invI, goal_cases)
    case (1 x y u v ep)
    then have "cs_phase c x = Computing u ep" "cs_phase c y = Computing v ep" by simp_all
    then show ?case by (rule cache_invD(1) [OF inv])
  next
    case (2 x u ep)
    then have "cs_phase c x = Computing u ep" by simp
    from cache_invD(2) [OF inv this] show ?case by simp
  next
    case (3 x u)
    then have x: "cs_phase c x = Computing u (cs_epoch c)" by simp
    from tick.hyps(2) [OF x] tick.prems(2) have "t < deadline u lock_seconds"
      by (simp add: deadline_def)
    with cache_invD(4) [OF inv x] show ?case by simp
  next
    case (4 x u ep)
    then have x: "cs_phase c x = Computing u ep"
      and "owner t (lock_key_of k) (view (cs_store c)) = Some (VStr x)" by simp_all
    from cache_invD(5) [OF inv x owner_mono [OF this(2) tick.hyps(1)]] show ?case by simp
  qed
next
  case (read c tok ttl stale v age st s')
  note inv = read.prems(1) and idle = read.hyps(1) and view = read_view [OF read.hyps(2)]
  show ?case
  proof (cases "leads st")
    case False
    with view have "view s' = view (cs_store c)" by simp
    with False show ?thesis by (simp add: inv_forget [OF inv])
  next
    case True
    with view have free: "peek (cs_now c) (lock_key_of k) (view (cs_store c)) = None"
      and s': "view s' = (view (cs_store c))(lock_key_of k \<mapsto>
        \<lparr>payload = VStr tok, expires = Some (deadline (cs_now c) lock_seconds)\<rparr>)" by simp_all
    have none: "cs_phase c x \<noteq> Computing u (cs_epoch c)" for x u
    proof
      assume x: "cs_phase c x = Computing u (cs_epoch c)"
      from cache_invD(3,4) [OF inv x] free show False by (simp add: peek_None)
    qed
    show ?thesis
    proof (rule cache_invI, goal_cases)
      case (1 x y u v ep)
      have no: "cs_phase c z \<noteq> Computing w (cs_epoch c)" for z w by (rule none)
      show ?case
      proof (cases "x = tok \<or> y = tok")
        case True
        with 1 \<open>leads st\<close> no show ?thesis by (auto split: if_splits)
      next
        case False
        with 1 have "cs_phase c x = Computing u ep" "cs_phase c y = Computing v ep" by simp_all
        then show ?thesis by (rule cache_invD(1) [OF inv])
      qed
    next
      case (2 x u ep)
      show ?case
      proof (cases "x = tok")
        case True
        with 2 \<open>leads st\<close> show ?thesis by simp
      next
        case False
        with 2 have "cs_phase c x = Computing u ep" by simp
        from cache_invD(2) [OF inv this] show ?thesis by simp
      qed
    next
      case (3 x u)
      with True none s' show ?case by (simp add: deadline_def lock_seconds_def split: if_splits)
    next
      case (4 x u ep)
      with True s' show ?case by (auto simp: owner_Some split: if_splits)
    qed
  qed
next
  case (store c tok u ep v stale r s')
  from store_view [OF store.hyps(2)] inv_done [OF store.prems(1) store.hyps(1)] show ?case
    by (simp split: if_splits)
next
  case (unlock c tok u ep r s')
  from unlock_view [OF unlock.hyps(2)] inv_done [OF unlock.prems(1) unlock.hyps(1)] show ?case
    by (simp split: if_splits)
next
  case (crash c tok u ep)
  show ?case using inv_forget [OF crash.prems(1) refl] by simp
next
  case (drop c s')
  note inv = drop.prems(1)
  from invalidate_view [OF drop.hyps] have free: "view s' (lock_key_of k) = None" by simp
  show ?case
  proof (rule cache_invI, goal_cases)
    case (1 x y u v ep)
    then have "cs_phase c x = Computing u ep" "cs_phase c y = Computing v ep" by simp_all
    then show ?case by (rule cache_invD(1) [OF inv])
  next
    case (2 x u ep)
    then have "cs_phase c x = Computing u ep" by simp
    from cache_invD(2) [OF inv this] show ?case by simp
  next
    case (3 x u)
    then have "cs_phase c x = Computing u (Suc (cs_epoch c))" by simp
    from cache_invD(2) [OF inv this] show ?case by simp
  next
    case (4 x u ep)
    with free show ?case by (simp add: owner_Some)
  qed
qed

lemma cache_reach_inv:
  assumes "cache_reach V k limit s0 c" "limit \<le> 1000 * lock_seconds"
  shows "cache_inv view (lock_key_of k) c"
  using assms
proof (induction rule: cache_reach.induct)
  case (init t)
  show ?case by (rule cache_invI) simp_all
next
  case (step c c')
  then show ?case by (blast intro: cache_step_inv)
qed

end

section \<open>One caller\<close>

lemma take_lock_free:
  "peek t lk m = None \<Longrightarrow> take_lock doc_valkey t lk tok m =
    (Inr True, m(lk \<mapsto> \<lparr>payload = VStr tok, expires = Some (deadline t lock_seconds)\<rparr>))"
  by (simp add: take_lock_def doc_set_def lock_seconds_def)

lemma read_lua_miss:
  assumes "peek t dk m = None" "peek t lk m = None"
  shows "read_lua doc_valkey t lk dk ttl stale now tok m = (Inr (None, ''0'', ''miss_leader''),
    m(lk \<mapsto> \<lparr>payload = VStr tok, expires = Some (deadline t lock_seconds)\<rparr>))"
  using assms by (simp add: read_lua_def bindc_apply doc_hget_def take_lock_free)

lemma read_lua_hit:
  assumes "peek t dk m = Some e" "payload e = VHash h" "h ''v'' = Some v" "h ''t'' = Some (show_int n)"
  shows "now - n \<le> ttl \<Longrightarrow> read_lua doc_valkey t lk dk ttl stale now tok m =
      (Inr (Some v, show_int (now - n), ''fresh''), m)"
    and "ttl < now - n \<Longrightarrow> now - n \<le> stale \<Longrightarrow> peek t lk m = None \<Longrightarrow>
      read_lua doc_valkey t lk dk ttl stale now tok m = (Inr (Some v, show_int (now - n), ''revalidate''),
        m(lk \<mapsto> \<lparr>payload = VStr tok, expires = Some (deadline t lock_seconds)\<rparr>))"
  using assms by (simp_all add: read_lua_def bindc_apply doc_hget_def take_lock_free)

definition entry :: "string \<Rightarrow> int \<Rightarrow> nat \<Rightarrow> vk_entry" where
  "entry v now x = \<lparr>payload = VHash [''v'' \<mapsto> v, ''t'' \<mapsto> show_int now], expires = Some x\<rparr>"

lemma store_lua_fresh:
  assumes "owner t lk m = Some (VStr tok)" "peek t dk m = None" "dk \<noteq> lk"
  shows "store_lua doc_valkey t dk lk tok v now stale m =
    (Inr 1, (m(dk \<mapsto> entry v now (deadline t stale)))(lk := None))"
proof -
  from assms(1) obtain e where "peek t lk m = Some e" "payload e = VStr tok"
    by (auto simp: owner_def)
  moreover have "(\<lambda>k. if k = lk then None else m' k) = m'(lk := None)" for m' :: kv by auto
  ultimately show ?thesis using assms(2,3)
    by (simp add: store_lua_def bindc_apply doc_get_def doc_hset_def doc_expire_def doc_delete_def
        entry_def fun_upd_twist)
qed

context valkey_up
begin

text \<open>A miss computes, stores and answers.\<close>

lemma cached_miss:
  assumes ttl: "0 < ttl" "ttl \<le> stale"
    and free: "peek t (data_key_of k) (view s) = None" "peek t (lock_key_of k) (view s) = None"
    and comp: "\<And>s. fst (compute s) = (dur, Inr v)" "\<And>s. view (snd (compute s)) = view s"
    and dur: "rat_of_nat dur \<le> 1000 * cache_compute_timeout_seconds cfg" "dur < 1000 * lock_seconds"
    and size: "int (length (dumps v)) \<le> cache_max_value_bytes cfg"
  obtains s' where "cached V cfg t clock env n tok compute k ttl stale s =
      Some ((Inr (v, ''fresh'', 0), None), s')"
    and "view s' = (view s)(data_key_of k \<mapsto> entry (dumps v) (int ((t + dur) div 1000))
      (deadline (t + dur) (nat stale)), lock_key_of k := None)"
proof -
  let ?dk = "data_key_of k" and ?lk = "lock_key_of k" and ?u = "t + dur"
  let ?m1 = "(view s)(?lk \<mapsto> \<lparr>payload = VStr tok, expires = Some (deadline t lock_seconds)\<rparr>)"
  obtain s1 where s1: "read_lua V t ?lk ?dk ttl stale (int (t div 1000)) tok s =
      (Inr (None, ''0'', ''miss_leader''), s1)" "view s1 = ?m1"
    by (rule implE [OF read_lua_impl read_lua_miss [OF free]])
  obtain s2 where s2: "compute s1 = ((dur, Inr v), s2)" "view s2 = ?m1"
    using comp [of s1] s1(2) by (cases "compute s1") auto
  have el: "elapsed (cache_compute_timeout_seconds cfg) dur = dur"
    using dur(1) by (simp add: elapsed_def min_def le_nat_iff le_floor_iff)
  have own: "owner ?u ?lk (view s2) = Some (VStr tok)"
    using s2(2) dur(2) by (simp add: owner_def deadline_def)
  have dk: "peek ?u ?dk (view s2) = None"
    using s2(2) peek_None_mono [OF free(1)] by simp
  obtain s3 where s3: "store_lua V ?u ?dk ?lk tok (dumps v) (int (?u div 1000)) (nat stale) s2 = (Inr 1, s3)"
    "view s3 = ((view s2)(?dk \<mapsto> entry (dumps v) (int (?u div 1000)) (deadline ?u (nat stale))))(?lk := None)"
    by (rule implE [OF store_lua_impl store_lua_fresh [OF own dk lock_data_keys_differ [OF order_refl]]])
  have p0: "parse_int ''0'' = Some 0" by (simp add: parse_nat_def is_digit_def digit_val_def)
  show thesis
  proof (rule that)
    show "cached V cfg t clock env n tok compute k ttl stale s =
      Some ((Inr (v, ''fresh'', 0), None), s3)"
      using ttl s1(1) s2(1) s3(1) size dur(1) p0
      by (simp add: cached_def compute_and_store_def el wait_for_def store_value_def catchc_apply bindc_apply)
    show "view s3 = (view s)(?dk \<mapsto> entry (dumps v) (int (?u div 1000)) (deadline ?u (nat stale)), ?lk := None)"
      using s3(2) s2(2) by (simp add: fun_upd_twist)
  qed
qed

text \<open>A hit reads the value back.\<close>

lemma cached_hit:
  assumes "0 < ttl" "ttl \<le> stale" "wf_val v"
    and e: "view s (data_key_of k) = Some (entry (dumps v) n0 x)" "t < x"
    and age: "age = int (t div 1000) - n0"
  shows "age \<le> ttl \<Longrightarrow> \<exists>s'. cached V cfg t clock env n tok compute k ttl stale s =
      Some ((Inr (jsonify v, ''fresh'', age), None), s') \<and> view s' = view s"
    and "ttl < age \<Longrightarrow> age \<le> stale \<Longrightarrow> peek t (lock_key_of k) (view s) = None \<Longrightarrow>
      \<exists>s'. cached V cfg t clock env n tok compute k ttl stale s =
      Some ((Inr (jsonify v, ''stale'', age), Some (schedule_refresh cfg n)), s')"
proof -
  let ?dk = "data_key_of k" and ?lk = "lock_key_of k"
  have p: "peek t ?dk (view s) = Some (entry (dumps v) n0 x)"
    using e by (simp add: peek_Some entry_def)
  note hit = read_lua_hit [OF p, of "[''v'' \<mapsto> dumps v, ''t'' \<mapsto> show_int n0]" "dumps v" n0]
  show "\<exists>s'. cached V cfg t clock env n tok compute k ttl stale s =
      Some ((Inr (jsonify v, ''fresh'', age), None), s') \<and> view s' = view s" if "age \<le> ttl"
  proof -
    have h: "read_lua doc_valkey t ?lk ?dk ttl stale (int (t div 1000)) tok (view s) =
        (Inr (Some (dumps v), show_int age, ''fresh''), view s)"
      using hit(1) [where now = "int (t div 1000)"] that age by (simp add: entry_def)
    obtain s1 where "read_lua V t ?lk ?dk ttl stale (int (t div 1000)) tok s =
        (Inr (Some (dumps v), show_int age, ''fresh''), s1)" "view s1 = view s"
      by (rule implE [OF read_lua_impl h])
    then show ?thesis using assms(1-3) by (simp add: cached_def loads_dumps)
  qed
  show "\<exists>s'. cached V cfg t clock env n tok compute k ttl stale s =
      Some ((Inr (jsonify v, ''stale'', age), Some (schedule_refresh cfg n)), s')"
    if "ttl < age" "age \<le> stale" "peek t ?lk (view s) = None"
  proof -
    have h: "read_lua doc_valkey t ?lk ?dk ttl stale (int (t div 1000)) tok (view s) =
        (Inr (Some (dumps v), show_int age, ''revalidate''),
         (view s)(?lk \<mapsto> \<lparr>payload = VStr tok, expires = Some (deadline t lock_seconds)\<rparr>))"
      using hit(2) [where now = "int (t div 1000)"] that age by (simp add: entry_def)
    obtain s1 where "read_lua V t ?lk ?dk ttl stale (int (t div 1000)) tok s =
        (Inr (Some (dumps v), show_int age, ''revalidate''), s1)"
      by (rule implE [OF read_lua_impl h])
    then show ?thesis using assms(1-3) by (simp add: cached_def loads_dumps)
  qed
qed

end

section \<open>Correctness\<close>

text \<open>
  C2: Single flight. Among all callers of one key, however they interleave with each other, with
  crashes and with invalidations, at most one computes between two invalidations, provided that a
  computation ends before the 15 seconds of its lock are over.
\<close>

theorem cache_single_flight:
  assumes "valkey_service V view" "cache_reach V k limit s0 c" "limit \<le> 1000 * lock_seconds"
    and "cs_phase c x = Computing u ep" "cs_phase c y = Computing v ep"
  shows "x = y"
  by (rule cache_invD(1) [OF valkey_service.cache_reach_inv [OF assms(1-3)] assms(4,5)])

definition two_readers :: "kv cache_sys" where
  "two_readers = \<lparr>cs_now = 0,
     cs_store = [''cache:v1:lock:k'' \<mapsto> \<lparr>payload = VStr ''a'', expires = Some 15000\<rparr>],
     cs_phase = (\<lambda>_. Idle)(''a'' := Computing 0 0, ''b'' := Done), cs_epoch = 0\<rparr>"

lemma two_readers_reach: "cache_reach doc_valkey ''k'' 5000 Map.empty two_readers"
proof -
  let ?m = "[''cache:v1:lock:k'' \<mapsto> \<lparr>payload = VStr ''a'', expires = Some 15000\<rparr>]"
  let ?c0 = "\<lparr>cs_now = 0, cs_store = Map.empty, cs_phase = \<lambda>_. Idle, cs_epoch = 0\<rparr> :: kv cache_sys"
  let ?c1 = "?c0\<lparr>cs_store := ?m, cs_phase := (\<lambda>_. Idle)(''a'' := Computing 0 0)\<rparr>"
  have r1: "read_lua doc_valkey 0 (lock_key_of ''k'') (data_key_of ''k'') 60 300 0 ''a'' Map.empty =
      (Inr (None, ''0'', ''miss_leader''), ?m)"
    by (simp add: read_lua_miss lock_key_of_def deadline_def lock_seconds_def)
  have r2: "read_lua doc_valkey 0 (lock_key_of ''k'') (data_key_of ''k'') 60 300 0 ''b'' ?m =
      (Inr (None, ''0'', ''miss_wait''), ?m)"
    by (simp add: read_lua_def bindc_apply doc_hget_def take_lock_def doc_set_def lock_key_of_def
        data_key_of_def lock_seconds_def)
  have "cache_step doc_valkey ''k'' 5000 ?c0 ?c1"
    using cache_step.read [of ?c0 "''a''" doc_valkey "''k''" 60 300, simplified, OF r1] by simp
  moreover have "cache_step doc_valkey ''k'' 5000 ?c1 two_readers"
    using cache_step.read [of ?c1 "''b''" doc_valkey "''k''" 60 300, simplified, OF r2]
    by (simp add: two_readers_def)
  ultimately show ?thesis by (blast intro: cache_reach.intros)
qed

theorem cache_single_flight_witness:
  "\<forall>y v. cs_phase two_readers y = Computing v 0 \<longleftrightarrow> y = ''a'' \<and> v = 0"
proof (intro allI iffI)
  fix y v assume y: "cs_phase two_readers y = Computing v 0"
  have a: "cs_phase two_readers ''a'' = Computing 0 0" by (simp add: two_readers_def)
  from cache_single_flight [OF doc.valkey_service_axioms two_readers_reach _ y a] y
  show "y = ''a'' \<and> v = 0" by (simp add: lock_seconds_def two_readers_def)
qed (simp add: two_readers_def)

text \<open>
  C7: An invalidation also drops what is being computed: a caller that started before the last
  invalidation of its key cannot publish its result, its \<open>_STORE_LUA\<close> returns 0 and changes nothing.
\<close>

theorem cache_stale_result_dropped:
  assumes "valkey_service V view" "cache_reach V k limit s0 c" "limit \<le> 1000 * lock_seconds"
    and "cs_phase c x = Computing u ep" "ep < cs_epoch c"
    and "store_lua V (cs_now c) (data_key_of k) (lock_key_of k) x v now stale (cs_store c) = (Inr r, s')"
  shows "r = 0 \<and> view s' = view (cs_store c)"
proof -
  from cache_invD(5) [OF valkey_service.cache_reach_inv [OF assms(1-3)] assms(4)] assms(5)
  have "owner (cs_now c) (lock_key_of k) (view (cs_store c)) \<noteq> Some (VStr x)" by auto
  with valkey_service.store_view [OF assms(1,6)] show ?thesis by simp
qed

lemma invalidated_reach:
  "cache_reach doc_valkey ''k'' 5000 Map.empty (two_readers\<lparr>cs_store := Map.empty, cs_epoch := 1\<rparr>)"
proof -
  have "invalidate doc_valkey 0 ''k'' (cs_store two_readers) = (Inr (), Map.empty)"
    by (auto simp: invalidate_def doc_delete_def two_readers_def lock_key_of_def)
  from cache_step.drop [of doc_valkey two_readers "''k''" Map.empty 5000] this two_readers_reach
  show ?thesis by (auto simp: two_readers_def intro: cache_reach.step)
qed

theorem cache_stale_result_dropped_witness:
  "fst (store_lua doc_valkey 0 (data_key_of ''k'') (lock_key_of ''k'') ''a'' ''{}'' 0 300 Map.empty) = Inr 0"
proof -
  obtain r s' where r: "store_lua doc_valkey 0 (data_key_of ''k'') (lock_key_of ''k'') ''a'' ''{}'' 0 300 Map.empty
      = (Inr r, s')"
    by (simp add: store_lua_def bindc_apply doc_get_def)
  with cache_stale_result_dropped [OF doc.valkey_service_axioms invalidated_reach, of "''a''" 0 0 "''{}''" 0 300 r s']
  show ?thesis by (simp add: two_readers_def lock_seconds_def)
qed

text \<open>
  C27: Compute once, then serve. On a miss the value is computed, stored and returned; every
  call in the next \<open>ttl\<close> seconds gets the stored value (as JSON carries it) marked fresh with its age,
  and a later one, up to \<open>stale\<close> seconds, gets it marked stale and starts a refresh.
\<close>

theorem cached_serves_stored:
  assumes up: "valkey_up V view" and ttl: "0 < ttl" "ttl \<le> stale"
    and free: "peek t (data_key_of k) (view s) = None" "peek t (lock_key_of k) (view s) = None"
    and comp: "\<forall>s. fst (compute s) = (dur, Inr v) \<and> view (snd (compute s)) = view s"
    and dur: "rat_of_nat dur \<le> 1000 * cache_compute_timeout_seconds cfg" "dur < 1000 * lock_seconds"
    and size: "int (length (dumps v)) \<le> cache_max_value_bytes cfg" "wf_val v"
    and t': "t + dur \<le> t'" "t' < t + dur + 1000 * nat stale"
    and age: "age = int (t' div 1000) - int ((t + dur) div 1000)"
  shows "\<exists>s1. cached V cfg t clock env n tok compute k ttl stale s = Some ((Inr (v, ''fresh'', 0), None), s1)
    \<and> (\<exists>s2. cached V cfg t' clock' env' n' tok' compute' k ttl stale s1 =
         Some (if age \<le> ttl then (Inr (jsonify v, ''fresh'', age), None)
           else (Inr (jsonify v, ''stale'', age), Some (schedule_refresh cfg n')), s2))"
proof -
  obtain s1 where s1: "cached V cfg t clock env n tok compute k ttl stale s =
      Some ((Inr (v, ''fresh'', 0), None), s1)"
    and view1: "view s1 = (view s)(data_key_of k \<mapsto> entry (dumps v) (int ((t + dur) div 1000))
      (deadline (t + dur) (nat stale)), lock_key_of k := None)"
    using valkey_up.cached_miss [OF up ttl free _ _ dur size(1)] comp by metis
  have data: "view s1 (data_key_of k) = Some (entry (dumps v) (int ((t + dur) div 1000))
      (deadline (t + dur) (nat stale)))"
    using view1 by simp
  have live: "t' < deadline (t + dur) (nat stale)"
    using t'(2) by (simp add: deadline_def)
  have lock: "peek t' (lock_key_of k) (view s1) = None"
    using view1 by (simp add: peek_None)
  have "t' div 1000 \<le> (t + dur + 1000 * nat stale) div 1000" using t'(2) by (intro div_le_mono) simp
  then have "age \<le> stale" using age ttl by simp
  with valkey_up.cached_hit [OF up ttl size(2) data live age] lock s1 show ?thesis
    by (cases "age \<le> ttl") fastforce+
qed

theorem cached_serves_stored_witness:
  "\<exists>s1 s2. cached doc_valkey (default_settings [] [] [] []) 0 (\<lambda>i. i) (\<lambda>_ m. m) 0 ''a''
      (\<lambda>m. ((20, Inr (PList [PInt 7, PObject ''2026''])), m)) ''k'' 60 300 Map.empty =
      Some ((Inr (PList [PInt 7, PObject ''2026''], ''fresh'', 0), None), s1)
    \<and> cached doc_valkey (default_settings [] [] [] []) 100000 (\<lambda>i. i) (\<lambda>_ m. m) 0 ''b''
      (\<lambda>m. ((20, Inr PNone), m)) ''k'' 60 300 s1 =
      Some ((Inr (PList [PInt 7, PStr ''2026''], ''stale'', 100), Some Bg_compute_and_store), s2)"
  using cached_serves_stored [OF doc.valkey_up_axioms, of 60 300 0 "''k''" Map.empty
      "\<lambda>m. ((20, Inr (PList [PInt 7, PObject ''2026''])), m)" 20 "PList [PInt 7, PObject ''2026'']"
      "default_settings [] [] [] []" 100000 100 "\<lambda>i. i" "\<lambda>_ m. m" 0 "''a''" "\<lambda>i. i" "\<lambda>_ m. m" 0 "''b''"
      "\<lambda>m. ((20, Inr PNone), m)"]
  by (auto simp: lock_seconds_def default_settings_def dumps_str_def escape_char_def show_int_def
      show_nat.simps schedule_refresh_def)

lemma wait_fill_returns:
  assumes clock: "\<forall>i. clock i + 25 \<le> clock (Suc i)" and k: "until \<le> rat_of_nat k"
  shows "\<exists>r. wait_fill V clock env dk until i s = Some r"
proof (induction "k - clock i" arbitrary: i s rule: less_induct)
  case less
  show ?case
  proof (cases "rat_of_nat (clock i) < until")
    case False
    then show ?thesis by (subst wait_fill.simps) simp
  next
    case True
    then have "clock i < k" using k by (metis less_le_trans of_nat_less_iff)
    then have "k - clock (Suc i) < k - clock i" using clock [rule_format, of i] by linarith
    with less have "\<exists>r. wait_fill V clock env dk until (Suc i) s' = Some r" for s' by blast
    with True show ?thesis
      by (subst wait_fill.simps) (auto split: prod.splits sum.splits option.splits)
  qed
qed

text \<open>
  C25: The call always returns. As long as each pass of the waiting loop takes the 25 ms it sleeps,
  \<open>cached\<close> ends with an answer or an exception, whatever the service does.
\<close>

theorem cached_returns:
  assumes "\<forall>i. clock i + 25 \<le> clock (Suc i)"
  shows "\<exists>r. cached V cfg t clock env n tok compute k ttl stale s = Some r"
proof -
  let ?until = "rat_of_nat (clock 0) + 1000 * cache_wait_timeout_seconds cfg"
  obtain b where b: "?until \<le> rat_of_nat b" using real_arch_simple by blast
  have w: "\<exists>a b. wait_fill V clock env (data_key_of k) ?until 0 s1 = Some (a, b)" for s1
    using wait_fill_returns [OF assms b] by fastforce
  show ?thesis
    unfolding cached_def Let_def
    by (auto split: prod.splits sum.splits option.splits simp: w)
qed

theorem cached_returns_witness:
  "\<exists>r. cached doc_valkey (default_settings [] [] [] []) 0 (\<lambda>i. 30 * i) (\<lambda>_ m. m) 0 ''b''
      (\<lambda>m. ((20, Inr PNone), m)) ''k'' 60 300
      [''cache:v1:lock:k'' \<mapsto> \<lparr>payload = VStr ''a'', expires = Some 15000\<rparr>] = Some r"
  by (rule cached_returns) simp

text \<open>The owner of the lock gives it back.\<close>

lemma unlock_owner:
  assumes "owner t lk m = Some (VStr tok)"
  shows "unlock_lua doc_valkey t lk tok m = (Inr 1, m(lk := None))"
proof -
  from assms obtain e where "peek t lk m = Some e" "payload e = VStr tok"
    by (auto simp: owner_def)
  moreover have "(\<lambda>k. if k = lk then None else m k) = m(lk := None)" by auto
  ultimately show ?thesis
    by (simp add: unlock_lua_def bindc_apply doc_get_def doc_delete_def)
qed

text \<open>
  C26: A failed computation does not block the key. When the computation raises, takes too long or
  yields a value that is too large, the caller gets that error, nothing is stored, and the lock is free
  again, unless the lock had expired meanwhile, in which case it is left alone.
\<close>

theorem compute_failure_releases_lock:
  assumes up: "valkey_up V view"
    and comp: "compute s = ((dur, outcome), s1)"
    and e: "e = (case wait_for (cache_compute_timeout_seconds cfg) dur outcome of
        Inl e \<Rightarrow> e | Inr v \<Rightarrow> CacheValueTooLargeError)" "is_Exception e"
    and large: "\<forall>v. wait_for (cache_compute_timeout_seconds cfg) dur outcome = Inr v \<longrightarrow>
      int (length (dumps v)) > cache_max_value_bytes cfg"
    and own: "owner (t + elapsed (cache_compute_timeout_seconds cfg) dur) lk (view s1) = Some (VStr tok)"
  shows "\<exists>s'. compute_and_store V cfg t compute dk lk tok stale s = (Inl e, s')
    \<and> view s' = (view s1)(lk := None)"
proof -
  let ?t = "t + elapsed (cache_compute_timeout_seconds cfg) dur"
  obtain s' where s': "unlock_lua V ?t lk tok s1 = (Inr 1, s')" "view s' = (view s1)(lk := None)"
    by (rule implE [OF valkey_up.unlock_lua_impl [OF up] unlock_owner [OF own]])
  show ?thesis
  proof (cases "wait_for (cache_compute_timeout_seconds cfg) dur outcome")
    case (Inl e')
    with e s' show ?thesis
      by (simp add: compute_and_store_def comp catchc_apply bindc_apply)
  next
    case (Inr v)
    with large e s' show ?thesis
      by (simp add: compute_and_store_def comp catchc_apply bindc_apply store_value_def Let_def)
  qed
qed

theorem compute_failure_releases_lock_witness:
  "compute_and_store doc_valkey (default_settings [] [] [] []) 0 (\<lambda>m. ((9000, Inr PNone), m)) ''d'' ''l'' ''a'' 300
      [''l'' \<mapsto> \<lparr>payload = VStr ''a'', expires = Some 15000\<rparr>] = (Inl TimeoutError, Map.empty)"
proof -
  let ?m = "[''l'' \<mapsto> \<lparr>payload = VStr ''a'', expires = Some 15000\<rparr>]" and ?cfg = "default_settings [] [] [] []"
  have t: "elapsed 5 9000 = 5000" "wait_for 5 9000 (Inr PNone) = Inl TimeoutError"
    by (simp_all add: elapsed_def wait_for_def)
  have "owner 5000 ''l'' ?m = Some (VStr ''a'')" by (simp add: owner_def)
  with compute_failure_releases_lock [OF doc.valkey_up_axioms, of "\<lambda>m. ((9000, Inr PNone), m)" ?m 9000
      "Inr PNone" ?m TimeoutError ?cfg 0 "''l''" "''a''" "''d''" 300]
  show ?thesis by (simp add: t is_Exception_def)
qed

end
