(* ===== verification/Capabilities.thy ===== *)
theory Capabilities
  imports Settings "HOL-Library.List_Lexorder" "HOL-Library.Char_ord"
begin

text \<open>
  Which upstream providers the settings enable and what that means for the API
  (\<open>src/core/capabilities.py\<close>), and the filter that keeps disabled operations out of the published
  schema (\<open>src/core/openapi.py\<close>).
\<close>

section \<open>Providers and tags\<close>

definition TAG_PROVIDERS :: "string \<Rightarrow> string list option" where
  "TAG_PROVIDERS = map_of [
     (''Satellite'', [''space-track'', ''celestrak'']),
     (''Orbital'', [''space-track'', ''celestrak'']),
     (''Neo'', [''jpl-ssd'', ''nasa-neows'']),
     (''Space Weather'', [''noaa-swpc'']),
     (''Launch'', [''the-space-devs'', ''rocketlaunch-live'']),
     (''Events'', [''space-track'']),
     (''Earth Observation'', [''esa''])]"

definition UNAVAILABLE_PATHS :: "string list" where
  "UNAVAILABLE_PATHS = [
     ''/v1/satellites/{norad_id}/passes'', ''/v1/catalog/changes'', ''/v1/missions/{mission_id}'',
     ''/v1/launch-vehicles'', ''/v1/launch-sites'', ''/v1/agencies'', ''/v1/fireballs'',
     ''/v1/bodies/{body_id}'', ''/v1/ephemeris'', ''/v1/object-events'', ''/v1/reentries'',
     ''/v1/reentries/{event_id}'', ''/v1/events'', ''/v1/events/{event_id}'',
     ''/v1/space-weather/solar-flares'', ''/v1/space-weather/cmes'',
     ''/v1/space-weather/solar-particle-events'', ''/v1/space-weather/radiation-storms'',
     ''/v1/space-weather/alerts'', ''/v1/space-weather/events'', ''/v1/earth-observation/products'',
     ''/v1/earth-observation/products/{product_id}'', ''/v1/earth-observation/instruments'']"

text \<open>The set as a list without duplicates.\<close>

definition configured_providers :: "settings \<Rightarrow> string list" where
  "configured_providers c =
     (if truthy (space_track_identity c) \<and> truthy (space_track_password c) then [''space-track''] else [])
   @ (if enable_celestrak c then [''celestrak''] else [])
   @ (if truthy (nasa_api_key c) then [''nasa-neows''] else [])
   @ (if enable_jpl c then [''jpl-ssd''] else [])
   @ (if enable_noaa_swpc c then [''noaa-swpc''] else [])
   @ (if enable_space_devs_public_api c \<or> truthy (the_space_devs_api_key c) then [''the-space-devs''] else [])
   @ (if enable_rocketlaunch_live c then [''rocketlaunch-live''] else [])
   @ (if enable_esa c then [''esa''] else [])"

definition tag_sources :: "string \<Rightarrow> string list" where
  "tag_sources tag = (case TAG_PROVIDERS tag of None \<Rightarrow> [] | Some ps \<Rightarrow> ps)"

definition providers_for_tag :: "settings \<Rightarrow> string \<Rightarrow> string list" where
  "providers_for_tag c tag = filter (\<lambda>p. p \<in> set (configured_providers c)) (tag_sources tag)"

definition tag_enabled :: "settings \<Rightarrow> string \<Rightarrow> bool" where
  "tag_enabled c tag \<longleftrightarrow> TAG_PROVIDERS tag = None \<or> providers_for_tag c tag \<noteq> []"

definition endpoint_disabled :: "string \<Rightarrow> exn" where
  "endpoint_disabled msg = HTTPException \<lparr>status_code = 503, code = Some ''ENDPOINT_DISABLED'',
     message = msg, headers = []\<rparr>"

definition require_capability :: "settings \<Rightarrow> string \<Rightarrow> exn + unit" where
  "require_capability c tag =
     (if tag_enabled c tag then Inr ()
      else Inl (endpoint_disabled (''No configured provider supports the '' @ tag @ '' capability'')))"

definition unavailable_endpoint :: "exn + unit" where
  "unavailable_endpoint =
     Inl (endpoint_disabled ''This capability has no complete production implementation'')"

section \<open>The published schema\<close>

text \<open>
  An operation of the schema the framework generates has its tags; the filter adds the provider
  annotations. A path item maps methods to operations.
\<close>

record operation =
  op_tags :: "string list"
  op_provider_count :: nat
  op_providers :: "string list"
  op_resilience :: string

type_synonym paths = "(string \<times> (string \<times> operation) list) list"

definition annotate :: "settings \<Rightarrow> operation \<Rightarrow> operation" where
  "annotate c op =
     (let ps = sort (remdups (concat (map (providers_for_tag c) (op_tags op))))
      in op\<lparr>op_provider_count := length ps, op_providers := ps,
            op_resilience := (if 2 \<le> length ps then ''high'' else if ps \<noteq> [] then ''limited''
              else ''internal'')\<rparr>)"

definition filter_operations :: "settings \<Rightarrow> (string \<times> operation) list \<Rightarrow> (string \<times> operation) list" where
  "filter_operations c item =
     map (\<lambda>(m, op). (m, annotate c op)) (filter (\<lambda>(m, op). list_all (tag_enabled c) (op_tags op)) item)"

fun filter_paths :: "settings \<Rightarrow> paths \<Rightarrow> paths" where
  "filter_paths c [] = []"
| "filter_paths c ((path, item) # rest) =
     (if path \<in> set UNAVAILABLE_PATHS then filter_paths c rest
      else (let ops = filter_operations c item
            in if ops = [] then filter_paths c rest else (path, ops) # filter_paths c rest))"

text \<open>\<open>kept\<close> is \<open>app.openapi_schema\<close>, the copy kept after the first call.\<close>

definition custom_openapi :: "settings \<Rightarrow> paths \<Rightarrow> paths option \<Rightarrow> paths \<times> paths option" where
  "custom_openapi c schema kept =
     (case kept of Some ps \<Rightarrow> (ps, kept)
      | None \<Rightarrow> (filter_paths c schema, Some (filter_paths c schema)))"

section \<open>Facts\<close>

lemma configured_distinct: "distinct (configured_providers c)"
  by (simp add: configured_providers_def)

lemma require_capability_ok [simp]: "require_capability c tag = Inr () \<longleftrightarrow> tag_enabled c tag"
  by (simp add: require_capability_def)

lemma unavailable_endpoint_not_ok [simp]: "unavailable_endpoint \<noteq> Inr ()"
  by (simp add: unavailable_endpoint_def)

lemma filter_paths_mem:
  "(path, ops) \<in> set (filter_paths c ps) \<longleftrightarrow>
     path \<notin> set UNAVAILABLE_PATHS \<and> ops \<noteq> [] \<and> (\<exists>item. (path, item) \<in> set ps \<and> ops = filter_operations c item)"
  by (induction c ps rule: filter_paths.induct) (auto simp: Let_def)

lemma filter_operations_mem:
  "(m, op) \<in> set (filter_operations c item) \<longleftrightarrow>
     (\<exists>op'. (m, op') \<in> set item \<and> op = annotate c op' \<and> (\<forall>tag\<in>set (op_tags op'). tag_enabled c tag))"
  by (auto simp: filter_operations_def list_all_iff)

text \<open>An annotated operation names exactly the configured providers of its tags.\<close>

lemma annotate_providers:
  "set (op_providers (annotate c op)) =
     {p. p \<in> set (configured_providers c) \<and> (\<exists>tag\<in>set (op_tags op). p \<in> set (tag_sources tag))}"
  "distinct (op_providers (annotate c op))" "sorted (op_providers (annotate c op))"
  by (auto simp: annotate_def Let_def providers_for_tag_def)

end
