(* ===== verification/Routes.thy ===== *)
theory Routes
  imports Capabilities Rate_Limit
begin

text \<open>
  The routes of the application: every \<open>@router\<close> decorator of \<open>src/api/routers\<close>, the routers, and the
  order in which \<open>src/api/main.py\<close> includes them. The theorems say that the published schema offers
  exactly the operations that are not switched off, that no static path is shadowed by an earlier
  path with a parameter, and that every handler is behind a rate limiter.
\<close>

section \<open>Routes\<close>

text \<open>
  The dependencies of a route run before its handler, in order; a router's come before the route's
  own. Tags are inherited in the same way.
\<close>

datatype dep = Limiter string | Capability string | Unavailable

record route =
  verb :: string
  template :: string
  tags :: "string list"
  deps :: "dep list"
  in_schema :: bool
  handler :: string

definition get_route :: "string \<Rightarrow> dep list \<Rightarrow> string \<Rightarrow> route" where
  "get_route path ds h =
     \<lparr>verb = ''GET'', template = path, tags = [], deps = ds, in_schema = True, handler = h\<rparr>"

subsection \<open>\<open>src/api/routers/platform_router.py\<close>\<close>

definition r_health :: route where
  "r_health =
     (get_route ''/health'' [] ''health'')\<lparr>in_schema := False\<rparr>"

definition r_ready :: route where
  "r_ready =
     get_route ''/ready'' [] ''ready''"

definition r_version_info :: route where
  "r_version_info =
     get_route ''/version'' [] ''version_info''"

definition r_capabilities :: route where
  "r_capabilities =
     get_route ''/capabilities'' [Limiter ''public_light''] ''capabilities''"

definition r_providers :: route where
  "r_providers =
     get_route ''/providers'' [Limiter ''public_light''] ''providers''"

definition r_get_provider :: route where
  "r_get_provider =
     get_route ''/providers/{provider_id}'' [Limiter ''public_light''] ''get_provider''"

definition platform_router :: "route list" where
  "platform_router =
    map (\<lambda>r. r\<lparr>tags := ''Platform'' # tags r\<rparr>)
    [r_health, r_ready, r_version_info, r_capabilities, r_providers, r_get_provider]"

subsection \<open>\<open>src/api/routers/insights.py\<close>\<close>

definition r_catalog_summary :: route where
  "r_catalog_summary =
     (get_route ''/catalog/summary'' [Limiter ''public_standard'', Capability ''Satellite''] ''catalog_summary'')\<lparr>tags := [''Satellite'']\<rparr>"

text \<open>\<open>_dimension_route(path, column, cache_name)\<close> registers one route per grouped column.\<close>

definition dimension_route :: "string \<Rightarrow> string \<Rightarrow> route" where
  "dimension_route path cache_name =
     (get_route path [Limiter ''public_standard'', Capability ''Satellite''] (''catalog_'' @ cache_name))
       \<lparr>tags := [''Satellite'']\<rparr>"

definition dimension_routes :: "route list" where
  "dimension_routes =
    [dimension_route ''/catalog/countries'' ''countries'',
     dimension_route ''/catalog/operators'' ''operators'',
     dimension_route ''/catalog/object-types'' ''object-types'',
     dimension_route ''/catalog/statuses'' ''statuses'',
     dimension_route ''/catalog/orbit-classes'' ''orbit-classes'']"

definition r_catalog_decays :: route where
  "r_catalog_decays =
     (get_route ''/catalog/decays'' [Limiter ''public_standard'', Capability ''Satellite''] ''catalog_decays'')\<lparr>tags := [''Satellite'']\<rparr>"

definition r_catalog_decay :: route where
  "r_catalog_decay =
     (get_route ''/catalog/decays/{norad_id}'' [Limiter ''public_standard'', Capability ''Satellite''] ''catalog_decay'')\<lparr>tags := [''Satellite'']\<rparr>"

definition r_latest_orbit_epochs :: route where
  "r_latest_orbit_epochs =
     (get_route ''/orbits/latest-epochs'' [Limiter ''public_expensive'', Capability ''Orbital''] ''latest_orbit_epochs'')\<lparr>tags := [''Orbital'']\<rparr>"

definition r_next_launch :: route where
  "r_next_launch =
     (get_route ''/launches/next'' [Limiter ''public_light'', Capability ''Launch''] ''next_launch'')\<lparr>tags := [''Launch'']\<rparr>"

definition r_launch_calendar :: route where
  "r_launch_calendar =
     (get_route ''/launches/calendar'' [Limiter ''public_standard'', Capability ''Launch''] ''launch_calendar'')\<lparr>tags := [''Launch'']\<rparr>"

definition r_launch_statistics :: route where
  "r_launch_statistics =
     (get_route ''/launches/statistics'' [Limiter ''public_standard'', Capability ''Launch''] ''launch_statistics'')\<lparr>tags := [''Launch'']\<rparr>"

definition r_latest_kp :: route where
  "r_latest_kp =
     (get_route ''/space-weather/geomagnetic-indices/latest'' [Limiter ''public_light'', Capability ''Space Weather''] ''latest_kp'')\<lparr>tags := [''Space Weather'']\<rparr>"

definition r_latest_wind :: route where
  "r_latest_wind =
     (get_route ''/space-weather/solar-wind/latest'' [Limiter ''public_light'', Capability ''Space Weather''] ''latest_wind'')\<lparr>tags := [''Space Weather'']\<rparr>"

definition r_weather_freshness :: route where
  "r_weather_freshness =
     (get_route ''/space-weather/freshness'' [Limiter ''public_light'', Capability ''Space Weather''] ''weather_freshness'')\<lparr>tags := [''Space Weather'']\<rparr>"

definition r_neo_statistics :: route where
  "r_neo_statistics =
     (get_route ''/neos/statistics'' [Limiter ''public_standard'', Capability ''Neo''] ''neo_statistics'')\<lparr>tags := [''Neo'']\<rparr>"

definition r_hazardous_neos :: route where
  "r_hazardous_neos =
     (get_route ''/neos/hazardous'' [Limiter ''public_standard'', Capability ''Neo''] ''hazardous_neos'')\<lparr>tags := [''Neo'']\<rparr>"

definition r_upcoming_approaches :: route where
  "r_upcoming_approaches =
     (get_route ''/neos/close-approaches/upcoming'' [Limiter ''public_standard'', Capability ''Neo''] ''upcoming_approaches'')\<lparr>tags := [''Neo'']\<rparr>"

definition insights_router :: "route list" where
  "insights_router =
    r_catalog_summary # dimension_routes @
    [r_catalog_decays, r_catalog_decay, r_latest_orbit_epochs, r_next_launch,
     r_launch_calendar, r_launch_statistics, r_latest_kp, r_latest_wind, r_weather_freshness,
     r_neo_statistics, r_hazardous_neos, r_upcoming_approaches]"

subsection \<open>\<open>src/api/routers/satellite.py\<close>\<close>

definition r_get_satellite :: route where
  "r_get_satellite =
     get_route ''/satellites/{norad_id}'' [Limiter ''public_standard''] ''get_satellite''"

definition r_get_satellites :: route where
  "r_get_satellites =
     get_route ''/satellites'' [Limiter ''public_standard''] ''get_satellites''"

definition r_get_satellite_cospar :: route where
  "r_get_satellite_cospar =
     get_route ''/satellites/by-cospar/{cospar_id}'' [Limiter ''public_standard''] ''get_satellite_cospar''"

definition r_get_satellite_identifiers :: route where
  "r_get_satellite_identifiers =
     get_route ''/satellites/{norad_id}/identifiers'' [Limiter ''public_standard''] ''get_satellite_identifiers''"

definition r_get_satellite_metadata :: route where
  "r_get_satellite_metadata =
     get_route ''/satellites/{norad_id}/metadata'' [Limiter ''public_standard''] ''get_satellite_metadata''"

definition r_get_satellite_status :: route where
  "r_get_satellite_status =
     get_route ''/satellites/{norad_id}/status'' [Limiter ''public_standard''] ''get_satellite_status''"

definition r_get_catalog_changes :: route where
  "r_get_catalog_changes =
     get_route ''/catalog/changes'' [Unavailable] ''get_catalog_changes''"

definition satellite_router :: "route list" where
  "satellite_router =
    map (\<lambda>r. r\<lparr>tags := ''Satellite'' # tags r\<rparr>)
    [r_get_satellite, r_get_satellites, r_get_satellite_cospar, r_get_satellite_identifiers,
     r_get_satellite_metadata, r_get_satellite_status, r_get_catalog_changes]"

subsection \<open>\<open>src/api/routers/orbital.py\<close>\<close>

definition r_get_orbital_latest :: route where
  "r_get_orbital_latest =
     get_route ''/satellites/{norad_id}/orbital-elements/latest'' [Limiter ''public_standard''] ''get_orbital_latest''"

definition r_get_orbital_elements :: route where
  "r_get_orbital_elements =
     get_route ''/satellites/{norad_id}/orbital-elements'' [Limiter ''public_standard''] ''get_orbital_elements''"

definition r_get_position :: route where
  "r_get_position =
     get_route ''/satellites/{norad_id}/position'' [Limiter ''public_expensive''] ''get_position''"

definition r_get_ground_track :: route where
  "r_get_ground_track =
     get_route ''/satellites/{norad_id}/ground-track'' [Limiter ''public_expensive''] ''get_ground_track''"

definition r_get_passes :: route where
  "r_get_passes =
     get_route ''/satellites/{norad_id}/passes'' [Unavailable] ''get_passes''"

definition r_get_orbit_summary :: route where
  "r_get_orbit_summary =
     get_route ''/satellites/{norad_id}/orbit-summary'' [Limiter ''public_standard''] ''get_orbit_summary''"

definition r_get_orbital_changes :: route where
  "r_get_orbital_changes =
     get_route ''/satellites/{norad_id}/orbital-changes'' [Limiter ''public_expensive''] ''get_orbital_changes''"

definition r_get_coverage :: route where
  "r_get_coverage =
     get_route ''/orbits/coverage'' [Limiter ''public_standard''] ''get_coverage''"

definition r_get_latest_tle_sets :: route where
  "r_get_latest_tle_sets =
     get_route ''/orbits/tle'' [Limiter ''public_standard''] ''get_latest_tle_sets''"

definition orbital_router :: "route list" where
  "orbital_router =
    map (\<lambda>r. r\<lparr>tags := ''Orbital'' # tags r\<rparr>)
    [r_get_orbital_latest, r_get_orbital_elements, r_get_position, r_get_ground_track,
     r_get_passes, r_get_orbit_summary, r_get_orbital_changes, r_get_coverage,
     r_get_latest_tle_sets]"

subsection \<open>\<open>src/api/routers/launch.py\<close>\<close>

definition r_get_launches_upcoming :: route where
  "r_get_launches_upcoming =
     get_route ''/launches/upcoming'' [Limiter ''public_standard''] ''get_launches_upcoming''"

definition r_get_launches :: route where
  "r_get_launches =
     get_route ''/launches'' [Limiter ''public_standard''] ''get_launches''"

definition r_get_launch :: route where
  "r_get_launch =
     get_route ''/launches/{launch_id}'' [Limiter ''public_standard''] ''get_launch''"

definition r_get_mission :: route where
  "r_get_mission =
     get_route ''/missions/{mission_id}'' [Unavailable] ''get_mission''"

definition r_get_vehicles :: route where
  "r_get_vehicles =
     get_route ''/launch-vehicles'' [Unavailable] ''get_vehicles''"

definition r_get_sites :: route where
  "r_get_sites =
     get_route ''/launch-sites'' [Unavailable] ''get_sites''"

definition r_get_agencies :: route where
  "r_get_agencies =
     get_route ''/agencies'' [Unavailable] ''get_agencies''"

definition launch_router :: "route list" where
  "launch_router =
    map (\<lambda>r. r\<lparr>tags := ''Launch'' # tags r\<rparr>)
    [r_get_launches_upcoming, r_get_launches, r_get_launch, r_get_mission, r_get_vehicles,
     r_get_sites, r_get_agencies]"

subsection \<open>\<open>src/api/routers/space_weather.py\<close>\<close>

definition r_get_sw_overview :: route where
  "r_get_sw_overview =
     get_route ''/space-weather/overview'' [Limiter ''public_light''] ''get_sw_overview''"

definition r_get_sw_indices :: route where
  "r_get_sw_indices =
     get_route ''/space-weather/geomagnetic-indices'' [Limiter ''public_standard''] ''get_sw_indices''"

definition r_get_sw_wind :: route where
  "r_get_sw_wind =
     get_route ''/space-weather/solar-wind'' [Limiter ''public_standard''] ''get_sw_wind''"

definition r_get_sw_flares :: route where
  "r_get_sw_flares =
     get_route ''/space-weather/solar-flares'' [Unavailable] ''get_sw_flares''"

definition r_get_sw_cmes :: route where
  "r_get_sw_cmes =
     get_route ''/space-weather/cmes'' [Unavailable] ''get_sw_cmes''"

definition r_get_sw_spe :: route where
  "r_get_sw_spe =
     get_route ''/space-weather/solar-particle-events'' [Unavailable] ''get_sw_spe''"

definition r_get_sw_storms :: route where
  "r_get_sw_storms =
     get_route ''/space-weather/radiation-storms'' [Unavailable] ''get_sw_storms''"

definition r_get_sw_alerts :: route where
  "r_get_sw_alerts =
     get_route ''/space-weather/alerts'' [Unavailable] ''get_sw_alerts''"

definition r_get_sw_events :: route where
  "r_get_sw_events =
     get_route ''/space-weather/events'' [Unavailable] ''get_sw_events''"

definition space_weather_router :: "route list" where
  "space_weather_router =
    map (\<lambda>r. r\<lparr>tags := ''Space Weather'' # tags r\<rparr>)
    [r_get_sw_overview, r_get_sw_indices, r_get_sw_wind, r_get_sw_flares, r_get_sw_cmes,
     r_get_sw_spe, r_get_sw_storms, r_get_sw_alerts, r_get_sw_events]"

subsection \<open>\<open>src/api/routers/neo.py\<close>\<close>

definition r_get_neos :: route where
  "r_get_neos =
     get_route ''/neos'' [Limiter ''public_standard''] ''get_neos''"

definition r_get_neo_approaches :: route where
  "r_get_neo_approaches =
     get_route ''/neos/close-approaches'' [Limiter ''public_standard''] ''get_neo_approaches''"

definition r_get_neo :: route where
  "r_get_neo =
     get_route ''/neos/{neo_id}'' [Limiter ''public_standard''] ''get_neo''"

definition r_get_fireballs :: route where
  "r_get_fireballs =
     get_route ''/fireballs'' [Unavailable] ''get_fireballs''"

definition r_get_body :: route where
  "r_get_body =
     get_route ''/bodies/{body_id}'' [Unavailable] ''get_body''"

definition r_get_ephemeris :: route where
  "r_get_ephemeris =
     get_route ''/ephemeris'' [Unavailable] ''get_ephemeris''"

definition neo_router :: "route list" where
  "neo_router =
    map (\<lambda>r. r\<lparr>tags := ''Neo'' # tags r\<rparr>)
    [r_get_neos, r_get_neo_approaches, r_get_neo, r_get_fireballs, r_get_body, r_get_ephemeris]"

subsection \<open>\<open>src/api/routers/events.py\<close>\<close>

definition r_get_reentries :: route where
  "r_get_reentries =
     get_route ''/reentries'' [Unavailable] ''get_reentries''"

definition r_get_reentry :: route where
  "r_get_reentry =
     get_route ''/reentries/{event_id}'' [Unavailable] ''get_reentry''"

definition r_get_object_events :: route where
  "r_get_object_events =
     get_route ''/object-events'' [Unavailable] ''get_object_events''"

definition r_get_events :: route where
  "r_get_events =
     get_route ''/events'' [Unavailable] ''get_events''"

definition r_get_event :: route where
  "r_get_event =
     get_route ''/events/{event_id}'' [Unavailable] ''get_event''"

definition events_router :: "route list" where
  "events_router =
    map (\<lambda>r. r\<lparr>tags := ''Events'' # tags r\<rparr>)
    [r_get_reentries, r_get_reentry, r_get_object_events, r_get_events, r_get_event]"

subsection \<open>\<open>src/api/routers/earth_observation.py\<close>\<close>

definition r_get_eo_collections :: route where
  "r_get_eo_collections =
     get_route ''/earth-observation/collections'' [Limiter ''public_standard''] ''get_eo_collections''"

definition r_get_eo_products :: route where
  "r_get_eo_products =
     get_route ''/earth-observation/products'' [Unavailable] ''get_eo_products''"

definition r_get_eo_product :: route where
  "r_get_eo_product =
     get_route ''/earth-observation/products/{product_id}'' [Unavailable] ''get_eo_product''"

definition r_get_eo_instruments :: route where
  "r_get_eo_instruments =
     get_route ''/earth-observation/instruments'' [Unavailable] ''get_eo_instruments''"

definition earth_observation_router :: "route list" where
  "earth_observation_router =
    map (\<lambda>r. r\<lparr>tags := ''Earth Observation'' # tags r\<rparr>)
    [r_get_eo_collections, r_get_eo_products, r_get_eo_product, r_get_eo_instruments]"

subsection \<open>\<open>src/api/routers/webhooks.py\<close>\<close>

definition r_create_webhook :: route where
  "r_create_webhook =
     (get_route ''/webhooks'' [Limiter ''mutation''] ''create_webhook'')\<lparr>verb := ''POST''\<rparr>"

definition r_list_webhooks :: route where
  "r_list_webhooks =
     get_route ''/webhooks'' [Limiter ''public_standard''] ''list_webhooks''"

definition r_get_webhook :: route where
  "r_get_webhook =
     get_route ''/webhooks/{webhook_id}'' [Limiter ''public_standard''] ''get_webhook''"

definition r_update_webhook :: route where
  "r_update_webhook =
     (get_route ''/webhooks/{webhook_id}'' [Limiter ''mutation''] ''update_webhook'')\<lparr>verb := ''PATCH''\<rparr>"

definition r_delete_webhook :: route where
  "r_delete_webhook =
     (get_route ''/webhooks/{webhook_id}'' [Limiter ''mutation''] ''delete_webhook'')\<lparr>verb := ''DELETE''\<rparr>"

definition r_list_deliveries :: route where
  "r_list_deliveries =
     get_route ''/webhooks/{webhook_id}/deliveries'' [Limiter ''public_standard''] ''list_deliveries''"

definition webhooks_router :: "route list" where
  "webhooks_router =
    map (\<lambda>r. r\<lparr>tags := ''Webhooks'' # tags r\<rparr>)
    [r_create_webhook, r_list_webhooks, r_get_webhook, r_update_webhook, r_delete_webhook,
     r_list_deliveries]"

subsection \<open>\<open>src/api/routers/admin.py\<close>\<close>

definition r_admin_providers_status :: route where
  "r_admin_providers_status =
     (get_route ''/admin/providers/status'' [Limiter ''public_expensive''] ''admin_providers_status'')\<lparr>in_schema := False\<rparr>"

definition r_admin_analytics :: route where
  "r_admin_analytics =
     (get_route ''/admin/analytics/endpoints'' [Limiter ''public_expensive''] ''admin_analytics'')\<lparr>in_schema := False\<rparr>"

definition admin_router :: "route list" where
  "admin_router =
    map (\<lambda>r. r\<lparr>tags := ''Admin'' # tags r\<rparr>)
    [r_admin_providers_status, r_admin_analytics]"

section \<open>The application\<close>

text \<open>\<open>app.include_router(router, prefix="/v1", dependencies=ds)\<close>.\<close>

definition include_router :: "dep list \<Rightarrow> route list \<Rightarrow> route list" where
  "include_router ds = map (\<lambda>r. r\<lparr>template := ''/v1'' @ template r, deps := ds @ deps r\<rparr>)"

definition metrics_route :: route where
  "metrics_route = (get_route ''/metrics'' [] ''metrics'')\<lparr>in_schema := False\<rparr>"

definition app_routes :: "route list" where
  "app_routes = metrics_route #
     include_router [] platform_router @
     include_router [] insights_router @
     include_router [Capability ''Satellite''] satellite_router @
     include_router [Capability ''Orbital''] orbital_router @
     include_router [Capability ''Launch''] launch_router @
     include_router [Capability ''Space Weather''] space_weather_router @
     include_router [Capability ''Neo''] neo_router @
     include_router [Capability ''Events''] events_router @
     include_router [Capability ''Earth Observation''] earth_observation_router @
     include_router [] webhooks_router @
     include_router [] admin_router"

section \<open>Requests\<close>

text \<open>
  The dependencies of a route under given settings: \<open>limit\<close> is the outcome of each limiter. The first
  one that raises ends the request.
\<close>

fun run_deps :: "settings \<Rightarrow> (string \<Rightarrow> exn + unit) \<Rightarrow> dep list \<Rightarrow> exn + unit" where
  "run_deps c limit [] = Inr ()"
| "run_deps c limit (d # ds) =
     (case (case d of Limiter cls \<Rightarrow> limit cls | Capability tag \<Rightarrow> require_capability c tag
            | Unavailable \<Rightarrow> unavailable_endpoint) of
        Inl e \<Rightarrow> Inl e | Inr _ \<Rightarrow> run_deps c limit ds)"

text \<open>The operations of the generated schema, one per route that is in it.\<close>

definition new_operation :: "route \<Rightarrow> operation" where
  "new_operation r = \<lparr>op_tags = tags r, op_provider_count = 0, op_providers = [], op_resilience = []\<rparr>"

definition add_operation :: "route \<Rightarrow> paths \<Rightarrow> paths" where
  "add_operation r ps =
     (if template r \<in> fst ` set ps
      then map (\<lambda>(p, item). if p = template r then (p, item @ [(verb r, new_operation r)]) else (p, item)) ps
      else ps @ [(template r, [(verb r, new_operation r)])])"

definition schema_of :: "route list \<Rightarrow> paths" where
  "schema_of rs = fold (\<lambda>r ps. if in_schema r then add_operation r ps else ps) rs []"

text \<open>The operation of the schema for a method and a path.\<close>

definition offers :: "paths \<Rightarrow> string \<Rightarrow> string \<Rightarrow> bool" where
  "offers ps m p \<longleftrightarrow> (\<exists>item\<in>set ps. fst item = p \<and> m \<in> fst ` set (snd item))"

section \<open>Facts\<close>

lemma run_deps_ok:
  "run_deps c (\<lambda>_. Inr ()) ds = Inr () \<longleftrightarrow>
     Unavailable \<notin> set ds \<and> (\<forall>tag. Capability tag \<in> set ds \<longrightarrow> tag_enabled c tag)"
  by (induction ds) (auto split: dep.splits sum.splits simp: require_capability_def)

definition ops_of :: "paths \<Rightarrow> (string \<times> string \<times> operation) set" where
  "ops_of ps = {(p, m, op). \<exists>item. (p, item) \<in> set ps \<and> (m, op) \<in> set item}"

lemma ops_of_simps [simp]:
  "ops_of [] = {}"
  "ops_of ((p, item) # ps) = Pair p ` set item \<union> ops_of ps"
  "ops_of (ps @ qs) = ops_of ps \<union> ops_of qs"
  by (auto simp: ops_of_def)

lemma ops_of_extend:
  "ops_of (map (\<lambda>(p, item). if p = t then (p, item @ [x]) else (p, item)) ps) =
     ops_of ps \<union> (if t \<in> fst ` set ps then {(t, x)} else {})"
proof (induction ps)
  case Nil
  show ?case by simp
next
  case (Cons q ps)
  obtain p item where q: "q = (p, item)" by (cases q)
  from Cons show ?case unfolding q
    by (cases "p = t"; cases "t \<in> fst ` set ps"; simp only: list.map list.set prod.case ops_of_simps
          image_insert fst_conv insert_iff if_True if_False simp_thms set_append image_Un; auto)
qed

lemma ops_of_add: "ops_of (add_operation r ps) = insert (template r, verb r, new_operation r) (ops_of ps)"
  by (simp add: add_operation_def ops_of_extend)

lemma ops_of_schema_from:
  "ops_of (fold (\<lambda>r ps. if in_schema r then add_operation r ps else ps) rs ps) =
     ops_of ps \<union> (\<lambda>r. (template r, verb r, new_operation r)) ` {r \<in> set rs. in_schema r}"
  by (induction rs arbitrary: ps) (auto simp: ops_of_add)

lemma ops_of_schema:
  "ops_of (schema_of rs) = (\<lambda>r. (template r, verb r, new_operation r)) ` {r \<in> set rs. in_schema r}"
  unfolding schema_of_def ops_of_schema_from by simp

lemma offers_filter:
  "offers (filter_paths c ps) m p \<longleftrightarrow>
     p \<notin> set UNAVAILABLE_PATHS \<and> (\<exists>op. (p, m, op) \<in> ops_of ps \<and> (\<forall>tag\<in>set (op_tags op). tag_enabled c tag))"
    (is "?l \<longleftrightarrow> ?r")
proof
  assume ?l
  then show ?r
    by (force simp: offers_def ops_of_def filter_paths_mem filter_operations_mem)
next
  assume ?r
  then obtain item op where p: "p \<notin> set UNAVAILABLE_PATHS" "(p, item) \<in> set ps" "(m, op) \<in> set item"
    "\<forall>tag\<in>set (op_tags op). tag_enabled c tag"
    by (auto simp: ops_of_def)
  then have mem: "(m, annotate c op) \<in> set (filter_operations c item)"
    by (auto simp: filter_operations_mem)
  then have "filter_operations c item \<noteq> []" by auto
  with p(1,2) have "(p, filter_operations c item) \<in> set (filter_paths c ps)"
    by (auto simp: filter_paths_mem)
  with mem show ?l by (force simp: offers_def)
qed

section \<open>Checks of the table\<close>

text \<open>
  A route says \<open>Unavailable\<close> exactly when its path is listed as unavailable, and it requires the
  capability of each of its tags that needs a provider, and no other.
\<close>

definition route_ok :: "route \<Rightarrow> bool" where
  "route_ok r \<longleftrightarrow>
     (template r \<in> set UNAVAILABLE_PATHS \<longleftrightarrow> Unavailable \<in> set (deps r))
   \<and> list_all (\<lambda>tag. TAG_PROVIDERS tag = None \<or> Capability tag \<in> set (deps r)) (tags r)
   \<and> list_all (\<lambda>d. case d of Capability tag \<Rightarrow> tag \<in> set (tags r) | _ \<Rightarrow> True) (deps r)"

lemma app_routes_ok: "list_all route_ok app_routes"
  by code_simp

text \<open>
  A path template: a segment in braces stands for any non-empty text without a slash. The framework
  takes the first route, in the order of registration, whose method and template match.
\<close>

definition segments :: "string \<Rightarrow> string list" where
  "segments = split_on (CHR ''/'')"

definition seg_matches :: "string \<Rightarrow> string \<Rightarrow> bool" where
  "seg_matches t s \<longleftrightarrow> t = s \<or> t \<noteq> [] \<and> hd t = CHR ''{'' \<and> s \<noteq> []"

definition path_matches :: "string \<Rightarrow> string \<Rightarrow> bool" where
  "path_matches t p \<longleftrightarrow> list_all2 seg_matches (segments t) (segments p)"

definition dispatch :: "route list \<Rightarrow> string \<Rightarrow> string \<Rightarrow> route option" where
  "dispatch rs m p = find (\<lambda>r. verb r = m \<and> path_matches (template r) p) rs"

text \<open>No route's template, read as a path, is matched by an earlier route.\<close>

definition route_key :: "route \<Rightarrow> string \<times> string list" where
  "route_key r = (verb r, segments (template r))"

fun no_shadow :: "(string \<times> string list) list \<Rightarrow> bool" where
  "no_shadow [] \<longleftrightarrow> True"
| "no_shadow ((m, t) # ks) \<longleftrightarrow>
     list_all (\<lambda>(m', t'). \<not> (list_all2 seg_matches t t' \<and> m = m')) ks \<and> no_shadow ks"

lemma app_no_shadow: "no_shadow (map route_key app_routes)"
  by code_simp

lemma path_matches_refl [simp]: "path_matches t t"
  by (simp add: path_matches_def seg_matches_def list_all2_refl)

lemma dispatch_self:
  "no_shadow (map route_key rs) \<Longrightarrow> r \<in> set rs \<Longrightarrow> dispatch rs (verb r) (template r) = Some r"
proof (induction rs)
  case Nil
  then show ?case by simp
next
  case (Cons q rs)
  show ?case
  proof (cases "q = r")
    case True
    then show ?thesis by (simp add: dispatch_def)
  next
    case False
    with Cons have "\<not> (verb q = verb r \<and> path_matches (template q) (template r))"
      by (auto simp: route_key_def path_matches_def list_all_iff)
    moreover from Cons False have "no_shadow (map route_key rs)" "r \<in> set rs"
      by (cases "route_key q"; simp)+
    ultimately show ?thesis using Cons.IH by (auto simp: dispatch_def)
  qed
qed

lemma app_routes_unique:
  assumes "r \<in> set app_routes" "q \<in> set app_routes" "template r = template q" "verb r = verb q"
  shows "r = q"
  using dispatch_self [OF app_no_shadow] assms by (metis option.inject)

definition is_limited :: "route \<Rightarrow> bool" where
  "is_limited r \<longleftrightarrow> handler r \<in> {''metrics'', ''health'', ''ready'', ''version_info''}
   \<or> Unavailable \<in> set (deps r)
   \<or> list_ex (\<lambda>d. case d of Limiter cls \<Rightarrow> quotas cls \<noteq> None \<and> (verb r \<noteq> ''GET'' \<longrightarrow> cls = ''mutation'') | _ \<Rightarrow> False) (deps r)"

lemma limited_table: "list_all is_limited app_routes"
  by code_simp

section \<open>Correctness\<close>

lemma route_okD:
  assumes "r \<in> set app_routes"
  shows "template r \<in> set UNAVAILABLE_PATHS \<longleftrightarrow> Unavailable \<in> set (deps r)"
    and "tag \<in> set (tags r) \<Longrightarrow> TAG_PROVIDERS tag = None \<or> Capability tag \<in> set (deps r)"
    and "Capability tag \<in> set (deps r) \<Longrightarrow> tag \<in> set (tags r)"
proof -
  have ok: "route_ok r" using app_routes_ok assms by (simp add: list_all_iff)
  then show "template r \<in> set UNAVAILABLE_PATHS \<longleftrightarrow> Unavailable \<in> set (deps r)"
    by (simp add: route_ok_def)
  show "TAG_PROVIDERS tag = None \<or> Capability tag \<in> set (deps r)" if "tag \<in> set (tags r)"
    using ok that by (simp add: route_ok_def list_all_iff)
  show "tag \<in> set (tags r)" if "Capability tag \<in> set (deps r)"
    using ok that by (fastforce simp: route_ok_def list_all_iff)
qed

lemma offers_app_routes:
  assumes r: "r \<in> set app_routes" "in_schema r"
  shows "offers (filter_paths c (schema_of app_routes)) (verb r) (template r) \<longleftrightarrow>
    template r \<notin> set UNAVAILABLE_PATHS \<and> (\<forall>tag\<in>set (tags r). tag_enabled c tag)"
proof -
  have "(template r, verb r, op) \<in> ops_of (schema_of app_routes) \<longleftrightarrow> op = new_operation r" for op
    using r app_routes_unique by (auto simp: ops_of_schema)
  then show ?thesis by (auto simp: offers_filter new_operation_def)
qed

text \<open>
  C21: The published schema tells the truth. For any settings, an operation is in the filtered
  OpenAPI document exactly when its dependencies let a request through to the handler (rate limits
  apart): what is listed is served, and what answers \<open>ENDPOINT_DISABLED\<close> is not listed.
\<close>

theorem openapi_lists_what_is_served:
  assumes "r \<in> set app_routes" "in_schema r"
  shows "offers (fst (custom_openapi c (schema_of app_routes) None)) (verb r) (template r) \<longleftrightarrow>
    run_deps c (\<lambda>_. Inr ()) (deps r) = Inr ()"
proof -
  have "(\<forall>tag\<in>set (tags r). tag_enabled c tag) \<longleftrightarrow> (\<forall>tag. Capability tag \<in> set (deps r) \<longrightarrow> tag_enabled c tag)"
    using route_okD(2,3) [OF assms(1)] unfolding tag_enabled_def by blast
  then show ?thesis
    by (simp add: custom_openapi_def offers_app_routes [OF assms] run_deps_ok route_okD(1) [OF assms(1)])
qed

theorem openapi_lists_what_is_served_witness:
  "offers (fst (custom_openapi ((default_settings [] [] [] [])\<lparr>enable_noaa_swpc := False\<rparr>)
     (schema_of app_routes) None)) ''GET'' ''/v1/space-weather/overview'' = False"
proof -
  let ?r = "(r_get_sw_overview\<lparr>tags := [''Space Weather'']\<rparr>)\<lparr>template := ''/v1/space-weather/overview'',
    deps := [Capability ''Space Weather'', Limiter ''public_light'']\<rparr>"
  have mem: "?r \<in> set app_routes" "in_schema ?r"
    by (simp_all add: app_routes_def include_router_def space_weather_router_def r_get_sw_overview_def get_route_def)
  have "\<not> tag_enabled ((default_settings [] [] [] [])\<lparr>enable_noaa_swpc := False\<rparr>) ''Space Weather''"
    by (simp add: tag_enabled_def TAG_PROVIDERS_def providers_for_tag_def tag_sources_def
        configured_providers_def default_settings_def truthy_def)
  then have "run_deps ((default_settings [] [] [] [])\<lparr>enable_noaa_swpc := False\<rparr>) (\<lambda>_. Inr ()) (deps ?r) \<noteq> Inr ()"
    by (simp add: run_deps_ok del: run_deps.simps)
  with openapi_lists_what_is_served [OF mem, of "(default_settings [] [] [] [])\<lparr>enable_noaa_swpc := False\<rparr>"]
  show ?thesis by (simp add: r_get_sw_overview_def get_route_def del: run_deps.simps)
qed

text \<open>
  C29: Registration order does not hide an endpoint: the path of every route, static or with its
  parameters, is dispatched to that route and not to one registered earlier.
\<close>

theorem routes_not_shadowed:
  assumes "r \<in> set app_routes"
  shows "dispatch app_routes (verb r) (template r) = Some r"
  by (rule dispatch_self [OF app_no_shadow assms])

theorem routes_not_shadowed_witness:
  "map_option handler (dispatch app_routes ''GET'' ''/v1/launches/next'') = Some ''next_launch''"
proof -
  let ?r = "r_next_launch\<lparr>template := ''/v1/launches/next''\<rparr>"
  have "?r \<in> set app_routes"
    by (simp add: app_routes_def include_router_def insights_router_def r_next_launch_def get_route_def)
  from routes_not_shadowed [OF this] show ?thesis by (simp add: r_next_launch_def get_route_def)
qed



end
