(* ===== verification/Ip_Address.thy ===== *)
theory Ip_Address
  imports Prelude
begin

text \<open>
  What the program uses of the standard library's \<open>ipaddress\<close>: addresses and networks of both
  versions, their text, and membership. An address is its number; a version-6 address may carry a
  scope. Two versions are never compared.
\<close>

section \<open>Addresses\<close>

datatype ip = V4 nat | V6 nat

datatype network = Net4 nat nat | Net6 nat nat

definition ip_digits :: "string \<Rightarrow> nat option" where
  "ip_digits s = (if s \<noteq> [] \<and> list_all is_digit s then parse_nat s else None)"

definition parse_octet :: "string \<Rightarrow> nat option" where
  "parse_octet s = (case ip_digits s of None \<Rightarrow> None
     | Some n \<Rightarrow> if length s \<le> 3 \<and> (length s = 1 \<or> hd s \<noteq> CHR ''0'') \<and> n \<le> 255 then Some n else None)"

definition octets :: "nat \<Rightarrow> nat \<Rightarrow> nat \<Rightarrow> nat \<Rightarrow> nat" where
  "octets a b c d = ((a * 256 + b) * 256 + c) * 256 + d"

definition parse_ip4 :: "string \<Rightarrow> nat option" where
  "parse_ip4 s = (case map parse_octet (split_on (CHR ''.'') s) of
      [Some a, Some b, Some c, Some d] \<Rightarrow> Some (octets a b c d) | _ \<Rightarrow> None)"

definition parse_hextet :: "string \<Rightarrow> nat option" where
  "parse_hextet s =
     (if s = [] \<or> 4 < length s \<or> \<not> list_all (\<lambda>c. hex_val c \<noteq> None) s then None
      else Some (foldl (\<lambda>n c. 16 * n + the (hex_val c)) 0 s))"

definition hextets :: "string list \<Rightarrow> nat option" where
  "hextets ps = (if list_all (\<lambda>p. parse_hextet p \<noteq> None) ps
     then Some (foldl (\<lambda>n p. 65536 * n + the (parse_hextet p)) 0 ps) else None)"

fun hex_text :: "nat \<Rightarrow> string" where
  "hex_text n = (let d = char_of (if n mod 16 < 10 then 48 + n mod 16 else 87 + n mod 16) in
     if n < 16 then [d] else hex_text (n div 16) @ [d])"

declare hex_text.simps [simp del]

text \<open>
  The groups of a version-6 text: a dotted last part becomes two groups; one run of zeros may be
  left out with \<open>::\<close>, whose place is the empty inner part.
\<close>

definition v6_parts :: "string \<Rightarrow> string list option" where
  "v6_parts s = (let ps = split_on (CHR '':'') s in
     if length ps < 3 then None
     else if CHR ''.'' \<in> set (last ps)
     then map_option (\<lambda>n. butlast ps @ [hex_text (n div 65536), hex_text (n mod 65536)]) (parse_ip4 (last ps))
     else Some ps)"

definition inner_empty :: "string list \<Rightarrow> nat list" where
  "inner_empty ps = filter (\<lambda>i. ps ! i = []) [1..<length ps - 1]"

definition parse_ip6_groups :: "string list \<Rightarrow> nat option" where
  "parse_ip6_groups ps =
     (if 9 < length ps then None
      else case inner_empty ps of
        [] \<Rightarrow> if length ps \<noteq> 8 then None else hextets ps
      | [i] \<Rightarrow>
          (let hi = i - (if hd ps = [] then 1 else 0);
               lo = length ps - i - 1 - (if last ps = [] then 1 else 0)
           in if hd ps = [] \<and> hi \<noteq> 0 \<or> last ps = [] \<and> lo \<noteq> 0 \<or> 8 \<le> hi + lo then None
              else (case (hextets (take hi ps), hextets (drop (length ps - lo) ps)) of
                  (Some h, Some l) \<Rightarrow> Some (h * 65536 ^ (8 - hi) + l)
                | _ \<Rightarrow> None))
      | _ \<Rightarrow> None)"

definition parse_ip6 :: "string \<Rightarrow> nat option" where
  "parse_ip6 s =
     (if s = [] \<or> CHR ''/'' \<in> set s then None
      else (case split_on (CHR ''%'') s of
          [a] \<Rightarrow> Option.bind (v6_parts a) parse_ip6_groups
        | [a, scope] \<Rightarrow> if scope = [] then None else Option.bind (v6_parts a) parse_ip6_groups
        | _ \<Rightarrow> None))"

text \<open>\<open>ip_address(s)\<close>; \<open>None\<close> is the \<open>ValueError\<close>.\<close>

definition ip_address :: "string \<Rightarrow> ip option" where
  "ip_address s = (case parse_ip4 s of Some n \<Rightarrow> Some (V4 n) | None \<Rightarrow> map_option V6 (parse_ip6 s))"

section \<open>Networks\<close>

text \<open>A version-4 prefix may also be written as a netmask or a hostmask.\<close>

definition mask_prefix :: "nat \<Rightarrow> nat option" where
  "mask_prefix m = find (\<lambda>p. m = 2 ^ 32 - 2 ^ (32 - p)) [0..<33]"

definition parse_prefix4 :: "string \<Rightarrow> nat option" where
  "parse_prefix4 s = (case ip_digits s of
      Some p \<Rightarrow> if p \<le> 32 then Some p else None
    | None \<Rightarrow> (case parse_ip4 s of None \<Rightarrow> None
        | Some m \<Rightarrow> (case mask_prefix m of Some p \<Rightarrow> Some p | None \<Rightarrow> mask_prefix (2 ^ 32 - 1 - m))))"

definition parse_prefix6 :: "string \<Rightarrow> nat option" where
  "parse_prefix6 s = (case ip_digits s of Some p \<Rightarrow> if p \<le> 128 then Some p else None | None \<Rightarrow> None)"

text \<open>\<open>ip_network(s, strict=False)\<close>.\<close>

definition ip_network :: "string \<Rightarrow> network option" where
  "ip_network s =
     (let (a, p4, p6) = (case split_on (CHR ''/'') s of
          [a] \<Rightarrow> (a, Some 32, Some 128)
        | [a, p] \<Rightarrow> (a, parse_prefix4 p, parse_prefix6 p)
        | _ \<Rightarrow> ([], None, None))
      in case (parse_ip4 a, p4) of
           (Some n, Some p) \<Rightarrow> Some (Net4 n p)
         | _ \<Rightarrow> (case (parse_ip6 a, p6) of (Some n, Some p) \<Rightarrow> Some (Net6 n p) | _ \<Rightarrow> None))"

fun in_network :: "ip \<Rightarrow> network \<Rightarrow> bool" where
  "in_network (V4 n) (Net4 m p) \<longleftrightarrow> n div 2 ^ (32 - p) = m div 2 ^ (32 - p)"
| "in_network (V6 n) (Net6 m p) \<longleftrightarrow> n div 2 ^ (128 - p) = m div 2 ^ (128 - p)"
| "in_network _ _ \<longleftrightarrow> False"

section \<open>Facts\<close>

lemma octets_less:
  "a < 256 \<Longrightarrow> b < 256 \<Longrightarrow> c < 256 \<Longrightarrow> d < 256 \<Longrightarrow> octets a b c d < 2 ^ 32"
  by (simp add: octets_def)

lemma octets_div:
  assumes "b < 256" "c < 256" "d < 256"
  shows "octets a b c d div 2 ^ 24 = a" "octets a b c d div 2 ^ 16 = a * 256 + b"
    "octets a b c d div 2 ^ 8 = (a * 256 + b) * 256 + c"
  using assms by (simp_all add: octets_def)

end
