(* ===== verification/Security.thy ===== *)
theory Security
  imports Ip_Address Settings
begin

text \<open>
  Who is calling and where webhooks may go: the client identity derived from the peer address
  (\<open>src/core/security.py\<close>) and the filter on webhook targets (\<open>src/core/ssrf.py\<close>). The keyed digest,
  the URL parser and the resolver are parameters.
\<close>

section \<open>The client\<close>

record request =
  peer :: "string option"
  request_headers :: "(string \<times> string) list"
  client_identity :: "(string \<times> string) option"

definition trusted_proxy :: "string \<Rightarrow> string list \<Rightarrow> bool" where
  "trusted_proxy address trusted =
     (case ip_address address of
        None \<Rightarrow> address \<in> set trusted
      | Some a \<Rightarrow> list_ex (\<lambda>value. case ip_network value of
            Some net \<Rightarrow> in_network a net | None \<Rightarrow> address = value) trusted)"

text \<open>Header names are compared without case; the framework stores them in lower case.\<close>

definition header :: "string \<Rightarrow> request \<Rightarrow> string" where
  "header name r = (case map_of (request_headers r) name of Some v \<Rightarrow> v | None \<Rightarrow> [])"

definition direct_address :: "request \<Rightarrow> string" where
  "direct_address r = (case peer r of Some h \<Rightarrow> h | None \<Rightarrow> ''unknown'')"

definition trusted_list :: "settings \<Rightarrow> string list" where
  "trusted_list c = filter (\<lambda>v. v \<noteq> []) (map strip (split_on (CHR '','') (trusted_proxies c)))"

definition resolve_client_ip :: "settings \<Rightarrow> request \<Rightarrow> string" where
  "resolve_client_ip c r =
     (if trusted_proxy (direct_address r) (trusted_list c)
      then (let candidate = strip (hd (split_on (CHR '','') (header ''x-forwarded-for'' r)))
            in if candidate \<noteq> [] then candidate else direct_address r)
      else direct_address r)"

text \<open>\<open>digest key text\<close> is the hexadecimal HMAC-SHA256. The result is the client and the new request.\<close>

definition fingerprint_ip :: "(string \<Rightarrow> string \<Rightarrow> string) \<Rightarrow> settings \<Rightarrow> string \<Rightarrow> string" where
  "fingerprint_ip digest c ip = digest (ip_fingerprint_secret c) ip"

definition get_current_client ::
  "(string \<Rightarrow> string \<Rightarrow> string) \<Rightarrow> settings \<Rightarrow> request \<Rightarrow> (string \<times> string) \<times> request" where
  "get_current_client digest c r =
     (case client_identity r of
        Some client \<Rightarrow> (client, r)
      | None \<Rightarrow> (let client = (''ip'', fingerprint_ip digest c (resolve_client_ip c r))
                 in (client, r\<lparr>client_identity := Some client\<rparr>)))"

section \<open>Webhook targets\<close>

definition BLOCKED_NETWORKS :: "string list" where
  "BLOCKED_NETWORKS = [
     ''0.0.0.0/8'', ''10.0.0.0/8'', ''100.64.0.0/10'', ''127.0.0.0/8'', ''169.254.0.0/16'',
     ''172.16.0.0/12'', ''192.0.0.0/24'', ''192.0.2.0/24'', ''192.168.0.0/16'', ''198.18.0.0/15'',
     ''198.51.100.0/24'', ''203.0.113.0/24'', ''224.0.0.0/4'', ''240.0.0.0/4'', ''::/128'', ''::1/128'',
     ''fc00::/7'', ''fe80::/10'', ''ff00::/8'']"

definition blocked :: "ip \<Rightarrow> bool" where
  "blocked a \<longleftrightarrow> list_ex (\<lambda>s. case ip_network s of Some net \<Rightarrow> in_network a net | None \<Rightarrow> False) BLOCKED_NETWORKS"

text \<open>What the URL parser says of a URL, and what the resolver answers for a host and a port.\<close>

record url =
  url_scheme :: string
  url_userinfo :: string
  url_port :: "int option"
  url_host :: string
  url_text :: string

definition url_ports :: "int option list" where
  "url_ports = [None, Some 80, Some 443]"

definition resolve_addresses :: "(string \<Rightarrow> int \<Rightarrow> exn + string list) \<Rightarrow> string \<Rightarrow> int \<Rightarrow> exn + ip list" where
  "resolve_addresses getaddrinfo host port =
     (case getaddrinfo host port of Inl e \<Rightarrow> Inl e
      | Inr items \<Rightarrow> if list_all (\<lambda>s. ip_address s \<noteq> None) items
          then Inr (remdups (map (\<lambda>s. the (ip_address s)) items))
          else Inl (ValueError ''does not appear to be an IPv4 or IPv6 address''))"

definition validate_webhook_url ::
  "(string \<Rightarrow> exn + url) \<Rightarrow> (string \<Rightarrow> int \<Rightarrow> exn + string list) \<Rightarrow> string \<Rightarrow> exn + string" where
  "validate_webhook_url parse getaddrinfo text =
     (case parse text of
        Inl e \<Rightarrow> Inl e
      | Inr u \<Rightarrow>
          if url_scheme u \<notin> {''http'', ''https''} then Inl (ValueError ''Webhook URL must use HTTP or HTTPS'')
          else if url_userinfo u \<noteq> [] then Inl (ValueError ''Webhook URL credentials are forbidden'')
          else if url_port u \<notin> set url_ports then Inl (ValueError ''Webhook URL port must be 80 or 443'')
          else if url_host u = [] then Inl (ValueError ''Webhook URL host is required'')
          else
            (case resolve_addresses getaddrinfo (url_host u)
                (case url_port u of Some p \<Rightarrow> p | None \<Rightarrow> if url_scheme u = ''https'' then 443 else 80) of
               Inl (OtherError name) \<Rightarrow> Inl (if name = ''OSError''
                 then ValueError ''Webhook hostname cannot be resolved'' else OtherError name)
             | Inl e \<Rightarrow> Inl e
             | Inr addresses \<Rightarrow>
                 if addresses = [] \<or> list_ex blocked addresses
                 then Inl (ValueError ''Webhook URL resolves to a blocked network'')
                 else Inr (url_text u)))"

section \<open>Networks in numbers\<close>

lemmas ip_text_defs = ip_network_def parse_ip4_def parse_octet_def ip_digits_def parse_nat_def
  is_digit_def digit_val_def parse_ip6_def v6_parts_def parse_ip6_groups_def inner_empty_def
  hextets_def parse_hextet_def hex_val_def parse_prefix4_def parse_prefix6_def

lemma blocked4_networks:
  "ip_network ''0.0.0.0/8'' = Some (Net4 0 8)"
  "ip_network ''10.0.0.0/8'' = Some (Net4 (octets 10 0 0 0) 8)"
  "ip_network ''100.64.0.0/10'' = Some (Net4 (octets 100 64 0 0) 10)"
  "ip_network ''127.0.0.0/8'' = Some (Net4 (octets 127 0 0 0) 8)"
  "ip_network ''169.254.0.0/16'' = Some (Net4 (octets 169 254 0 0) 16)"
  "ip_network ''172.16.0.0/12'' = Some (Net4 (octets 172 16 0 0) 12)"
  "ip_network ''192.0.0.0/24'' = Some (Net4 (octets 192 0 0 0) 24)"
  "ip_network ''192.0.2.0/24'' = Some (Net4 (octets 192 0 2 0) 24)"
  "ip_network ''192.168.0.0/16'' = Some (Net4 (octets 192 168 0 0) 16)"
  "ip_network ''198.18.0.0/15'' = Some (Net4 (octets 198 18 0 0) 15)"
  "ip_network ''198.51.100.0/24'' = Some (Net4 (octets 198 51 100 0) 24)"
  "ip_network ''203.0.113.0/24'' = Some (Net4 (octets 203 0 113 0) 24)"
  "ip_network ''224.0.0.0/4'' = Some (Net4 (octets 224 0 0 0) 4)"
  "ip_network ''240.0.0.0/4'' = Some (Net4 (octets 240 0 0 0) 4)"
  by (simp_all add: ip_text_defs octets_def)

lemma blocked6_networks:
  "ip_network ''::/128'' = Some (Net6 0 128)"
  "ip_network ''::1/128'' = Some (Net6 1 128)"
  "ip_network ''fc00::/7'' = Some (Net6 (0xfc00 * 2 ^ 112) 7)"
  "ip_network ''fe80::/10'' = Some (Net6 (0xfe80 * 2 ^ 112) 10)"
  "ip_network ''ff00::/8'' = Some (Net6 (0xff00 * 2 ^ 112) 8)"
  by (simp_all add: ip_text_defs upt_rec)

lemma blocked_V4:
  "blocked (V4 n) \<longleftrightarrow> list_ex (\<lambda>net. in_network (V4 n) net) [Net4 0 8,
     Net4 (octets 10 0 0 0) 8,
     Net4 (octets 100 64 0 0) 10,
     Net4 (octets 127 0 0 0) 8,
     Net4 (octets 169 254 0 0) 16,
     Net4 (octets 172 16 0 0) 12,
     Net4 (octets 192 0 0 0) 24,
     Net4 (octets 192 0 2 0) 24,
     Net4 (octets 192 168 0 0) 16,
     Net4 (octets 198 18 0 0) 15,
     Net4 (octets 198 51 100 0) 24,
     Net4 (octets 203 0 113 0) 24,
     Net4 (octets 224 0 0 0) 4,
     Net4 (octets 240 0 0 0) 4]"
  by (simp add: blocked_def BLOCKED_NETWORKS_def blocked4_networks blocked6_networks)

lemma blocked_V6:
  "blocked (V6 n) \<longleftrightarrow> list_ex (\<lambda>net. in_network (V6 n) net) [Net6 0 128,
     Net6 1 128,
     Net6 (0xfc00 * 2 ^ 112) 7,
     Net6 (0xfe80 * 2 ^ 112) 10,
     Net6 (0xff00 * 2 ^ 112) 8]"
  by (simp add: blocked_def BLOCKED_NETWORKS_def blocked4_networks blocked6_networks)

text \<open>The special-purpose version-4 blocks, octet by octet.\<close>

definition special4 :: "nat \<Rightarrow> nat \<Rightarrow> nat \<Rightarrow> bool" where
  "special4 a b c \<longleftrightarrow> a = 0 \<or> a = 10 \<or> a = 100 \<and> 64 \<le> b \<and> b < 128 \<or> a = 127
     \<or> a = 169 \<and> b = 254 \<or> a = 172 \<and> 16 \<le> b \<and> b < 32 \<or> a = 192 \<and> b = 0 \<and> c = 0
     \<or> a = 192 \<and> b = 0 \<and> c = 2 \<or> a = 192 \<and> b = 168 \<or> a = 198 \<and> (b = 18 \<or> b = 19)
     \<or> a = 198 \<and> b = 51 \<and> c = 100 \<or> a = 203 \<and> b = 0 \<and> c = 113 \<or> 224 \<le> a"

lemma div_range:
  assumes "0 < (k :: nat)" shows "n div k = q \<longleftrightarrow> q * k \<le> n \<and> n < q * k + k"
proof
  assume "n div k = q"
  then show "q * k \<le> n \<and> n < q * k + k"
    using assms dividend_less_div_times [of k n] by (auto simp: add.commute)
next
  assume "q * k \<le> n \<and> n < q * k + k"
  then show "n div k = q" by (intro div_nat_eqI) (simp_all add: mult.commute add.commute)
qed

text \<open>A prefix of a dotted quad, through the octets it cuts.\<close>

lemma quad_prefix:
  assumes "b < 256" "c < 256" "d < 256"
  shows "octets a b c d div 2 ^ 28 = a div 16" "octets a b c d div 2 ^ 22 = (a * 256 + b) div 64"
    "octets a b c d div 2 ^ 20 = (a * 256 + b) div 16" "octets a b c d div 2 ^ 17 = (a * 256 + b) div 2"
proof -
  have split: "octets a b c d div 2 ^ (m + k) = octets a b c d div 2 ^ m div 2 ^ k" for m k
    by (simp add: power_add div_mult2_eq)
  show "octets a b c d div 2 ^ 28 = a div 16" "octets a b c d div 2 ^ 22 = (a * 256 + b) div 64"
    "octets a b c d div 2 ^ 20 = (a * 256 + b) div 16" "octets a b c d div 2 ^ 17 = (a * 256 + b) div 2"
    using split [of 24 4] split [of 16 6] split [of 16 4] split [of 16 1] octets_div [OF assms]
    by simp_all
qed

lemma digits_eq: "b < k \<Longrightarrow> y < k \<Longrightarrow> a * k + b = x * k + y \<longleftrightarrow> a = x \<and> b = y" for a b x y k :: nat
  by (metis add.commute div_mult_self1 div_less less_nat_zero_code mod_mult_self1 mod_less plus_nat.add_0)

lemma digits_div:
  "(a * 256 + b) div 64 = a * 4 + b div 64" "(a * 256 + b) div 16 = a * 16 + b div 16"
  "(a * 256 + b) div 2 = a * 128 + b div 2" for a b :: nat
  using div_mult_self2 [of 64 b "4 * a"] div_mult_self2 [of 16 b "16 * a"] div_mult_self2 [of 2 b "128 * a"]
  by (simp_all add: ac_simps)

lemma in_quads:
  assumes b: "b < 256" "c < 256" "d < 256"
  shows "in_network (V4 (octets a b c d)) (Net4 (octets x 0 0 0) 8) \<longleftrightarrow> a = x"
    "in_network (V4 (octets a b c d)) (Net4 0 8) \<longleftrightarrow> a = 0"
    "in_network (V4 (octets a b c d)) (Net4 (octets x 0 0 0) 4) \<longleftrightarrow> a div 16 = x div 16"
    "y < 256 \<Longrightarrow> in_network (V4 (octets a b c d)) (Net4 (octets x y 0 0) 10) \<longleftrightarrow> a = x \<and> b div 64 = y div 64"
    "y < 256 \<Longrightarrow> in_network (V4 (octets a b c d)) (Net4 (octets x y 0 0) 12) \<longleftrightarrow> a = x \<and> b div 16 = y div 16"
    "y < 256 \<Longrightarrow> in_network (V4 (octets a b c d)) (Net4 (octets x y 0 0) 15) \<longleftrightarrow> a = x \<and> b div 2 = y div 2"
    "y < 256 \<Longrightarrow> in_network (V4 (octets a b c d)) (Net4 (octets x y 0 0) 16) \<longleftrightarrow> a = x \<and> b = y"
    "y < 256 \<Longrightarrow> z < 256 \<Longrightarrow> in_network (V4 (octets a b c d)) (Net4 (octets x y z 0) 24) \<longleftrightarrow> a = x \<and> b = y \<and> c = z"
proof -
  have net: "in_network (V4 n) (Net4 m p) \<longleftrightarrow> n div 2 ^ k = m div 2 ^ k" if "32 - p = k" for n m p k
    using that by simp
  note q = octets_div [OF b] quad_prefix [OF b]
  have o: "(0 :: nat) < 256" by simp
  show "in_network (V4 (octets a b c d)) (Net4 (octets x 0 0 0) 8) \<longleftrightarrow> a = x"
    by (subst net [of 8 24], simp) (unfold q(1) octets_div(1) [OF o o o], rule refl)
  show "in_network (V4 (octets a b c d)) (Net4 0 8) \<longleftrightarrow> a = 0"
    by (subst net [of 8 24], simp) (unfold q(1), simp)
  show "in_network (V4 (octets a b c d)) (Net4 (octets x 0 0 0) 4) \<longleftrightarrow> a div 16 = x div 16"
    by (subst net [of 4 28], simp) (unfold q quad_prefix(1) [OF o o o], rule refl)
  assume y: "y < 256"
  show "in_network (V4 (octets a b c d)) (Net4 (octets x y 0 0) 16) \<longleftrightarrow> a = x \<and> b = y"
    by (subst net [of 16 16], simp) (unfold q octets_div(2) [OF y o o] digits_eq [OF b(1) y], rule refl)
  have d: "b div 64 < 4" "y div 64 < 4" "b div 16 < 16" "y div 16 < 16" "b div 2 < 128" "y div 2 < 128"
    using b(1) y by auto
  show "in_network (V4 (octets a b c d)) (Net4 (octets x y 0 0) 10) \<longleftrightarrow> a = x \<and> b div 64 = y div 64"
    by (subst net [of 10 22], simp) (unfold q quad_prefix(2) [OF y o o] digits_div digits_eq [OF d(1,2)], rule refl)
  show "in_network (V4 (octets a b c d)) (Net4 (octets x y 0 0) 12) \<longleftrightarrow> a = x \<and> b div 16 = y div 16"
    by (subst net [of 12 20], simp) (unfold q quad_prefix(3) [OF y o o] digits_div digits_eq [OF d(3,4)], rule refl)
  show "in_network (V4 (octets a b c d)) (Net4 (octets x y 0 0) 15) \<longleftrightarrow> a = x \<and> b div 2 = y div 2"
    by (subst net [of 15 17], simp) (unfold q quad_prefix(4) [OF y o o] digits_div digits_eq [OF d(5,6)], rule refl)
  assume w: "z < 256"
  show "in_network (V4 (octets a b c d)) (Net4 (octets x y z 0) 24) \<longleftrightarrow> a = x \<and> b = y \<and> c = z"
    by (subst net [of 24 8], simp) (unfold q octets_div(3) [OF y w o] digits_eq [OF b(2) w] digits_eq [OF b(1) y]
        conj_assoc, rule refl)
qed

lemma blocked_octets:
  assumes "a < 256" "b < 256" "c < 256" "d < 256"
  shows "blocked (V4 (octets a b c d)) \<longleftrightarrow> special4 a b c"
proof -
  have a: "a div 16 = 14 \<or> a div 16 = 15 \<longleftrightarrow> 224 \<le> a"
    using assms(1) by (auto simp: div_range)
  have b: "b div 64 = 1 \<longleftrightarrow> 64 \<le> b \<and> b < 128"
    "b div 16 = 1 \<longleftrightarrow> 16 \<le> b \<and> b < 32" "b div 2 = 9 \<longleftrightarrow> b = 18 \<or> b = 19"
    by (auto simp: div_range)
  have "blocked (V4 (octets a b c d)) \<longleftrightarrow> a = 0 \<or> a = 10 \<or> a = 100 \<and> b div 64 = 1 \<or> a = 127
     \<or> a = 169 \<and> b = 254 \<or> a = 172 \<and> b div 16 = 1 \<or> a = 192 \<and> b = 0 \<and> c = 0
     \<or> a = 192 \<and> b = 0 \<and> c = 2 \<or> a = 192 \<and> b = 168 \<or> a = 198 \<and> b div 2 = 9
     \<or> a = 198 \<and> b = 51 \<and> c = 100 \<or> a = 203 \<and> b = 0 \<and> c = 113 \<or> a div 16 = 14 \<or> a div 16 = 15"
    unfolding blocked_V4 by (simp add: in_quads [OF assms(2-4)] del: in_network.simps)
  then show ?thesis by (simp only: a b special4_def)
qed

text \<open>A version-6 address that embeds a version-4 one is compared with version-6 networks only.\<close>

lemma mapped_address_not_blocked:
  assumes "n < 2 ^ 32"
  shows "\<not> blocked (V6 (0xffff * 2 ^ 32 + n))"
  unfolding blocked_V6 using assms by (simp add: div_range)

section \<open>Correctness\<close>

lemma resolve_untrusted:
  assumes "\<not> trusted_proxy (direct_address r) (trusted_list c)"
  shows "resolve_client_ip c r = direct_address r"
  using assms by (simp add: resolve_client_ip_def)

text \<open>
  C10: A client cannot choose its identity. When the peer is not a trusted proxy, the identity is
  the keyed digest of the peer's own address: two requests from one peer that differ in any headers
  have the same identity, and asking again within a request gives the same answer.
\<close>

theorem client_identity_not_spoofable:
  assumes "\<not> trusted_proxy (direct_address r) (trusted_list c)" "client_identity r = None"
  shows "fst (get_current_client digest c r) = (''ip'', digest (ip_fingerprint_secret c) (direct_address r))
    \<and> fst (get_current_client digest c (r\<lparr>request_headers := hs\<rparr>)) = fst (get_current_client digest c r)
    \<and> (let (client, r') = get_current_client digest c r in get_current_client digest c r' = (client, r'))"
proof -
  have d: "direct_address (r\<lparr>request_headers := hs\<rparr>) = direct_address r"
    by (simp add: direct_address_def)
  then have "resolve_client_ip c (r\<lparr>request_headers := hs\<rparr>) = direct_address r"
    using assms(1) resolve_untrusted by metis
  then show ?thesis
    using assms by (simp add: get_current_client_def fingerprint_ip_def resolve_untrusted Let_def)
qed

theorem client_identity_not_spoofable_witness:
  "fst (get_current_client (\<lambda>k t. k @ t) (default_settings [] [] [] ''key'')
     \<lparr>peer = Some ''203.0.113.9'', request_headers = [(''x-forwarded-for'', ''127.0.0.1'')], client_identity = None\<rparr>)
   = (''ip'', ''key203.0.113.9'')"
proof -
  let ?r = "\<lparr>peer = Some ''203.0.113.9'', request_headers = [(''x-forwarded-for'', ''127.0.0.1'')], client_identity = None\<rparr>"
  have "trusted_list (default_settings [] [] [] ''key'') = [''127.0.0.1'']"
    by (simp add: trusted_list_def strip_def rstrip_def is_space_def)
  moreover have "ip_address ''203.0.113.9'' = Some (V4 (octets 203 0 113 9))" "ip_network ''127.0.0.1'' = Some (Net4 (octets 127 0 0 1) 32)"
    by (simp_all add: ip_text_defs ip_address_def octets_def)
  ultimately have "\<not> trusted_proxy (direct_address ?r) (trusted_list (default_settings [] [] [] ''key''))"
    by (simp add: trusted_proxy_def direct_address_def octets_def)
  from client_identity_not_spoofable [OF this] show ?thesis by (simp add: direct_address_def)
qed



end
