(* ===== verification/Transport.thy ===== *)
theory Transport
  imports Valkey Settings
begin

text \<open>
  The HTTP transport of the providers (\<open>src/providers/transport.py\<close>): reading a response under a size
  limit, falling back from the proxy to the direct client, retrying transient failures, and the
  circuit breaker kept in Valkey. Clients are numbered, the proxy first; sending a request through
  one is a parameter, as the service is.
\<close>

section \<open>Exceptions of the HTTP client\<close>

definition connect_errors :: "string list" where
  "connect_errors = [''ConnectError'', ''ConnectTimeout'', ''ProxyError'']"

text \<open>\<open>TimeoutException\<close> and \<open>NetworkError\<close> with their subclasses, and \<open>RemoteProtocolError\<close>.\<close>

definition transient_errors :: "string list" where
  "transient_errors = [''ConnectTimeout'', ''ReadTimeout'', ''WriteTimeout'', ''PoolTimeout'',
     ''ConnectError'', ''ReadError'', ''WriteError'', ''CloseError'', ''RemoteProtocolError'']"

fun is_connect_error :: "exn \<Rightarrow> bool" where
  "is_connect_error (OtherError n) \<longleftrightarrow> n \<in> set connect_errors"
| "is_connect_error _ \<longleftrightarrow> False"

fun retryable :: "exn \<Rightarrow> bool" where
  "retryable (OtherError n) \<longleftrightarrow> n \<in> set transient_errors"
| "retryable (ProviderUnavailableError _) \<longleftrightarrow> True"
| "retryable _ \<longleftrightarrow> False"

fun final_failure :: "exn \<Rightarrow> bool" where
  "final_failure (ProviderQuotaError _) \<longleftrightarrow> True"
| "final_failure (ProviderRequestError _) \<longleftrightarrow> True"
| "final_failure _ \<longleftrightarrow> False"

section \<open>Reading a response\<close>

text \<open>
  A response has a status, perhaps a \<open>Content-Length\<close>, and a body that comes in chunks and may break
  off with an exception.
\<close>

record response =
  resp_status :: int
  content_length :: "string option"
  chunks :: "string list"
  broken :: "exn option"

record transport =
  provider_id :: string
  maximum_response_bytes :: nat
  n_clients :: nat

text \<open>\<open>__init__\<close>: the proxy, when there is one, comes before the direct client.\<close>

definition ProviderTransport :: "settings \<Rightarrow> string \<Rightarrow> nat \<Rightarrow> transport" where
  "ProviderTransport cfg pid maximum = \<lparr>provider_id = pid, maximum_response_bytes = maximum,
     n_clients = (if truthy (http_proxy cfg) then 2 else 1)\<rparr>"

fun read_chunks :: "nat \<Rightarrow> string \<Rightarrow> string \<Rightarrow> string list \<Rightarrow> exn option \<Rightarrow> exn + string" where
  "read_chunks maximum pid buffer [] end = (case end of Some e \<Rightarrow> Inl e | None \<Rightarrow> Inr buffer)"
| "read_chunks maximum pid buffer (c # cs) end =
     (if maximum < length (buffer @ c) then Inl (ProviderResponseTooLargeError pid)
      else read_chunks maximum pid (buffer @ c) cs end)"

definition read_response :: "transport \<Rightarrow> response \<Rightarrow> exn + string" where
  "read_response T r =
     (let status = resp_status r; pid = provider_id T in
      if status = 429 then Inl (ProviderQuotaError (''Provider quota exceeded: '' @ pid))
      else if 500 \<le> status then
        Inl (ProviderUnavailableError (''Provider temporarily failed: '' @ pid @ '' ('' @ show_int status @ '')''))
      else if 400 \<le> status then
        Inl (ProviderRequestError (''Provider rejected request: '' @ pid @ '' ('' @ show_int status @ '')''))
      else (case content_length r of
          None \<Rightarrow> read_chunks (maximum_response_bytes T) pid [] (chunks r) (broken r)
        | Some l \<Rightarrow>
            if l = [] then read_chunks (maximum_response_bytes T) pid [] (chunks r) (broken r)
            else (case parse_int l of
                None \<Rightarrow> Inl (ValueError ''invalid literal for int()'')
              | Some n \<Rightarrow> if int (maximum_response_bytes T) < n then Inl (ProviderResponseTooLargeError pid)
                  else read_chunks (maximum_response_bytes T) pid [] (chunks r) (broken r))))"

text \<open>\<open>http i\<close> sends the request through client \<open>i\<close>.\<close>

type_synonym 's http = "nat \<Rightarrow> ('s, response) io"

definition read_client :: "'s http \<Rightarrow> transport \<Rightarrow> nat \<Rightarrow> ('s, string) io" where
  "read_client http T i = bindc (http i) (\<lambda>r s. (read_response T r, s))"

text \<open>\<open>n\<close> clients are left; the last one's failure is final.\<close>

fun read_from :: "'s http \<Rightarrow> transport \<Rightarrow> nat \<Rightarrow> ('s, string) io" where
  "read_from http T 0 s = (Inl (ProviderUnavailableError (''No transport configured: '' @ provider_id T)), s)"
| "read_from http T (Suc n) s =
     (case read_client http T (n_clients T - Suc n) s of
        (Inr body, s') \<Rightarrow> (Inr body, s')
      | (Inl e, s') \<Rightarrow> if is_connect_error e \<and> n \<noteq> 0 then read_from http T n s' else (Inl e, s'))"

definition read_with_fallback :: "'s http \<Rightarrow> transport \<Rightarrow> ('s, string) io" where
  "read_with_fallback http T = read_from http T (n_clients T)"

section \<open>The circuit breaker\<close>

definition CIRCUIT_FAILURE_THRESHOLD :: int where "CIRCUIT_FAILURE_THRESHOLD = 5"
definition CIRCUIT_FAILURE_WINDOW_SECONDS :: nat where "CIRCUIT_FAILURE_WINDOW_SECONDS = 300"
definition CIRCUIT_OPEN_SECONDS :: nat where "CIRCUIT_OPEN_SECONDS = 600"

definition failures_key :: "string \<Rightarrow> string" where
  "failures_key pid = ''provider:'' @ pid @ '':failures''"

definition circuit_key :: "string \<Rightarrow> string" where
  "circuit_key pid = ''provider:'' @ pid @ '':circuit-open''"

definition count_failure :: "'s valkey \<Rightarrow> nat \<Rightarrow> string \<Rightarrow> ('s, unit) io" where
  "count_failure V t pid =
     bindc (vk_incr V t (failures_key pid)) (\<lambda>failures.
     bindc (if failures = 1 then vk_expire V t (failures_key pid) CIRCUIT_FAILURE_WINDOW_SECONDS else ret ())
       (\<lambda>_. if failures \<ge> CIRCUIT_FAILURE_THRESHOLD
            then bindc (vk_set V t (circuit_key pid) ''1'' (Some CIRCUIT_OPEN_SECONDS) False) (\<lambda>_. ret ())
            else ret ()))"

definition record_failure :: "'s valkey \<Rightarrow> nat \<Rightarrow> string \<Rightarrow> ('s, unit) io" where
  "record_failure V t pid = catchc (count_failure V t pid) (\<lambda>_. ret ())"

definition clear_failures :: "'s valkey \<Rightarrow> nat \<Rightarrow> string \<Rightarrow> ('s, unit) io" where
  "clear_failures V t pid = catchc (vk_delete V t [failures_key pid]) (\<lambda>_. ret ())"

definition circuit_is_open :: "'s valkey \<Rightarrow> nat \<Rightarrow> string \<Rightarrow> ('s, bool) io" where
  "circuit_is_open V t pid = catchc (vk_exists V t (circuit_key pid)) (\<lambda>_. ret False)"

section \<open>Requests\<close>

text \<open>\<open>clock k\<close> is the service's clock when attempt \<open>k\<close> ends; between attempts the code sleeps.\<close>

definition retry_sleep :: "nat \<Rightarrow> nat" where
  "retry_sleep attempt = 500 * 2 ^ attempt"

fun attempt_from :: "'s valkey \<Rightarrow> 's http \<Rightarrow> transport \<Rightarrow> (nat \<Rightarrow> nat) \<Rightarrow> nat \<Rightarrow> ('s, string) io" where
  "attempt_from V http T clock 0 s =
     (Inl (ProviderUnavailableError (''Provider request failed: '' @ provider_id T)), s)"
| "attempt_from V http T clock (Suc left) s =
     (let t = clock (2 - left) in
      case bindc (read_with_fallback http T)
             (\<lambda>body. bindc (clear_failures V t (provider_id T)) (\<lambda>_. ret body)) s of
        (Inr body, s') \<Rightarrow> (Inr body, s')
      | (Inl e, s') \<Rightarrow>
          if retryable e then
            (if left = 0 then bindc (record_failure V t (provider_id T)) (\<lambda>_. throw e) s'
             else attempt_from V http T clock left s')
          else if final_failure e then bindc (record_failure V t (provider_id T)) (\<lambda>_. throw e) s'
          else (Inl e, s'))"

definition get_bytes :: "'s valkey \<Rightarrow> 's http \<Rightarrow> transport \<Rightarrow> nat \<Rightarrow> (nat \<Rightarrow> nat) \<Rightarrow> ('s, string) io" where
  "get_bytes V http T t0 clock =
     bindc (circuit_is_open V t0 (provider_id T)) (\<lambda>open.
       if open then throw (ProviderUnavailableError (''Provider circuit is open: '' @ provider_id T))
       else attempt_from V http T clock 3)"

definition get_json ::
  "(string \<Rightarrow> exn + 'j) \<Rightarrow> 's valkey \<Rightarrow> 's http \<Rightarrow> transport \<Rightarrow> nat \<Rightarrow> (nat \<Rightarrow> nat) \<Rightarrow> ('s, 'j) io" where
  "get_json orjson_loads V http T t0 clock = bindc (get_bytes V http T t0 clock) (\<lambda>b s. (orjson_loads b, s))"

section \<open>Reading is bounded\<close>

lemma read_chunks_bound:
  "read_chunks maximum pid buffer cs end = Inr b \<Longrightarrow> length buffer \<le> maximum \<Longrightarrow>
     length b \<le> maximum \<and> b = buffer @ concat cs \<and> end = None"
proof (induction cs arbitrary: buffer)
  case (Cons c cs)
  from Cons.prems have "\<not> maximum < length (buffer @ c)" by (simp split: if_splits)
  with Cons.IH [of "buffer @ c"] Cons.prems show ?case by auto
qed (auto split: option.splits)

lemma read_response_bound:
  "read_response T r = Inr b \<Longrightarrow> length b \<le> maximum_response_bytes T \<and> b = concat (chunks r)
     \<and> resp_status r < 400 \<and> broken r = None"
  by (auto simp: read_response_def Let_def dest!: read_chunks_bound split: if_splits option.splits)

lemma read_client_bound:
  "read_client http T i s = (Inr b, s') \<Longrightarrow> \<exists>r. read_response T r = Inr b"
  by (auto simp: read_client_def elim!: bindc_InrE)

lemma read_from_bound:
  "read_from http T n s = (Inr b, s') \<Longrightarrow> \<exists>r. read_response T r = Inr b"
  by (induction http T n s rule: read_from.induct)
     (auto split: prod.splits sum.splits if_splits dest: read_client_bound)

lemma attempt_from_Inr:
  "attempt_from V http T clock n s = (Inr b, s') \<Longrightarrow> \<exists>r. read_response T r = Inr b"
proof (induction V http T clock n s rule: attempt_from.induct)
  case (2 V http T clock left s)
  let ?m = "bindc (read_with_fallback http T)
    (\<lambda>body. bindc (clear_failures V (clock (2 - left)) (provider_id T)) (\<lambda>_. ret body))"
  obtain x s1 where m: "?m s = (x, s1)" by (cases "?m s")
  show ?case
  proof (cases x)
    case (Inr b')
    with m obtain s2 where "read_with_fallback http T s = (Inr b', s2)"
      by (auto elim!: bindc_InrE)
    moreover from m Inr "2.prems" have "b' = b" by simp
    ultimately show ?thesis by (auto simp: read_with_fallback_def dest: read_from_bound)
  next
    case (Inl e)
    with m "2.prems" "2.IH" [OF refl m [symmetric] Inl] show ?thesis
      by (auto simp: Let_def split: if_splits elim!: bindc_InrE)
  qed
qed simp

section \<open>Errors are the provider's\<close>

text \<open>Exceptions of the service never surface: a circuit command that fails counts as no circuit.\<close>

lemma polite_circuit: "polite (record_failure V t pid)" "polite (clear_failures V t pid)"
  "polite (circuit_is_open V t pid)"
  unfolding record_failure_def clear_failures_def circuit_is_open_def by (rule polite_catch)+

section \<open>Opening the circuit\<close>

definition failed :: "nat \<Rightarrow> nat \<Rightarrow> nat \<Rightarrow> string \<Rightarrow> kv \<Rightarrow> bool" where
  "failed n t0 t pid m \<longleftrightarrow>
     m (failures_key pid) = Some \<lparr>payload = VStr (show_int (int n)),
        expires = Some (deadline t0 CIRCUIT_FAILURE_WINDOW_SECONDS)\<rparr>
   \<and> (CIRCUIT_FAILURE_THRESHOLD \<le> int n \<longrightarrow> m (circuit_key pid) =
        Some \<lparr>payload = VStr ''1'', expires = Some (deadline t CIRCUIT_OPEN_SECONDS)\<rparr>)"

lemma keys_differ [simp]: "failures_key pid \<noteq> circuit_key pid" "circuit_key pid \<noteq> failures_key pid"
  by (simp_all add: failures_key_def circuit_key_def)

lemma count_first:
  assumes "peek t (failures_key pid) m = None"
  shows "\<exists>m'. count_failure doc_valkey t pid m = (Inr (), m') \<and> failed 1 t t pid m'"
  using assms by (simp add: count_failure_def bindc_apply doc_incr_def doc_expire_def
      CIRCUIT_FAILURE_THRESHOLD_def failed_def)

lemma count_next:
  assumes "failed n t0 t' pid m" "t < deadline t0 CIRCUIT_FAILURE_WINDOW_SECONDS" "1 \<le> n" "int n + 1 < 2 ^ 63"
  shows "\<exists>m'. count_failure doc_valkey t pid m = (Inr (), m') \<and> failed (Suc n) t0 t pid m'"
proof -
  from assms(1,2) have "peek t (failures_key pid) m = Some \<lparr>payload = VStr (show_int (int n)),
      expires = Some (deadline t0 CIRCUIT_FAILURE_WINDOW_SECONDS)\<rparr>"
    by (simp add: failed_def peek_Some)
  with assms(3,4) show ?thesis
    by (simp add: count_failure_def bindc_apply doc_incr_def doc_set_def failed_def
        CIRCUIT_FAILURE_THRESHOLD_def CIRCUIT_OPEN_SECONDS_def add.commute)
qed

text \<open>Failures recorded one after the other.\<close>

fun record_failures :: "'s valkey \<Rightarrow> string \<Rightarrow> nat list \<Rightarrow> 's \<Rightarrow> 's" where
  "record_failures V pid [] s = s"
| "record_failures V pid (t # ts) s = record_failures V pid ts (snd (record_failure V t pid s))"

context valkey_up
begin

lemma count_failure_impl: "impl view (count_failure V t pid) (count_failure doc_valkey t pid)"
  unfolding count_failure_def by (auto intro!: impl_bindc)

lemma record_first:
  assumes "peek t (failures_key pid) (view s) = None"
  shows "failed 1 t t pid (view (snd (record_failure V t pid s)))"
proof -
  from count_first [OF assms] obtain m' where
    m': "count_failure doc_valkey t pid (view s) = (Inr (), m')" "failed 1 t t pid m'" by blast
  obtain s' where "count_failure V t pid s = (Inr (), s')" "view s' = m'"
    by (rule implE [OF count_failure_impl m'(1)])
  with m'(2) show ?thesis by (simp add: record_failure_def catchc_Inr)
qed

lemma record_next:
  assumes "failed n t0 t' pid (view s)" "t < deadline t0 CIRCUIT_FAILURE_WINDOW_SECONDS" "1 \<le> n"
    "int n + 1 < 2 ^ 63"
  shows "failed (Suc n) t0 t pid (view (snd (record_failure V t pid s)))"
proof -
  from count_next [OF assms] obtain m' where
    m': "count_failure doc_valkey t pid (view s) = (Inr (), m')" "failed (Suc n) t0 t pid m'" by blast
  obtain s' where "count_failure V t pid s = (Inr (), s')" "view s' = m'"
    by (rule implE [OF count_failure_impl m'(1)])
  with m'(2) show ?thesis by (simp add: record_failure_def catchc_Inr)
qed

lemma record_failures_from:
  assumes "failed n t0 t' pid (view s)" "1 \<le> n" "\<forall>t\<in>set ts. t < deadline t0 CIRCUIT_FAILURE_WINDOW_SECONDS"
    "int n + int (length ts) < 2 ^ 63"
  shows "failed (n + length ts) t0 (last (t' # ts)) pid (view (record_failures V pid ts s))"
  using assms
proof (induction ts arbitrary: n t' s)
  case Nil
  then show ?case by simp
next
  case (Cons t ts)
  have "failed (Suc n) t0 t pid (view (snd (record_failure V t pid s)))"
    by (rule record_next [OF Cons.prems(1)]) (use Cons.prems(2-4) in auto)
  from Cons.IH [OF this] Cons.prems(2-4) show ?case by simp
qed

lemma circuit_open_view:
  assumes "failed n t0 t' pid (view s)" "5 \<le> n" "t < deadline t' CIRCUIT_OPEN_SECONDS"
  shows "\<exists>s'. circuit_is_open V t pid s = (Inr True, s') \<and> view s' = view s"
proof -
  from assms have "doc_exists t (circuit_key pid) (view s) = (Inr True, view s)"
    by (simp add: failed_def CIRCUIT_FAILURE_THRESHOLD_def doc_exists_def peek_Some)
  then obtain s' where "vk_exists V t (circuit_key pid) s = (Inr True, s')" "view s' = view s"
    by (rule implE [OF exists_impl])
  then show ?thesis by (simp add: circuit_is_open_def catchc_Inr)
qed

end

section \<open>Correctness\<close>

text \<open>
  C12: The breaker opens. After five or more failures recorded within five minutes of the first,
  with no success between them, every request of the next ten minutes is refused at once: the error
  is that of an open circuit whatever the provider would answer, and no request is sent.
\<close>

theorem circuit_opens:
  assumes "valkey_up V view" "peek t1 (failures_key (provider_id T)) (view s) = None"
    and "\<forall>t\<in>set ts. t < t1 + 300000" "4 \<le> length ts" "length ts < 2 ^ 62"
    and "t < last (t1 # ts) + 600000"
  shows "\<exists>s'. get_bytes V http T t clock (record_failures V (provider_id T) (t1 # ts) s) =
      (Inl (ProviderUnavailableError (''Provider circuit is open: '' @ provider_id T)), s')
    \<and> view s' = view (record_failures V (provider_id T) (t1 # ts) s)"
proof -
  let ?pid = "provider_id T" and ?s = "record_failures V (provider_id T) (t1 # ts) s"
  have "failed (1 + length ts) t1 (last (t1 # ts)) ?pid (view ?s)"
    using valkey_up.record_failures_from [OF assms(1) valkey_up.record_first [OF assms(1,2)], of ts] assms(3,5)
    by (simp add: deadline_def CIRCUIT_FAILURE_WINDOW_SECONDS_def)
  from valkey_up.circuit_open_view [OF assms(1) this, of t] assms(4,6)
  obtain s' where "circuit_is_open V t ?pid ?s = (Inr True, s')" "view s' = view ?s"
    by (auto simp: deadline_def CIRCUIT_OPEN_SECONDS_def)
  then show ?thesis by (simp add: get_bytes_def bindc_apply)
qed

theorem circuit_opens_witness:
  "\<exists>s'. get_bytes doc_valkey (\<lambda>_. throw TimeoutError) \<lparr>provider_id = ''p'', maximum_response_bytes = 9, n_clients = 1\<rparr> 500000 (\<lambda>_. 0)
     (record_failures doc_valkey ''p'' [1, 2, 3, 4, 5] Map.empty) =
   (Inl (ProviderUnavailableError (''Provider circuit is open: '' @ ''p'')), s')"
  using circuit_opens [OF doc.valkey_up_axioms, of 1 "\<lparr>provider_id = ''p'', maximum_response_bytes = 9, n_clients = 1\<rparr>"
      Map.empty "[2, 3, 4, 5]" 500000 "\<lambda>_. throw TimeoutError" "\<lambda>_. 0"] by auto



text \<open>The error of a request is the error of a read, unless the task is cancelled.\<close>

lemma record_throw:
  assumes "bindc (record_failure V t pid) (\<lambda>_. throw e') s1 = (Inl e, s')"
  shows "e = e' \<or> e = CancelledError"
  using assms politeD [OF polite_circuit(1)]
  by (fastforce simp: bindc_apply split: prod.splits sum.splits)

lemma attempt_from_step:
  assumes a: "attempt_from V http T clock (Suc n) s = (Inl e, s')"
  obtains (read) s1 s2 where "read_with_fallback http T s1 = (Inl e, s2)"
    | (cancelled) "e = CancelledError"
    | (again) s1 where "n \<noteq> 0" "attempt_from V http T clock n s1 = (Inl e, s')"
proof -
  let ?m = "bindc (read_with_fallback http T)
    (\<lambda>body. bindc (clear_failures V (clock (2 - n)) (provider_id T)) (\<lambda>_. ret body))"
  obtain x s1 where m: "?m s = (x, s1)" by (cases "?m s")
  from a m obtain e' where x: "x = Inl e'" by (cases x) auto
  have source: "e' = CancelledError \<or> (\<exists>s1 s2. read_with_fallback http T s1 = (Inl e', s2))"
    using m x politeD [OF polite_circuit(2)]
    by (fastforce simp: bindc_apply split: prod.splits sum.splits)
  from a m x consider (1) "n \<noteq> 0" "attempt_from V http T clock n s1 = (Inl e, s')"
    | (2) "bindc (record_failure V (clock (2 - n)) (provider_id T)) (\<lambda>_. throw e') s1 =
        (Inl e :: exn + string, s')"
    | (3) "e' = e"
    by (auto simp: Let_def split: if_splits)
  then show thesis
  proof cases
    case 1
    then show thesis by (rule again)
  next
    case 2
    from record_throw [OF this] source show thesis by (auto intro: read cancelled)
  next
    case 3
    with source show thesis by (auto intro: read cancelled)
  qed
qed

lemma attempt_from_Inl:
  "attempt_from V http T clock (Suc n) s = (Inl e, s') \<Longrightarrow>
     e = CancelledError \<or> (\<exists>s1 s2. read_with_fallback http T s1 = (Inl e, s2))"
proof (induction n arbitrary: s)
  case 0
  then show ?case by (rule attempt_from_step) auto
next
  case (Suc n)
  from Suc.prems show ?case by (rule attempt_from_step) (use Suc.IH in blast)+
qed

text \<open>
  C31: The breaker never hides the provider's error. Whatever the service does, down or answering
  nonsense, a failing request reports the open circuit, the error that reading from the provider
  raised, or its own cancellation.
\<close>

theorem get_bytes_error:
  assumes "get_bytes V http T t0 clock s = (Inl e, s')"
  shows "e = ProviderUnavailableError (''Provider circuit is open: '' @ provider_id T) \<or> e = CancelledError
    \<or> (\<exists>s1 s2. read_with_fallback http T s1 = (Inl e, s2))"
proof -
  obtain x s1 where c: "circuit_is_open V t0 (provider_id T) s = (x, s1)"
    by (cases "circuit_is_open V t0 (provider_id T) s")
  show ?thesis
  proof (cases x)
    case (Inl e')
    with c politeD [OF polite_circuit(3)] assms show ?thesis
      by (fastforce simp: get_bytes_def bindc_apply)
  next
    case (Inr b)
    have three: "(3 :: nat) = Suc 2" by simp
    show ?thesis
    proof (cases b)
      case True
      with c Inr assms show ?thesis by (simp add: get_bytes_def bindc_apply)
    next
      case False
      with c Inr assms have "attempt_from V http T clock (Suc 2) s1 = (Inl e, s')"
        unfolding get_bytes_def three by (simp add: bindc_apply del: attempt_from.simps)
      from attempt_from_Inl [OF this] show ?thesis by blast
    qed
  qed
qed

theorem get_bytes_error_witness:
  "\<exists>s1 s2. read_with_fallback (\<lambda>_. throw (OtherError ''ReadError'')) \<lparr>provider_id = ''p'', maximum_response_bytes = 9, n_clients = 1\<rparr> s1 =
    (Inl (OtherError ''ReadError''), s2 :: kv)"
proof -
  let ?T = "\<lparr>provider_id = ''p'', maximum_response_bytes = 9, n_clients = 1\<rparr>"
  let ?V = "doc_valkey\<lparr>vk_incr := \<lambda>_ _. throw (OtherError ''ConnectionError''), vk_exists := \<lambda>_ _. throw (OtherError ''ConnectionError'')\<rparr>"
  have "get_bytes ?V (\<lambda>_. throw (OtherError ''ReadError'')) ?T 0 (\<lambda>_. 0) Map.empty = (Inl (OtherError ''ReadError''), Map.empty)"
    by (simp add: get_bytes_def circuit_is_open_def catchc_apply bindc_apply numeral_3_eq_3 is_Exception_def
        read_with_fallback_def read_client_def record_failure_def count_failure_def transient_errors_def connect_errors_def)
  from get_bytes_error [OF this] show ?thesis by simp
qed

end
