(* ===== verification/Spacetrack.thy ===== *)
theory Spacetrack
  imports Counters Settings
begin

text \<open>
  The Space-Track client (\<open>src/providers/spacetrack.py\<close>): the budget of requests per minute and per
  hour counted in Valkey, the login, and the cool-downs of the three queries. Sending a request is
  a parameter; a response has a status and, when it parses, its JSON.
\<close>

section \<open>The model\<close>

record 'j st_response =
  st_status :: int
  st_json :: "'j option"

record ('s, 'j) st_http =
  st_post :: "string \<Rightarrow> string \<Rightarrow> ('s, 'j st_response) io"
  st_query :: "string \<Rightarrow> ('s, 'j st_response) io"

text \<open>The client object is its flag \<open>_authenticated\<close>, kept beside the state of the services.\<close>

type_synonym 's st = "bool \<times> 's"

definition on_env :: "('s, 'a) io \<Rightarrow> ('s st, 'a) io" where
  "on_env m = (\<lambda>(auth, s). case m s of (r, s') \<Rightarrow> (r, (auth, s')))"

definition set_auth :: "('s st, unit) io" where
  "set_auth = (\<lambda>(_, s). (Inr (), (True, s)))"

definition is_auth :: "('s st, bool) io" where
  "is_auth = (\<lambda>(auth, s). (Inr auth, (auth, s)))"

definition min_key :: "nat \<Rightarrow> string" where
  "min_key w = ''upstream:spacetrack:global:min:'' @ show_int (int w)"

definition hr_key :: "nat \<Rightarrow> string" where
  "hr_key w = ''upstream:spacetrack:global:hr:'' @ show_int (int w)"

definition minute :: "nat \<Rightarrow> nat" where "minute t = t div 60000"
definition hour :: "nat \<Rightarrow> nat" where "hour t = t div 3600000"

definition budget_exhausted :: exn where
  "budget_exhausted = RuntimeError ''Space-Track upstream budget exhausted (30/min, 300/hr)''"

definition count_request :: "'s valkey \<Rightarrow> nat \<Rightarrow> ('s, int \<times> int) io" where
  "count_request V t =
     bindc (bump V t (min_key (minute t)) 120) (\<lambda>min_cnt.
     bindc (bump V t (hr_key (hour t)) 7200) (\<lambda>hr_cnt. ret (min_cnt, hr_cnt)))"

definition guard_global :: "'s valkey \<Rightarrow> nat \<Rightarrow> ('s, unit) io" where
  "guard_global V t =
     bindc (count_request V t) (\<lambda>(min_cnt, hr_cnt).
       if min_cnt > 29 \<or> hr_cnt > 299 then throw budget_exhausted else ret ())"

definition raise_for_status :: "'j st_response \<Rightarrow> ('s, unit) io" where
  "raise_for_status r = (if 200 \<le> st_status r \<and> st_status r < 300 then ret () else throw (OtherError ''HTTPStatusError''))"

definition authenticate :: "'s valkey \<Rightarrow> ('s, 'j) st_http \<Rightarrow> settings \<Rightarrow> nat \<Rightarrow> ('s st, unit) io" where
  "authenticate V H cfg t =
     (if \<not> truthy (space_track_identity cfg) \<or> \<not> truthy (space_track_password cfg)
      then throw (ValueError ''UTTG_SPACE_TRACK_IDENTITY / UTTG_SPACE_TRACK_PASSWORD not set'')
      else bindc (on_env (guard_global V t)) (\<lambda>_.
           bindc (on_env (st_post H (the (space_track_identity cfg)) (the (space_track_password cfg)))) (\<lambda>r.
           bindc (raise_for_status r) (\<lambda>_. set_auth))))"

definition st_get :: "'s valkey \<Rightarrow> ('s, 'j) st_http \<Rightarrow> settings \<Rightarrow> nat \<Rightarrow> string \<Rightarrow> ('s st, 'j) io" where
  "st_get V H cfg t path =
     bindc is_auth (\<lambda>auth.
     bindc (if auth then ret () else authenticate V H cfg t) (\<lambda>_.
     bindc (on_env (guard_global V t)) (\<lambda>_.
     bindc (on_env (st_query H (''/basicspacedata/query'' @ path))) (\<lambda>r.
     bindc (raise_for_status r) (\<lambda>_.
       case st_json r of None \<Rightarrow> throw (ValueError ''JSONDecodeError'') | Some j \<Rightarrow> ret j)))))"

text \<open>
  The three queries share their shape: refuse while the key of the cool-down is there, ask, and set
  the key. \<open>t\<close> is when the call starts, \<open>t'\<close> when the answer is there.
\<close>

definition with_cooldown ::
  "'s valkey \<Rightarrow> ('s, 'j) st_http \<Rightarrow> settings \<Rightarrow> nat \<Rightarrow> nat \<Rightarrow> string \<Rightarrow> nat \<Rightarrow> string \<Rightarrow> string \<Rightarrow> ('s st, 'j) io" where
  "with_cooldown V H cfg t t' lock seconds refusal path =
     bindc (on_env (vk_get V t lock)) (\<lambda>held.
       if truthy held then throw (RuntimeError refusal)
       else bindc (st_get V H cfg t path) (\<lambda>result.
            bindc (on_env (vk_set V t' lock ''1'' (Some seconds) False)) (\<lambda>_. ret result)))"

definition get_gp :: "'s valkey \<Rightarrow> ('s, 'j) st_http \<Rightarrow> settings \<Rightarrow> nat \<Rightarrow> nat \<Rightarrow> int \<Rightarrow> ('s st, 'j) io" where
  "get_gp V H cfg t t' norad_id =
     with_cooldown V H cfg t t' (''upstream:spacetrack:gp:'' @ show_int norad_id) 3600
       (''GP cooldown active for NORAD '' @ show_int norad_id @ '' (1/hr)'')
       (''/class/gp/NORAD_CAT_ID/'' @ show_int norad_id @
        ''/decay_date/null-val/epoch/>now-10/orderby/EPOCH%20desc/limit/1/format/json'')"

definition get_satcat :: "'s valkey \<Rightarrow> ('s, 'j) st_http \<Rightarrow> settings \<Rightarrow> nat \<Rightarrow> nat \<Rightarrow> ('s st, 'j) io" where
  "get_satcat V H cfg t t' =
     with_cooldown V H cfg t t' ''upstream:spacetrack:satcat:daily'' 86400
       ''SATCAT cooldown active (1/day)'' ''/class/satcat/orderby/NORAD_CAT_ID/format/json''"

definition get_decay :: "'s valkey \<Rightarrow> ('s, 'j) st_http \<Rightarrow> settings \<Rightarrow> nat \<Rightarrow> nat \<Rightarrow> ('s st, 'j) io" where
  "get_decay V H cfg t t' =
     with_cooldown V H cfg t t' ''upstream:spacetrack:decay:weekly'' 604800
       ''Decay cooldown active (1/week)'' ''/class/decay/MSG_EPOCH/>now-8/source/60day_msg/format/json''"

section \<open>The budget\<close>

text \<open>A run of the guard, and which of its requests pass.\<close>

fun guard_run :: "'s valkey \<Rightarrow> nat list \<Rightarrow> 's \<Rightarrow> bool list" where
  "guard_run V [] s = []"
| "guard_run V (t # ts) s = (case guard_global V t s of (r, s') \<Rightarrow> (r = Inr ()) # guard_run V ts s')"

text \<open>The specification counts the requests of the minute and of the hour, refused ones included.\<close>

fun budget_spec :: "(nat \<Rightarrow> nat) \<Rightarrow> (nat \<Rightarrow> nat) \<Rightarrow> nat list \<Rightarrow> bool list" where
  "budget_spec sm sh [] = []"
| "budget_spec sm sh (t # ts) = (sm (minute t) < 29 \<and> sh (hour t) < 299)
     # budget_spec (sm(minute t := Suc (sm (minute t)))) (sh(hour t := Suc (sh (hour t)))) ts"

definition passes :: "(nat \<Rightarrow> nat) \<Rightarrow> nat \<Rightarrow> nat list \<Rightarrow> bool list \<Rightarrow> nat" where
  "passes f w ts ps = length (filter (\<lambda>(t, p). p \<and> f t = w) (zip ts ps))"

lemma passes_Nil [simp]: "passes f w [] [] = 0"
  by (simp add: passes_def)

lemma passes_Cons [simp]:
  "passes f w (t # ts) (p # ps) = (if p \<and> f t = w then Suc (passes f w ts ps) else passes f w ts ps)"
  by (simp add: passes_def)

lemma budget_spec_minute: "passes minute w ts (budget_spec sm sh ts) + min (sm w) 29 \<le> 29"
proof (induction ts arbitrary: sm sh)
  case Nil
  then show ?case by simp
next
  case (Cons t ts)
  define sm' where "sm' = sm(minute t := Suc (sm (minute t)))"
  define sh' where "sh' = sh(hour t := Suc (sh (hour t)))"
  have upd: "sm' w = (if w = minute t then Suc (sm w) else sm w)" by (simp add: sm'_def)
  have "passes minute w ts (budget_spec sm' sh' ts) + min (sm' w) 29 \<le> 29" by (rule Cons.IH)
  then show ?case
    unfolding budget_spec.simps passes_Cons sm'_def [symmetric] sh'_def [symmetric] upd
    by (auto split: if_splits)
qed

lemma budget_spec_hour: "passes hour w ts (budget_spec sm sh ts) + min (sh w) 299 \<le> 299"
proof (induction ts arbitrary: sm sh)
  case Nil
  then show ?case by simp
next
  case (Cons t ts)
  define sm' where "sm' = sm(minute t := Suc (sm (minute t)))"
  define sh' where "sh' = sh(hour t := Suc (sh (hour t)))"
  have upd: "sh' w = (if w = hour t then Suc (sh w) else sh w)" by (simp add: sh'_def)
  have "passes hour w ts (budget_spec sm' sh' ts) + min (sh' w) 299 \<le> 299" by (rule Cons.IH)
  then show ?case
    unfolding budget_spec.simps passes_Cons sm'_def [symmetric] sh'_def [symmetric] upd
    by (auto split: if_splits)
qed

definition budget_inv :: "nat \<Rightarrow> (nat \<Rightarrow> nat) \<Rightarrow> (nat \<Rightarrow> nat) \<Rightarrow> kv \<Rightarrow> bool" where
  "budget_inv t sm sh m \<longleftrightarrow>
     (\<forall>w \<ge> minute t. counter_ok t m (min_key w) (sm w) (60000 * Suc w))
   \<and> (\<forall>w \<ge> hour t. counter_ok t m (hr_key w) (sh w) (3600000 * Suc w))"

lemma keys_inject [simp]: "min_key v = min_key w \<longleftrightarrow> v = w" "hr_key v = hr_key w \<longleftrightarrow> v = w"
  "min_key v \<noteq> hr_key w" "hr_key w \<noteq> min_key v"
  by (simp_all add: min_key_def hr_key_def)

lemma budget_inv_later: "budget_inv t sm sh m \<Longrightarrow> t \<le> t' \<Longrightarrow> budget_inv t' sm sh m"
  unfolding budget_inv_def minute_def hour_def
  by (meson counter_ok_later div_le_mono order_trans)

lemma count_doc:
  assumes inv: "budget_inv t sm sh m" and small: "int (sm (minute t)) < 2 ^ 62" "int (sh (hour t)) < 2 ^ 62"
  obtains m' where "count_request doc_valkey t m = (Inr (int (sm (minute t)) + 1, int (sh (hour t)) + 1), m')"
    and "budget_inv t (sm(minute t := Suc (sm (minute t)))) (sh(hour t := Suc (sh (hour t)))) m'"
proof -
  let ?mk = "min_key (minute t)" and ?hk = "hr_key (hour t)"
  have wm: "t < 60000 * Suc (minute t)" "60000 * Suc (minute t) \<le> deadline t 120"
    by (simp_all add: minute_def deadline_def)
  have wh: "t < 3600000 * Suc (hour t)" "3600000 * Suc (hour t) \<le> deadline t 7200"
    by (simp_all add: hour_def deadline_def)
  from inv have "counter_ok t m ?mk (sm (minute t)) (60000 * Suc (minute t))" by (simp add: budget_inv_def)
  from bump_counter [OF this wm] small obtain e1 where
    b1: "bump doc_valkey t ?mk 120 m = (Inr (int (sm (minute t)) + 1), m(?mk \<mapsto> e1))"
    and c1: "counter_ok t (m(?mk \<mapsto> e1)) ?mk (Suc (sm (minute t))) (60000 * Suc (minute t))" by auto
  from inv have "counter_ok t (m(?mk \<mapsto> e1)) ?hk (sh (hour t)) (3600000 * Suc (hour t))"
    by (simp add: budget_inv_def counter_ok_other)
  from bump_counter [OF this wh] small obtain e2 where
    b2: "bump doc_valkey t ?hk 7200 (m(?mk \<mapsto> e1)) = (Inr (int (sh (hour t)) + 1), m(?mk \<mapsto> e1, ?hk \<mapsto> e2))"
    and c2: "counter_ok t (m(?mk \<mapsto> e1, ?hk \<mapsto> e2)) ?hk (Suc (sh (hour t))) (3600000 * Suc (hour t))" by auto
  show thesis
  proof (rule that)
    show "count_request doc_valkey t m =
        (Inr (int (sm (minute t)) + 1, int (sh (hour t)) + 1), m(?mk \<mapsto> e1, ?hk \<mapsto> e2))"
      by (simp add: count_request_def bindc_apply b1 b2)
    show "budget_inv t (sm(minute t := Suc (sm (minute t)))) (sh(hour t := Suc (sh (hour t)))) (m(?mk \<mapsto> e1, ?hk \<mapsto> e2))"
      using inv c1 c2 by (simp add: budget_inv_def counter_ok_other)
  qed
qed

context valkey_up
begin

lemma count_request_impl: "impl view (count_request V t) (count_request doc_valkey t)"
  unfolding count_request_def by (auto intro!: impl_bindc bump_impl)

lemma guard_step:
  assumes "budget_inv t sm sh (view s)" "int (sm (minute t)) < 2 ^ 62" "int (sh (hour t)) < 2 ^ 62"
  obtains s' where "guard_global V t s =
      (if sm (minute t) < 29 \<and> sh (hour t) < 299 then Inr () else Inl budget_exhausted, s')"
    and "budget_inv t (sm(minute t := Suc (sm (minute t)))) (sh(hour t := Suc (sh (hour t)))) (view s')"
proof -
  obtain m' where m': "count_request doc_valkey t (view s) =
      (Inr (int (sm (minute t)) + 1, int (sh (hour t)) + 1), m')"
    and inv: "budget_inv t (sm(minute t := Suc (sm (minute t)))) (sh(hour t := Suc (sh (hour t)))) m'"
    using count_doc [OF assms] by blast
  obtain s' where s': "count_request V t s = (Inr (int (sm (minute t)) + 1, int (sh (hour t)) + 1), s')"
    "view s' = m'"
    by (rule implE [OF count_request_impl m'])
  show thesis
  proof (rule that)
    show "guard_global V t s =
        (if sm (minute t) < 29 \<and> sh (hour t) < 299 then Inr () else Inl budget_exhausted, s')"
      using s'(1) by (auto simp: guard_global_def bindc_apply)
  qed (use inv s'(2) in simp)
qed

lemma guard_run_spec:
  assumes "budget_inv t0 sm sh (view s)" "sorted (t0 # ts)"
    "\<forall>w. int (sm w + length ts) < 2 ^ 62 \<and> int (sh w + length ts) < 2 ^ 62"
  shows "guard_run V ts s = budget_spec sm sh ts"
  using assms
proof (induction ts arbitrary: t0 sm sh s)
  case Nil
  then show ?case by simp
next
  case (Cons t ts)
  let ?sm = "sm(minute t := Suc (sm (minute t)))" and ?sh = "sh(hour t := Suc (sh (hour t)))"
  have inv: "budget_inv t sm sh (view s)" using Cons.prems(1,2) budget_inv_later by simp
  have "int (sm (minute t)) < 2 ^ 62" "int (sh (hour t)) < 2 ^ 62"
    using Cons.prems(3) [rule_format, of "minute t"] Cons.prems(3) [rule_format, of "hour t"] by auto
  from guard_step [OF inv this] obtain s' where s': "guard_global V t s =
      (if sm (minute t) < 29 \<and> sh (hour t) < 299 then Inr () else Inl budget_exhausted, s')"
    and inv': "budget_inv t ?sm ?sh (view s')" .
  have small: "\<forall>w. int (?sm w + length ts) < 2 ^ 62 \<and> int (?sh w + length ts) < 2 ^ 62"
  proof
    fix w
    from Cons.prems(3) have "int (sm w + length (t # ts)) < 2 ^ 62 \<and> int (sh w + length (t # ts)) < 2 ^ 62"
      by blast
    then show "int (?sm w + length ts) < 2 ^ 62 \<and> int (?sh w + length ts) < 2 ^ 62"
      by (cases "w = minute t"; cases "w = hour t") (simp_all only: fun_upd_same fun_upd_other list.size, simp_all)
  qed
  have "guard_run V ts s' = budget_spec ?sm ?sh ts"
    by (rule Cons.IH [OF inv' _ small]) (use Cons.prems(2) in simp)
  with s' show ?case by simp
qed

text \<open>A held cool-down refuses without asking.\<close>

lemma with_cooldown_held:
  assumes "view s lock = Some \<lparr>payload = VStr ''1'', expires = Some x\<rparr>" "t < x"
  shows "\<exists>s'. with_cooldown V H cfg t t' lock seconds refusal path (auth, s) =
      (Inl (RuntimeError refusal), (auth, s')) \<and> view s' = view s"
proof -
  from assms have "peek t lock (view s) = Some \<lparr>payload = VStr ''1'', expires = Some x\<rparr>"
    by (simp add: peek_Some)
  then have "doc_get t lock (view s) = (Inr (Some ''1''), view s)"
    by (simp add: doc_get_def)
  from implE [OF get_impl this] obtain s' where
    "vk_get V t lock s = (Inr (Some ''1''), s')" "view s' = view s" .
  then show ?thesis by (simp add: with_cooldown_def bindc_apply on_env_def truthy_def)
qed

end

context valkey_service
begin

text \<open>A query that succeeds leaves its cool-down behind.\<close>

lemma with_cooldown_sets:
  assumes "with_cooldown V H cfg t t' lock seconds refusal path (auth, s) = (Inr j, (auth', s'))" "seconds \<noteq> 0"
  shows "view s' lock = Some \<lparr>payload = VStr ''1'', expires = Some (deadline t' seconds)\<rparr>"
proof -
  from assms(1) obtain r1 st1 where "(if truthy r1 then throw (RuntimeError refusal)
       else bindc (st_get V H cfg t path) (\<lambda>result.
            bindc (on_env (vk_set V t' lock ''1'' (Some seconds) False)) (\<lambda>_. ret result))) st1 = (Inr j, (auth', s'))"
    unfolding with_cooldown_def by (rule bindc_InrE)
  then obtain st2 b where "on_env (vk_set V t' lock ''1'' (Some seconds) False) st2 = (Inr b, (auth', s'))"
    by (auto split: if_splits elim!: bindc_InrE)
  then obtain a s2 where "vk_set V t' lock ''1'' (Some seconds) False s2 = (Inr b, s')"
    by (cases st2) (auto simp: on_env_def split: prod.splits)
  from simD [OF set_sim this] assms(2)
  have "(view s2)(lock \<mapsto> \<lparr>payload = VStr ''1'', expires = Some (deadline t' seconds)\<rparr>) = view s'"
    by (auto simp: doc_set_def)
  then show ?thesis by (metis fun_upd_same)
qed

end

section \<open>Correctness\<close>

text \<open>
  C13: The terms of service are kept. However requests are spread over time and over the processes
  sharing the counters, the guard lets at most 29 pass in any minute and at most 299 in any hour.
\<close>

theorem spacetrack_budget:
  assumes "valkey_up V view" "sorted ts" "int (length ts) < 2 ^ 62"
    and "\<forall>w. peek 0 (min_key w) (view s) = None \<and> peek 0 (hr_key w) (view s) = None"
  shows "passes minute w ts (guard_run V ts s) \<le> 29 \<and> passes hour w' ts (guard_run V ts s) \<le> 299"
proof -
  have "budget_inv 0 (\<lambda>_. 0) (\<lambda>_. 0) (view s)"
    using assms(4) by (simp add: budget_inv_def counter_ok_def)
  then have "guard_run V ts s = budget_spec (\<lambda>_. 0) (\<lambda>_. 0) ts"
    by (rule valkey_up.guard_run_spec [OF assms(1)]) (use assms(2,3) in auto)
  then show ?thesis
    using budget_spec_minute [of w ts "\<lambda>_. 0" "\<lambda>_. 0"] budget_spec_hour [of w' ts "\<lambda>_. 0" "\<lambda>_. 0"] by simp
qed

theorem spacetrack_budget_witness:
  "passes minute 0 (replicate 40 7) (guard_run doc_valkey (replicate 40 7) Map.empty) \<le> 29"
  using spacetrack_budget [OF doc.valkey_up_axioms, of "replicate 40 7" Map.empty 0 0] by simp

text \<open>
  C32: A query that succeeded is not repeated before its cool-down is over: another call, by
  any client, within the hour, the day or the week is refused without counting against the budget
  and without any request.
\<close>

theorem spacetrack_cooldown:
  assumes "valkey_up V view" "seconds \<noteq> 0"
    and "with_cooldown V H cfg t t' lock seconds refusal path (auth, s) = (Inr j, (auth', s'))"
    and "u < t' + 1000 * seconds"
  shows "\<exists>s''. with_cooldown V H' cfg' u u' lock seconds refusal path' (auth'', s') =
      (Inl (RuntimeError refusal), (auth'', s'')) \<and> view s'' = view s'"
proof -
  have "valkey_service V view" using assms(1) by (simp add: valkey_up_def)
  from valkey_service.with_cooldown_sets [OF this assms(3,2)]
  have "view s' lock = Some \<lparr>payload = VStr ''1'', expires = Some (deadline t' seconds)\<rparr>" .
  from valkey_up.with_cooldown_held [OF assms(1) this] assms(4) show ?thesis
    by (simp add: deadline_def)
qed

definition answering :: "(kv, int) st_http" where
  "answering = \<lparr>st_post = \<lambda>_ _. ret \<lparr>st_status = 200, st_json = None\<rparr>,
     st_query = \<lambda>_. ret \<lparr>st_status = 200, st_json = Some 7\<rparr>\<rparr>"

theorem spacetrack_cooldown_witness:
  "\<exists>s' s''. get_satcat doc_valkey answering (default_settings [] [] [] []) 0 100 (True, Map.empty) = (Inr 7, (True, s'))
    \<and> get_satcat doc_valkey answering (default_settings [] [] [] []) 80000000 80000100 (False, s') =
      (Inl (RuntimeError ''SATCAT cooldown active (1/day)''), (False, s''))"
proof -
  obtain s' where s': "get_satcat doc_valkey answering (default_settings [] [] [] []) 0 100 (True, Map.empty) = (Inr 7, (True, s'))"
    by (auto simp: get_satcat_def with_cooldown_def bindc_apply on_env_def doc_get_def truthy_def st_get_def
        is_auth_def guard_global_def count_request_def bump_def doc_incr_def doc_expire_def answering_def
        raise_for_status_def doc_set_def min_key_def hr_key_def)
  from spacetrack_cooldown [OF doc.valkey_up_axioms _ s' [unfolded get_satcat_def], of 80000000 answering
      "default_settings [] [] [] []" 80000100 _ False] s'
  show ?thesis by (simp add: get_satcat_def)
qed

end
