(* ===== verification/Pyvalue.thy ===== *)
theory Pyvalue
  imports Json "HOL-Library.AList"
begin

text \<open>
  The values the provider clients (\<open>src/providers\<close>) and the ingestion jobs take apart: Python's
  \<open>float\<close>, its conversion from text and numbers, \<open>str\<close>, truth values and \<open>dict.get\<close> on decoded JSON.
  A finite float is the rational number it denotes, and operations round to the nearest double with
  ties to even; the sign of zero is not kept.
\<close>

section \<open>Results that may be an exception\<close>

definition bindr :: "exn + 'a \<Rightarrow> ('a \<Rightarrow> exn + 'b) \<Rightarrow> exn + 'b" where
  "bindr r f = (case r of Inl e \<Rightarrow> Inl e | Inr a \<Rightarrow> f a)"

lemma bindr_simps [simp]: "bindr (Inl e) f = Inl e" "bindr (Inr a) f = f a"
  by (simp_all add: bindr_def)

lemma bindr_Inr: "bindr r f = Inr b \<longleftrightarrow> (\<exists>a. r = Inr a \<and> f a = Inr b)"
  by (cases r) auto

lemma bindr_InrE:
  assumes "bindr r f = Inr b"
  obtains a where "r = Inr a" "f a = Inr b"
  using assms by (auto simp: bindr_Inr)

text \<open>
  A loop that appends what its body makes of each record; \<open>None\<close> is \<open>continue\<close>, an exception ends it.
\<close>

fun collect :: "('a \<Rightarrow> exn + 'b option) \<Rightarrow> 'a list \<Rightarrow> exn + 'b list" where
  "collect f [] = Inr []"
| "collect f (x # xs) = bindr (f x) (\<lambda>y. bindr (collect f xs) (\<lambda>ys.
     Inr (case y of None \<Rightarrow> ys | Some b \<Rightarrow> b # ys)))"

lemma collect_mem: "collect f xs = Inr ys \<Longrightarrow> y \<in> set ys \<Longrightarrow> \<exists>x\<in>set xs. f x = Inr (Some y)"
  by (induction xs arbitrary: ys) (auto simp: bindr_Inr split: option.splits)

definition results :: "('a \<Rightarrow> exn + 'b option) \<Rightarrow> 'a list \<Rightarrow> 'b list" where
  "results f xs = List.map_filter (\<lambda>x. case f x of Inl e \<Rightarrow> None | Inr y \<Rightarrow> y) xs"

lemma collect_results: "collect f xs = Inr ys \<Longrightarrow> results f xs = ys"
  by (induction xs arbitrary: ys) (auto simp: bindr_Inr results_def map_filter_def split: option.splits)

lemma set_results: "b \<in> set (results f xs) \<longleftrightarrow> (\<exists>x\<in>set xs. f x = Inr (Some b))"
  by (force simp: results_def map_filter_def split: sum.splits option.splits)

lemma results_simps [simp]:
  "results f [] = []"
  "results f (x # xs) = (case f x of Inr (Some b) \<Rightarrow> b # results f xs | _ \<Rightarrow> results f xs)"
  by (auto simp: results_def map_filter_def split: sum.splits option.splits)

lemma collect_total: "(\<And>x. x \<in> set xs \<Longrightarrow> \<exists>y. f x = Inr y) \<Longrightarrow> collect f xs = Inr (results f xs)"
proof (induction xs)
  case (Cons x xs)
  from Cons.prems [of x] obtain y where "f x = Inr y" by auto
  with Cons show ?case by (cases y) auto
qed simp

lemma collect_length: "collect f xs = Inr ys \<Longrightarrow> length ys \<le> length xs"
  by (induction xs arbitrary: ys) (auto simp: bindr_Inr le_SucI split: option.splits)

lemma collect_complete: "collect f xs = Inr ys \<Longrightarrow> x \<in> set xs \<Longrightarrow>
    (\<exists>y. f x = Inr y \<and> (\<forall>b. y = Some b \<longrightarrow> b \<in> set ys))"
  by (induction xs arbitrary: ys) (fastforce simp: bindr_Inr split: option.splits)+

text \<open>
  \<open>d[k] = v\<close> for each pair in turn: a dictionary keeps the place of a key and its last value.
\<close>

definition index_by :: "('k \<times> 'v) list \<Rightarrow> ('k \<times> 'v) list" where
  "index_by kvs = fold (\<lambda>(k, v). AList.update k v) kvs []"

lemma index_by_snoc: "index_by (kvs @ [(k, v)]) = AList.update k v (index_by kvs)"
  by (simp add: index_by_def)

lemma map_of_index_by: "map_of (index_by kvs) = map_of (rev kvs)"
  by (induction kvs rule: rev_induct) (auto simp: index_by_snoc update_conv' index_by_def [of "[]"])

lemma keys_index_by: "fst ` set (index_by kvs) = fst ` set kvs"
  by (metis dom_map_of_conv_image_fst map_of_index_by set_rev)

lemma distinct_index_by: "distinct (map fst (index_by kvs))"
  by (induction kvs rule: rev_induct) (auto simp: index_by_snoc distinct_update index_by_def [of "[]"])

lemma set_index_by: "set (index_by kvs) \<subseteq> set kvs"
proof
  fix p assume "p \<in> set (index_by kvs)"
  then have "map_of (index_by kvs) (fst p) = Some (snd p)"
    by (simp add: distinct_index_by map_of_is_SomeI)
  then have "(fst p, snd p) \<in> set (rev kvs)" unfolding map_of_index_by by (rule map_of_SomeD)
  then show "p \<in> set kvs" by simp
qed

section \<open>Floats\<close>

datatype pyfloat = Fin rat | PosInf | NegInf | NaN

fun f_le :: "pyfloat \<Rightarrow> pyfloat \<Rightarrow> bool" where
  "f_le NaN y = False"
| "f_le x NaN = False"
| "f_le NegInf y = True"
| "f_le x PosInf = True"
| "f_le (Fin a) (Fin b) = (a \<le> b)"
| "f_le x y = False"

definition f_lt :: "pyfloat \<Rightarrow> pyfloat \<Rightarrow> bool" where
  "f_lt x y \<longleftrightarrow> f_le x y \<and> \<not> f_le y x"

fun f_neg :: "pyfloat \<Rightarrow> pyfloat" where
  "f_neg (Fin a) = Fin (- a)"
| "f_neg PosInf = NegInf"
| "f_neg NegInf = PosInf"
| "f_neg NaN = NaN"

fun is_finite :: "pyfloat \<Rightarrow> bool" where
  "is_finite (Fin a) = True"
| "is_finite x = False"

lemma f_between: "f_le (Fin a) x \<Longrightarrow> f_le x (Fin b) \<Longrightarrow> \<exists>r. x = Fin r \<and> a \<le> r \<and> r \<le> b"
  by (cases x) auto

lemma f_lt_Fin [simp]: "f_lt (Fin a) (Fin b) \<longleftrightarrow> a < b"
  by (auto simp: f_lt_def)

text \<open>\<open>2 ** e\<close> and \<open>10 ** e\<close> for any integer, the position of the leading bit, rounding half to even.\<close>

definition pow_int :: "nat \<Rightarrow> int \<Rightarrow> rat" where
  "pow_int b e = (if 0 \<le> e then of_nat b ^ nat e else 1 / of_nat b ^ nat (- e))"

function ilog2 :: "int \<Rightarrow> int" where
  "ilog2 n = (if n < 2 then 0 else 1 + ilog2 (n div 2))"
  by auto
termination by (relation "measure nat") auto

declare ilog2.simps [simp del]

definition below :: "rat \<Rightarrow> int \<Rightarrow> int" where
  "below q e = (if q < pow_int 2 e then e - 1 else e)"

definition exponent_of :: "rat \<Rightarrow> int" where
  "exponent_of q = (case quotient_of q of (a, b) \<Rightarrow> below q (ilog2 a - ilog2 b))"

definition half_round :: "int \<Rightarrow> rat \<Rightarrow> int" where
  "half_round f d = (if d < 1 / 2 then f else if 1 / 2 < d then f + 1 else if even f then f else f + 1)"

definition half_even :: "rat \<Rightarrow> int" where
  "half_even q = half_round \<lfloor>q\<rfloor> (q - of_int \<lfloor>q\<rfloor>)"

text \<open>The double nearest to a rational number.\<close>

definition ulp :: "rat \<Rightarrow> rat" where
  "ulp q = pow_int 2 (max (exponent_of \<bar>q\<bar> - 52) (- 1074))"

definition multiple_of :: "rat \<Rightarrow> rat \<Rightarrow> rat" where
  "multiple_of q u = of_int (half_even (q / u)) * u"

definition in_range :: "rat \<Rightarrow> pyfloat" where
  "in_range r = (if r \<noteq> 0 \<and> 1024 \<le> exponent_of \<bar>r\<bar> then (if 0 < r then PosInf else NegInf) else Fin r)"

definition to_double :: "rat \<Rightarrow> pyfloat" where
  "to_double q = (if q = 0 then Fin 0 else in_range (multiple_of q (ulp q)))"

text \<open>\<open>round(x, 2)\<close> and \<open>round(x)\<close>; \<open>round\<close> to an integer refuses an infinity and a NaN.\<close>

fun round2 :: "pyfloat \<Rightarrow> pyfloat" where
  "round2 (Fin a) = to_double (of_int (half_even (100 * a)) / 100)"
| "round2 x = x"

fun round_int :: "pyfloat \<Rightarrow> exn + int" where
  "round_int (Fin a) = Inr (half_even a)"
| "round_int NaN = Inl (ValueError ''cannot convert float NaN to integer'')"
| "round_int x = Inl (OtherError ''OverflowError'')"

subsection \<open>Arithmetic\<close>

fun f_add :: "pyfloat \<Rightarrow> pyfloat \<Rightarrow> pyfloat" where
  "f_add (Fin a) (Fin b) = to_double (a + b)"
| "f_add NaN y = NaN"
| "f_add x NaN = NaN"
| "f_add PosInf NegInf = NaN"
| "f_add NegInf PosInf = NaN"
| "f_add PosInf y = PosInf"
| "f_add NegInf y = NegInf"
| "f_add x PosInf = PosInf"
| "f_add x NegInf = NegInf"

definition f_sub :: "pyfloat \<Rightarrow> pyfloat \<Rightarrow> pyfloat" where
  "f_sub x y = f_add x (f_neg y)"

fun f_sign :: "pyfloat \<Rightarrow> rat" where
  "f_sign (Fin a) = sgn a"
| "f_sign PosInf = 1"
| "f_sign NegInf = - 1"
| "f_sign NaN = 0"

fun f_mul :: "pyfloat \<Rightarrow> pyfloat \<Rightarrow> pyfloat" where
  "f_mul (Fin a) (Fin b) = to_double (a * b)"
| "f_mul x y = (if x = NaN \<or> y = NaN \<or> f_sign x = 0 \<or> f_sign y = 0 then NaN
     else if 0 < f_sign x * f_sign y then PosInf else NegInf)"

text \<open>Division by a number that is not zero.\<close>

fun f_div_by :: "pyfloat \<Rightarrow> rat \<Rightarrow> pyfloat" where
  "f_div_by (Fin a) b = to_double (a / b)"
| "f_div_by x b = (if b < 0 then f_neg x else x)"

text \<open>\<open>max(x, y)\<close> is \<open>y\<close> only when \<open>y\<close> is greater.\<close>

definition f_max :: "pyfloat \<Rightarrow> pyfloat \<Rightarrow> pyfloat" where
  "f_max x y = (if f_lt x y then y else x)"

text \<open>\<open>math.pi\<close> is the double nearest to the constant; \<open>math.degrees\<close> and \<open>math.radians\<close> multiply by a quotient of doubles.\<close>

definition math_pi :: rat where "math_pi = 884279719003555 / 281474976710656"

definition degrees :: "pyfloat \<Rightarrow> pyfloat" where "degrees x = f_mul x (to_double (180 / math_pi))"
definition radians :: "pyfloat \<Rightarrow> pyfloat" where "radians x = f_mul x (to_double (math_pi / 180))"

subsection \<open>Rounding keeps integer bounds\<close>

lemma pow_int_powi: "pow_int b e = of_nat b powi e"
  by (simp add: pow_int_def power_int_def field_simps power_one_over)

lemma pow_int_pos [simp]: "0 < pow_int 2 e"
  by (simp add: pow_int_def)

lemma ilog2_bounds:
  "0 < n \<Longrightarrow> 0 \<le> ilog2 n \<and> 2 ^ nat (ilog2 n) \<le> n \<and> n < 2 ^ Suc (nat (ilog2 n))"
proof (induction n rule: ilog2.induct)
  case (1 n)
  show ?case
  proof (cases "n < 2")
    case True
    with 1 show ?thesis by (subst (1 2 3) ilog2.simps) simp
  next
    case False
    with 1 have "0 \<le> ilog2 (n div 2) \<and> 2 ^ nat (ilog2 (n div 2)) \<le> n div 2
      \<and> n div 2 < 2 ^ Suc (nat (ilog2 (n div 2)))" by simp
    with False show ?thesis by (subst (1 2 3) ilog2.simps) (auto simp: nat_add_distrib)
  qed
qed

lemma exponent_of_le:
  assumes "0 < q"
  shows "pow_int 2 (exponent_of q) \<le> q"
proof -
  obtain a b where ab: "quotient_of q = (a, b)" by (cases "quotient_of q")
  then have b: "0 < b" and q: "q = of_int a / of_int b"
    using quotient_of_denom_pos [of q a b] quotient_of_div [of q a b] by auto
  with assms have a: "0 < a" by (simp add: zero_less_divide_iff)
  let ?m = "nat (ilog2 a)" and ?n = "nat (ilog2 b)"
  have "(of_int (2 ^ ?m) :: rat) \<le> of_int a" using ilog2_bounds [OF a] by (simp only: of_int_le_iff)
  then have lo: "(2::rat) ^ ?m \<le> of_int a" by simp
  have "(of_int b :: rat) < of_int (2 ^ Suc ?n)" using ilog2_bounds [OF b] by (simp only: of_int_less_iff)
  then have hi: "of_int b < (2::rat) ^ Suc ?n" by simp
  have "ilog2 a - ilog2 b - 1 = int ?m - int (Suc ?n)" using ilog2_bounds [OF a] ilog2_bounds [OF b] by simp
  then have "pow_int 2 (ilog2 a - ilog2 b - 1) = (2::rat) powi (int ?m - int (Suc ?n))"
    by (simp only: pow_int_powi of_nat_numeral)
  also have "\<dots> = 2 powi int ?m / 2 powi int (Suc ?n)" by (rule power_int_diff) simp
  also have "\<dots> = (2::rat) ^ ?m / 2 ^ Suc ?n" by (simp only: power_int_of_nat)
  also have "\<dots> \<le> of_int a / of_int b"
    using lo hi a b by (intro frac_le) auto
  finally have "pow_int 2 (ilog2 a - ilog2 b - 1) \<le> q" using q by simp
  then show ?thesis by (auto simp: exponent_of_def below_def ab not_less)
qed

lemma half_even_mono: "x \<le> of_int m \<Longrightarrow> half_even x \<le> m"
proof -
  assume le: "x \<le> of_int m"
  then have "\<lfloor>x\<rfloor> \<le> m" by (simp add: floor_le_iff)
  moreover have "\<lfloor>x\<rfloor> = m \<Longrightarrow> x = of_int m" using le by (metis floor_correct order_antisym)
  ultimately show ?thesis by (cases "\<lfloor>x\<rfloor> = m") (auto simp: half_even_def half_round_def)
qed

lemma half_even_ge: "of_int m \<le> x \<Longrightarrow> m \<le> half_even x"
proof -
  assume "of_int m \<le> x"
  then have "m \<le> \<lfloor>x\<rfloor>" by (simp add: le_floor_iff)
  then show ?thesis by (auto simp: half_even_def half_round_def)
qed

lemma exponent_of_less:
  assumes "0 < q" "q < 2 ^ 53"
  shows "exponent_of q < 53"
proof (rule ccontr)
  assume "\<not> exponent_of q < 53"
  then have "(2::rat) powi 53 \<le> 2 powi exponent_of q" by (intro power_int_increasing) simp_all
  moreover have "pow_int 2 (exponent_of q) < 2 ^ 53" using exponent_of_le [OF assms(1)] assms(2) by simp
  ultimately show False by (simp add: pow_int_powi)
qed

lemma ulp_small:
  assumes "q \<noteq> 0" "\<bar>q\<bar> < 2 ^ 53"
  obtains k where "ulp q = 1 / 2 ^ k"
proof -
  from assms exponent_of_less [of "\<bar>q\<bar>"] have "max (exponent_of \<bar>q\<bar> - 52) (- 1074) \<le> 0" by simp
  then have "ulp q = 1 / 2 ^ nat (- max (exponent_of \<bar>q\<bar> - 52) (- 1074))"
    by (auto simp: ulp_def pow_int_def)
  then show ?thesis by (rule that)
qed

lemma to_double_bounds:
  assumes "of_int lo \<le> q" "q \<le> of_int hi" "lo \<le> 0" "0 \<le> hi" "- (2 ^ 53) < lo" "hi < 2 ^ 53"
  obtains r where "to_double q = Fin r" "of_int lo \<le> r" "r \<le> of_int hi"
proof (cases "q = 0")
  case True
  with assms(3,4) show ?thesis by (intro that [of 0]) (simp_all add: to_double_def)
next
  case False
  have h: "(of_int hi :: rat) < 2 ^ 53" using assms(6)
    by (metis of_int_less_iff of_int_numeral of_int_power)
  have "of_int (- (2 ^ 53)) < (of_int lo :: rat)" using assms(5) by (simp only: of_int_less_iff)
  then have l: "- (2 ^ 53) < (of_int lo :: rat)" by simp
  from assms(1,2) h l have "\<bar>q\<bar> < 2 ^ 53" by linarith
  with False obtain k where k: "ulp q = 1 / 2 ^ k" by (rule ulp_small)
  let ?m = "half_even (q / ulp q)" and ?r = "multiple_of q (ulp q)"
  have "q / ulp q \<le> of_int (hi * 2 ^ k)" using assms(2) by (simp add: k mult_right_mono)
  then have "?m \<le> hi * 2 ^ k" by (rule half_even_mono)
  then have "(of_int ?m :: rat) \<le> of_int (hi * 2 ^ k)" by (simp only: of_int_le_iff)
  then have up: "?r \<le> of_int hi" by (simp add: k field_simps multiple_of_def)
  have "of_int (lo * 2 ^ k) \<le> q / ulp q" using assms(1) by (simp add: k mult_right_mono)
  then have "lo * 2 ^ k \<le> ?m" by (rule half_even_ge)
  then have "of_int (lo * 2 ^ k) \<le> (of_int ?m :: rat)" by (simp only: of_int_le_iff)
  then have low: "of_int lo \<le> ?r" by (simp add: k field_simps multiple_of_def)
  have "\<not> 1024 \<le> exponent_of \<bar>?r\<bar>" if "?r \<noteq> 0"
  proof -
    from low up h l have "\<bar>?r\<bar> < 2 ^ 53" by linarith
    with that have "exponent_of \<bar>?r\<bar> < 53" by (intro exponent_of_less) simp_all
    then show ?thesis by simp
  qed
  then have "to_double q = Fin ?r" using False by (auto simp: to_double_def in_range_def)
  with low up show ?thesis by (intro that)
qed

lemma round2_bounds:
  assumes "0 \<le> q" "q \<le> of_int n" "0 \<le> n" "n < 2 ^ 53"
  obtains r where "round2 (Fin q) = Fin r" "0 \<le> r" "r \<le> of_int n"
proof -
  have "half_even (100 * q) \<le> 100 * n" using assms(2) by (intro half_even_mono) simp
  then have "(of_int (half_even (100 * q)) :: rat) \<le> of_int (100 * n)" by (simp only: of_int_le_iff)
  then have "of_int (half_even (100 * q)) / 100 \<le> (of_int n :: rat)" by simp
  moreover have "0 \<le> half_even (100 * q)" using assms(1) by (intro half_even_ge) simp
  then have "of_int 0 \<le> of_int (half_even (100 * q)) / (100::rat)" by simp
  moreover have "- (2 ^ 53) < (0::int)" by simp
  ultimately obtain r where "to_double (of_int (half_even (100 * q)) / 100) = Fin r" "of_int 0 \<le> r" "r \<le> of_int n"
    using to_double_bounds [of 0 _ n] assms(3,4) by blast
  then show ?thesis by (intro that) simp_all
qed

section \<open>Text to float\<close>

text \<open>An underscore may stand between two digits.\<close>

fun drop_underscores :: "bool \<Rightarrow> string \<Rightarrow> string option" where
  "drop_underscores d [] = Some []"
| "drop_underscores d (c # cs) =
     (if c = CHR ''_'' then (if d \<and> cs \<noteq> [] \<and> is_digit (hd cs) then drop_underscores False cs else None)
      else map_option ((#) c) (drop_underscores (is_digit c) cs))"

definition digits_val :: "string \<Rightarrow> int" where
  "digits_val ds = foldl (\<lambda>n c. 10 * n + int (digit_val c)) 0 ds"

definition ascii_lower :: "char \<Rightarrow> char" where
  "ascii_lower c = (let n = of_char c :: nat in if 65 \<le> n \<and> n \<le> 90 then char_of (n + 32) else c)"

fun float_exponent :: "string \<Rightarrow> int option" where
  "float_exponent [] = Some 0"
| "float_exponent (c # r) =
     (if ascii_lower c \<noteq> CHR ''e'' then None
      else (case r of
          [] \<Rightarrow> None
        | s # ds \<Rightarrow> if s = CHR ''-'' then map_option (\<lambda>n. - int n) (parse_nat ds)
            else if s = CHR ''+'' then map_option int (parse_nat ds)
            else map_option int (parse_nat r)))"

definition decimal_float :: "string \<Rightarrow> pyfloat option" where
  "decimal_float s =
     (let ip = takeWhile is_digit s; r = dropWhile is_digit s;
          dot = (r \<noteq> [] \<and> hd r = CHR ''.'');
          fp = (if dot then takeWhile is_digit (tl r) else []);
          ex = (if dot then dropWhile is_digit (tl r) else r)
      in if ip @ fp = [] then None
         else map_option (\<lambda>e. to_double (of_int (digits_val (ip @ fp)) * pow_int 10 (e - int (length fp))))
                (float_exponent ex))"

definition unsigned_float :: "string \<Rightarrow> pyfloat option" where
  "unsigned_float s = (let l = map ascii_lower s in
     if l = ''inf'' \<or> l = ''infinity'' then Some PosInf
     else if l = ''nan'' then Some NaN else decimal_float s)"

text \<open>\<open>float(s)\<close> of a text.\<close>

definition float_text :: "string \<Rightarrow> pyfloat option" where
  "float_text s = (case drop_underscores False (strip s) of
      None \<Rightarrow> None
    | Some [] \<Rightarrow> None
    | Some (c # cs) \<Rightarrow> if c = CHR ''-'' then map_option f_neg (unsigned_float cs)
        else if c = CHR ''+'' then unsigned_float cs else unsigned_float (c # cs))"

subsection \<open>\<open>repr\<close> of a float\<close>

text \<open>
  The shortest decimal digits that read back as the same double, the closest ones if there are several:
  \<open>digits n e\<close> stands for \<open>n * 10 ** e\<close>.
\<close>

definition decimal_exponent :: "rat \<Rightarrow> int" where
  "decimal_exponent q = (let e = exponent_of q * 30103 div 100000 in
     if q < pow_int 10 e then e - 1 else if pow_int 10 (e + 1) \<le> q then e + 1 else e)"

definition digits_at :: "rat \<Rightarrow> int \<Rightarrow> int option" where
  "digits_at q e =
     (let x = q / pow_int 10 e; lo = \<lfloor>x\<rfloor>;
          good = (\<lambda>n. to_double (of_int n * pow_int 10 e) = Fin q)
      in if good lo \<and> good (lo + 1) then Some (half_even x)
         else if good lo then Some lo else if good (lo + 1) then Some (lo + 1) else None)"

fun shortest :: "nat \<Rightarrow> rat \<Rightarrow> int \<Rightarrow> int \<times> int" where
  "shortest 0 q e = (\<lfloor>q / pow_int 10 e\<rfloor>, e)"
| "shortest (Suc k) q e = (case digits_at q e of Some n \<Rightarrow> (n, e) | None \<Rightarrow> shortest k q (e - 1))"

text \<open>Positional between \<open>1e-4\<close> and \<open>1e16\<close>, else with an exponent of at least two digits.\<close>

definition place_point :: "string \<Rightarrow> int \<Rightarrow> string" where
  "place_point ds pt =
     (if pt \<le> 0 then ''0.'' @ replicate (nat (- pt)) (CHR ''0'') @ ds
      else if int (length ds) \<le> pt then ds @ replicate (nat pt - length ds) (CHR ''0'') @ ''.0''
      else take (nat pt) ds @ ''.'' @ drop (nat pt) ds)"

definition with_exponent :: "string \<Rightarrow> int \<Rightarrow> string" where
  "with_exponent ds x = take 1 ds @ (if length ds = 1 then [] else ''.'' @ drop 1 ds) @ ''e''
     @ (if x < 0 then ''-'' else ''+'') @ (if \<bar>x\<bar> < 10 then ''0'' else []) @ show_int \<bar>x\<bar>"

definition repr_digits :: "int \<times> int \<Rightarrow> string" where
  "repr_digits = (\<lambda>(n, e). let ds = show_int n; pt = int (length ds) + e;
       sig = rev (dropWhile (\<lambda>c. c = CHR ''0'') (rev ds))
     in if - 4 < pt \<and> pt \<le> 16 then place_point sig pt else with_exponent sig (pt - 1))"

fun repr_float :: "pyfloat \<Rightarrow> string" where
  "repr_float PosInf = ''inf''"
| "repr_float NegInf = ''-inf''"
| "repr_float NaN = ''nan''"
| "repr_float (Fin q) = (if q = 0 then ''0.0''
     else (if q < 0 then ''-'' else []) @ repr_digits (shortest 17 \<bar>q\<bar> (decimal_exponent \<bar>q\<bar>)))"

section \<open>Decoded JSON\<close>

definition TypeError :: exn where "TypeError = OtherError ''TypeError''"
definition AttributeError :: exn where "AttributeError = OtherError ''AttributeError''"
definition KeyError :: exn where "KeyError = OtherError ''KeyError''"
definition IndexError :: exn where "IndexError = OtherError ''IndexError''"
definition OverflowError :: exn where "OverflowError = OtherError ''OverflowError''"

lemma errors_distinct [simp]:
  "TypeError \<noteq> ValueError m" "AttributeError \<noteq> ValueError m" "OverflowError \<noteq> ValueError m"
  "TypeError \<noteq> AttributeError" "OverflowError \<noteq> TypeError" "TypeError \<noteq> OverflowError"
  by (simp_all add: TypeError_def AttributeError_def OverflowError_def)

fun float_of :: "pyval \<Rightarrow> exn + pyfloat" where
  "float_of (PStr s) = (case float_text s of
     None \<Rightarrow> Inl (ValueError ''could not convert string to float'') | Some x \<Rightarrow> Inr x)"
| "float_of (PFloat r) = Inr (case float_text r of None \<Rightarrow> NaN | Some x \<Rightarrow> x)"
| "float_of (PInt i) = (let x = to_double (of_int i) in if is_finite x then Inr x else Inl OverflowError)"
| "float_of (PBool b) = Inr (Fin (if b then 1 else 0))"
| "float_of v = Inl TypeError"

text \<open>\<open>int(v)\<close>: a text of digits with a sign, or a number cut towards zero.\<close>

definition int_text :: "string \<Rightarrow> int option" where
  "int_text s = (case drop_underscores False (strip s) of
      None \<Rightarrow> None
    | Some [] \<Rightarrow> None
    | Some (c # cs) \<Rightarrow> if c = CHR ''+'' then map_option int (parse_nat cs) else parse_int (c # cs))"

fun int_of_float :: "pyfloat \<Rightarrow> exn + int" where
  "int_of_float (Fin q) = Inr (py_int q)"
| "int_of_float NaN = Inl (ValueError ''cannot convert float NaN to integer'')"
| "int_of_float x = Inl OverflowError"

fun py_int_of :: "pyval \<Rightarrow> exn + int" where
  "py_int_of (PStr s) = (case int_text s of
     None \<Rightarrow> Inl (ValueError ''invalid literal for int() with base 10'') | Some n \<Rightarrow> Inr n)"
| "py_int_of (PInt i) = Inr i"
| "py_int_of (PBool b) = Inr (if b then 1 else 0)"
| "py_int_of (PFloat r) = int_of_float (case float_text r of None \<Rightarrow> NaN | Some x \<Rightarrow> x)"
| "py_int_of v = Inl TypeError"

text \<open>\<open>except ValueError\<close> and \<open>except (TypeError, ValueError)\<close> around an expression.\<close>

fun is_ValueError :: "exn \<Rightarrow> bool" where
  "is_ValueError (ValueError m) = True"
| "is_ValueError e = False"

definition caught :: "(exn \<Rightarrow> bool) \<Rightarrow> exn + 'a \<Rightarrow> exn + 'a option" where
  "caught p r = (case r of Inl e \<Rightarrow> if p e then Inr None else Inl e | Inr a \<Rightarrow> Inr (Some a))"

lemma caught_Some: "caught p r = Inr (Some a) \<longleftrightarrow> r = Inr a"
  by (auto simp: caught_def split: sum.splits if_splits)

definition bad_number :: "exn \<Rightarrow> bool" where
  "bad_number e \<longleftrightarrow> is_ValueError e \<or> e = TypeError"

fun truth :: "pyval \<Rightarrow> bool" where
  "truth PNone = False"
| "truth (PBool b) = b"
| "truth (PInt i) = (i \<noteq> 0)"
| "truth (PFloat r) = (float_text r \<noteq> Some (Fin 0))"
| "truth (PStr s) = (s \<noteq> [])"
| "truth (PList vs) = (vs \<noteq> [])"
| "truth (PDict kvs) = (kvs \<noteq> [])"
| "truth (PObject s) = True"

definition py_or :: "pyval \<Rightarrow> pyval \<Rightarrow> pyval" where
  "py_or v w = (if truth v then v else w)"

text \<open>\<open>d.get(k)\<close> of a dictionary, and of a value that may not be one.\<close>

definition dget :: "(string \<times> pyval) list \<Rightarrow> string \<Rightarrow> pyval" where
  "dget kvs k = (case map_of kvs k of None \<Rightarrow> PNone | Some v \<Rightarrow> v)"

fun vget :: "pyval \<Rightarrow> string \<Rightarrow> exn + pyval" where
  "vget (PDict kvs) k = Inr (dget kvs k)"
| "vget v k = Inl AttributeError"

text \<open>\<open>d.get(k, default)\<close> and \<open>d[k]\<close> of a value that may not be a dictionary.\<close>

fun get_or :: "pyval \<Rightarrow> string \<Rightarrow> pyval \<Rightarrow> exn + pyval" where
  "get_or (PDict kvs) k v = Inr (case map_of kvs k of None \<Rightarrow> v | Some w \<Rightarrow> w)"
| "get_or w k v = Inl AttributeError"

fun subscript :: "pyval \<Rightarrow> string \<Rightarrow> exn + pyval" where
  "subscript (PDict kvs) k = (case map_of kvs k of None \<Rightarrow> Inl KeyError | Some v \<Rightarrow> Inr v)"
| "subscript w k = Inl TypeError"

fun values_of :: "pyval \<Rightarrow> exn + pyval list" where
  "values_of (PDict kvs) = Inr (map snd kvs)"
| "values_of v = Inl AttributeError"

text \<open>The items a \<open>for\<close> loop sees: of a text its characters, of a dictionary its keys.\<close>

fun items :: "pyval \<Rightarrow> exn + pyval list" where
  "items (PList vs) = Inr vs"
| "items (PStr s) = Inr (map (\<lambda>c. PStr [c]) s)"
| "items (PDict kvs) = Inr (map (\<lambda>(k, v). PStr k) kvs)"
| "items v = Inl TypeError"

text \<open>What can be an element of a set or a key of a dictionary.\<close>

fun hashable :: "pyval \<Rightarrow> bool" where
  "hashable (PList vs) = False"
| "hashable (PDict kvs) = False"
| "hashable v = True"

subsection \<open>\<open>str\<close> and \<open>repr\<close>\<close>

definition repr_char :: "char \<Rightarrow> char \<Rightarrow> string" where
  "repr_char q c = (let n = of_char c :: nat in
     if c = q \<or> c = backslash then [backslash, c]
     else if n = 9 then [backslash, CHR ''t'']
     else if n = 10 then [backslash, CHR ''n'']
     else if n = 13 then [backslash, CHR ''r'']
     else if n < 32 \<or> 127 \<le> n \<and> n \<le> 160 \<or> n = 173
       then [backslash, CHR ''x'', hex_digit (n div 16), hex_digit (n mod 16)]
     else [c])"

definition repr_str :: "string \<Rightarrow> string" where
  "repr_str s = (let q = (if CHR 0x27 \<in> set s \<and> quote \<notin> set s then quote else CHR 0x27)
     in q # concat (map (repr_char q) s) @ [q])"

fun py_repr :: "pyval \<Rightarrow> string"
  and repr_list :: "pyval list \<Rightarrow> string"
  and repr_dict :: "(string \<times> pyval) list \<Rightarrow> string" where
  "py_repr PNone = ''None''"
| "py_repr (PBool b) = (if b then ''True'' else ''False'')"
| "py_repr (PInt i) = show_int i"
| "py_repr (PFloat r) = r"
| "py_repr (PStr s) = repr_str s"
| "py_repr (PList vs) = ''['' @ repr_list vs @ '']''"
| "py_repr (PDict kvs) = ''{'' @ repr_dict kvs @ ''}''"
| "py_repr (PObject s) = s"
| "repr_list [] = []"
| "repr_list (v # vs) = py_repr v @ (if vs = [] then [] else '', '' @ repr_list vs)"
| "repr_dict [] = []"
| "repr_dict ((k, v) # kvs) =
     repr_str k @ '': '' @ py_repr v @ (if kvs = [] then [] else '', '' @ repr_dict kvs)"

fun py_str :: "pyval \<Rightarrow> string" where
  "py_str (PStr s) = s"
| "py_str v = py_repr v"

section \<open>Text\<close>

text \<open>\<open>s.isdigit()\<close> (Latin-1 has three superscripts beside the digits) and \<open>s.isalnum()\<close>.\<close>

definition isdigit_char :: "char \<Rightarrow> bool" where
  "isdigit_char c \<longleftrightarrow> is_digit c \<or> (of_char c :: nat) \<in> {178, 179, 185}"

definition isdigit :: "string \<Rightarrow> bool" where
  "isdigit s \<longleftrightarrow> s \<noteq> [] \<and> list_all isdigit_char s"

definition isalpha_char :: "char \<Rightarrow> bool" where
  "isalpha_char c \<longleftrightarrow> (let n = of_char c :: nat in
     65 \<le> n \<and> n \<le> 90 \<or> 97 \<le> n \<and> n \<le> 122 \<or> n \<in> {170, 181, 186} \<or> 192 \<le> n \<and> n \<noteq> 215 \<and> n \<noteq> 247)"

definition isalnum :: "string \<Rightarrow> bool" where
  "isalnum s \<longleftrightarrow> s \<noteq> [] \<and> list_all (\<lambda>c. isdigit_char c \<or> isalpha_char c
     \<or> (of_char c :: nat) \<in> {188, 189, 190}) s"

definition casefold_char :: "char \<Rightarrow> string" where
  "casefold_char c = (let n = of_char c :: nat in
     if 65 \<le> n \<and> n \<le> 90 \<or> 192 \<le> n \<and> n \<le> 222 \<and> n \<noteq> 215 then [char_of (n + 32)]
     else if n = 223 then ''ss'' else [c])"

definition casefold :: "string \<Rightarrow> string" where
  "casefold s = concat (map casefold_char s)"

definition starts_with :: "string \<Rightarrow> string \<Rightarrow> bool" where
  "starts_with p s \<longleftrightarrow> take (length p) s = p"

fun contains :: "string \<Rightarrow> string \<Rightarrow> bool" where
  "contains p [] = (p = [])"
| "contains p (c # cs) = (starts_with p (c # cs) \<or> contains p cs)"

text \<open>\<open>s.replace(c, r)\<close> of one character.\<close>

definition replace_char :: "char \<Rightarrow> string \<Rightarrow> string \<Rightarrow> string" where
  "replace_char c r s = concat (map (\<lambda>d. if d = c then r else [d]) s)"

end
