(* ===== verification/Datetime.thy ===== *)
theory Datetime
  imports Pyvalue
begin

text \<open>
  Dates and times of the standard library as the program uses them. An aware \<open>datetime\<close> is its instant,
  the microseconds since 1970-01-01T00:00Z: the program compares, orders and stores instants.
  \<open>fromisoformat\<close> reads the documented ISO 8601 forms (dates with or without dashes, ISO weeks, times with or
  without colons, a fraction, an offset); \<open>strptime\<close> reads the two patterns the program passes.
\<close>

type_synonym datetime = int

section \<open>The calendar\<close>

definition is_leap :: "int \<Rightarrow> bool" where
  "is_leap y \<longleftrightarrow> y mod 4 = 0 \<and> (y mod 100 \<noteq> 0 \<or> y mod 400 = 0)"

definition days_in_month :: "int \<Rightarrow> int \<Rightarrow> int" where
  "days_in_month y m =
     (if m = 2 then (if is_leap y then 29 else 28) else if m \<in> {4, 6, 9, 11} then 30 else 31)"

definition days_before_year :: "int \<Rightarrow> int" where
  "days_before_year y = (let z = y - 1 in z * 365 + z div 4 - z div 100 + z div 400)"

definition days_before_month :: "int \<Rightarrow> int \<Rightarrow> int" where
  "days_before_month y m = sum_list (map (days_in_month y) [1..m - 1])"

text \<open>The proleptic ordinal; 0001-01-01 is day 1 and 1970-01-01 is day 719163.\<close>

definition to_ordinal :: "int \<Rightarrow> int \<Rightarrow> int \<Rightarrow> int" where
  "to_ordinal y m d = days_before_year y + days_before_month y m + d"

definition day_number :: "int \<Rightarrow> int \<Rightarrow> int \<Rightarrow> int option" where
  "day_number y m d =
     (if 1 \<le> y \<and> y \<le> 9999 \<and> 1 \<le> m \<and> m \<le> 12 \<and> 1 \<le> d \<and> d \<le> days_in_month y m
      then Some (to_ordinal y m d) else None)"

definition seconds :: "int \<Rightarrow> datetime" where
  "seconds s = 1000000 * s"

definition at_time :: "int \<Rightarrow> int \<Rightarrow> int \<Rightarrow> int \<Rightarrow> int \<Rightarrow> datetime" where
  "at_time ord h mi s us = seconds ((ord - 719163) * 86400 + h * 3600 + mi * 60 + s) + us"

section \<open>\<open>datetime.fromisoformat\<close>\<close>

definition num :: "nat \<Rightarrow> string \<Rightarrow> int option" where
  "num w s = (if length (take w s) = w \<and> list_all is_digit (take w s)
     then Some (digits_val (take w s)) else None)"

definition nth_is :: "string \<Rightarrow> nat \<Rightarrow> char \<Rightarrow> bool" where
  "nth_is s i c \<longleftrightarrow> i < length s \<and> s ! i = c"

text \<open>The length of the date part.\<close>

definition iso_date_length :: "string \<Rightarrow> nat option" where
  "iso_date_length s =
     (let n = length s in
      if n < 7 then None
      else if n = 7 then Some 7
      else if nth_is s 4 (CHR ''-'') then
        (if nth_is s 5 (CHR ''W'') then
           (if nth_is s 8 (CHR ''-'') then
              (if n = 9 then None else if 10 < n \<and> is_digit (s ! 10) then Some 8 else Some 10)
            else Some 8)
         else Some 10)
      else if nth_is s 4 (CHR ''W'') then
        (let p = 7 + length (takeWhile is_digit (drop 7 s)) in
         if p < 9 then Some p else if even p then Some 7 else Some 8)
      else Some 8)"

definition iso_week1_monday :: "int \<Rightarrow> int" where
  "iso_week1_monday y = (let f = to_ordinal y 1 1; w = (f + 6) mod 7 in
     if 3 < w then f - w + 7 else f - w)"

definition iso_week_day :: "int \<Rightarrow> int \<Rightarrow> int \<Rightarrow> int option" where
  "iso_week_day y w d =
     (let first = (to_ordinal y 1 1 + 6) mod 7;
          long = (first = 3 \<or> first = 2 \<and> is_leap y);
          ord = iso_week1_monday y + (w - 1) * 7 + d - 1
      in if 1 \<le> y \<and> y \<le> 9999 \<and> 1 \<le> w \<and> (w \<le> 52 \<or> w = 53 \<and> long) \<and> 1 \<le> d \<and> d \<le> 7
            \<and> 1 \<le> ord \<and> ord \<le> 3652059
         then Some ord else None)"

definition iso_date :: "string \<Rightarrow> int option" where
  "iso_date s =
     (case num 4 s of None \<Rightarrow> None
      | Some y \<Rightarrow>
        (let sep = nth_is s 4 (CHR ''-''); r = drop (if sep then 5 else 4) s in
         if nth_is r 0 (CHR ''W'') then
           (case num 2 (drop 1 r) of None \<Rightarrow> None
            | Some w \<Rightarrow>
              (let q = drop 3 r in
               if q = [] then iso_week_day y w 1
               else if sep \<noteq> nth_is q 0 (CHR ''-'') then None
               else (case num 1 (drop (if sep then 1 else 0) q) of None \<Rightarrow> None
                     | Some d \<Rightarrow> if length q = (if sep then 2 else 1) then iso_week_day y w d else None)))
         else
           (case num 2 r of None \<Rightarrow> None
            | Some m \<Rightarrow>
              (let q = drop 2 r in
               if sep \<noteq> nth_is q 0 (CHR ''-'') then None
               else (case num 2 (drop (if sep then 1 else 0) q) of None \<Rightarrow> None
                     | Some d \<Rightarrow> if length q = (if sep then 3 else 2) then day_number y m d else None)))))"

text \<open>A fraction of a second: at least one digit, the first six count.\<close>

definition iso_fraction :: "string \<Rightarrow> int option" where
  "iso_fraction s = (if s \<noteq> [] \<and> list_all is_digit s
     then Some (digits_val (take 6 (s @ ''00000''))) else None)"

text \<open>\<open>HH[:MM[:SS[.ffffff]]]\<close> or the same without colons, as (hours, minutes, seconds, microseconds).\<close>

definition iso_clock :: "string \<Rightarrow> (int \<times> int \<times> int \<times> int) option" where
  "iso_clock s =
     (case num 2 s of None \<Rightarrow> None
      | Some h \<Rightarrow>
        (let r = drop 2 s; sep = nth_is r 0 (CHR '':'') in
         if r = [] then Some (h, 0, 0, 0)
         else (let r1 = drop (if sep then 1 else 0) r in
           case num 2 r1 of None \<Rightarrow> None
           | Some mi \<Rightarrow>
             (let r2 = drop 2 r1 in
              if r2 = [] then Some (h, mi, 0, 0)
              else if sep \<noteq> nth_is r2 0 (CHR '':'') then None
              else (let r3 = drop (if sep then 1 else 0) r2 in
                case num 2 r3 of None \<Rightarrow> None
                | Some sec \<Rightarrow>
                  (let r4 = drop 2 r3 in
                   if r4 = [] then Some (h, mi, sec, 0)
                   else if nth_is r4 0 (CHR ''.'') \<or> nth_is r4 0 (CHR '','')
                   then map_option (\<lambda>us. (h, mi, sec, us)) (iso_fraction (drop 1 r4))
                   else None))))))"

definition iso_offset :: "string \<Rightarrow> int option option" where
  "iso_offset z =
     (case z of [] \<Rightarrow> Some None
      | c # r \<Rightarrow>
        (if c = CHR ''Z'' then (if r = [] then Some (Some 0) else None)
         else (case iso_clock r of None \<Rightarrow> None
           | Some (h, mi, sec, us) \<Rightarrow>
             (let off = seconds (h * 3600 + mi * 60 + sec) + us in
              if off < seconds 86400 then Some (Some (if c = CHR ''-'' then - off else off)) else None))))"

text \<open>A local time with its offset, if it has one.\<close>

definition iso_time :: "string \<Rightarrow> int \<Rightarrow> (int \<times> int option) option" where
  "iso_time t ord =
     (let clk = takeWhile (\<lambda>c. c \<notin> {CHR ''-'', CHR ''+'', CHR ''Z''}) t; z = drop (length clk) t in
      case iso_clock clk of None \<Rightarrow> None
      | Some (h, mi, sec, us) \<Rightarrow>
        (if h \<le> 23 \<and> mi \<le> 59 \<and> sec \<le> 59
         then map_option (Pair (at_time ord h mi sec us)) (iso_offset z) else None))"

definition fromisoformat :: "string \<Rightarrow> (int \<times> int option) option" where
  "fromisoformat s =
     (case iso_date_length s of None \<Rightarrow> None
      | Some n \<Rightarrow>
        (case iso_date (take n s) of None \<Rightarrow> None
         | Some ord \<Rightarrow>
           (let t = drop (n + 1) s in
            if t = [] then Some (at_time ord 0 0 0 0, None) else iso_time t ord)))"

text \<open>\<open>parsed if parsed.tzinfo else parsed.replace(tzinfo=UTC)\<close>, as an instant.\<close>

definition as_utc :: "int \<times> int option \<Rightarrow> datetime" where
  "as_utc p = fst p - (case snd p of None \<Rightarrow> 0 | Some off \<Rightarrow> off)"

text \<open>\<open>value.replace("Z", "+00:00")\<close>, as every caller does first.\<close>

definition utc_fromisoformat :: "string \<Rightarrow> datetime option" where
  "utc_fromisoformat s = map_option as_utc (fromisoformat (replace_char (CHR ''Z'') ''+00:00'' s))"

section \<open>Writing\<close>

text \<open>
  The date of a day counted from 1970-01-01, by eras of 400 years that begin on 1 March;
  \<open>date.isoformat\<close> and \<open>datetime.isoformat\<close> of an instant in UTC.
\<close>

definition civil :: "int \<Rightarrow> int \<times> int \<times> int" where
  "civil days =
     (let z = days + 719468; era = z div 146097; doe = z mod 146097;
          yoe = (doe - doe div 1460 + doe div 36524 - doe div 146096) div 365;
          doy = doe - (365 * yoe + yoe div 4 - yoe div 100);
          mp = (5 * doy + 2) div 153;
          m = (if mp < 10 then mp + 3 else mp - 9)
      in (yoe + era * 400 + (if m \<le> 2 then 1 else 0), m, doy - (153 * mp + 2) div 5 + 1))"

definition zero_pad :: "nat \<Rightarrow> int \<Rightarrow> string" where
  "zero_pad w i = (let s = show_int i in replicate (w - length s) (CHR ''0'') @ s)"

definition date_isoformat :: "int \<Rightarrow> string" where
  "date_isoformat days = (case civil days of (y, m, d) \<Rightarrow>
     zero_pad 4 y @ ''-'' @ zero_pad 2 m @ ''-'' @ zero_pad 2 d)"

definition clock_isoformat :: "int \<Rightarrow> string" where
  "clock_isoformat us =
     (let s = us div 1000000; f = us mod 1000000
      in zero_pad 2 (s div 3600) @ '':'' @ zero_pad 2 (s div 60 mod 60) @ '':'' @ zero_pad 2 (s mod 60)
         @ (if f = 0 then [] else ''.'' @ zero_pad 6 f))"

definition isoformat :: "datetime \<Rightarrow> string" where
  "isoformat t = date_isoformat (t div 86400000000) @ ''T'' @ clock_isoformat (t mod 86400000000) @ ''+00:00''"

text \<open>\<open>str(t)\<close> has a blank for the \<open>T\<close>.\<close>

definition datetime_str :: "datetime \<Rightarrow> string" where
  "datetime_str t = date_isoformat (t div 86400000000) @ '' '' @ clock_isoformat (t mod 86400000000) @ ''+00:00''"

section \<open>\<open>datetime.strptime\<close>\<close>

text \<open>
  A directive gives its possible values with the rest of the text, in the order in which the regular
  expression of \<open>strptime\<close> tries them; the first complete match counts and must use up the text.
\<close>

type_synonym directive = "string \<Rightarrow> (int \<times> string) list"

definition two_digits :: "int \<Rightarrow> int \<Rightarrow> directive" where
  "two_digits lo hi s = (case num 2 s of Some v \<Rightarrow> if lo \<le> v \<and> v \<le> hi then [(v, drop 2 s)] else [] | None \<Rightarrow> [])"

definition one_digit :: "int \<Rightarrow> directive" where
  "one_digit lo s = (case num 1 s of Some v \<Rightarrow> if lo \<le> v then [(v, drop 1 s)] else [] | None \<Rightarrow> [])"

definition dir_Y :: directive where
  "dir_Y s = (case num 4 s of Some v \<Rightarrow> [(v, drop 4 s)] | None \<Rightarrow> [])"

definition dir_m :: directive where
  "dir_m s = two_digits 1 12 s @ one_digit 1 s"

definition dir_d :: directive where
  "dir_d s = two_digits 1 31 s @ one_digit 1 s @ (if nth_is s 0 (CHR '' '') then one_digit 1 (drop 1 s) else [])"

definition dir_H :: directive where
  "dir_H s = two_digits 0 23 s @ one_digit 0 s"

definition dir_M :: directive where
  "dir_M s = two_digits 0 59 s @ one_digit 0 s"

definition month_names :: "string list" where
  "month_names = [''jan'', ''feb'', ''mar'', ''apr'', ''may'', ''jun'', ''jul'', ''aug'', ''sep'', ''oct'', ''nov'', ''dec'']"

definition dir_b :: directive where
  "dir_b s = (let w = map ascii_lower (take 3 s) in
     map (\<lambda>i. (int i, drop 3 s)) (filter (\<lambda>i. month_names ! (i - 1) = w) [1..<13]))"

definition literal :: "char \<Rightarrow> string \<Rightarrow> string list" where
  "literal c s = (if nth_is s 0 c then [drop 1 s] else [])"

text \<open>A blank of the pattern stands for one blank or more.\<close>

definition blanks :: "string \<Rightarrow> string list" where
  "blanks s = (if s \<noteq> [] \<and> is_space (hd s) then [dropWhile is_space s] else [])"

definition first_complete :: "('a \<times> string) list \<Rightarrow> 'a option" where
  "first_complete ms = (case ms of [] \<Rightarrow> None | (v, r) # _ \<Rightarrow> if r = [] then Some v else None)"

text \<open>The patterns \<open>%Y-%b-%d %H:%M\<close> and \<open>%Y-%m-%d\<close>, with \<open>replace(tzinfo=UTC)\<close>.\<close>

definition strptime_minute :: "string \<Rightarrow> datetime option" where
  "strptime_minute s =
     (case first_complete [((y, b, d, h, mi), r7).
           (y, r1) \<leftarrow> dir_Y s, r2 \<leftarrow> literal (CHR ''-'') r1,
           (b, r3) \<leftarrow> dir_b r2, r4 \<leftarrow> literal (CHR ''-'') r3,
           (d, r5) \<leftarrow> dir_d r4, r6 \<leftarrow> blanks r5,
           (h, q) \<leftarrow> dir_H r6, q1 \<leftarrow> literal (CHR '':'') q, (mi, r7) \<leftarrow> dir_M q1] of
        None \<Rightarrow> None
      | Some (y, b, d, h, mi) \<Rightarrow> map_option (\<lambda>ord. at_time ord h mi 0 0) (day_number y b d))"

definition strptime_day :: "string \<Rightarrow> datetime option" where
  "strptime_day s =
     (case first_complete [((y, m, d), r5).
           (y, r1) \<leftarrow> dir_Y s, r2 \<leftarrow> literal (CHR ''-'') r1,
           (m, r3) \<leftarrow> dir_m r2, r4 \<leftarrow> literal (CHR ''-'') r3, (d, r5) \<leftarrow> dir_d r4] of
        None \<Rightarrow> None
      | Some (y, m, d) \<Rightarrow> map_option (\<lambda>ord. at_time ord 0 0 0 0) (day_number y m d))"

end
