(* ===== verification/Sql.thy ===== *)
theory Sql
  imports Datetime "HOL-Library.Multiset" "HOL-Library.Char_ord" "HOL-Library.List_Lexorder"
begin

text \<open>
  The interface of the database. Tables are lists of rows, a row gives every column a value, and the
  statements the source builds with SQLAlchemy (\<open>insert\<close> with \<open>on_conflict_do_update\<close> and
  \<open>on_conflict_do_nothing\<close>, \<open>delete\<close>, updates of loaded objects) and the queries it runs are data with the meaning
  SQL gives them. The engine that runs them is a parameter; the locale \<open>database\<close> states what the program
  relies on: a transaction happens as a whole or not at all, and a query answers from the current contents.

  The theorems say what an upsert does to a table seen as a map from keys to rows.
\<close>

section \<open>Rows and statements\<close>

datatype cell =
    CNull
  | CBool bool
  | CInt int
  | CNum pyfloat
  | CText string
  | CTime datetime
  | CUuid nat

text \<open>
  The order of \<open>ORDER BY\<close>: NULL after every value, NaN after every number, texts by code point.
  Columns hold values of one type, so how values of different types compare does not matter.
\<close>

instantiation pyfloat :: linorder
begin

fun less_eq_pyfloat :: "pyfloat \<Rightarrow> pyfloat \<Rightarrow> bool" where
  "x \<le> NaN \<longleftrightarrow> True"
| "NaN \<le> y \<longleftrightarrow> False"
| "NegInf \<le> y \<longleftrightarrow> True"
| "x \<le> PosInf \<longleftrightarrow> True"
| "Fin a \<le> Fin b \<longleftrightarrow> a \<le> b"
| "(x :: pyfloat) \<le> y \<longleftrightarrow> False"

definition less_pyfloat :: "pyfloat \<Rightarrow> pyfloat \<Rightarrow> bool" where
  "x < y \<longleftrightarrow> x \<le> y \<and> \<not> y \<le> (x :: pyfloat)"

instance
proof
  fix x y z :: pyfloat
  show "x < y \<longleftrightarrow> x \<le> y \<and> \<not> y \<le> x" by (rule less_pyfloat_def)
  show "x \<le> x" by (cases x) simp_all
  show "x \<le> y \<Longrightarrow> y \<le> z \<Longrightarrow> x \<le> z" by (cases x; cases y; cases z; simp)
  show "x \<le> y \<Longrightarrow> y \<le> x \<Longrightarrow> x = y" by (cases x; cases y; simp)
  show "x \<le> y \<or> y \<le> x" by (cases x; cases y; auto)
qed

end

fun cell_rank :: "cell \<Rightarrow> nat" where
  "cell_rank (CBool b) = 0"
| "cell_rank (CInt i) = 1"
| "cell_rank (CNum x) = 2"
| "cell_rank (CText s) = 3"
| "cell_rank (CTime t) = 4"
| "cell_rank (CUuid u) = 5"
| "cell_rank CNull = 6"

instantiation cell :: linorder
begin

fun less_eq_cell :: "cell \<Rightarrow> cell \<Rightarrow> bool" where
  "CBool a \<le> CBool b \<longleftrightarrow> a \<le> b"
| "CInt a \<le> CInt b \<longleftrightarrow> a \<le> b"
| "CNum a \<le> CNum b \<longleftrightarrow> a \<le> b"
| "CText a \<le> CText b \<longleftrightarrow> a \<le> b"
| "CTime a \<le> CTime b \<longleftrightarrow> a \<le> b"
| "CUuid a \<le> CUuid b \<longleftrightarrow> a \<le> b"
| "(x :: cell) \<le> y \<longleftrightarrow> cell_rank x \<le> cell_rank y"

definition less_cell :: "cell \<Rightarrow> cell \<Rightarrow> bool" where
  "x < y \<longleftrightarrow> x \<le> y \<and> \<not> y \<le> (x :: cell)"

instance
proof
  fix x y z :: cell
  show "x < y \<longleftrightarrow> x \<le> y \<and> \<not> y \<le> x" by (rule less_cell_def)
  show "x \<le> x" by (cases x) simp_all
  show "x \<le> y \<Longrightarrow> y \<le> z \<Longrightarrow> x \<le> z" by (cases x; cases y; simp; cases z; simp)
  show "x \<le> y \<Longrightarrow> y \<le> x \<Longrightarrow> x = y" by (cases x; cases y; auto)
  show "x \<le> y \<or> y \<le> x" by (cases x; cases y; auto)
qed

end

type_synonym row = "string \<Rightarrow> cell"
type_synonym db = "string \<Rightarrow> row list"

definition row_of :: "(string \<times> cell) list \<Rightarrow> row" where
  "row_of kvs c = (case map_of kvs c of None \<Rightarrow> CNull | Some v \<Rightarrow> v)"

fun opt_text :: "string option \<Rightarrow> cell" where
  "opt_text None = CNull"
| "opt_text (Some s) = CText s"

fun opt_num :: "pyfloat option \<Rightarrow> cell" where
  "opt_num None = CNull"
| "opt_num (Some x) = CNum x"

fun opt_time :: "datetime option \<Rightarrow> cell" where
  "opt_time None = CNull"
| "opt_time (Some t) = CTime t"

text \<open>\<open>set_={c: excluded.c for c in cs}\<close>\<close>

definition take_over :: "string list \<Rightarrow> row \<Rightarrow> row \<Rightarrow> row" where
  "take_over cs old new = (\<lambda>c. if c \<in> set cs then new c else old c)"

text \<open>Assignments to the attributes of a loaded object.\<close>

definition assign :: "(string \<times> cell) list \<Rightarrow> row \<Rightarrow> row" where
  "assign kvs r = (\<lambda>c. case map_of kvs c of None \<Rightarrow> r c | Some v \<Rightarrow> v)"

text \<open>
  \<open>Insert table rows key update\<close>: with \<open>Some f\<close> a row whose key is there already becomes \<open>f old new\<close>, with
  \<open>None\<close> it is skipped. \<open>Add\<close> inserts plainly.
\<close>

datatype stmt =
    Insert string "row list" "string list" "(row \<Rightarrow> row \<Rightarrow> row) option"
  | Add string "row list"
  | Delete string "row \<Rightarrow> bool"
  | Update string "row \<Rightarrow> bool" "row \<Rightarrow> row"

section \<open>What a statement does\<close>

text \<open>Two rows conflict on a unique key when its columns agree; NULLs never do.\<close>

definition key_of :: "string list \<Rightarrow> row \<Rightarrow> cell list" where
  "key_of key r = map r key"

definition same_key :: "string list \<Rightarrow> row \<Rightarrow> row \<Rightarrow> bool" where
  "same_key key r s \<longleftrightarrow> key_of key r = key_of key s \<and> CNull \<notin> set (key_of key r)"

text \<open>
  A row the statement itself wrote is marked; writing it a second time is the error
  \<open>ON CONFLICT DO UPDATE command cannot affect row a second time\<close>.
\<close>

fun put_row :: "string list \<Rightarrow> (row \<Rightarrow> row \<Rightarrow> row) option \<Rightarrow> row \<Rightarrow> (row \<times> bool) list \<Rightarrow> (row \<times> bool) list option" where
  "put_row key upd new [] = Some [(new, True)]"
| "put_row key upd new ((old, written) # rest) =
     (if same_key key old new
      then (case upd of None \<Rightarrow> Some ((old, written) # rest)
            | Some f \<Rightarrow> if written then None else Some ((f old new, True) # rest))
      else map_option ((#) (old, written)) (put_row key upd new rest))"

fun put_rows :: "string list \<Rightarrow> (row \<Rightarrow> row \<Rightarrow> row) option \<Rightarrow> row list \<Rightarrow> (row \<times> bool) list \<Rightarrow> (row \<times> bool) list option" where
  "put_rows key upd [] tbl = Some tbl"
| "put_rows key upd (r # rs) tbl = (case put_row key upd r tbl of None \<Rightarrow> None | Some tbl' \<Rightarrow> put_rows key upd rs tbl')"

definition insert_rows :: "string list \<Rightarrow> (row \<Rightarrow> row \<Rightarrow> row) option \<Rightarrow> row list \<Rightarrow> row list \<Rightarrow> row list option" where
  "insert_rows key upd rows tbl =
     map_option (map fst) (put_rows key upd rows (map (\<lambda>r. (r, False)) tbl))"

fun exec :: "stmt \<Rightarrow> db \<Rightarrow> db option" where
  "exec (Insert t rows key upd) d = map_option (\<lambda>tbl. d(t := tbl)) (insert_rows key upd rows (d t))"
| "exec (Add t rows) d = Some (d(t := d t @ rows))"
| "exec (Delete t p) d = Some (d(t := filter (\<lambda>r. \<not> p r) (d t)))"
| "exec (Update t p f) d = Some (d(t := map (\<lambda>r. if p r then f r else r) (d t)))"

fun exec_all :: "stmt list \<Rightarrow> db \<Rightarrow> db option" where
  "exec_all [] d = Some d"
| "exec_all (s # ss) d = (case exec s d of None \<Rightarrow> None | Some d' \<Rightarrow> exec_all ss d')"

lemma exec_all_append: "exec_all (ss @ ts) d = (case exec_all ss d of None \<Rightarrow> None | Some d' \<Rightarrow> exec_all ts d')"
  by (induction ss arbitrary: d) (auto split: option.splits)

section \<open>Queries\<close>

text \<open>
  \<open>SELECT \<dots> FROM \<dots> WHERE \<dots> ORDER BY \<dots> OFFSET \<dots> LIMIT\<close>. What the rows come from is a function of the database: a
  table, a join or a grouping. An order is a list of expressions, each with whether it descends; rows the order
  does not tell apart come in any order.
\<close>

type_synonym ordering = "((row \<Rightarrow> cell) \<times> bool) list"

fun row_le :: "ordering \<Rightarrow> row \<Rightarrow> row \<Rightarrow> bool" where
  "row_le [] r s = True"
| "row_le ((f, desc) # os) r s =
     (if f r = f s then row_le os r s else if desc then f s < f r else f r < f s)"

record query =
  q_from :: "db \<Rightarrow> row list"
  q_where :: "row \<Rightarrow> bool"
  q_order :: ordering
  q_offset :: nat
  q_limit :: "nat option"

definition select_from :: "string \<Rightarrow> (row \<Rightarrow> bool) \<Rightarrow> query" where
  "select_from t p = \<lparr>q_from = (\<lambda>d. d t), q_where = p, q_order = [], q_offset = 0, q_limit = None\<rparr>"

definition limited :: "query \<Rightarrow> row list \<Rightarrow> row list" where
  "limited q rows = (case q_limit q of None \<Rightarrow> drop (q_offset q) rows | Some n \<Rightarrow> take n (drop (q_offset q) rows))"

definition answers :: "query \<Rightarrow> db \<Rightarrow> row list \<Rightarrow> bool" where
  "answers q d rows \<longleftrightarrow> (\<exists>xs. mset xs = mset (filter (q_where q) (q_from q d))
     \<and> sorted_wrt (row_le (q_order q)) xs \<and> rows = limited q xs)"

lemma row_le_total: "row_le os r s \<or> row_le os s r"
  by (induction os r s rule: row_le.induct) auto

lemma row_le_trans: "row_le os r s \<Longrightarrow> row_le os s t \<Longrightarrow> row_le os r t"
proof (induction os)
  case (Cons o1 os)
  obtain f desc where o1: "o1 = (f, desc)" by (cases o1)
  consider "f r = f s" "f s = f t" | "f r = f s" "f s \<noteq> f t" | "f r \<noteq> f s" "f s = f t" | "f r \<noteq> f s" "f s \<noteq> f t"
    by blast
  then show ?case
  proof cases
    case 4
    with Cons.prems o1 show ?thesis
      by (cases desc) (simp_all, (metis less_trans order_less_irrefl)+)
  next
    case 3
    with Cons.prems o1 show ?thesis by (cases desc) simp_all
  qed (use Cons o1 in simp_all)
qed simp

lemma sorted_row_le_Nil: "sorted_wrt (row_le []) xs"
  by (induction xs) auto

lemma answers_select_from: "answers (select_from t p) d rows \<longleftrightarrow> mset rows = mset (filter p (d t))"
  by (auto simp: answers_def select_from_def limited_def sorted_row_le_Nil)

lemma limited_subset: "set (limited q xs) \<subseteq> set xs"
  by (auto simp: limited_def dest!: in_set_takeD in_set_dropD split: option.splits)

lemma answers_mem:
  assumes "answers q d rows" "r \<in> set rows"
  shows "r \<in> set (q_from q d) \<and> q_where q r"
proof -
  from assms(1) obtain xs where "mset xs = mset (filter (q_where q) (q_from q d))" "rows = limited q xs"
    by (auto simp: answers_def)
  with limited_subset [of q xs] assms(2) have "r \<in> set (filter (q_where q) (q_from q d))"
    by (metis mset_eq_setD subsetD)
  then show ?thesis by simp
qed

lemma answers_length: "answers q d rows \<Longrightarrow> q_limit q = Some n \<Longrightarrow> length rows \<le> n"
  by (auto simp: answers_def limited_def)

section \<open>The engine\<close>

record 's engine =
  eng_tx :: "stmt list \<Rightarrow> ('s, unit) io"
  eng_select :: "query \<Rightarrow> ('s, row list) io"

locale database =
  fixes E :: "'s engine" and view :: "'s \<Rightarrow> db"
  assumes tx_done: "eng_tx E ss s = (Inr u, s') \<Longrightarrow> exec_all ss (view s) = Some (view s')"
    and tx_failed: "eng_tx E ss s = (Inl err, s') \<Longrightarrow>
      view s' = view s \<or> exec_all ss (view s) = Some (view s')"
    and select_answers: "eng_select E q s = (Inr rows, s') \<Longrightarrow> answers q (view s) rows"
    and select_quiet: "eng_select E q s = (r, s') \<Longrightarrow> view s' = view s"

text \<open>A database that is up: it answers, and runs every transaction whose statements succeed.\<close>

locale database_up = database +
  assumes tx_up: "exec_all ss (view s) = Some d \<Longrightarrow> \<exists>s'. eng_tx E ss s = (Inr (), s')"
    and select_up: "\<exists>rows s'. eng_select E q s = (Inr rows, s')"

context database_up
begin

lemma tx_runs:
  assumes "exec_all ss (view s) = Some d"
  obtains s' where "eng_tx E ss s = (Inr (), s')" "view s' = d"
proof -
  from tx_up [OF assms] obtain s' where s': "eng_tx E ss s = (Inr (), s')" by blast
  from tx_done [OF this] assms that [OF s'] show ?thesis by simp
qed

end

text \<open>
  The documented engine: statements run as written, and a query sorts by insertion. It meets
  both locales, so neither set of laws is contradictory; the witnesses of the development use it.
\<close>

fun insort_row :: "ordering \<Rightarrow> row \<Rightarrow> row list \<Rightarrow> row list" where
  "insort_row os r [] = [r]"
| "insort_row os r (s # ss) = (if row_le os r s then r # s # ss else s # insort_row os r ss)"

definition sort_rows :: "ordering \<Rightarrow> row list \<Rightarrow> row list" where
  "sort_rows os rs = foldr (insort_row os) rs []"

definition doc_tx :: "stmt list \<Rightarrow> (db, unit) io" where
  "doc_tx ss d = (case exec_all ss d of
     None \<Rightarrow> (Inl (OtherError ''CardinalityViolationError''), d) | Some d' \<Rightarrow> (Inr (), d'))"

definition doc_select :: "query \<Rightarrow> (db, row list) io" where
  "doc_select q d = (Inr (limited q (sort_rows (q_order q) (filter (q_where q) (q_from q d)))), d)"

definition doc_engine :: "db engine" where
  "doc_engine = \<lparr>eng_tx = doc_tx, eng_select = doc_select\<rparr>"

lemma mset_insort_row [simp]: "mset (insort_row os r ss) = add_mset r (mset ss)"
  by (induction ss) auto

lemma set_insort_row [simp]: "set (insort_row os r ss) = insert r (set ss)"
  by (induction ss) auto

lemma sorted_insort_row: "sorted_wrt (row_le os) ss \<Longrightarrow> sorted_wrt (row_le os) (insort_row os r ss)"
proof (induction ss)
  case (Cons s ss)
  show ?case
  proof (cases "row_le os r s")
    case True
    with Cons.prems row_le_trans [OF True] show ?thesis by auto
  next
    case False
    then have "row_le os s r" using row_le_total by blast
    with Cons False show ?thesis by simp
  qed
qed simp

lemma sort_rows: "mset (sort_rows os rs) = mset rs" "sorted_wrt (row_le os) (sort_rows os rs)"
  unfolding sort_rows_def by (induction rs) (auto simp: sorted_insort_row)

interpretation doc_db: database_up doc_engine "\<lambda>d. d"
proof unfold_locales
  fix q and s s' :: db and rows
  assume "eng_select doc_engine q s = (Inr rows, s')"
  then show "answers q s rows"
    using sort_rows [of "q_order q" "filter (q_where q) (q_from q s)"]
    by (auto simp: doc_engine_def doc_select_def answers_def)
qed (auto simp: doc_engine_def doc_tx_def doc_select_def split: option.splits)

section \<open>A table with a unique key is a map\<close>

definition keyed :: "string list \<Rightarrow> row list \<Rightarrow> bool" where
  "keyed key tbl \<longleftrightarrow> distinct (map (key_of key) tbl) \<and> (\<forall>r\<in>set tbl. CNull \<notin> set (key_of key r))"

definition by_key :: "string list \<Rightarrow> row list \<Rightarrow> cell list \<Rightarrow> row option" where
  "by_key key tbl = map_of (map (\<lambda>r. (key_of key r, r)) tbl)"

text \<open>The abstract operation: one row put into the map.\<close>

definition put_key :: "string list \<Rightarrow> (row \<Rightarrow> row \<Rightarrow> row) option \<Rightarrow> row \<Rightarrow> (cell list \<Rightarrow> row option) \<Rightarrow> cell list \<Rightarrow> row option" where
  "put_key key upd new m = (case m (key_of key new) of
      None \<Rightarrow> m(key_of key new \<mapsto> new)
    | Some old \<Rightarrow> (case upd of None \<Rightarrow> m | Some f \<Rightarrow> m(key_of key new \<mapsto> f old new)))"

definition keeps_key :: "string list \<Rightarrow> (row \<Rightarrow> row \<Rightarrow> row) option \<Rightarrow> bool" where
  "keeps_key key upd \<longleftrightarrow> (\<forall>f old new. upd = Some f \<longrightarrow> key_of key (f old new) = key_of key old)"

lemma by_key_Nil [simp]: "by_key key [] = Map.empty"
  by (simp add: by_key_def)

lemma by_key_Cons [simp]: "by_key key (r # tbl) = (by_key key tbl)(key_of key r \<mapsto> r)"
  by (simp add: by_key_def)

lemma by_key_SomeD: "by_key key tbl k = Some r \<Longrightarrow> r \<in> set tbl \<and> key_of key r = k"
  by (auto simp: by_key_def dest!: map_of_SomeD)

lemma by_key_mem: "keyed key tbl \<Longrightarrow> by_key key tbl k = Some r \<longleftrightarrow> r \<in> set tbl \<and> key_of key r = k"
  by (induction tbl) (auto simp: keyed_def image_iff)

lemma by_key_None: "by_key key tbl k = None \<longleftrightarrow> k \<notin> key_of key ` set tbl"
  by (induction tbl) auto

lemma keeps_key_take_over: "set key \<inter> set cs = {} \<Longrightarrow> keeps_key key (Some (take_over cs))"
  by (auto simp: keeps_key_def key_of_def take_over_def)

lemma keeps_key_None [simp]: "keeps_key key None"
  by (simp add: keeps_key_def)

lemma put_row_spec:
  assumes "put_row key upd new mt = Some mt'" "keyed key (map fst mt)" "keeps_key key upd"
    "CNull \<notin> set (key_of key new)"
  shows "map (key_of key \<circ> fst) mt' = (let ks = map (key_of key \<circ> fst) mt in
      if key_of key new \<in> set ks then ks else ks @ [key_of key new])
    \<and> by_key key (map fst mt') = put_key key upd new (by_key key (map fst mt))"
  using assms
proof (induction mt arbitrary: mt')
  case Nil
  then show ?case by (auto simp: put_key_def)
next
  case (Cons p rest)
  obtain old written where p: "p = (old, written)" by (cases p)
  show ?case
  proof (cases "key_of key old = key_of key new")
    case True
    then have "same_key key old new" using Cons.prems(2) p by (simp add: same_key_def keyed_def)
    with Cons.prems(1,3) p True show ?thesis
      by (auto simp: put_key_def keeps_key_def split: option.splits if_splits)
  next
    case False
    then have "\<not> same_key key old new" by (simp add: same_key_def)
    with Cons.prems(1) p obtain rest' where rest': "put_row key upd new rest = Some rest'" "mt' = (old, written) # rest'"
      by auto
    from Cons.prems(2) have "keyed key (map fst rest)" by (simp add: keyed_def)
    note ih = Cons.IH [OF rest'(1) this Cons.prems(3,4)]
    have swap: "(put_key key upd new m)(key_of key old \<mapsto> old) = put_key key upd new (m(key_of key old \<mapsto> old))" for m
      using False by (auto simp: put_key_def fun_upd_twist split: option.splits)
    show ?thesis
    proof
      show "by_key key (map fst mt') = put_key key upd new (by_key key (map fst (p # rest)))"
        using ih swap [of "by_key key (map fst rest)"] by (simp add: rest'(2) p del: fun_upd_apply)
    qed (use ih rest'(2) p False in \<open>auto simp: Let_def\<close>)
  qed
qed

lemma put_row_keyed:
  assumes "put_row key upd new mt = Some mt'" "keyed key (map fst mt)" "keeps_key key upd"
    "CNull \<notin> set (key_of key new)"
  shows "keyed key (map fst mt')"
proof -
  have ks: "map (key_of key) (map fst mt') = (let ks = map (key_of key) (map fst mt) in
      if key_of key new \<in> set ks then ks else ks @ [key_of key new])"
    using put_row_spec [OF assms] by (simp add: Let_def)
  have "distinct (map (key_of key) (map fst mt'))"
    unfolding ks using assms(2) by (auto simp: keyed_def Let_def)
  moreover have "CNull \<notin> set k" if "k \<in> set (map (key_of key) (map fst mt'))" for k
    using that assms(2,4) unfolding ks by (auto simp: keyed_def Let_def split: if_splits)
  ultimately show ?thesis by (auto simp: keyed_def)
qed

lemma put_rows_spec:
  assumes "put_rows key upd rows mt = Some mt'" "keyed key (map fst mt)" "keeps_key key upd"
    "\<forall>r\<in>set rows. CNull \<notin> set (key_of key r)"
  shows "keyed key (map fst mt') \<and> by_key key (map fst mt') = fold (put_key key upd) rows (by_key key (map fst mt))"
  using assms
proof (induction rows arbitrary: mt)
  case (Cons r rows)
  from Cons.prems obtain mt1 where m: "put_row key upd r mt = Some mt1" "put_rows key upd rows mt1 = Some mt'"
    by (auto split: option.splits)
  have n: "CNull \<notin> set (key_of key r)" using Cons.prems by simp
  from Cons.IH [OF m(2) put_row_keyed [OF m(1) Cons.prems(2,3) n] Cons.prems(3)] Cons.prems(4)
    put_row_spec [OF m(1) Cons.prems(2,3) n]
  show ?case by simp
qed simp

lemma insert_rows_spec:
  assumes "insert_rows key upd rows tbl = Some tbl'" "keyed key tbl" "keeps_key key upd"
    "\<forall>r\<in>set rows. CNull \<notin> set (key_of key r)"
  shows "keyed key tbl' \<and> by_key key tbl' = fold (put_key key upd) rows (by_key key tbl)"
proof -
  from assms(1) obtain mt' where "put_rows key upd rows (map (\<lambda>r. (r, False)) tbl) = Some mt'" "tbl' = map fst mt'"
    by (auto simp: insert_rows_def)
  with put_rows_spec [OF this(1) _ assms(3,4)] assms(2) show ?thesis by (simp add: comp_def)
qed

subsection \<open>When the statement succeeds\<close>

lemma put_row_defined:
  assumes "upd = None \<or> (\<forall>(r, w)\<in>set mt. w \<longrightarrow> key_of key r \<noteq> key_of key new)"
  shows "\<exists>mt'. put_row key upd new mt = Some mt'"
  using assms
proof (induction mt)
  case (Cons p rest)
  then show ?case by (cases p) (auto simp: same_key_def split: option.splits)
qed simp

lemma put_row_marks:
  assumes "put_row key upd new mt = Some mt'" "keeps_key key upd" "(r, True) \<in> set mt'"
  shows "key_of key r = key_of key new \<or> (r, True) \<in> set mt"
  using assms
proof (induction mt arbitrary: mt')
  case (Cons p rest)
  obtain old written where p: "p = (old, written)" by (cases p)
  show ?case
  proof (cases "same_key key old new")
    case True
    with Cons.prems p show ?thesis
      by (auto simp: keeps_key_def same_key_def split: option.splits if_splits)
  next
    case False
    with Cons p show ?thesis by auto
  qed
qed auto

lemma put_rows_defined:
  assumes "keeps_key key upd" "upd = None \<or> distinct (map (key_of key) rows)
      \<and> (\<forall>(r, w)\<in>set mt. w \<longrightarrow> key_of key r \<notin> key_of key ` set rows)"
  shows "\<exists>mt'. put_rows key upd rows mt = Some mt'"
  using assms(2)
proof (induction rows arbitrary: mt)
  case (Cons r rows)
  then obtain mt1 where m: "put_row key upd r mt = Some mt1"
    using put_row_defined [of upd mt key r] by fastforce
  have "upd = None \<or> distinct (map (key_of key) rows) \<and> (\<forall>(x, w)\<in>set mt1. w \<longrightarrow> key_of key x \<notin> key_of key ` set rows)"
    using Cons.prems put_row_marks [OF m assms(1)] by fastforce
  from Cons.IH [OF this] m show ?case by simp
qed simp

lemma insert_rows_defined:
  assumes "keeps_key key upd" "upd = None \<or> distinct (map (key_of key) rows)"
  obtains tbl' where "insert_rows key upd rows tbl = Some tbl'"
proof -
  have "\<exists>mt'. put_rows key upd rows (map (\<lambda>r. (r, False)) tbl) = Some mt'"
    by (rule put_rows_defined [OF assms(1)]) (use assms(2) in auto)
  with that show ?thesis by (auto simp: insert_rows_def)
qed

subsection \<open>Rows with distinct keys\<close>

lemma fold_put_key_other:
  "k \<notin> key_of key ` set rows \<Longrightarrow> fold (put_key key upd) rows m k = m k"
  by (induction rows arbitrary: m) (auto simp: put_key_def split: option.splits)

lemma fold_put_key:
  assumes "distinct (map (key_of key) rows)" "new \<in> set rows"
  shows "fold (put_key key upd) rows m (key_of key new) = (case m (key_of key new) of
      None \<Rightarrow> Some new | Some old \<Rightarrow> Some (case upd of None \<Rightarrow> old | Some f \<Rightarrow> f old new))"
  using assms
proof (induction rows arbitrary: m)
  case (Cons r rows)
  show ?case
  proof (cases "new = r")
    case True
    with Cons.prems have "key_of key new \<notin> key_of key ` set rows" by auto
    then show ?thesis using True by (simp add: fold_put_key_other) (auto simp: put_key_def split: option.splits)
  next
    case False
    with Cons.prems have n: "new \<in> set rows" "key_of key r \<noteq> key_of key new" by auto
    with Cons show ?thesis by (auto simp: put_key_def split: option.splits)
  qed
qed simp

text \<open>
  What a list of rows makes of the map: a key takes its first row, joined to the row that is there.
\<close>

definition upserted ::
  "string list \<Rightarrow> (row \<Rightarrow> row \<Rightarrow> row) option \<Rightarrow> row list \<Rightarrow> (cell list \<Rightarrow> row option) \<Rightarrow> cell list \<Rightarrow> row option" where
  "upserted key upd rows m = (\<lambda>k. case find (\<lambda>r. key_of key r = k) rows of
      None \<Rightarrow> m k
    | Some new \<Rightarrow> Some (case m k of None \<Rightarrow> new | Some old \<Rightarrow> (case upd of None \<Rightarrow> old | Some f \<Rightarrow> f old new)))"

lemma upserted_Cons: "upserted key None (r # rows) m = upserted key None rows (put_key key None r m)"
proof
  fix k
  show "upserted key None (r # rows) m k = upserted key None rows (put_key key None r m) k"
    by (cases "key_of key r = k"; cases "m (key_of key r)"; cases "find (\<lambda>x. key_of key x = k) rows")
       (auto simp: upserted_def put_key_def)
qed

lemma fold_put_key_None: "fold (put_key key None) rows m = upserted key None rows m"
proof (induction rows arbitrary: m)
  case Nil
  show ?case by (rule ext) (simp add: upserted_def)
next
  case (Cons r rows)
  then show ?case by (simp add: upserted_Cons)
qed

lemma fold_put_key_upserted:
  assumes "upd = None \<or> distinct (map (key_of key) rows)"
  shows "fold (put_key key upd) rows m = upserted key upd rows m"
proof (cases "upd = None")
  case False
  with assms have d: "distinct (map (key_of key) rows)" by simp
  show ?thesis
  proof
    fix k
    show "fold (put_key key upd) rows m k = upserted key upd rows m k"
    proof (cases "find (\<lambda>r. key_of key r = k) rows")
      case None
      then have "k \<notin> key_of key ` set rows" by (auto simp: find_None_iff)
      with None show ?thesis by (simp add: upserted_def fold_put_key_other)
    next
      case (Some new)
      then have "new \<in> set rows" "key_of key new = k" by (auto simp: find_Some_iff)
      with Some fold_put_key [OF d this(1)] show ?thesis by (auto simp: upserted_def split: option.splits)
    qed
  qed
qed (simp add: fold_put_key_None)

lemma upserted_dom: "upserted key upd rows m k = None \<longleftrightarrow> m k = None \<and> k \<notin> key_of key ` set rows"
  by (auto simp: upserted_def find_None_iff split: option.splits) (auto simp: find_Some_iff)

lemma find_key:
  "distinct (map (key_of key) rows) \<Longrightarrow> r \<in> set rows \<Longrightarrow> find (\<lambda>x. key_of key x = key_of key r) rows = Some r"
  by (induction rows) auto

lemma upserted_row:
  assumes "distinct (map (key_of key) rows)" "r \<in> set rows"
  shows "upserted key upd rows m (key_of key r) =
    Some (case m (key_of key r) of None \<Rightarrow> r | Some old \<Rightarrow> (case upd of None \<Rightarrow> old | Some f \<Rightarrow> f old r))"
  by (simp add: upserted_def find_key [OF assms])

lemma upserted_other: "k \<notin> key_of key ` set rows \<Longrightarrow> upserted key upd rows m k = m k"
  by (auto simp: upserted_def split: option.splits dest: find_Some_iff [THEN iffD1])

end
