(* ===== verification/Queue.thy ===== *)
theory Queue
  imports Sql
begin

text \<open>
  The message queue (\<open>src/core/queue.py\<close>) and the interface of NATS JetStream. The client of NATS is a
  parameter, a record of the operations the program calls; the locale \<open>message_bus\<close> states what publishing does to
  the messages sent so far, and \<open>platform\<close> puts a database and a bus over one state.
\<close>

section \<open>The client\<close>

record 's nats =
  js_publish :: "string \<Rightarrow> string \<Rightarrow> ('s, unit) io"
  js_stream_info :: "string \<Rightarrow> ('s, unit) io"
  js_add_stream :: "string \<Rightarrow> string list \<Rightarrow> ('s, unit) io"
  nc_connect :: "string \<Rightarrow> ('s, unit) io"
  nc_is_closed :: "'s \<Rightarrow> bool"
  nc_close :: "('s, unit) io"

definition NotFoundError :: exn where "NotFoundError = OtherError ''NotFoundError''"

definition connect_nats :: "'s nats \<Rightarrow> string \<Rightarrow> ('s, unit) io" where
  "connect_nats N nats_url = nc_connect N nats_url"

definition close_nats :: "'s nats \<Rightarrow> ('s, unit) io" where
  "close_nats N = (\<lambda>s. if nc_is_closed N s then (Inr (), s) else nc_close N s)"

text \<open>Another process may create the stream between the two calls; then it is looked up again.\<close>

definition ensure_event_stream :: "'s nats \<Rightarrow> ('s, unit) io" where
  "ensure_event_stream N = (\<lambda>s. case js_stream_info N ''EVENTS'' s of
      (Inr _, s1) \<Rightarrow> (Inr (), s1)
    | (Inl e, s1) \<Rightarrow>
        (if e = NotFoundError
         then catchc (js_add_stream N ''EVENTS'' [''events.>'']) (\<lambda>_. js_stream_info N ''EVENTS'') s1
         else (Inl e, s1)))"

section \<open>Events and their subscribers\<close>

definition OUTBOUND :: string where "OUTBOUND = ''events.webhooks.outbound''"

definition active :: "row \<Rightarrow> bool" where
  "active r \<longleftrightarrow> r ''active'' = CBool True"

text \<open>\<open>event_name in set(json.loads(webhook.events))\<close>.\<close>

definition member_of :: "string \<Rightarrow> pyval list \<Rightarrow> exn + bool" where
  "member_of x vs = (if list_all hashable vs then Inr (PStr x \<in> set vs) else Inl TypeError)"

fun subscribed :: "string \<Rightarrow> cell \<Rightarrow> exn + bool" where
  "subscribed event_name (CText events) = (case loads events of
     None \<Rightarrow> Inl (ValueError ''JSONDecodeError'')
   | Some v \<Rightarrow> bindr (items v) (member_of event_name))"
| "subscribed event_name c = Inl TypeError"

fun text_value :: "cell \<Rightarrow> pyval" where
  "text_value (CText s) = PStr s"
| "text_value c = PNone"

section \<open>What the program relies on\<close>

locale message_bus =
  fixes N :: "'s nats" and sent :: "'s \<Rightarrow> (string \<times> string) list"
  assumes publish_done: "js_publish N subj msg s = (Inr u, s') \<Longrightarrow> sent s' = sent s @ [(subj, msg)]"
    and publish_failed: "js_publish N subj msg s = (Inl e, s') \<Longrightarrow>
      sent s' = sent s \<or> sent s' = sent s @ [(subj, msg)]"

locale message_bus_up = message_bus +
  assumes publish_up: "\<exists>s'. js_publish N subj msg s = (Inr (), s')"

locale streams =
  fixes N :: "'s nats" and has_stream :: "'s \<Rightarrow> string \<Rightarrow> bool"
  assumes info_found: "js_stream_info N name s = (Inr u, s') \<Longrightarrow> has_stream s' name"
    and add_created: "js_add_stream N name subjects s = (Inr u, s') \<Longrightarrow> has_stream s' name"
begin

lemma ensure_creates: "ensure_event_stream N s = (Inr u, s') \<Longrightarrow> has_stream s' ''EVENTS''"
  using info_found add_created
  by (auto simp: ensure_event_stream_def catchc_apply split: prod.splits sum.splits if_splits)

end

text \<open>A database and a bus that do not disturb each other, both up.\<close>

locale platform =
  db: database_up E view + bus: message_bus_up N sent
  for E :: "'s engine" and view :: "'s \<Rightarrow> db" and N :: "'s nats" and sent :: "'s \<Rightarrow> (string \<times> string) list" +
  assumes tx_sent: "eng_tx E ss s = (r, s') \<Longrightarrow> sent s' = sent s"
    and select_sent: "eng_select E q s = (rows, s') \<Longrightarrow> sent s' = sent s"
    and publish_view: "js_publish N subj msg s = (u, s') \<Longrightarrow> view s' = view s"
begin

lemma publishes:
  obtains s' where "js_publish N subj msg s = (Inr (), s')" "sent s' = sent s @ [(subj, msg)]" "view s' = view s"
  using bus.publish_up bus.publish_done publish_view by metis

lemma runs:
  assumes "exec_all ss (view s) = Some d"
  obtains s' where "eng_tx E ss s = (Inr (), s')" "view s' = d" "sent s' = sent s"
  using db.tx_runs [OF assms] tx_sent by metis

lemma selects:
  obtains rows s' where "eng_select E q s = (Inr rows, s')" "answers q (view s) rows"
    "view s' = view s" "sent s' = sent s"
  using db.select_up [of q s] db.select_answers db.select_quiet select_sent by metis

end

section \<open>The documented platform\<close>

record world =
  w_db :: db
  w_sent :: "(string \<times> string) list"
  w_streams :: "string list"

definition world_engine :: "world engine" where
  "world_engine = \<lparr>eng_tx = \<lambda>ss w. case doc_tx ss (w_db w) of (r, d) \<Rightarrow> (r, w\<lparr>w_db := d\<rparr>),
     eng_select = \<lambda>q w. (fst (doc_select q (w_db w)), w)\<rparr>"

definition world_nats :: "world nats" where
  "world_nats = \<lparr>js_publish = \<lambda>subj msg w. (Inr (), w\<lparr>w_sent := w_sent w @ [(subj, msg)]\<rparr>),
     js_stream_info = \<lambda>name w. (if name \<in> set (w_streams w) then Inr () else Inl NotFoundError, w),
     js_add_stream = \<lambda>name subjects w. (Inr (), w\<lparr>w_streams := name # w_streams w\<rparr>),
     nc_connect = \<lambda>url. ret (), nc_is_closed = \<lambda>w. False, nc_close = ret ()\<rparr>"

lemmas world_defs = world_engine_def world_nats_def doc_tx_def doc_select_def

interpretation world: platform world_engine w_db world_nats w_sent
proof unfold_locales
  fix q :: query and s s' :: world and rows
  assume "eng_select world_engine q s = (Inr rows, s')"
  then show "answers q (w_db s) rows"
    using doc_db.select_answers [of q "w_db s" rows "w_db s"]
    by (auto simp: world_engine_def doc_engine_def doc_select_def)
qed (auto simp: world_defs split: option.splits)

interpretation world_streams: streams world_nats "\<lambda>w name. name \<in> set (w_streams w)"
  by unfold_locales (auto simp: world_nats_def split: if_splits)

end
