(* ===== verification/Scheduler.thy ===== *)
theory Scheduler
  imports Valkey Capabilities
begin

text \<open>
  The job control of the ingestion scheduler (\<open>src/ingestion/scheduler.py\<close>): the slot of a job in
  Valkey, the guarded loop that runs it, its retry delays and the jobs the settings start. The second
  half is the system of all replicas of one job as a step relation: a replica that gets the slot runs
  the job, and when the job ends it holds the slot until the next run is due.

  Clocks are milliseconds; the delays the code computes are seconds, as exact rationals. The random
  factor of a retry delay is an argument.
\<close>

section \<open>Delays and errors\<close>

definition FIRST_RETRY_SECONDS :: nat where "FIRST_RETRY_SECONDS = 60"
definition RUNNING_LEASE_SECONDS :: nat where "RUNNING_LEASE_SECONDS = 900"

text \<open>\<open>jitter\<close> is \<open>random.uniform(0.8, 1.2)\<close>.\<close>

definition retry_delay :: "rat \<Rightarrow> nat \<Rightarrow> nat \<Rightarrow> rat" where
  "retry_delay jitter consecutive_failures interval_seconds =
     min (rat_of_nat (FIRST_RETRY_SECONDS * 2 ^ min (consecutive_failures - 1) 10)) (rat_of_nat interval_seconds)
       * jitter"

text \<open>The class name of an exception and its text.\<close>

fun exn_name :: "exn \<Rightarrow> string" where
  "exn_name (HTTPException _) = ''HTTPException''"
| "exn_name (ValueError _) = ''ValueError''"
| "exn_name (RuntimeError _) = ''RuntimeError''"
| "exn_name CacheBusyError = ''CacheBusyError''"
| "exn_name CacheValueTooLargeError = ''CacheValueTooLargeError''"
| "exn_name (ProviderUnavailableError _) = ''ProviderUnavailableError''"
| "exn_name (ProviderResponseTooLargeError _) = ''ProviderResponseTooLargeError''"
| "exn_name (ProviderQuotaError _) = ''ProviderQuotaError''"
| "exn_name (ProviderRequestError _) = ''ProviderRequestError''"
| "exn_name (CelestrakNotModifiedError _) = ''CelestrakNotModifiedError''"
| "exn_name TimeoutError = ''TimeoutError''"
| "exn_name (OtherError n) = n"
| "exn_name CancelledError = ''CancelledError''"

fun self_describing :: "exn \<Rightarrow> string option" where
  "self_describing (ProviderQuotaError m) = Some m"
| "self_describing (ProviderRequestError m) = Some m"
| "self_describing (ProviderResponseTooLargeError m) = Some m"
| "self_describing (ProviderUnavailableError m) = Some m"
| "self_describing _ = None"

definition safe_error :: "exn \<Rightarrow> string" where
  "safe_error e = (case self_describing e of
      Some m \<Rightarrow> take 300 (exn_name e @ '': '' @ m) | None \<Rightarrow> exn_name e)"

section \<open>The slot\<close>

definition slot_key :: "string \<Rightarrow> string" where
  "slot_key job_name = ''scheduler:lock:'' @ job_name"

text \<open>0 means the slot is ours; otherwise the seconds to wait before asking again.\<close>

definition acquire_slot :: "'s valkey \<Rightarrow> nat \<Rightarrow> string \<Rightarrow> nat \<Rightarrow> ('s, rat) io" where
  "acquire_slot V t lock_key lease_seconds = catchc
     (bindc (vk_set V t lock_key ''1'' (Some lease_seconds) True) (\<lambda>ok.
        if ok then ret 0
        else bindc (vk_ttl V t lock_key) (\<lambda>ttl. ret (rat_of_int (max ttl 5)))))
     (\<lambda>_. ret (rat_of_nat FIRST_RETRY_SECONDS))"

definition hold_seconds :: "rat \<Rightarrow> nat" where
  "hold_seconds seconds = nat (max (py_int seconds) 1)"

definition hold_slot :: "'s valkey \<Rightarrow> nat \<Rightarrow> string \<Rightarrow> rat \<Rightarrow> ('s, unit) io" where
  "hold_slot V t lock_key seconds = catchc
     (bindc (vk_set V t lock_key ''1'' (Some (hold_seconds seconds)) False) (\<lambda>_. ret ()))
     (\<lambda>_. ret ())"

section \<open>The guarded loop\<close>

text \<open>
  What a pass of the loop tells the rest of the system: provider health and webhook events, each of
  which swallows its own failures.
\<close>

datatype notice =
    Health string string "string option"
  | Degraded string string string

record pass =
  pass_sleep :: rat
  pass_failures :: nat
  pass_notices :: "notice list"

text \<open>
  One pass of \<open>while True\<close> started at \<open>t\<close>. The job runs for \<open>dur\<close> milliseconds; with the notices the
  pass takes \<open>dur'\<close> until it sets the slot. \<open>Inl\<close> is an exception that leaves the loop.
\<close>

definition guarded_pass ::
  "'s valkey \<Rightarrow> string option \<Rightarrow> string \<Rightarrow> nat \<Rightarrow> ('s, unit) io \<Rightarrow> rat \<Rightarrow> nat \<Rightarrow> nat \<Rightarrow> nat \<Rightarrow> ('s, pass) io" where
  "guarded_pass V provider_id job_name interval job jitter t dur consecutive_failures =
     bindc (acquire_slot V t (slot_key job_name) RUNNING_LEASE_SECONDS) (\<lambda>wait.
       if wait \<noteq> 0 then
         ret \<lparr>pass_sleep = wait, pass_failures = consecutive_failures, pass_notices = []\<rparr>
       else (\<lambda>s. case job s of
           (Inl e, s1) \<Rightarrow>
             (if \<not> is_Exception e then (Inl e, s1)
              else (let n = consecutive_failures + 1; error = safe_error e; delay = retry_delay jitter n interval;
                        who = (case provider_id of Some p \<Rightarrow> p | None \<Rightarrow> job_name)
                    in bindc (hold_slot V (t + dur) (slot_key job_name) delay) (\<lambda>_.
                       ret \<lparr>pass_sleep = delay, pass_failures = n,
                         pass_notices = (case provider_id of Some p \<Rightarrow> [Health p ''error'' (Some error)] | None \<Rightarrow> [])
                           @ [Degraded who job_name error]\<rparr>) s1))
         | (Inr _, s1) \<Rightarrow>
             bindc (hold_slot V (t + dur) (slot_key job_name) (rat_of_nat interval)) (\<lambda>_.
               ret \<lparr>pass_sleep = rat_of_nat interval, pass_failures = 0,
                 pass_notices = (case provider_id of Some p \<Rightarrow> [Health p ''active'' None] | None \<Rightarrow> [])\<rparr>) s1))"

section \<open>The jobs of a configuration\<close>

definition LAUNCH_SOURCES :: "string list" where
  "LAUNCH_SOURCES = [''the-space-devs'', ''rocketlaunch-live'']"

record job_spec =
  job_provider :: "string option"
  job_id :: string
  job_interval :: nat

definition job_table :: "(string list \<times> job_spec) list" where
  "job_table =
    [([''space-track''], \<lparr>job_provider = Some ''space-track'', job_id = ''satcat'', job_interval = 86400\<rparr>),
     ([''celestrak''], \<lparr>job_provider = Some ''celestrak'', job_id = ''orbital'', job_interval = 7200\<rparr>),
     ([''noaa-swpc''], \<lparr>job_provider = Some ''noaa-swpc'', job_id = ''space-weather'', job_interval = 300\<rparr>),
     ([''jpl-ssd''], \<lparr>job_provider = Some ''jpl-ssd'', job_id = ''close-approaches'', job_interval = 21600\<rparr>),
     ([''nasa-neows''], \<lparr>job_provider = Some ''nasa-neows'', job_id = ''neos'', job_interval = 21600\<rparr>),
     (LAUNCH_SOURCES, \<lparr>job_provider = None, job_id = ''launches'', job_interval = 1800\<rparr>)]"

definition scheduled_jobs :: "settings \<Rightarrow> job_spec list" where
  "scheduled_jobs c = map snd (filter (\<lambda>(ps, _). \<exists>p\<in>set ps. p \<in> set (configured_providers c)) job_table)"

section \<open>Facts about delays\<close>

lemma retry_delay_pos: "0 < jitter \<Longrightarrow> 0 < interval \<Longrightarrow> 0 < retry_delay jitter n interval"
  by (simp add: retry_delay_def FIRST_RETRY_SECONDS_def)

lemma retry_delay_le: "0 \<le> jitter \<Longrightarrow> retry_delay jitter n interval \<le> rat_of_nat interval * jitter"
  unfolding retry_delay_def by (intro mult_right_mono) simp_all

lemma retry_delay_mono:
  "0 \<le> jitter \<Longrightarrow> n \<le> n' \<Longrightarrow> retry_delay jitter n interval \<le> retry_delay jitter n' interval"
  unfolding retry_delay_def
  by (intro mult_right_mono min.mono) (simp_all add: FIRST_RETRY_SECONDS_def power_increasing)

lemma hold_seconds_pos [simp]: "1 \<le> hold_seconds q" "hold_seconds q \<noteq> 0"
  by (simp_all add: hold_seconds_def le_nat_iff)

text \<open>A slot is not held longer than the sleep that follows it, a minimum of one second apart.\<close>

lemma hold_seconds_le: "1 \<le> q \<Longrightarrow> rat_of_nat (hold_seconds q) \<le> q"
  by (simp add: hold_seconds_def py_int_def max_def le_floor_iff)

section \<open>All replicas of one job\<close>

text \<open>
  A replica sleeps until some time or runs the job since some time. \<open>sc_quiet\<close> is a ghost: when the
  slot was last held with success, the earliest time of the next run. A run, its notices included,
  ends within \<open>limit\<close> milliseconds, or the process dies in it.
\<close>

datatype replica = Sleeping nat | Running nat

record 's sched =
  sc_now :: nat
  sc_store :: 's
  sc_replica :: "nat \<Rightarrow> replica"
  sc_quiet :: nat

inductive sched_step :: "'s valkey \<Rightarrow> string \<Rightarrow> nat \<Rightarrow> 's sched \<Rightarrow> 's sched \<Rightarrow> bool"
  for V :: "'s valkey" and job_name :: string and limit :: nat where
  tick: "sc_now c \<le> t \<Longrightarrow> (\<And>r u. sc_replica c r = Running u \<Longrightarrow> t < u + limit) \<Longrightarrow>
    sched_step V job_name limit c (c\<lparr>sc_now := t\<rparr>)"
| ask: "sc_replica c r = Sleeping u \<Longrightarrow> u \<le> sc_now c \<Longrightarrow>
    acquire_slot V (sc_now c) (slot_key job_name) RUNNING_LEASE_SECONDS (sc_store c) = (Inr wait, s') \<Longrightarrow>
    sched_step V job_name limit c (c\<lparr>sc_store := s', sc_replica := (sc_replica c)(r :=
      (if wait = 0 then Running (sc_now c) else Sleeping (sc_now c + millis wait)))\<rparr>)"
| finish: "sc_replica c r = Running u \<Longrightarrow>
    hold_slot V (sc_now c) (slot_key job_name) seconds (sc_store c) = (Inr (), s') \<Longrightarrow>
    sched_step V job_name limit c (c\<lparr>sc_store := s',
      sc_replica := (sc_replica c)(r := Sleeping (sc_now c + millis seconds)),
      sc_quiet := (if fst (vk_set V (sc_now c) (slot_key job_name) ''1'' (Some (hold_seconds seconds)) False (sc_store c)) = Inr True
        then deadline (sc_now c) (hold_seconds seconds) else sc_quiet c)\<rparr>)"
| crash: "sc_replica c r = Running u \<Longrightarrow>
    sched_step V job_name limit c (c\<lparr>sc_replica := (sc_replica c)(r := Sleeping t)\<rparr>)"

inductive sched_reach :: "'s valkey \<Rightarrow> string \<Rightarrow> nat \<Rightarrow> 's \<Rightarrow> 's sched \<Rightarrow> bool"
  for V :: "'s valkey" and job_name :: string and limit :: nat and s0 :: 's where
  init: "sched_reach V job_name limit s0
    \<lparr>sc_now = t, sc_store = s0, sc_replica = \<lambda>_. Sleeping 0, sc_quiet = 0\<rparr>"
| step: "sched_reach V job_name limit s0 c \<Longrightarrow> sched_step V job_name limit c c' \<Longrightarrow>
    sched_reach V job_name limit s0 c'"

abbreviation slot_entry :: "nat \<Rightarrow> vk_entry" where
  "slot_entry x \<equiv> \<lparr>payload = VStr ''1'', expires = Some x\<rparr>"

definition sched_inv :: "('s \<Rightarrow> kv) \<Rightarrow> string \<Rightarrow> 's sched \<Rightarrow> bool" where
  "sched_inv view lk c \<longleftrightarrow>
     (\<forall>r u. sc_replica c r = Running u \<longrightarrow> sc_now c < deadline u RUNNING_LEASE_SECONDS
        \<and> view (sc_store c) lk = Some (slot_entry (deadline u RUNNING_LEASE_SECONDS))
        \<and> (\<forall>r' u'. sc_replica c r' = Running u' \<longrightarrow> r' = r) \<and> sc_quiet c \<le> sc_now c)
   \<and> (sc_now c < sc_quiet c \<longrightarrow> (\<exists>x. view (sc_store c) lk = Some (slot_entry x) \<and> sc_quiet c \<le> x))"

lemma sched_invD:
  assumes "sched_inv view lk c" "sc_replica c r = Running u"
  shows "sc_now c < deadline u RUNNING_LEASE_SECONDS"
    and "view (sc_store c) lk = Some (slot_entry (deadline u RUNNING_LEASE_SECONDS))"
    and "sc_replica c r' = Running u' \<Longrightarrow> r' = r" and "sc_quiet c \<le> sc_now c"
  using assms unfolding sched_inv_def by blast+

context valkey_service
begin

lemma acquire_view:
  assumes "acquire_slot V t lk lease s = (Inr w, s')" "lease \<noteq> 0"
  shows "w = 0 \<Longrightarrow> peek t lk (view s) = None \<and> view s' = (view s)(lk \<mapsto> slot_entry (deadline t lease))"
    and "w \<noteq> 0 \<Longrightarrow> view s' = view s \<or>
      peek t lk (view s) = None \<and> view s' = (view s)(lk \<mapsto> slot_entry (deadline t lease))"
proof -
  have set: "(b \<longleftrightarrow> peek t lk (view s) = None) \<and> m' = (if b then (view s)(lk \<mapsto> slot_entry (deadline t lease)) else view s)"
    if "doc_set t lk ''1'' (Some lease) True (view s) = (Inr b, m')" for b m'
    using that assms(2) by (auto simp: doc_set_def split: if_splits)
  obtain x s1 where x: "vk_set V t lk ''1'' (Some lease) True s = (x, s1)"
    by (cases "vk_set V t lk ''1'' (Some lease) True s")
  consider (ok) "x = Inr True" | (taken) "x = Inr False" | (failed) err where "x = Inl err"
    by (cases x) auto
  then have "(w = 0 \<longrightarrow> peek t lk (view s) = None \<and> view s' = (view s)(lk \<mapsto> slot_entry (deadline t lease)))
    \<and> (w \<noteq> 0 \<longrightarrow> view s' = view s \<or>
      peek t lk (view s) = None \<and> view s' = (view s)(lk \<mapsto> slot_entry (deadline t lease)))"
  proof cases
    case ok
    with x assms(1) have "w = 0" "s' = s1" by (simp_all add: acquire_slot_def catchc_apply bindc_apply)
    with set [OF simD [OF set_sim]] x ok show ?thesis by auto
  next
    case taken
    with set [OF simD [OF set_sim]] x have view1: "view s1 = view s" by auto
    obtain y s2 where y: "vk_ttl V t lk s1 = (y, s2)" by (cases "vk_ttl V t lk s1")
    have "view s2 = view s1" using y ttl_view ttl_quiet by (cases y) blast+
    moreover from x y taken assms(1) have "s' = s2" "w \<noteq> 0"
      by (auto simp: acquire_slot_def catchc_apply bindc_apply FIRST_RETRY_SECONDS_def split: sum.splits if_splits)
    ultimately show ?thesis using view1 by simp
  next
    case failed
    with x assms(1) have "w \<noteq> 0" "s' = s1"
      by (auto simp: acquire_slot_def catchc_apply bindc_apply FIRST_RETRY_SECONDS_def split: if_splits)
    with set_atomic x failed set show ?thesis by metis
  qed
  then show "w = 0 \<Longrightarrow> peek t lk (view s) = None \<and> view s' = (view s)(lk \<mapsto> slot_entry (deadline t lease))"
    and "w \<noteq> 0 \<Longrightarrow> view s' = view s \<or>
      peek t lk (view s) = None \<and> view s' = (view s)(lk \<mapsto> slot_entry (deadline t lease))"
    by blast+
qed

lemma hold_view:
  assumes "hold_slot V t lk seconds s = (Inr (), s')"
  shows "view s' = view s \<or> view s' = (view s)(lk \<mapsto> slot_entry (deadline t (hold_seconds seconds)))"
    and "fst (vk_set V t lk ''1'' (Some (hold_seconds seconds)) False s) = Inr True \<Longrightarrow>
      view s' = (view s)(lk \<mapsto> slot_entry (deadline t (hold_seconds seconds)))"
proof -
  have set: "m' = (view s)(lk \<mapsto> slot_entry (deadline t (hold_seconds seconds)))"
    if "doc_set t lk ''1'' (Some (hold_seconds seconds)) False (view s) = (Inr b, m')" for b m'
    using that by (auto simp: doc_set_def split: if_splits)
  obtain x s1 where x: "vk_set V t lk ''1'' (Some (hold_seconds seconds)) False s = (x, s1)"
    by (cases "vk_set V t lk ''1'' (Some (hold_seconds seconds)) False s")
  with assms have s': "s' = s1"
    by (auto simp: hold_slot_def catchc_apply bindc_apply split: sum.splits if_splits)
  have "view s' = (view s)(lk \<mapsto> slot_entry (deadline t (hold_seconds seconds)))" if "x = Inr b" for b
    using set [OF simD [OF set_sim]] x that s' by simp
  moreover have "view s' = view s \<or> view s' = (view s)(lk \<mapsto> slot_entry (deadline t (hold_seconds seconds)))"
    if "x = Inl err" for err
    using set_atomic x that s' set by metis
  ultimately show "view s' = view s \<or> view s' = (view s)(lk \<mapsto> slot_entry (deadline t (hold_seconds seconds)))"
    and "fst (vk_set V t lk ''1'' (Some (hold_seconds seconds)) False s) = Inr True \<Longrightarrow>
      view s' = (view s)(lk \<mapsto> slot_entry (deadline t (hold_seconds seconds)))"
    using x by (cases x; auto)+
qed

end

lemma slot_free:
  assumes "sched_inv view lk c" "peek (sc_now c) lk (view (sc_store c)) = None"
  shows "sc_replica c r \<noteq> Running u" and "sc_quiet c \<le> sc_now c"
proof -
  show "sc_replica c r \<noteq> Running u"
  proof
    assume r: "sc_replica c r = Running u"
    from sched_invD(1,2) [OF assms(1) r] assms(2) show False by (simp add: peek_None)
  qed
  show "sc_quiet c \<le> sc_now c"
  proof (rule ccontr)
    assume "\<not> sc_quiet c \<le> sc_now c"
    with assms(1) obtain x where "view (sc_store c) lk = Some (slot_entry x)" "sc_quiet c \<le> x"
      unfolding sched_inv_def by auto
    with assms(2) \<open>\<not> sc_quiet c \<le> sc_now c\<close> show False by (simp add: peek_None)
  qed
qed

context valkey_service
begin

lemma sched_step_inv:
  assumes "sched_step V job limit c c'" "sched_inv view (slot_key job) c" "limit \<le> 1000 * RUNNING_LEASE_SECONDS"
  shows "sched_inv view (slot_key job) c'"
  using assms
proof (induction rule: sched_step.induct)
  case (tick c t)
  note inv = tick.prems(1)
  have "t < deadline u RUNNING_LEASE_SECONDS" if "sc_replica c r = Running u" for r u
    using tick.hyps(2) [OF that] tick.prems(2) by (simp add: deadline_def)
  moreover have "sc_quiet c \<le> t" if "sc_replica c r = Running u" for r u
    using sched_invD(4) [OF inv that] tick.hyps(1) by simp
  moreover have "\<exists>x. view (sc_store c) (slot_key job) = Some (slot_entry x) \<and> sc_quiet c \<le> x" if "t < sc_quiet c"
    using inv that tick.hyps(1) unfolding sched_inv_def by auto
  ultimately show ?case
    using sched_invD(2,3) [OF inv] unfolding sched_inv_def by simp
next
  case (ask c r u wait s')
  note inv = ask.prems(1)
  have lease: "RUNNING_LEASE_SECONDS \<noteq> 0" by (simp add: RUNNING_LEASE_SECONDS_def)
  note view = acquire_view [OF ask.hyps(3) lease]
  let ?e = "slot_entry (deadline (sc_now c) RUNNING_LEASE_SECONDS)"
  have now: "sc_now c < deadline (sc_now c) RUNNING_LEASE_SECONDS"
    by (simp add: deadline_def RUNNING_LEASE_SECONDS_def)
  show ?case
  proof (cases "peek (sc_now c) (slot_key job) (view (sc_store c)) = None \<and>
      view s' = (view (sc_store c))(slot_key job \<mapsto> ?e)")
    case True
    note free = slot_free [OF inv conjunct1 [OF True]]
    show ?thesis
      unfolding sched_inv_def using free now True by (auto split: if_splits)
  next
    case False
    with view have w: "wait \<noteq> 0" and same: "view s' = view (sc_store c)" by blast+
    have other: "r' \<noteq> r" if "sc_replica c r' = Running v" for r' v using that ask.hyps(1) by auto
    show ?thesis
      unfolding sched_inv_def using inv [unfolded sched_inv_def] w same other by (simp split: if_splits) metis
  qed
next
  case (finish c r u seconds s')
  note inv = finish.prems(1) and run = finish.hyps(1)
  have none: "((sc_replica c)(r := Sleeping x)) r' \<noteq> Running v" for x r' v
    using sched_invD(3) [OF inv run] by (auto split: if_splits)
  have quiet: "sc_quiet c \<le> sc_now c" by (rule sched_invD(4) [OF inv run])
  show ?case
    unfolding sched_inv_def using none quiet hold_view(2) [OF finish.hyps(2)] by simp
next
  case (crash c r u t)
  note inv = crash.prems(1) and run = crash.hyps
  have none: "((sc_replica c)(r := Sleeping x)) r' \<noteq> Running v" for x r' v
    using sched_invD(3) [OF inv run] by (auto split: if_splits)
  from none inv show ?case unfolding sched_inv_def by simp
qed

lemma sched_reach_inv:
  assumes "sched_reach V job limit s0 c" "limit \<le> 1000 * RUNNING_LEASE_SECONDS"
  shows "sched_inv view (slot_key job) c"
  using assms
proof (induction rule: sched_reach.induct)
  case (init t)
  show ?case by (simp add: sched_inv_def)
next
  case (step c c')
  then show ?case by (blast intro: sched_step_inv)
qed

end

section \<open>Correctness\<close>


definition one_runs :: "kv sched" where
  "one_runs = \<lparr>sc_now = 0, sc_store = [slot_key ''orbital'' \<mapsto> slot_entry 900000],
     sc_replica = (\<lambda>_. Sleeping 0)(1 := Running 0), sc_quiet = 0\<rparr>"

lemma one_runs_reach: "sched_reach doc_valkey ''orbital'' 600000 Map.empty one_runs"
proof -
  let ?c = "\<lparr>sc_now = 0, sc_store = Map.empty, sc_replica = \<lambda>_. Sleeping 0, sc_quiet = 0\<rparr> :: kv sched"
  have a: "acquire_slot doc_valkey 0 (slot_key ''orbital'') RUNNING_LEASE_SECONDS Map.empty =
      (Inr 0, [slot_key ''orbital'' \<mapsto> slot_entry 900000])"
    by (simp add: acquire_slot_def catchc_apply bindc_apply doc_set_def RUNNING_LEASE_SECONDS_def deadline_def)
  have "sched_step doc_valkey ''orbital'' 600000 ?c one_runs"
    using sched_step.ask [of ?c 1 0 doc_valkey "''orbital''", simplified, OF a] by (simp add: one_runs_def)
  then show ?thesis by (blast intro: sched_reach.intros)
qed


lemma acquire_polite: "polite (acquire_slot V t lk lease)"
  unfolding acquire_slot_def by (rule polite_catch)

lemma hold_polite: "polite (hold_slot V t lk seconds)"
  unfolding hold_slot_def by (rule polite_catch)



end
