(* ===== verification/Celestrak.thy ===== *)
theory Celestrak
  imports Datetime
begin

text \<open>
  The CelesTrak client (\<open>src/providers/celestrak.py\<close>): cutting a catalogue of two-line element sets into
  entries and turning each into a record. The parser of the two lines is the package \<open>sgp4\<close>, a
  parameter (\<open>twoline2rv\<close>) of every definition that uses it. The theorem is that the catalogue format is read
  back: of a text that lists entries, every entry is seen, whatever its name line looks like.
\<close>

section \<open>Records\<close>

record element_set =
  norad_id :: int
  object_name :: string
  cospar_id :: "string option"
  epoch :: datetime
  inclination :: pyfloat
  right_ascension :: pyfloat
  eccentricity :: pyfloat
  argument_of_perigee :: pyfloat
  mean_anomaly :: pyfloat
  mean_motion :: pyfloat
  tle_line1 :: string
  tle_line2 :: string

text \<open>What the source reads of a \<open>Satrec\<close>.\<close>

record satrec =
  satnum :: int
  sgp4_error :: int
  jdsatepoch :: pyfloat
  jdsatepochF :: pyfloat
  inclo :: pyfloat
  nodeo :: pyfloat
  ecco :: pyfloat
  argpo :: pyfloat
  mo :: pyfloat
  no_kozai :: pyfloat

type_synonym twoline = "string \<Rightarrow> string \<Rightarrow> exn + satrec"

definition REVOLUTIONS_PER_DAY_PER_RADIAN_PER_MINUTE :: pyfloat where
  "REVOLUTIONS_PER_DAY_PER_RADIAN_PER_MINUTE = to_double (1440 / (2 * math_pi))"

definition JULIAN_UNIX_EPOCH :: rat where "JULIAN_UNIX_EPOCH = 2440587.5"

definition NOT_MODIFIED_MARKER :: string where
  "NOT_MODIFIED_MARKER = ''has not updated since your last successful''"

definition ALLOWED_GROUPS :: "string list" where
  "ALLOWED_GROUPS = [''active'', ''stations'', ''visual'', ''gnss'', ''weather'', ''last-30-days'']"

section \<open>Fields of a record\<close>

definition international_designator :: "string \<Rightarrow> exn + string option" where
  "international_designator line1 =
     (let raw = strip (take 8 (drop 9 line1)) in
      if length raw < 5 \<or> \<not> isdigit (take 2 raw) then Inr None
      else (case int_text (take 2 raw) of
          None \<Rightarrow> Inl (ValueError ''invalid literal for int() with base 10'')
        | Some y \<Rightarrow> Inr (Some ((if 57 \<le> y then ''19'' else ''20'') @ take 2 raw @ ''-'' @ drop 2 raw))))"

text \<open>\<open>timedelta(days=x)\<close> in microseconds.\<close>

definition split_days :: "rat \<Rightarrow> int \<Rightarrow> exn + int" where
  "split_days q d =
     (if 999999999 < \<bar>d\<bar> then Inl OverflowError
      else (case to_double ((q - of_int d) * 86400) of
          Fin s \<Rightarrow> (case to_double ((s - of_int (py_int s)) * 1000000) of
              Fin us \<Rightarrow> Inr (seconds (d * 86400 + py_int s) + half_even us)
            | _ \<Rightarrow> Inl OverflowError)
        | _ \<Rightarrow> Inl OverflowError))"

definition timedelta_days :: "pyfloat \<Rightarrow> exn + int" where
  "timedelta_days x = (case x of Fin q \<Rightarrow> split_days q (py_int q)
     | NaN \<Rightarrow> Inl (ValueError ''cannot convert float NaN to integer'') | _ \<Rightarrow> Inl OverflowError)"

text \<open>\<open>datetime(1970, 1, 1, tzinfo=UTC) + delta\<close> stays within the years 1 to 9999.\<close>

definition since_1970 :: "int \<Rightarrow> exn + datetime" where
  "since_1970 us = (if seconds (- 62135596800) \<le> us \<and> us < seconds 253402300800 then Inr us else Inl OverflowError)"

definition epoch_of :: "satrec \<Rightarrow> exn + datetime" where
  "epoch_of sat =
     bindr (timedelta_days (f_add (f_sub (jdsatepoch sat) (Fin JULIAN_UNIX_EPOCH)) (jdsatepochF sat))) since_1970"

section \<open>The catalogue\<close>

definition line_break :: "char \<Rightarrow> bool" where
  "line_break c \<longleftrightarrow> (of_char c :: nat) \<in> {10, 11, 12, 13, 28, 29, 30, 133}"

text \<open>\<open>text.splitlines()\<close>: a carriage return and the line feed after it are one break.\<close>

fun splitlines_acc :: "string \<Rightarrow> string \<Rightarrow> string list" where
  "splitlines_acc w [] = (if w = [] then [] else [rev w])"
| "splitlines_acc w (c # cs) =
     (if \<not> line_break c then splitlines_acc (c # w) cs
      else rev w # splitlines_acc [] (if c = CHR 0x0D \<and> cs \<noteq> [] \<and> hd cs = CHR 0x0A then tl cs else cs))"

definition splitlines :: "string \<Rightarrow> string list" where
  "splitlines s = splitlines_acc [] s"

definition removeprefix :: "string \<Rightarrow> string \<Rightarrow> string" where
  "removeprefix p s = (if starts_with p s then drop (length p) s else s)"

abbreviation line_1 :: "string \<Rightarrow> bool" where "line_1 \<equiv> starts_with ''1 ''"
abbreviation line_2 :: "string \<Rightarrow> bool" where "line_2 \<equiv> starts_with ''2 ''"

text \<open>The walk over the lines: entries as (name, first line, second line).\<close>

fun tle_entries :: "string list \<Rightarrow> (string \<times> string \<times> string) list" where
  "tle_entries (a # b # r) =
     (if line_1 a \<and> line_2 b then ([], a, b) # tle_entries r
      else (case r of
          c # r' \<Rightarrow> if line_1 b \<and> line_2 c then (strip (removeprefix ''0 '' a), b, c) # tle_entries r'
            else tle_entries (b # r)
        | [] \<Rightarrow> tle_entries [b]))"
| "tle_entries ls = []"

definition tle_record :: "twoline \<Rightarrow> string \<times> string \<times> string \<Rightarrow> exn + element_set option" where
  "tle_record twoline2rv = (\<lambda>(name, line1, line2).
     bindr (caught is_ValueError (twoline2rv line1 line2)) (\<lambda>parsed. case parsed of
         None \<Rightarrow> Inr None
       | Some sat \<Rightarrow>
           if sgp4_error sat \<noteq> 0 \<or> satnum sat \<le> 0 then Inr None
           else bindr (international_designator line1) (\<lambda>cospar.
             bindr (epoch_of sat) (\<lambda>ts.
             Inr (Some \<lparr>norad_id = satnum sat,
               object_name = (if name = [] then show_int (satnum sat) else name),
               cospar_id = cospar, epoch = ts,
               inclination = degrees (inclo sat), right_ascension = degrees (nodeo sat),
               eccentricity = ecco sat, argument_of_perigee = degrees (argpo sat),
               mean_anomaly = degrees (mo sat),
               mean_motion = f_mul (no_kozai sat) REVOLUTIONS_PER_DAY_PER_RADIAN_PER_MINUTE,
               tle_line1 = line1, tle_line2 = line2\<rparr>)))))"

definition catalog_lines :: "string \<Rightarrow> string list" where
  "catalog_lines text = map rstrip (filter (\<lambda>l. strip l \<noteq> []) (splitlines text))"

definition parse_tle_catalog :: "twoline \<Rightarrow> string \<Rightarrow> exn + element_set list" where
  "parse_tle_catalog twoline2rv text = collect (tle_record twoline2rv) (tle_entries (catalog_lines text))"

text \<open>\<open>get_text\<close> is the transport's.\<close>

definition get_group ::
  "twoline \<Rightarrow> (string \<Rightarrow> (string \<times> string) list \<Rightarrow> ('s, string) io) \<Rightarrow> string \<Rightarrow> ('s, element_set list) io" where
  "get_group twoline2rv get_text grp =
     (if grp \<notin> set ALLOWED_GROUPS then throw (ValueError ''Unsupported CelesTrak group'')
      else bindc (get_text ''/NORAD/elements/gp.php'' [(''GROUP'', grp), (''FORMAT'', ''TLE'')]) (\<lambda>text.
        if contains NOT_MODIFIED_MARKER (take 512 text) then throw (CelestrakNotModifiedError grp)
        else (\<lambda>s. (parse_tle_catalog twoline2rv text, s))))"

section \<open>A catalogue is read back\<close>

definition entry_lines :: "string \<times> string \<times> string \<Rightarrow> string list" where
  "entry_lines = (\<lambda>(name, l1, l2). [name, l1, l2])"

definition render :: "(string \<times> string \<times> string) list \<Rightarrow> string" where
  "render es = concat (map (\<lambda>l. l @ [CHR 0x0A]) (concat (map entry_lines es)))"

text \<open>A line as it stands in a file: not blank, without breaks, nothing after the last visible character.\<close>

definition plain_line :: "string \<Rightarrow> bool" where
  "plain_line l \<longleftrightarrow> strip l \<noteq> [] \<and> rstrip l = l \<and> list_all (\<lambda>c. \<not> line_break c) l"

lemma splitlines_acc_line:
  "list_all (\<lambda>c. \<not> line_break c) l \<Longrightarrow> splitlines_acc w (l @ CHR 0x0A # r) = (rev w @ l) # splitlines_acc [] r"
  by (induction l arbitrary: w) (simp_all add: line_break_def)

lemma splitlines_lines:
  "list_all plain_line ls \<Longrightarrow> splitlines (concat (map (\<lambda>l. l @ [CHR 0x0A]) ls)) = ls"
  unfolding splitlines_def by (induction ls) (simp_all add: splitlines_acc_line plain_line_def)

lemma line_1_not_2: "line_1 l \<Longrightarrow> \<not> line_2 l"
  by (auto simp: starts_with_def)

lemma tle_entries_listed:
  "list_all (\<lambda>(name, l1, l2). line_1 l1 \<and> line_2 l2) es \<Longrightarrow>
     tle_entries (concat (map entry_lines es)) = map (\<lambda>(name, l1, l2). (strip (removeprefix ''0 '' name), l1, l2)) es"
  by (induction es) (auto simp: entry_lines_def dest: line_1_not_2)

definition accepted :: "twoline \<Rightarrow> string \<times> string \<times> string \<Rightarrow> bool" where
  "accepted twoline2rv = (\<lambda>(name, l1, l2).
     \<exists>sat. twoline2rv l1 l2 = Inr sat \<and> sgp4_error sat = 0 \<and> 0 < satnum sat)"

definition parsable :: "twoline \<Rightarrow> string \<times> string \<times> string \<Rightarrow> bool" where
  "parsable twoline2rv = (\<lambda>(name, l1, l2). (\<exists>d. international_designator l1 = Inr d)
      \<and> (case twoline2rv l1 l2 of Inl e \<Rightarrow> is_ValueError e | Inr sat \<Rightarrow> \<exists>ts. epoch_of sat = Inr ts))"

definition entry_name :: "string \<Rightarrow> string" where
  "entry_name name = strip (removeprefix ''0 '' name)"

lemma tle_record_accepted:
  assumes "parsable twoline2rv (name, l1, l2)" "accepted twoline2rv (name, l1, l2)"
  shows "\<exists>r. tle_record twoline2rv (n, l1, l2) = Inr (Some r)"
  using assms by (auto simp: tle_record_def parsable_def accepted_def caught_def)

lemma tle_record_rejected:
  assumes "parsable twoline2rv (name, l1, l2)" "\<not> accepted twoline2rv (name, l1, l2)"
  shows "tle_record twoline2rv (n, l1, l2) = Inr None"
  using assms by (auto simp: tle_record_def parsable_def accepted_def caught_def split: sum.splits)

lemma tle_record_Some:
  assumes "tle_record twoline2rv (n, l1, l2) = Inr (Some r)"
  shows "tle_line1 r = l1 \<and> tle_line2 r = l2 \<and> (\<exists>sat. twoline2rv l1 l2 = Inr sat \<and> norad_id r = satnum sat
    \<and> object_name r = (if n = [] then show_int (satnum sat) else n))"
  using assms by (auto simp: tle_record_def caught_Some elim!: bindr_InrE split: option.splits if_splits)

lemma records_of_entries:
  assumes "\<And>e. e \<in> set es \<Longrightarrow> parsable twoline2rv e"
  shows "map (\<lambda>r. (tle_line1 r, tle_line2 r))
      (results (tle_record twoline2rv) (map (\<lambda>(name, l1, l2). (entry_name name, l1, l2)) es))
    = map snd (filter (accepted twoline2rv) es)"
  using assms
proof (induction es)
  case (Cons e es)
  obtain name l1 l2 where e: "e = (name, l1, l2)" by (cases e)
  with Cons.prems have p: "parsable twoline2rv (name, l1, l2)" by simp
  show ?case
  proof (cases "accepted twoline2rv (name, l1, l2)")
    case True
    from tle_record_accepted [OF p True] obtain r where "tle_record twoline2rv (entry_name name, l1, l2) = Inr (Some r)" by blast
    with tle_record_Some [OF this] Cons e True show ?thesis by simp
  next
    case False
    with tle_record_rejected [OF p False] Cons e show ?thesis by simp
  qed
qed simp

text \<open>
  C34: A catalogue is read back whole. Of a text that lists entries of a name line, a line that starts with
  \<open>1\<close> and one that starts with \<open>2\<close>, the parser hands exactly these pairs of lines, in this order and each with
  its name, to the element parser, even where a name line looks like an element line; an entry whose
  lines the element parser rejects is left out and costs no other entry.
\<close>

theorem tle_catalog_read_back:
  assumes "list_all (\<lambda>(name, l1, l2). plain_line name \<and> plain_line l1 \<and> plain_line l2 \<and> line_1 l1 \<and> line_2 l2) es"
    and "\<And>e. e \<in> set es \<Longrightarrow> parsable twoline2rv e"
  shows "\<exists>records. parse_tle_catalog twoline2rv (render es) = Inr records
    \<and> map (\<lambda>r. (tle_line1 r, tle_line2 r)) records = map snd (filter (accepted twoline2rv) es)
    \<and> (\<forall>r\<in>set records. \<exists>name sat. (name, tle_line1 r, tle_line2 r) \<in> set es
        \<and> twoline2rv (tle_line1 r) (tle_line2 r) = Inr sat \<and> norad_id r = satnum sat
        \<and> object_name r = (if entry_name name = [] then show_int (satnum sat) else entry_name name))"
proof -
  let ?es = "map (\<lambda>(name, l1, l2). (entry_name name, l1, l2)) es"
  have "list_all plain_line (concat (map entry_lines es))"
    using assms(1) by (fastforce simp: list_all_iff entry_lines_def)
  then have "catalog_lines (render es) = concat (map entry_lines es)"
    unfolding catalog_lines_def render_def
    by (subst splitlines_lines) (auto simp: list_all_iff plain_line_def intro!: map_idI)
  moreover have "list_all (\<lambda>(name, l1, l2). line_1 l1 \<and> line_2 l2) es"
    using assms(1) by (auto simp: list_all_iff)
  ultimately have "parse_tle_catalog twoline2rv (render es) = collect (tle_record twoline2rv) ?es"
    by (simp add: parse_tle_catalog_def tle_entries_listed entry_name_def)
  also have "\<dots> = Inr (results (tle_record twoline2rv) ?es)"
  proof (rule collect_total)
    fix x assume "x \<in> set ?es"
    then obtain name l1 l2 where x: "x = (entry_name name, l1, l2)" "(name, l1, l2) \<in> set es" by auto
    from assms(2) [OF x(2)] show "\<exists>y. tle_record twoline2rv x = Inr y"
      unfolding x(1) using tle_record_accepted tle_record_rejected by metis
  qed
  finally have "parse_tle_catalog twoline2rv (render es) = Inr (results (tle_record twoline2rv) ?es)" .
  moreover have "\<exists>name sat. (name, tle_line1 r, tle_line2 r) \<in> set es
        \<and> twoline2rv (tle_line1 r) (tle_line2 r) = Inr sat \<and> norad_id r = satnum sat
        \<and> object_name r = (if entry_name name = [] then show_int (satnum sat) else entry_name name)"
    if "r \<in> set (results (tle_record twoline2rv) ?es)" for r
  proof -
    from that obtain name l1 l2 where "(name, l1, l2) \<in> set es"
      and "tle_record twoline2rv (entry_name name, l1, l2) = Inr (Some r)"
      unfolding set_results by auto
    with tle_record_Some [OF this(2)] show ?thesis by auto
  qed
  ultimately show ?thesis using records_of_entries [OF assms(2)] by blast
qed

definition station :: satrec where
  "station = \<lparr>satnum = 25544, sgp4_error = 0, jdsatepoch = Fin 2440588.5, jdsatepochF = Fin 0, inclo = Fin 1,
     nodeo = Fin 1, ecco = Fin 0, argpo = Fin 1, mo = Fin 1, no_kozai = Fin 1\<rparr>"

definition only_iss :: twoline where
  "only_iss l1 l2 = (if l2 = ''2 25544'' then Inr station else Inl (ValueError ''format''))"

definition iss_catalog :: "(string \<times> string \<times> string) list" where
  "iss_catalog = [(''1 ISS'', ''1 25544U 98067A'', ''2 25544''), (''0 JUNK'', ''1 00000U'', ''2 00000'')]"

lemma station_epoch: "epoch_of station = Inr 86400000000"
  by code_simp

lemma iss_designator: "international_designator ''1 25544U 98067A'' = Inr (Some ''1998-067A'')"
    "international_designator ''1 00000U'' = Inr None"
  by (code_simp, code_simp)

lemma iss_catalog_plain:
  "list_all (\<lambda>(name, l1, l2). plain_line name \<and> plain_line l1 \<and> plain_line l2 \<and> line_1 l1 \<and> line_2 l2) iss_catalog"
  by code_simp

theorem tle_catalog_read_back_witness:
  "\<exists>r. parse_tle_catalog only_iss (render iss_catalog) = Inr [r] \<and> norad_id r = 25544 \<and> tle_line2 r = ''2 25544''"
proof -
  have "parsable only_iss e" if "e \<in> set iss_catalog" for e
    using that by (auto simp: iss_catalog_def parsable_def only_iss_def station_epoch iss_designator)
  from tle_catalog_read_back [OF iss_catalog_plain this] obtain records where
    r: "parse_tle_catalog only_iss (render iss_catalog) = Inr records"
    and lines: "map (\<lambda>r. (tle_line1 r, tle_line2 r)) records = map snd (filter (accepted only_iss) iss_catalog)"
    and sat: "\<forall>r\<in>set records. \<exists>name sat. only_iss (tle_line1 r) (tle_line2 r) = Inr sat \<and> norad_id r = satnum sat"
    by blast
  have "filter (accepted only_iss) iss_catalog = [(''1 ISS'', ''1 25544U 98067A'', ''2 25544'')]"
    by (simp add: iss_catalog_def accepted_def only_iss_def station_def)
  with lines obtain x where "records = [x]" "tle_line2 x = ''2 25544''" by auto
  with r sat show ?thesis by (auto simp: only_iss_def station_def)
qed

end
