(* ===== verification/Noaa.thy ===== *)
theory Noaa
  imports Datetime
begin

text \<open>
  The client of NOAA's space weather feeds (\<open>src/providers/noaa.py\<close>): what it keeps of the planetary K
  index and of the solar wind. The theorems say exactly which observations come back: those of valid
  records, one per instant with its last reading, in order, no older than three hours; of the K
  index the newest one, still incomplete, is left out.
\<close>

section \<open>Readings\<close>

definition OBSERVATION_LOOKBACK :: int where
  "OBSERVATION_LOOKBACK = seconds (3 * 3600)"

record geomagnetic =
  k_at :: datetime
  k_index :: pyfloat

record solar_wind =
  wind_at :: datetime
  speed_km_s :: pyfloat
  density_cm3 :: pyfloat
  temperature_k :: pyfloat

definition noaa_timestamp :: "pyval \<Rightarrow> datetime option" where
  "noaa_timestamp v = (if truth v then utc_fromisoformat (py_str v) else None)"

definition noaa_finite :: "pyval \<Rightarrow> exn + pyfloat option" where
  "noaa_finite v =
     (case v of PBool b \<Rightarrow> Inr None | PNone \<Rightarrow> Inr None
      | _ \<Rightarrow> bindr (caught bad_number (float_of v)) (\<lambda>x.
          Inr (case x of None \<Rightarrow> None | Some y \<Rightarrow> if is_finite y then Some y else None)))"

definition recent :: "datetime \<Rightarrow> datetime \<Rightarrow> bool" where
  "recent observed_at newest \<longleftrightarrow> newest - observed_at \<le> OBSERVATION_LOOKBACK"

section \<open>The feeds\<close>

definition k_record :: "pyval \<Rightarrow> exn + (datetime \<times> geomagnetic) option" where
  "k_record r =
     bindr (vget r ''time_tag'') (\<lambda>tag. bindr (vget r ''estimated_kp'') (\<lambda>estimated.
     bindr (noaa_finite estimated) (\<lambda>first.
     bindr (case first of Some x \<Rightarrow> Inr (Some x) | None \<Rightarrow> bindr (vget r ''kp_index'') noaa_finite) (\<lambda>kp.
       Inr (case (noaa_timestamp tag, kp) of
          (Some ts, Some x) \<Rightarrow>
            (if f_le (Fin 0) x \<and> f_le x (Fin 9) then Some (ts, \<lparr>k_at = ts, k_index = round2 x\<rparr>) else None)
        | _ \<Rightarrow> None)))))"

text \<open>\<open>[item for at, item in sorted(parsed.items()) if _recent(ts, newest)]\<close>\<close>

definition window :: "(datetime \<times> 'v) list \<Rightarrow> 'v list" where
  "window parsed = (let newest = Max (fst ` set parsed) in
     map snd (filter (\<lambda>(ts, item). recent ts newest) (sort_key fst parsed)))"

definition parse_planetary_k :: "pyval list \<Rightarrow> exn + geomagnetic list" where
  "parse_planetary_k records =
     bindr (collect k_record records) (\<lambda>kvs. let parsed = index_by kvs in
       Inr (if length parsed < 2 then []
            else window (AList.delete (Max (fst ` set parsed)) parsed)))"

definition wind_record :: "pyval \<Rightarrow> exn + (datetime \<times> solar_wind) option" where
  "wind_record r =
     bindr (vget r ''active'') (\<lambda>active.
     if active = PBool False then Inr None
     else bindr (vget r ''time_tag'') (\<lambda>tag.
       bindr (bindr (vget r ''proton_speed'') noaa_finite) (\<lambda>speed.
       bindr (bindr (vget r ''proton_density'') noaa_finite) (\<lambda>density.
       bindr (bindr (vget r ''proton_temperature'') noaa_finite) (\<lambda>temperature.
         Inr (case (noaa_timestamp tag, speed, density, temperature) of
            (Some ts, Some v, Some d, Some k) \<Rightarrow>
              (if \<not> (f_le (Fin 100) v \<and> f_le v (Fin 3000)) \<or> f_lt d (Fin 0) \<or> f_lt k (Fin 0) then None
               else Some (ts, \<lparr>wind_at = ts, speed_km_s = v, density_cm3 = d, temperature_k = k\<rparr>))
          | _ \<Rightarrow> None))))))"

definition parse_solar_wind :: "pyval list \<Rightarrow> exn + solar_wind list" where
  "parse_solar_wind records =
     bindr (collect wind_record records) (\<lambda>kvs.
       Inr (if kvs = [] then [] else window (index_by kvs)))"

text \<open>\<open>get_json\<close> is the transport's (\<open>Transport.get_json\<close>) with the client's base address.\<close>

definition get_planetary_k :: "(string \<Rightarrow> ('s, pyval) io) \<Rightarrow> ('s, geomagnetic list) io" where
  "get_planetary_k get_json =
     bindc (get_json ''/planetary_k_index_1m.json'') (\<lambda>v s. (bindr (items v) parse_planetary_k, s))"

definition get_solar_wind :: "(string \<Rightarrow> ('s, pyval) io) \<Rightarrow> ('s, solar_wind list) io" where
  "get_solar_wind get_json =
     bindc (get_json ''/rtsw/rtsw_wind_1m.json'') (\<lambda>v s. (bindr (items v) parse_solar_wind, s))"

section \<open>The window\<close>

lemma window_eq:
  assumes "distinct (map fst d)" "\<And>ts v. (ts, v) \<in> set d \<Longrightarrow> stamp v = ts"
  shows "sorted_wrt (<) (map stamp (window d))"
    and "set (window d) = {v. (stamp v, v) \<in> set d \<and> Max (fst ` set d) - stamp v \<le> OBSERVATION_LOOKBACK}"
proof -
  let ?P = "\<lambda>(ts, v). recent ts (Max (fst ` set d))"
  let ?s = "filter ?P (sort_key fst d)"
  have mem: "set ?s \<subseteq> set d" by auto
  have "map (stamp \<circ> snd) ?s = map fst ?s"
    by (rule map_cong [OF refl]) (use mem assms(2) in \<open>force simp del: set_filter\<close>)
  then have stamps: "map stamp (window d) = map fst ?s"
    by (simp add: window_def Let_def)
  have "distinct (map fst (sort_key fst d))"
    using assms(1) by (simp add: distinct_map)
  then have "distinct (map fst ?s)" by (rule distinct_map_filter)
  moreover have "sorted (map fst ?s)" by (rule sorted_filter) simp
  ultimately show "sorted_wrt (<) (map stamp (window d))"
    unfolding stamps strict_sorted_iff by simp
  have "set (window d) = snd ` set ?s" by (simp add: window_def Let_def)
  also have "\<dots> = {v. (stamp v, v) \<in> set d \<and> Max (fst ` set d) - stamp v \<le> OBSERVATION_LOOKBACK}"
    (is "_ = ?R")
  proof
    show "snd ` set ?s \<subseteq> ?R"
      using assms(2) by (force simp: recent_def)
    show "?R \<subseteq> snd ` set ?s"
    proof
      fix v assume "v \<in> ?R"
      then have "(stamp v, v) \<in> set ?s" by (simp add: recent_def)
      then show "v \<in> snd ` set ?s" by (rule rev_image_eqI) simp
    qed
  qed
  finally show "set (window d) = ?R" .
qed

lemma k_record_Some:
  assumes "k_record r = Inr (Some (ts, v))"
  shows "k_at v = ts" and "\<exists>q. k_index v = Fin q \<and> 0 \<le> q \<and> q \<le> 9"
proof -
  from assms obtain x where x: "f_le (Fin 0) x" "f_le x (Fin 9)" "v = \<lparr>k_at = ts, k_index = round2 x\<rparr>"
    by (auto simp: k_record_def elim!: bindr_InrE split: option.splits if_splits)
  then show "k_at v = ts" by simp
  from f_between [OF x(1,2)] obtain q where "x = Fin q" "0 \<le> q" "q \<le> 9" by auto
  with round2_bounds [of q 9] x(3) show "\<exists>q. k_index v = Fin q \<and> 0 \<le> q \<and> q \<le> 9" by force
qed

lemma noaa_finite_Some: "noaa_finite w = Inr (Some x) \<Longrightarrow> is_finite x"
  by (auto simp: noaa_finite_def elim!: bindr_InrE split: pyval.splits option.splits if_splits)

lemma wind_record_Some:
  assumes "wind_record r = Inr (Some (ts, v))"
  shows "wind_at v = ts"
    and "f_le (Fin 100) (speed_km_s v) \<and> f_le (speed_km_s v) (Fin 3000)"
    and "is_finite (density_cm3 v) \<and> \<not> f_lt (density_cm3 v) (Fin 0)"
    and "is_finite (temperature_k v) \<and> \<not> f_lt (temperature_k v) (Fin 0)"
proof -
  from assms obtain d k wd wk where
    "noaa_finite wd = Inr (Some d)" "noaa_finite wk = Inr (Some k)"
    "density_cm3 v = d" "temperature_k v = k" "\<not> f_lt d (Fin 0)" "\<not> f_lt k (Fin 0)"
    and rest: "wind_at v = ts" "f_le (Fin 100) (speed_km_s v)" "f_le (speed_km_s v) (Fin 3000)"
    by (auto simp: wind_record_def elim!: bindr_InrE split: option.splits if_splits)
  then show "is_finite (density_cm3 v) \<and> \<not> f_lt (density_cm3 v) (Fin 0)"
    and "is_finite (temperature_k v) \<and> \<not> f_lt (temperature_k v) (Fin 0)"
    using noaa_finite_Some by simp_all
  from rest show "wind_at v = ts"
    and "f_le (Fin 100) (speed_km_s v) \<and> f_le (speed_km_s v) (Fin 3000)" by simp_all
qed

lemma window_index:
  assumes stamps: "\<And>ts v. (ts, v) \<in> set kvs \<Longrightarrow> stamp v = ts"
    and sub: "set d \<subseteq> set (index_by kvs)" and dist: "distinct (map fst d)"
  shows "sorted_wrt (<) (map stamp (window d))"
    and "v \<in> set (window d) \<Longrightarrow> map_of (rev kvs) (stamp v) = Some v \<and> (stamp v, v) \<in> set kvs"
    and "stamp ` set (window d) = {ts \<in> fst ` set d. Max (fst ` set d) - ts \<le> OBSERVATION_LOOKBACK}"
proof -
  have sub': "set d \<subseteq> set kvs" using sub set_index_by by (rule subset_trans)
  have s: "stamp v = ts" if "(ts, v) \<in> set d" for ts v
    by (rule stamps, rule subsetD [OF sub' that])
  show "sorted_wrt (<) (map stamp (window d))" by (rule window_eq(1) [OF dist]) (rule s)
  have w: "set (window d) = {v. (stamp v, v) \<in> set d \<and> Max (fst ` set d) - stamp v \<le> OBSERVATION_LOOKBACK}"
    by (rule window_eq(2) [OF dist]) (rule s)
  show "map_of (rev kvs) (stamp v) = Some v \<and> (stamp v, v) \<in> set kvs" if "v \<in> set (window d)"
  proof -
    from that have m: "(stamp v, v) \<in> set d" unfolding w by simp
    then have "map_of (index_by kvs) (stamp v) = Some v"
      using sub by (intro map_of_is_SomeI distinct_index_by) (rule subsetD)
    then show ?thesis using subsetD [OF sub' m] by (simp add: map_of_index_by)
  qed
  show "stamp ` set (window d) = {ts \<in> fst ` set d. Max (fst ` set d) - ts \<le> OBSERVATION_LOOKBACK}"
    (is "_ = ?R")
  proof (intro equalityI subsetI)
    fix ts assume "ts \<in> stamp ` set (window d)"
    then obtain v where "(stamp v, v) \<in> set d" "Max (fst ` set d) - stamp v \<le> OBSERVATION_LOOKBACK" "ts = stamp v"
      unfolding w by blast
    then show "ts \<in> ?R" by (metis (mono_tags, lifting) fst_conv image_eqI mem_Collect_eq)
  next
    fix ts assume "ts \<in> ?R"
    then obtain v where v: "(ts, v) \<in> set d" "Max (fst ` set d) - ts \<le> OBSERVATION_LOOKBACK" by auto
    with s [OF v(1)] have "v \<in> set (window d)" unfolding w by simp
    with s [OF v(1)] show "ts \<in> stamp ` set (window d)" by blast
  qed
qed

text \<open>
  C35: What the K index feed yields. Of the valid readings the newest instant is dropped, and of the
  rest exactly the instants within three hours of the newest remaining one come back, in
  strictly increasing order, each with the last reading the feed had for it, an index of 0 to 9.
\<close>

theorem planetary_k_window:
  assumes "parse_planetary_k records = Inr obs"
  shows "(let rs = results k_record records; T = fst ` set rs; newest = Max (T - {Max T}) in
    sorted_wrt (<) (map k_at obs)
    \<and> (\<forall>v\<in>set obs. map_of (rev rs) (k_at v) = Some v \<and> (\<exists>q. k_index v = Fin q \<and> 0 \<le> q \<and> q \<le> 9))
    \<and> k_at ` set obs = (if card T < 2 then {}
        else {ts \<in> T. ts \<noteq> Max T \<and> newest - ts \<le> OBSERVATION_LOOKBACK}))"
proof -
  from assms obtain kvs where kvs: "collect k_record records = Inr kvs"
    and obs: "obs = (if length (index_by kvs) < 2 then []
      else window (AList.delete (Max (fst ` set (index_by kvs))) (index_by kvs)))"
    by (auto simp: parse_planetary_k_def Let_def elim!: bindr_InrE)
  let ?T = "fst ` set kvs"
  let ?d = "AList.delete (Max ?T) (index_by kvs)"
  have stamp: "k_at v = ts" and index: "\<exists>q. k_index v = Fin q \<and> 0 \<le> q \<and> q \<le> 9"
    if "(ts, v) \<in> set kvs" for ts v
    using k_record_Some collect_mem [OF kvs that] by (fast, fast)
  have len: "length (index_by kvs) = card ?T"
    by (metis distinct_card distinct_index_by keys_index_by length_map set_map)
  have sub: "set ?d \<subseteq> set (index_by kvs)" by (simp add: AList.delete_eq)
  have keys: "fst ` set ?d = ?T - {Max ?T}"
    using arg_cong [OF delete_keys [of "Max ?T" "index_by kvs"], of set] by (simp add: keys_index_by)
  have dist: "distinct (map fst ?d)" by (intro distinct_delete distinct_index_by)
  have w1: "sorted_wrt (<) (map k_at (window ?d))"
    by (rule window_index(1) [OF _ sub dist]) (rule stamp)
  have w2: "map_of (rev kvs) (k_at v) = Some v \<and> (k_at v, v) \<in> set kvs" if "v \<in> set (window ?d)" for v
    by (rule window_index(2) [OF _ sub dist that]) (rule stamp)
  have w3: "k_at ` set (window ?d) = {ts \<in> fst ` set ?d. Max (fst ` set ?d) - ts \<le> OBSERVATION_LOOKBACK}"
    by (rule window_index(3) [OF _ sub dist]) (rule stamp)
  show ?thesis
  proof (cases "card ?T < 2")
    case True
    with obs len show ?thesis by (simp add: collect_results [OF kvs])
  next
    case False
    then have d: "obs = window ?d" using obs len by (simp add: keys_index_by)
    have "\<exists>q. k_index v = Fin q \<and> 0 \<le> q \<and> q \<le> 9" if "v \<in> set obs" for v
      by (rule index, rule conjunct2, rule w2, rule that [unfolded d])
    moreover have "k_at ` set obs = {ts \<in> ?T. ts \<noteq> Max ?T \<and> Max (?T - {Max ?T}) - ts \<le> OBSERVATION_LOOKBACK}"
      unfolding d w3 keys by auto
    ultimately show ?thesis
      using w1 w2 False unfolding collect_results [OF kvs] Let_def d by simp
  qed
qed

definition k_feed :: "pyval list" where
  "k_feed = map (\<lambda>(t, k). PDict [(''time_tag'', PStr t), (''kp_index'', PInt k)])
    [(''2026-09-21T20'', 3), (''2026-09-21T21'', 12), (''2026-09-21T22'', 4)]"

lemma k_feed_parse: "map_sum id (map k_at) (parse_planetary_k k_feed) = Inr [1790020800000000]"
  by code_simp

theorem planetary_k_window_witness:
  "\<exists>obs. parse_planetary_k k_feed = Inr obs \<and> length obs = 1
     \<and> (\<forall>v\<in>set obs. \<exists>q. k_index v = Fin q \<and> 0 \<le> q \<and> q \<le> 9)"
proof -
  from k_feed_parse obtain obs where obs: "parse_planetary_k k_feed = Inr obs"
    and at1: "map k_at obs = [1790020800000000]"
    by (cases "parse_planetary_k k_feed") auto
  from at1 have "length obs = 1" by (cases obs) simp_all
  with planetary_k_window [OF obs] obs show ?thesis by (auto simp: Let_def)
qed

text \<open>
  What the solar wind feed yields. Exactly the instants of valid readings within three hours of the
  newest come back, in strictly increasing order, each with the last reading the feed had for it: a
  speed of 100 to 3000 km/s, a finite density and temperature that are not negative.
\<close>

theorem solar_wind_window:
  assumes "parse_solar_wind records = Inr obs"
  shows "(let rs = results wind_record records; T = fst ` set rs in
    sorted_wrt (<) (map wind_at obs)
    \<and> (\<forall>v\<in>set obs. map_of (rev rs) (wind_at v) = Some v
        \<and> f_le (Fin 100) (speed_km_s v) \<and> f_le (speed_km_s v) (Fin 3000)
        \<and> is_finite (density_cm3 v) \<and> \<not> f_lt (density_cm3 v) (Fin 0)
        \<and> is_finite (temperature_k v) \<and> \<not> f_lt (temperature_k v) (Fin 0))
    \<and> wind_at ` set obs = {ts \<in> T. Max T - ts \<le> OBSERVATION_LOOKBACK})"
proof -
  from assms obtain kvs where kvs: "collect wind_record records = Inr kvs"
    and obs: "obs = (if kvs = [] then [] else window (index_by kvs))"
    by (auto simp: parse_solar_wind_def elim!: bindr_InrE)
  have stamp: "wind_at v = ts" if "(ts, v) \<in> set kvs" for ts v
    using wind_record_Some(1) collect_mem [OF kvs that] by fast
  have valid: "f_le (Fin 100) (speed_km_s v) \<and> f_le (speed_km_s v) (Fin 3000)
        \<and> is_finite (density_cm3 v) \<and> \<not> f_lt (density_cm3 v) (Fin 0)
        \<and> is_finite (temperature_k v) \<and> \<not> f_lt (temperature_k v) (Fin 0)" if "(ts, v) \<in> set kvs" for ts v
    using wind_record_Some(2-4) collect_mem [OF kvs that] by fast
  note dist = distinct_index_by [of kvs]
  have w1: "sorted_wrt (<) (map wind_at (window (index_by kvs)))"
    by (rule window_index(1) [OF _ subset_refl dist]) (rule stamp)
  have w2: "map_of (rev kvs) (wind_at v) = Some v \<and> (wind_at v, v) \<in> set kvs"
    if "v \<in> set (window (index_by kvs))" for v
    by (rule window_index(2) [OF _ subset_refl dist that]) (rule stamp)
  have w3: "wind_at ` set (window (index_by kvs)) = {ts \<in> fst ` set kvs. Max (fst ` set kvs) - ts \<le> OBSERVATION_LOOKBACK}"
    using window_index(3) [OF _ subset_refl dist, of wind_at] stamp by (simp add: keys_index_by)
  show ?thesis
  proof (cases "kvs = []")
    case True
    with obs show ?thesis by (simp add: collect_results [OF kvs])
  next
    case False
    then have "obs = window (index_by kvs)" using obs by simp
    with w1 w2 valid w3 show ?thesis unfolding collect_results [OF kvs] Let_def by blast
  qed
qed

definition wind_feed :: "pyval list" where
  "wind_feed = map (\<lambda>(t, v). PDict [(''time_tag'', PStr t), (''proton_speed'', PInt v),
      (''proton_density'', PInt 4), (''proton_temperature'', PInt 9)])
    [(''2026-09-21T20'', 400), (''2026-09-21T16'', 410), (''2026-09-21T21'', 30)]"

lemma wind_feed_parse: "map_sum id (map wind_at) (parse_solar_wind wind_feed) = Inr [1790020800000000]"
  by code_simp

theorem solar_wind_window_witness:
  "\<exists>v. parse_solar_wind wind_feed = Inr [v] \<and> f_le (Fin 100) (speed_km_s v) \<and> is_finite (density_cm3 v)"
proof -
  from wind_feed_parse obtain obs where obs: "parse_solar_wind wind_feed = Inr obs"
    and one: "map wind_at obs = [1790020800000000]"
    by (cases "parse_solar_wind wind_feed") auto
  from one obtain v where "obs = [v]" by auto
  with solar_wind_window [OF obs] obs show ?thesis by (auto simp: Let_def)
qed

end
