(* ===== verification/Jpl.thy ===== *)
theory Jpl
  imports Datetime Settings
begin

text \<open>
  The clients of the near-Earth object services: JPL's close approaches and designations
  (\<open>src/providers/jpl.py\<close>) and NASA's feed (\<open>src/providers/nasa.py\<close>). The square root and the power of ten
  of the C library are parameters (\<open>libm\<close>). The theorem says which rows of a table become records and
  that every record is complete.
\<close>

section \<open>Records\<close>

record close_approach =
  designation :: string
  approach_name :: string
  approach_at :: datetime
  miss_distance_au :: pyfloat
  relative_velocity_kms :: pyfloat
  absolute_magnitude_h :: "pyfloat option"
  diameter_min_km :: "pyfloat option"
  diameter_max_km :: "pyfloat option"

record libm =
  m_sqrt :: "pyfloat \<Rightarrow> pyfloat"
  m_pow10 :: "pyfloat \<Rightarrow> exn + pyfloat"

text \<open>Division of floats, with Python's error for a zero divisor.\<close>

fun f_div :: "pyfloat \<Rightarrow> pyfloat \<Rightarrow> exn + pyfloat" where
  "f_div x (Fin b) = (if b = 0 then Inl (OtherError ''ZeroDivisionError'') else Inr (f_div_by x b))"
| "f_div x NaN = Inr NaN"
| "f_div x y = Inr (if is_finite x then Fin 0 else NaN)"

definition jpl_number :: "pyval \<Rightarrow> exn + pyfloat option" where
  "jpl_number v = bindr (caught bad_number (float_of v)) (\<lambda>x.
     Inr (case x of None \<Rightarrow> None | Some y \<Rightarrow> if is_finite y then Some y else None))"

definition diameter_from_magnitude :: "libm \<Rightarrow> pyfloat \<Rightarrow> rat \<Rightarrow> exn + pyfloat" where
  "diameter_from_magnitude M magnitude albedo =
     bindr (f_div (Fin 1329) (m_sqrt M (to_double albedo))) (\<lambda>k.
     bindr (m_pow10 M (f_div_by (f_neg magnitude) 5)) (\<lambda>p. Inr (f_mul k p)))"

section \<open>Tables\<close>

text \<open>
  \<open>column = {name: index for index, name in enumerate(fields)}\<close>: the last position of a name; a list or a
  dictionary cannot be a key.
\<close>

definition column :: "pyval list \<Rightarrow> string \<Rightarrow> nat option" where
  "column fs name = map_of (rev (zip fs [0..<length fs])) (PStr name)"

definition cell_of :: "pyval list \<Rightarrow> pyval list \<Rightarrow> string \<Rightarrow> pyval option" where
  "cell_of fs row name = map_option ((!) row) (column fs name)"

definition optional_number :: "pyval option \<Rightarrow> exn + pyfloat option" where
  "optional_number c = (case c of None \<Rightarrow> Inr None | Some v \<Rightarrow> jpl_number v)"

definition diameters :: "libm \<Rightarrow> pyfloat option \<Rightarrow> pyfloat option \<Rightarrow> exn + (pyfloat option \<times> pyfloat option)" where
  "diameters M measured magnitude =
     (case measured of
        Some d \<Rightarrow> Inr (Some d, Some d)
      | None \<Rightarrow> (case magnitude of
            Some h \<Rightarrow>
              bindr (diameter_from_magnitude M h 0.25) (\<lambda>lo.
              bindr (diameter_from_magnitude M h 0.05) (\<lambda>hi. Inr (Some lo, Some hi)))
          | None \<Rightarrow> Inr (None, None)))"

text \<open>\<open>name[:128] or designation\<close>\<close>

definition name_or :: "string \<Rightarrow> string \<Rightarrow> string" where
  "name_or name desig = (if take 128 name = [] then desig else take 128 name)"

lemma name_or_bounds: "desig \<noteq> [] \<Longrightarrow> length desig \<le> 128 \<Longrightarrow> name_or name desig \<noteq> [] \<and> length (name_or name desig) \<le> 128"
  by (simp add: name_or_def)

text \<open>The designation and the required cells: time, distance, velocity.\<close>

definition approach_record :: "libm \<Rightarrow> pyval list \<Rightarrow> pyval list \<Rightarrow> string \<Rightarrow> pyval \<Rightarrow> pyval \<Rightarrow> pyval \<Rightarrow> exn + close_approach option" where
  "approach_record M fs row desig cd far v_rel =
     bindr (jpl_number far) (\<lambda>distance.
     bindr (jpl_number v_rel) (\<lambda>velocity.
     case (strptime_minute (py_str cd), distance, velocity) of
        (Some ts, Some d, Some v) \<Rightarrow>
          (if desig = [] then Inr None
           else bindr (optional_number (cell_of fs row ''h'')) (\<lambda>magnitude.
             bindr (optional_number (cell_of fs row ''diameter'')) (\<lambda>measured.
             bindr (diameters M measured magnitude) (\<lambda>(lo, hi).
               Inr (Some \<lparr>designation = desig,
                  approach_name = name_or (case cell_of fs row ''fullname'' of
                     None \<Rightarrow> desig | Some c \<Rightarrow> strip (py_str c)) desig,
                  approach_at = ts, miss_distance_au = d, relative_velocity_kms = v,
                  absolute_magnitude_h = magnitude, diameter_min_km = lo, diameter_max_km = hi\<rparr>)))))
      | _ \<Rightarrow> Inr None))"

definition approach_row :: "libm \<Rightarrow> pyval list \<Rightarrow> pyval \<Rightarrow> exn + close_approach option" where
  "approach_row M fs v =
     (case v of
        PList row \<Rightarrow>
          (if length row < length fs then Inr None
           else (case (cell_of fs row ''des'', cell_of fs row ''cd'',
                       cell_of fs row ''dist'', cell_of fs row ''v_rel'') of
               (Some des, Some cd, Some far, Some v_rel) \<Rightarrow> approach_record M fs row (take 64 (strip (py_str des))) cd far v_rel
             | _ \<Rightarrow> Inl KeyError))
      | _ \<Rightarrow> Inr None)"

definition REQUIRED_COLUMNS :: "string list" where
  "REQUIRED_COLUMNS = [''des'', ''cd'', ''dist'', ''v_rel'']"

definition parse_close_approaches :: "libm \<Rightarrow> pyval \<Rightarrow> exn + close_approach list" where
  "parse_close_approaches M payload =
     bindr (vget payload ''fields'') (\<lambda>f.
     case py_or f (PList []) of
       PList fs \<Rightarrow>
         (if \<not> list_all hashable fs then Inl TypeError
          else if \<exists>c\<in>set REQUIRED_COLUMNS. column fs c = None then Inr []
          else bindr (vget payload ''data'') (\<lambda>d.
               bindr (items (py_or d (PList []))) (collect (approach_row M fs))))
     | _ \<Rightarrow> Inr [])"

section \<open>Designations\<close>

fun sub_index :: "string \<Rightarrow> string \<Rightarrow> nat" where
  "sub_index p [] = 0"
| "sub_index p (c # cs) = (if starts_with p (c # cs) then 0 else Suc (sub_index p cs))"

text \<open>\<open>fields.index(key) if key in fields\<close>, of a list, a text or a dictionary.\<close>

definition field_index :: "pyval \<Rightarrow> string \<Rightarrow> exn + nat option" where
  "field_index fs key =
     (case fs of
        PList vs \<Rightarrow> Inr (if PStr key \<in> set vs then Some (length (takeWhile (\<lambda>v. v \<noteq> PStr key) vs)) else None)
      | PStr s \<Rightarrow> Inr (if contains key s then Some (sub_index key s) else None)
      | PDict kvs \<Rightarrow> if key \<in> fst ` set kvs then Inl AttributeError else Inr None
      | _ \<Rightarrow> Inl TypeError)"

definition named_item :: "string \<Rightarrow> pyval \<Rightarrow> exn + string option" where
  "named_item key item = bindr (vget item key) (\<lambda>v. Inr (if truth v then Some (strip (py_str v)) else None))"

definition row_item :: "nat \<Rightarrow> pyval \<Rightarrow> exn + string option" where
  "row_item i row = (case row of
      PList vs \<Rightarrow> if i < length vs then Inr (Some (strip (py_str (vs ! i)))) else Inl IndexError
    | _ \<Rightarrow> Inr None)"

text \<open>\<open>data and isinstance(data[0], dict)\<close>\<close>

fun starts_with_dict :: "pyval \<Rightarrow> exn + bool" where
  "starts_with_dict (PList (PDict kvs # vs)) = Inr True"
| "starts_with_dict (PList vs) = Inr False"
| "starts_with_dict (PStr s) = Inr False"
| "starts_with_dict (PDict kvs) = Inl KeyError"
| "starts_with_dict v = Inl TypeError"

definition parse_designations :: "pyval \<Rightarrow> string \<Rightarrow> exn + string list" where
  "parse_designations payload key =
     bindr (vget payload ''data'') (\<lambda>d. let data = py_or d (PList []) in
     bindr (starts_with_dict data) (\<lambda>dicts. bindr (items data) (\<lambda>rows.
       if dicts then collect (named_item key) rows
       else bindr (vget payload ''fields'') (\<lambda>f.
            bindr (field_index (py_or f (PList [])) key) (\<lambda>i. case i of
                None \<Rightarrow> Inr []
              | Some n \<Rightarrow> collect (row_item n) rows)))))"

section \<open>Requests\<close>

text \<open>\<open>maximum_distance_au\<close> is given by its \<open>repr\<close>, which is what the query holds.\<close>

definition get_close_approaches ::
  "libm \<Rightarrow> (string \<Rightarrow> (string \<times> string) list \<Rightarrow> ('s, pyval) io) \<Rightarrow> int \<Rightarrow> string \<Rightarrow> ('s, close_approach list) io" where
  "get_close_approaches M get_json days maximum_distance =
     (case float_text maximum_distance of
        Some x \<Rightarrow>
          (if \<not> (1 \<le> days \<and> days \<le> 365) \<or> \<not> (f_lt (Fin 0) x \<and> f_le x (Fin (1 / 2)))
           then throw (ValueError ''Unsupported close-approach window'')
           else bindc (get_json ''/cad.api''
                  [(''date-min'', ''now''), (''date-max'', ''+'' @ show_int days), (''dist-max'', maximum_distance),
                   (''diameter'', ''true''), (''fullname'', ''true'')])
                (\<lambda>v s. (parse_close_approaches M v, s)))
      | None \<Rightarrow> throw TypeError)"

definition get_hazardous_designations ::
  "(string \<Rightarrow> (string \<times> string) list \<Rightarrow> ('s, pyval) io) \<Rightarrow> int \<Rightarrow> string \<Rightarrow> ('s, string list) io" where
  "get_hazardous_designations get_json days maximum_distance =
     bindc (get_json ''/cad.api''
        [(''date-min'', ''now''), (''date-max'', ''+'' @ show_int days), (''dist-max'', maximum_distance), (''pha'', ''true'')])
       (\<lambda>v s. (parse_designations v ''des'', s))"

definition get_sentry_designations ::
  "(string \<Rightarrow> (string \<times> string) list \<Rightarrow> ('s, pyval) io) \<Rightarrow> ('s, string list) io" where
  "get_sentry_designations get_json = bindc (get_json ''/sentry.api'' []) (\<lambda>v s. (parse_designations v ''des'', s))"

definition get_neo_feed ::
  "settings \<Rightarrow> (string \<Rightarrow> (string \<times> string option) list \<Rightarrow> ('s, pyval) io) \<Rightarrow> string \<Rightarrow> string \<Rightarrow> ('s, pyval) io" where
  "get_neo_feed cfg get_json start_date end_date =
     get_json ''/feed'' [(''start_date'', Some start_date), (''end_date'', Some end_date), (''api_key'', nasa_api_key cfg)]"

section \<open>What becomes a record\<close>

lemma jpl_number_finite: "jpl_number v = Inr (Some x) \<Longrightarrow> is_finite x"
  by (auto simp: jpl_number_def elim!: bindr_InrE split: option.splits if_splits)

lemma diameters_together:
  "diameters M measured magnitude = Inr (lo, hi) \<Longrightarrow>
     (lo = None \<longleftrightarrow> hi = None) \<and> (lo = None \<longleftrightarrow> measured = None \<and> magnitude = None)
     \<and> (\<forall>d. measured = Some d \<longrightarrow> lo = Some d \<and> hi = Some d)"
  by (auto simp: diameters_def elim!: bindr_InrE split: option.splits)

lemma approach_recordD:
  assumes "approach_record M fs row desig cd far v_rel = Inr (Some a)" "length desig \<le> 64"
  shows "designation a = desig" "desig \<noteq> []"
    "approach_name a \<noteq> []" "length (approach_name a) \<le> 128"
    "strptime_minute (py_str cd) = Some (approach_at a)"
    "is_finite (miss_distance_au a)" "is_finite (relative_velocity_kms a)"
    "diameter_min_km a = None \<longleftrightarrow> diameter_max_km a = None"
    "absolute_magnitude_h a \<noteq> None \<Longrightarrow> diameter_min_km a \<noteq> None"
proof -
  from assms(1) obtain ts d v magnitude measured lo hi name where
    t: "strptime_minute (py_str cd) = Some ts" and n: "desig \<noteq> []"
    and d: "jpl_number far = Inr (Some d)" and v: "jpl_number v_rel = Inr (Some v)"
    and dm: "diameters M measured magnitude = Inr (lo, hi)"
    and a: "designation a = desig" "approach_at a = ts" "miss_distance_au a = d"
      "relative_velocity_kms a = v" "absolute_magnitude_h a = magnitude" "diameter_min_km a = lo"
      "diameter_max_km a = hi" "approach_name a = name_or name desig"
    by (auto simp: approach_record_def elim!: bindr_InrE split: option.splits if_splits)
  from name_or_bounds [OF n] assms(2) a(8)
  show "approach_name a \<noteq> []" "length (approach_name a) \<le> 128" by auto
  from t a show "strptime_minute (py_str cd) = Some (approach_at a)" by simp
  from a n show "designation a = desig" "desig \<noteq> []" by simp_all
  from a d v show "is_finite (miss_distance_au a)" "is_finite (relative_velocity_kms a)"
    by (simp_all add: jpl_number_finite)
  from diameters_together [OF dm] a show "diameter_min_km a = None \<longleftrightarrow> diameter_max_km a = None"
    "absolute_magnitude_h a \<noteq> None \<Longrightarrow> diameter_min_km a \<noteq> None" by auto
qed

lemma approach_rowD:
  assumes "approach_row M fs v = Inr (Some a)"
  obtains row desig cd far v_rel where "length fs \<le> length row" "cell_of fs row ''cd'' = Some cd"
    "approach_record M fs row (take 64 desig) cd far v_rel = Inr (Some a)"
proof -
  from assms obtain row where v: "v = PList row" "length fs \<le> length row"
    by (cases v) (auto simp: approach_row_def split: if_splits)
  with assms show ?thesis
    by (auto simp: approach_row_def not_less split: option.splits intro: that)
qed

text \<open>
  C37: A close approach is stored complete or not at all. Every record that comes out of a payload
  stems from a row with as many cells as there are columns; it has a designation of 1 to 64 characters and a
  name of 1 to 128, the instant its time column names, a finite distance and velocity, and either
  both diameters or none, both when a magnitude is given. A payload that lacks a required column gives no record.
\<close>

theorem close_approaches_complete:
  assumes "parse_close_approaches M payload = Inr approaches"
  shows "\<forall>a\<in>set approaches.
      \<exists>fs row cd. vget payload ''fields'' = Inr (PList fs) \<and> length fs \<le> length row
      \<and> list_all (\<lambda>c. column fs c \<noteq> None) REQUIRED_COLUMNS
      \<and> cell_of fs row ''cd'' = Some cd \<and> strptime_minute (py_str cd) = Some (approach_at a)
      \<and> 1 \<le> length (designation a) \<and> length (designation a) \<le> 64
      \<and> 1 \<le> length (approach_name a) \<and> length (approach_name a) \<le> 128
      \<and> is_finite (miss_distance_au a) \<and> is_finite (relative_velocity_kms a)
      \<and> (diameter_min_km a = None \<longleftrightarrow> diameter_max_km a = None)
      \<and> (absolute_magnitude_h a \<noteq> None \<longrightarrow> diameter_min_km a \<noteq> None)"
proof
  fix a assume mem: "a \<in> set approaches"
  from assms mem obtain f fs d rows where f: "vget payload ''fields'' = Inr f" "py_or f (PList []) = PList fs"
    and req: "\<forall>c\<in>set REQUIRED_COLUMNS. column fs c \<noteq> None"
    and c: "collect (approach_row M fs) rows = Inr approaches"
    by (auto simp: parse_close_approaches_def elim!: bindr_InrE split: pyval.splits if_splits)
  from req have "fs \<noteq> []" by (auto simp: REQUIRED_COLUMNS_def column_def)
  with f have fields: "vget payload ''fields'' = Inr (PList fs)" by (simp add: py_or_def split: if_splits)
  from collect_mem [OF c mem] obtain row desig cd far v_rel where
    row: "length fs \<le> length row" "cell_of fs row ''cd'' = Some cd"
    and rec: "approach_record M fs row (take 64 desig) cd far v_rel = Inr (Some a)"
    using approach_rowD by metis
  have len: "length (take 64 desig) \<le> 64" by simp
  note D = approach_recordD [OF rec len]
  have "length (designation a) \<le> 64" "1 \<le> length (designation a)" "1 \<le> length (approach_name a)"
    using D(1) len D(2,3) by (simp_all add: Suc_le_eq)
  with fields row req D(4-9) show "\<exists>fs row cd. vget payload ''fields'' = Inr (PList fs) \<and> length fs \<le> length row
      \<and> list_all (\<lambda>c. column fs c \<noteq> None) REQUIRED_COLUMNS
      \<and> cell_of fs row ''cd'' = Some cd \<and> strptime_minute (py_str cd) = Some (approach_at a)
      \<and> 1 \<le> length (designation a) \<and> length (designation a) \<le> 64
      \<and> 1 \<le> length (approach_name a) \<and> length (approach_name a) \<le> 128
      \<and> is_finite (miss_distance_au a) \<and> is_finite (relative_velocity_kms a)
      \<and> (diameter_min_km a = None \<longleftrightarrow> diameter_max_km a = None)
      \<and> (absolute_magnitude_h a \<noteq> None \<longrightarrow> diameter_min_km a \<noteq> None)"
    by (intro exI [of _ fs] exI [of _ row] exI [of _ cd] conjI impI) (simp_all add: list_all_iff)
qed

definition cad_payload :: pyval where
  "cad_payload = PDict [(''fields'', PList (map PStr [''des'', ''cd'', ''dist'', ''v_rel'', ''diameter''])),
     (''data'', PList [PList [PStr ''2026 AB'', PStr ''2026-Sep-21 20:20'', PInt 1, PInt 2, PInt 3],
                     PList [PStr ''late'', PStr ''soon'', PInt 1, PInt 2, PNone]])]"

definition some_libm :: libm where
  "some_libm = \<lparr>m_sqrt = (\<lambda>x. x), m_pow10 = Inr\<rparr>"

lemma cad_payload_parse:
  "map_sum id (map (\<lambda>a. (designation a, approach_at a))) (parse_close_approaches some_libm cad_payload)
     = Inr [(''2026 AB'', 1790022000000000)]"
  by code_simp

theorem close_approaches_complete_witness:
  "\<exists>a. parse_close_approaches some_libm cad_payload = Inr [a] \<and> designation a = ''2026 AB''
     \<and> is_finite (miss_distance_au a) \<and> (diameter_min_km a = None \<longleftrightarrow> diameter_max_km a = None)"
proof -
  from cad_payload_parse obtain as where parsed: "parse_close_approaches some_libm cad_payload = Inr as"
    and one: "map designation as = [''2026 AB'']"
    by (cases "parse_close_approaches some_libm cad_payload") auto
  from one obtain a where "as = [a]" "designation a = ''2026 AB''" by auto
  with close_approaches_complete [OF parsed] parsed show ?thesis by auto
qed

end
