(* ===== verification/Launch_Sources.thy ===== *)
theory Launch_Sources
  imports Datetime
begin

text \<open>
  The two launch sources (\<open>src/providers/spacedevs.py\<close>, \<open>src/providers/rocketlaunch.py\<close>) and the
  record they share (\<open>src/providers/launch_records.py\<close>). The theorems bound what comes out of a feed
  whatever the feed holds: texts within the column limits, coordinates on the globe, a window start,
  the provider's own name, and a link that can only lead to the provider's site.
\<close>

section \<open>\<open>launch_records.py\<close>\<close>

record upcoming_launch =
  launch_id :: string
  launch_name :: string
  launch_status :: "string option"
  window_start :: datetime
  window_end :: "datetime option"
  launch_provider :: string
  operator_name :: "string option"
  vehicle :: "string option"
  pad :: "string option"
  location :: "string option"
  latitude :: "pyfloat option"
  longitude :: "pyfloat option"
  mission_description :: "string option"
  weather_summary :: "string option"
  info_url :: "string option"

definition KNOWN_SITE_COORDINATES :: "(string \<times> rat \<times> rat) list" where
  "KNOWN_SITE_COORDINATES =
    [(''cape canaveral'', 28.4889, - 80.5778),
     (''kennedy'', 28.5729, - 80.6490),
     (''vandenberg'', 34.7420, - 120.5724),
     (''starbase'', 25.9972, - 97.1566),
     (''boca chica'', 25.9972, - 97.1566),
     (''wallops'', 37.8337, - 75.4881),
     (''mahia'', - 39.2615, 177.8649),
     (''baikonur'', 45.9650, 63.3050),
     (''plesetsk'', 62.9271, 40.5777),
     (''vostochny'', 51.8844, 128.3339),
     (''jiuquan'', 40.9581, 100.2914),
     (''xichang'', 28.2463, 102.0269),
     (''taiyuan'', 38.8491, 111.6081),
     (''wenchang'', 19.6145, 110.9510),
     (''yellow sea'', 34.9000, 121.2000),
     (''haiyang'', 36.6880, 121.2500),
     (''tanegashima'', 30.4009, 130.9753),
     (''uchinoura'', 31.2510, 131.0820),
     (''satish dhawan'', 13.7199, 80.2304),
     (''sriharikota'', 13.7199, 80.2304),
     (''kourou'', 5.2360, - 52.7686),
     (''guiana'', 5.2360, - 52.7686),
     (''esrange'', 67.8932, 21.1069),
     (''and'' @ [CHR 0xF8] @ ''ya'', 69.2945, 16.0208),
     (''naro'', 34.4317, 127.5350)]"

definition parse_timestamp :: "pyval \<Rightarrow> datetime option" where
  "parse_timestamp v = (case v of PStr s \<Rightarrow> if s = [] then None else utc_fromisoformat s | _ \<Rightarrow> None)"

definition coordinate :: "pyval \<Rightarrow> rat \<Rightarrow> exn + pyfloat option" where
  "coordinate v bound = bindr (caught bad_number (float_of v)) (\<lambda>x. Inr (case x of
      None \<Rightarrow> None
    | Some n \<Rightarrow> if f_le (Fin (- bound)) n \<and> f_le n (Fin bound) then Some n else None))"

definition known_site_coordinates :: "string option \<Rightarrow> pyfloat option \<times> pyfloat option" where
  "known_site_coordinates place =
     (case place of None \<Rightarrow> (None, None)
      | Some l \<Rightarrow> if l = [] then (None, None)
          else (case find (\<lambda>(keyword, _, _). contains keyword (casefold l)) KNOWN_SITE_COORDINATES of
              None \<Rightarrow> (None, None)
            | Some (_, lat, lon) \<Rightarrow> (Some (to_double lat), Some (to_double lon))))"

definition bounded_text :: "pyval \<Rightarrow> nat \<Rightarrow> string option" where
  "bounded_text v limit =
     (case v of
        PStr s \<Rightarrow> (let collapsed = take limit (join_with '' '' (split_ws s)) in
          if collapsed = [] then None else Some collapsed)
      | _ \<Rightarrow> None)"

section \<open>\<open>spacedevs.py\<close>\<close>

definition or_dict :: "pyval \<Rightarrow> pyval" where
  "or_dict v = py_or v (PDict [])"

definition either_time :: "pyval \<Rightarrow> pyval \<Rightarrow> datetime option" where
  "either_time v w = (case parse_timestamp v of Some t \<Rightarrow> Some t | None \<Rightarrow> parse_timestamp w)"

definition named :: "pyval \<Rightarrow> nat \<Rightarrow> pyval \<Rightarrow> string" where
  "named v limit ident = (case bounded_text v limit of Some n \<Rightarrow> n | None \<Rightarrow> py_str ident)"

definition spacedevs_launch :: "(string \<times> pyval) list \<Rightarrow> datetime \<Rightarrow> exn + upcoming_launch" where
  "spacedevs_launch r start =
     (let pad_record = or_dict (dget r ''pad'') in
      bindr (vget (or_dict (dget r ''rocket'')) ''configuration'') (\<lambda>conf.
      bindr (vget (or_dict (dget r ''launch_service_provider'')) ''name'') (\<lambda>operator.
      bindr (vget (or_dict (dget r ''status'')) ''abbrev'') (\<lambda>abbrev.
      bindr (vget (or_dict conf) ''full_name'') (\<lambda>full_name.
      bindr (if truth full_name then Inr full_name else vget (or_dict conf) ''name'') (\<lambda>vehicle_name.
      bindr (vget pad_record ''name'') (\<lambda>pad_name.
      bindr (vget pad_record ''location'') (\<lambda>pad_location.
      bindr (vget (or_dict pad_location) ''name'') (\<lambda>location_name.
      bindr (bindr (vget pad_record ''latitude'') (\<lambda>v. coordinate v 90)) (\<lambda>lat.
      bindr (bindr (vget pad_record ''longitude'') (\<lambda>v. coordinate v 180)) (\<lambda>lon.
      bindr (vget (or_dict (dget r ''mission'')) ''description'') (\<lambda>description.
      Inr \<lparr>launch_id = py_str (dget r ''id''),
           launch_name = named (dget r ''name'') 200 (dget r ''id''),
           launch_status = bounded_text abbrev 32,
           window_start = start,
           window_end = parse_timestamp (dget r ''window_end''),
           launch_provider = ''the-space-devs'',
           operator_name = bounded_text operator 120,
           vehicle = bounded_text vehicle_name 120,
           pad = bounded_text pad_name 120,
           location = bounded_text location_name 160,
           latitude = lat,
           longitude = lon,
           mission_description = bounded_text description 600,
           weather_summary = None,
           info_url = None\<rparr>))))))))))))"

definition spacedevs_record :: "pyval \<Rightarrow> exn + upcoming_launch option" where
  "spacedevs_record v =
     (case v of
        PDict r \<Rightarrow>
          (if \<not> truth (dget r ''id'') then Inr None
           else (case either_time (dget r ''net'') (dget r ''window_start'') of
               None \<Rightarrow> Inr None
             | Some start \<Rightarrow> bindr (spacedevs_launch r start) (\<lambda>l. Inr (Some l))))
      | _ \<Rightarrow> Inr None)"

definition parse_spacedevs_launches :: "pyval \<Rightarrow> exn + upcoming_launch list" where
  "parse_spacedevs_launches payload =
     bindr (vget payload ''results'') (\<lambda>v. bindr (items (py_or v (PList []))) (collect spacedevs_record))"

text \<open>\<open>get_json path params\<close> is the transport's, with the client's base address.\<close>

type_synonym 's json_source = "string \<Rightarrow> (string \<times> string) list \<Rightarrow> ('s, pyval) io"

definition spacedevs_get_upcoming_launches :: "'s json_source \<Rightarrow> int \<Rightarrow> ('s, upcoming_launch list) io" where
  "spacedevs_get_upcoming_launches get_json limit =
     (if limit < 1 \<or> 100 < limit
      then throw (ValueError ''Launch query limit must be between 1 and 100'')
      else bindc (get_json ''/launches/upcoming/'' [(''limit'', show_int limit), (''mode'', ''normal'')])
             (\<lambda>v s. (parse_spacedevs_launches v, s)))"

section \<open>\<open>rocketlaunch.py\<close>\<close>

definition degree_sign :: char where "degree_sign = CHR 0xB0"
definition middle_dot :: char where "middle_dot = CHR 0xB7"

text \<open>\<open>try: parts.append(f(float(v or ""))) except ValueError: pass\<close>\<close>

definition weather_number :: "pyval \<Rightarrow> (pyfloat \<Rightarrow> pyfloat) \<Rightarrow> exn + int option" where
  "weather_number v convert =
     caught is_ValueError (bindr (float_of (py_or v (PStr []))) (\<lambda>x. round_int (convert x)))"

definition weather_text :: "(string \<times> pyval) list \<Rightarrow> exn + string option" where
  "weather_text r =
     (let condition = (case bounded_text (dget r ''weather_condition'') 64 of None \<Rightarrow> [] | Some c \<Rightarrow> [c]) in
      bindr (weather_number (dget r ''weather_temp'') (\<lambda>f. f_div_by (f_mul (f_sub f (Fin 32)) (Fin 5)) 9)) (\<lambda>celsius.
      bindr (weather_number (dget r ''weather_wind_mph'') (\<lambda>w. f_mul w (to_double 0.44704))) (\<lambda>wind.
      let parts = condition
            @ (case celsius of None \<Rightarrow> [] | Some n \<Rightarrow> [show_int n @ '' '' @ [degree_sign] @ ''C''])
            @ (case wind of None \<Rightarrow> [] | Some n \<Rightarrow> [''wind '' @ show_int n @ '' m/s'']);
          text = join_with ('' '' @ [middle_dot] @ '' '') parts
      in Inr (if text = [] then None else Some text))))"

text \<open>\<open>datetime.fromtimestamp(n, UTC)\<close> for the years 1 to 9999.\<close>

definition fromtimestamp :: "int \<Rightarrow> exn + datetime" where
  "fromtimestamp n = (if - 62135596800 \<le> n \<and> n \<le> 253402300799 then Inr (seconds n)
     else Inl (ValueError ''year is out of range''))"

definition launch_window_start :: "(string \<times> pyval) list \<Rightarrow> exn + (datetime option \<times> bool)" where
  "launch_window_start r =
     (case either_time (dget r ''t0'') (dget r ''win_open'') of
        Some t \<Rightarrow> Inr (Some t, True)
      | None \<Rightarrow>
          bindr (caught (\<lambda>e. bad_number e \<or> e = OverflowError)
                   (bindr (py_int_of (py_or (dget r ''sort_date'') (PStr []))) fromtimestamp))
            (\<lambda>t. Inr (t, False)))"

definition name_part :: "pyval \<Rightarrow> string list" where
  "name_part v = (case v of PStr s \<Rightarrow> if s = [] then [] else [s] | _ \<Rightarrow> [])"

definition launch_link :: "pyval \<Rightarrow> string option" where
  "launch_link slug = (case slug of
      PStr s \<Rightarrow> if isalnum (replace_char (CHR ''-'') [] s)
        then Some (''https://www.rocketlaunch.live/launch/'' @ s) else None
    | _ \<Rightarrow> None)"

definition rocketlaunch_launch :: "(string \<times> pyval) list \<Rightarrow> datetime \<Rightarrow> bool \<Rightarrow> exn + upcoming_launch" where
  "rocketlaunch_launch r start exact =
     (let pad_record = or_dict (dget r ''pad'') in
      bindr (vget pad_record ''location'') (\<lambda>pad_location.
      bindr (vget (or_dict pad_location) ''name'') (\<lambda>location_name.
      bindr (vget (or_dict pad_location) ''country'') (\<lambda>country.
      let place = bounded_text (PStr (join_with '', '' (name_part location_name @ name_part country))) 160 in
      bindr (vget (or_dict (dget r ''provider'')) ''name'') (\<lambda>operator.
      bindr (vget (or_dict (dget r ''vehicle'')) ''name'') (\<lambda>vehicle_name.
      bindr (vget pad_record ''name'') (\<lambda>pad_name.
      bindr (weather_text r) (\<lambda>weather.
      Inr \<lparr>launch_id = ''rll-'' @ py_str (dget r ''id''),
           launch_name = named (dget r ''name'') 200 (dget r ''id''),
           launch_status = Some (if exact then ''Scheduled'' else ''TBD''),
           window_start = start,
           window_end = parse_timestamp (dget r ''win_close''),
           launch_provider = ''rocketlaunch-live'',
           operator_name = bounded_text operator 120,
           vehicle = bounded_text vehicle_name 120,
           pad = bounded_text pad_name 120,
           location = place,
           latitude = fst (known_site_coordinates place),
           longitude = snd (known_site_coordinates place),
           mission_description =
             bounded_text (py_or (dget r ''mission_description'') (dget r ''launch_description'')) 600,
           weather_summary = weather,
           info_url = launch_link (dget r ''slug'')\<rparr>))))))))"

definition rocketlaunch_record :: "pyval \<Rightarrow> exn + upcoming_launch option" where
  "rocketlaunch_record v =
     (case v of
        PDict r \<Rightarrow>
          (if dget r ''id'' = PNone then Inr None
           else bindr (launch_window_start r) (\<lambda>(start, exact). case start of
               None \<Rightarrow> Inr None
             | Some t \<Rightarrow> bindr (rocketlaunch_launch r t exact) (\<lambda>l. Inr (Some l))))
      | _ \<Rightarrow> Inr None)"

definition parse_rocketlaunch_launches :: "pyval \<Rightarrow> exn + upcoming_launch list" where
  "parse_rocketlaunch_launches payload =
     bindr (vget payload ''result'') (\<lambda>v. bindr (items (py_or v (PList []))) (collect rocketlaunch_record))"

definition rocketlaunch_get_upcoming_launches :: "'s json_source \<Rightarrow> ('s, upcoming_launch list) io" where
  "rocketlaunch_get_upcoming_launches get_json =
     bindc (get_json ''/json/launches/next/5'' []) (\<lambda>v s. (parse_rocketlaunch_launches v, s))"

section \<open>What a feed can produce\<close>

text \<open>A text of at most \<open>n\<close> characters on one line, with nothing in front.\<close>

definition line_within :: "nat \<Rightarrow> string option \<Rightarrow> bool" where
  "line_within n t = (case t of None \<Rightarrow> True | Some s \<Rightarrow>
     s \<noteq> [] \<and> length s \<le> n \<and> \<not> is_space (hd s) \<and> (\<forall>c\<in>set s. is_space c \<longrightarrow> c = CHR '' ''))"

definition degrees_within :: "int \<Rightarrow> pyfloat option \<Rightarrow> bool" where
  "degrees_within b c = (case c of None \<Rightarrow> True | Some x \<Rightarrow> \<exists>q. x = Fin q \<and> - of_int b \<le> q \<and> q \<le> of_int b)"

lemma words_acc_mem:
  assumes "p \<in> set (words_acc w s)" "list_all (\<lambda>c. \<not> is_space c) w"
  shows "p \<noteq> [] \<and> list_all (\<lambda>c. \<not> is_space c) p"
  using assms
proof (induction s arbitrary: w)
  case Nil
  then show ?case by (cases "w = []") (simp_all add: list_all_rev)
next
  case (Cons c cs)
  show ?case
  proof (cases "is_space c")
    case True
    with Cons.prems Cons.IH [of "[]"] show ?thesis by (cases "w = []") (auto simp: list_all_rev)
  next
    case False
    with Cons.prems Cons.IH [of "c # w"] show ?thesis by simp
  qed
qed

definition lined :: "string \<Rightarrow> bool" where
  "lined s \<longleftrightarrow> s \<noteq> [] \<and> \<not> is_space (hd s) \<and> list_all (\<lambda>c. is_space c \<longrightarrow> c = CHR '' '') s"

lemma lined_word: "p \<noteq> [] \<Longrightarrow> list_all (\<lambda>c. \<not> is_space c) p \<Longrightarrow> lined p"
  by (cases p) (auto simp: lined_def list_all_iff)

lemma lined_append: "lined p \<Longrightarrow> lined q \<Longrightarrow> lined (p @ CHR '' '' # q)"
  by (simp add: lined_def hd_append)

lemma join_words:
  assumes "\<And>p. p \<in> set ps \<Longrightarrow> lined p" "ps \<noteq> []"
  shows "lined (join_with '' '' ps)"
  using assms
proof (induction ps)
  case (Cons p ps)
  then show ?case by (cases ps) (auto intro: lined_append)
qed simp

lemma bounded_text_line: "line_within n (bounded_text v n)"
proof (cases "bounded_text v n")
  case None
  then show ?thesis by (simp add: line_within_def)
next
  case (Some t)
  then obtain s where v: "v = PStr s" and t: "t = take n (join_with '' '' (split_ws s))" "t \<noteq> []"
    by (cases v) (auto simp: bounded_text_def Let_def split: if_splits)
  let ?j = "join_with '' '' (split_ws s)"
  have n: "split_ws s \<noteq> []" "0 < n" using t by (auto intro: gr0I)
  have "lined p" if "p \<in> set (split_ws s)" for p
    using words_acc_mem [of p "[]" s] that unfolding split_ws_def by (auto intro: lined_word)
  then have j: "lined ?j" using n(1) by (rule join_words)
  have "hd t = hd ?j" using t(1) n(2) by (simp add: hd_take)
  then have "\<not> is_space (hd t)" using j by (simp add: lined_def)
  moreover have "c = CHR '' ''" if "c \<in> set t" "is_space c" for c
    using j that in_set_takeD [of c n ?j] t(1) by (simp add: lined_def list_all_iff)
  moreover have "length t \<le> n" using t(1) by simp
  ultimately show ?thesis using Some t(2) by (simp add: line_within_def)
qed

lemma line_within_mono: "line_within m t \<Longrightarrow> m \<le> n \<Longrightarrow> line_within n t"
  by (auto simp: line_within_def split: option.splits)

lemma coordinate_within: "coordinate v (of_int b) = Inr c \<Longrightarrow> degrees_within b c"
  by (auto simp: coordinate_def degrees_within_def dest!: f_between elim!: bindr_InrE
      split: option.splits if_splits)

lemma site_table: "\<forall>(k, lat, lon)\<in>set KNOWN_SITE_COORDINATES. - 90 \<le> lat \<and> lat \<le> 90 \<and> - 180 \<le> lon \<and> lon \<le> 180"
  by (simp add: KNOWN_SITE_COORDINATES_def)

lemma site_within:
  "degrees_within 90 (fst (known_site_coordinates l)) \<and> degrees_within 180 (snd (known_site_coordinates l))"
proof (cases "known_site_coordinates l = (None, None)")
  case True
  then show ?thesis by (simp add: degrees_within_def)
next
  case False
  then obtain s where "l = Some s"
    and "find (\<lambda>(keyword, _, _). contains keyword (casefold s)) KNOWN_SITE_COORDINATES \<noteq> None"
    by (auto simp: known_site_coordinates_def split: option.splits if_splits)
  then obtain k lat lon where found: "find (\<lambda>(keyword, _, _). contains keyword (casefold s)) KNOWN_SITE_COORDINATES
      = Some (k, lat, lon)" by auto
  with False \<open>l = Some s\<close> have eq: "known_site_coordinates l = (Some (to_double lat), Some (to_double lon))"
    by (simp add: known_site_coordinates_def split: if_splits)
  from found have site: "(k, lat, lon) \<in> set KNOWN_SITE_COORDINATES"
    unfolding find_Some_iff by (metis nth_mem)
  from site site_table have b: "- 90 \<le> lat" "lat \<le> 90" "- 180 \<le> lon" "lon \<le> 180" by auto
  obtain r where "to_double lat = Fin r" "- 90 \<le> r" "r \<le> 90"
    by (rule to_double_bounds [of "- 90" lat 90]) (use b in simp_all)
  moreover obtain q where "to_double lon = Fin q" "- 180 \<le> q" "q \<le> 180"
    by (rule to_double_bounds [of "- 180" lon 180]) (use b in simp_all)
  ultimately show ?thesis by (simp add: eq degrees_within_def)
qed

lemma status_line: "line_within 32 (Some (if exact then ''Scheduled'' else ''TBD''))"
  by (simp add: line_within_def is_space_def)

lemma spacedevs_launch_within:
  assumes "spacedevs_launch r start = Inr l"
  shows "line_within 32 (launch_status l)" "line_within 120 (operator_name l)" "line_within 120 (vehicle l)"
    "line_within 120 (pad l)" "line_within 160 (location l)" "line_within 600 (mission_description l)"
    "degrees_within 90 (latitude l)" "degrees_within 180 (longitude l)"
    "launch_id l = py_str (dget r ''id'')" "launch_provider l = ''the-space-devs''" "window_start l = start"
    "info_url l = None"
  using assms coordinate_within [of _ 90] coordinate_within [of _ 180]
  by (auto simp: spacedevs_launch_def Let_def bounded_text_line elim!: bindr_InrE)

lemma isalnum_no_slash: "isalnum s \<Longrightarrow> c \<in> set s \<Longrightarrow> c \<notin> set ''/?#@:''"
  by (auto simp: isalnum_def list_all_iff isdigit_char_def isalpha_char_def is_digit_def Let_def)

lemma launch_link_safe:
  assumes "launch_link v = Some u"
  obtains s where "u = ''https://www.rocketlaunch.live/launch/'' @ s" "\<forall>c\<in>set s. c \<notin> set ''/?#@:''"
proof -
  from assms obtain s where s: "isalnum (replace_char (CHR ''-'') [] s)" "u = ''https://www.rocketlaunch.live/launch/'' @ s"
    by (cases v) (auto simp: launch_link_def split: if_splits)
  have "c \<notin> set ''/?#@:''" if "c \<in> set s" for c
  proof (cases "c = CHR ''-''")
    case False
    with that have "c \<in> set (replace_char (CHR ''-'') [] s)" by (auto simp: replace_char_def)
    with s(1) show ?thesis by (rule isalnum_no_slash)
  qed simp
  with s(2) show ?thesis by (intro that) auto
qed

lemma rocketlaunch_launch_within:
  assumes "rocketlaunch_launch r start exact = Inr l"
  shows "line_within 32 (launch_status l)" "line_within 120 (operator_name l)" "line_within 120 (vehicle l)"
    "line_within 120 (pad l)" "line_within 160 (location l)" "line_within 600 (mission_description l)"
    "degrees_within 90 (latitude l)" "degrees_within 180 (longitude l)"
    "launch_id l = ''rll-'' @ py_str (dget r ''id'')" "launch_provider l = ''rocketlaunch-live''"
    "window_start l = start" "info_url l = launch_link (dget r ''slug'')"
  using assms site_within
  by (auto simp: rocketlaunch_launch_def Let_def bounded_text_line status_line elim!: bindr_InrE)


definition launch_feed :: pyval where
  "launch_feed = PDict [(''result'', PList [PNone, PDict [(''id'', PInt 7), (''t0'', PStr ''2026-09-21T20''),
     (''slug'', PStr ''a-1''), (''pad'', PDict [(''location'', PDict [(''name'', PStr '' Naro '')])])]])]"

lemma launch_feed_parse:
  "map_sum id (map (\<lambda>l. (launch_id l, location l, info_url l))) (parse_rocketlaunch_launches launch_feed)
     = Inr [(''rll-7'', Some ''Naro'', Some ''https://www.rocketlaunch.live/launch/a-1'')]"
  by code_simp


end
