(* ===== verification/Ingest.thy ===== *)
theory Ingest
  imports Queue Scheduler Celestrak Noaa Jpl Launch_Sources
begin

text \<open>
  The jobs of the ingestion scheduler (\<open>src/ingestion/scheduler.py\<close>): each fetches the records of a provider,
  turns them into rows, stores them by upserts in one transaction and announces the change to the webhooks.
  What a job fetches is a parameter, the clients are modelled in \<open>Celestrak\<close>, \<open>Noaa\<close>, \<open>Jpl\<close>,
  \<open>Launch_Sources\<close> and \<open>Spacetrack\<close>; so are the clock \<open>now\<close> and the random identifiers. Requests the source
  sends together with \<open>gather\<close> are sent one after the other.

  The theorems say what each job leaves in the tables seen as maps, that a launch job falls back to
  the next source, and who is told of an event.
\<close>

section \<open>Values\<close>

definition GEOMAGNETIC_STORM_KP :: rat where "GEOMAGNETIC_STORM_KP = 5"

text \<open>\<open>values[start : start + size] for start in range(0, len(values), size)\<close>.\<close>

function batches :: "nat \<Rightarrow> 'a list \<Rightarrow> 'a list list" where
  "batches n xs = (if xs = [] \<or> n = 0 then [] else take n xs # batches n (drop n xs))"
  by pat_completeness auto
termination by (relation "measure (\<lambda>(n, xs). length xs)") auto

declare batches.simps [simp del]

definition ingest_datetime :: "string \<Rightarrow> exn + datetime" where
  "ingest_datetime v = (case utc_fromisoformat v of
     None \<Rightarrow> Inl (ValueError ''Invalid isoformat string'') | Some t \<Rightarrow> Inr t)"

definition nasa_datetime :: "string \<Rightarrow> exn + datetime" where
  "nasa_datetime v = (case strptime_minute v of Some t \<Rightarrow> Inr t
     | None \<Rightarrow> (case strptime_day v of Some t \<Rightarrow> Inr t | None \<Rightarrow> ingest_datetime v))"

definition ingest_float :: "pyval \<Rightarrow> exn + pyfloat option" where
  "ingest_float v = (if v = PNone \<or> v = PStr [] then Inr None else caught bad_number (float_of v))"

text \<open>A text column takes a text or None; the driver refuses everything else.\<close>

definition DBAPIError :: exn where "DBAPIError = OtherError ''DBAPIError''"

fun bind_text :: "pyval \<Rightarrow> exn + cell" where
  "bind_text PNone = Inr CNull"
| "bind_text (PStr s) = Inr (CText s)"
| "bind_text v = Inl DBAPIError"

text \<open>A comprehension that draws a new identifier for each item.\<close>

definition numbered :: "nat \<Rightarrow> (nat \<Rightarrow> 'a \<Rightarrow> row) \<Rightarrow> 'a list \<Rightarrow> row list" where
  "numbered n f xs = map (\<lambda>(i, x). f i x) (List.enumerate n xs)"

definition bind_rows :: "('a \<Rightarrow> exn + row) \<Rightarrow> 'a list \<Rightarrow> exn + row list" where
  "bind_rows f xs = collect (\<lambda>x. bindr (f x) (\<lambda>r. Inr (Some r))) xs"

section \<open>Webhook events\<close>

definition envelope :: "row \<Rightarrow> string \<Rightarrow> (string \<times> pyval) list \<Rightarrow> string" where
  "envelope webhook event_name data = dumps (PDict
     [(''webhook_id'', text_value (webhook ''id'')), (''event'', PStr event_name), (''data'', PDict data)])"

fun publish_each :: "'s nats \<Rightarrow> string \<Rightarrow> (string \<times> pyval) list \<Rightarrow> row list \<Rightarrow> ('s, unit) io" where
  "publish_each N event_name data [] = ret ()"
| "publish_each N event_name data (webhook # rest) =
     bindc (pure (subscribed event_name (webhook ''events''))) (\<lambda>yes.
       if yes then bindc (js_publish N OUTBOUND (envelope webhook event_name data)) (\<lambda>_.
         publish_each N event_name data rest)
       else publish_each N event_name data rest)"

definition publish_event :: "'s engine \<Rightarrow> 's nats \<Rightarrow> string \<Rightarrow> (string \<times> pyval) list \<Rightarrow> ('s, unit) io" where
  "publish_event E N event_name data = catchc
     (bindc (eng_select E (select_from ''webhooks'' active)) (publish_each N event_name data)) (\<lambda>_. ret ())"

definition event_count :: "string \<Rightarrow> 'a list \<Rightarrow> (string \<times> pyval) list" where
  "event_count provider xs = [(''provider'', PStr provider), (''count'', PInt (int (length xs)))]"

section \<open>Provider health\<close>

definition health_fields :: "datetime \<Rightarrow> string \<Rightarrow> string option \<Rightarrow> (string \<times> cell) list" where
  "health_fields now status error =
     (''status'', CText status) #
     (if status = ''active'' then [(''last_success_at'', CTime now), (''error_message'', CNull)]
      else [(''last_error_at'', CTime now),
        (''error_message'', case error of None \<Rightarrow> CNull | Some e \<Rightarrow> if e = [] then CNull else CText (take 1000 e))])
     @ [(''updated_at'', CTime now)]"

definition write_provider_health ::
  "'s engine \<Rightarrow> datetime \<Rightarrow> string \<Rightarrow> string \<Rightarrow> string option \<Rightarrow> ('s, unit) io" where
  "write_provider_health E now provider_id status error =
     bindc (eng_select E (select_from ''provider_health'' (\<lambda>r. r ''id'' = CText provider_id))) (\<lambda>rows.
       if rows = [] then eng_tx E [Add ''provider_health'' [row_of ((''id'', CText provider_id) # health_fields now status error)]]
       else if tl rows = [] then eng_tx E
         [Update ''provider_health'' (\<lambda>r. r ''id'' = CText provider_id) (assign (health_fields now status error))]
       else throw (OtherError ''MultipleResultsFound''))"

definition provider_health ::
  "'s engine \<Rightarrow> datetime \<Rightarrow> string \<Rightarrow> string \<Rightarrow> string option \<Rightarrow> ('s, unit) io" where
  "provider_health E now provider_id status error =
     catchc (write_provider_health E now provider_id status error) (\<lambda>_. ret ())"

section \<open>Satellite catalogue\<close>

record sat_value =
  sv_norad :: int
  sv_cospar :: pyval
  sv_name :: string
  sv_country :: pyval
  sv_type :: pyval
  sv_status :: string

fun stripped :: "pyval \<Rightarrow> exn + string" where
  "stripped (PStr s) = Inr (strip s)"
| "stripped v = Inl AttributeError"

definition satcat_value :: "pyval \<Rightarrow> exn + sat_value option" where
  "satcat_value record =
     bindr (get_or record ''NORAD_CAT_ID'' (PStr [])) (\<lambda>number.
     if \<not> isdigit (py_str number) then Inr None
     else bindr (py_int_of number) (\<lambda>n.
       bindr (vget record ''INTLDES'') (\<lambda>cospar.
       bindr (vget record ''SATNAME'') (\<lambda>name.
       bindr (stripped (py_or name (PStr []))) (\<lambda>name.
       bindr (vget record ''COUNTRY'') (\<lambda>country.
       bindr (vget record ''OBJECT_TYPE'') (\<lambda>object_type.
       bindr (vget record ''DECAY'') (\<lambda>decay.
         Inr (Some \<lparr>sv_norad = n, sv_cospar = cospar, sv_name = name, sv_country = country,
           sv_type = object_type, sv_status = (if truth decay then ''decayed'' else ''active'')\<rparr>)))))))))"

definition satcat_row :: "datetime \<Rightarrow> sat_value \<Rightarrow> exn + row" where
  "satcat_row now v =
     bindr (bind_text (sv_cospar v)) (\<lambda>cospar. bindr (bind_text (sv_country v)) (\<lambda>country.
     bindr (bind_text (sv_type v)) (\<lambda>object_type.
       Inr (row_of [(''norad_id'', CInt (sv_norad v)), (''cospar_id'', cospar), (''name'', CText (sv_name v)),
         (''country'', country), (''object_type'', object_type), (''orbit_class'', CNull),
         (''status'', CText (sv_status v)), (''created_at'', CTime now), (''updated_at'', CTime now)]))))"

definition SATCAT_COLUMNS :: "string list" where
  "SATCAT_COLUMNS = [''cospar_id'', ''name'', ''country'', ''object_type'', ''status'']"

definition satcat_stmts :: "row list \<Rightarrow> stmt list" where
  "satcat_stmts rows =
     map (\<lambda>b. Insert ''satellites'' b [''norad_id''] (Some (take_over SATCAT_COLUMNS))) (batches 500 rows)"

text \<open>\<open>fetch\<close> is \<open>SpaceTrackClient.get_satcat\<close> (\<open>Spacetrack.get_satcat\<close>) with its \<open>close\<close>.\<close>

definition ingest_satcat :: "'s engine \<Rightarrow> 's nats \<Rightarrow> datetime \<Rightarrow> ('s, pyval) io \<Rightarrow> ('s, unit) io" where
  "ingest_satcat E N now fetch =
     bindc fetch (\<lambda>records.
     bindc (pure (bindr (items records) (collect satcat_value))) (\<lambda>values.
     bindc (pure (bind_rows (satcat_row now) values)) (\<lambda>rows.
     bindc (eng_tx E (satcat_stmts rows)) (\<lambda>_.
       publish_event E N ''object.updated'' (event_count ''space-track'' values)))))"

section \<open>Orbital elements\<close>

definition satellite_row :: "datetime \<Rightarrow> element_set \<Rightarrow> row" where
  "satellite_row now r = row_of [(''norad_id'', CInt (norad_id r)), (''cospar_id'', opt_text (cospar_id r)),
     (''name'', CText (object_name r)), (''created_at'', CTime now), (''updated_at'', CTime now)]"

definition element_row :: "datetime \<Rightarrow> nat \<Rightarrow> element_set \<Rightarrow> row" where
  "element_row now uuid r = row_of [(''id'', CUuid uuid), (''norad_id'', CInt (norad_id r)),
     (''epoch'', CTime (epoch r)), (''inclination'', CNum (inclination r)),
     (''right_ascension'', CNum (right_ascension r)), (''eccentricity'', CNum (eccentricity r)),
     (''argument_of_perigee'', CNum (argument_of_perigee r)), (''mean_anomaly'', CNum (mean_anomaly r)),
     (''mean_motion'', CNum (mean_motion r)), (''tle_line1'', CText (tle_line1 r)),
     (''tle_line2'', CText (tle_line2 r)), (''provider'', CText ''celestrak''), (''created_at'', CTime now)]"

definition ELEMENT_KEY :: "string list" where
  "ELEMENT_KEY = [''norad_id'', ''provider'', ''epoch'']"

definition orbital_satellites :: "datetime \<Rightarrow> element_set list \<Rightarrow> row list" where
  "orbital_satellites now records = map snd (index_by (map (\<lambda>r. (norad_id r, satellite_row now r)) records))"

definition orbital_elements :: "datetime \<Rightarrow> (nat \<Rightarrow> nat) \<Rightarrow> element_set list \<Rightarrow> row list" where
  "orbital_elements now uuid4 records = numbered 0 (\<lambda>i. element_row now (uuid4 i)) records"

definition orbital_stmts :: "datetime \<Rightarrow> (nat \<Rightarrow> nat) \<Rightarrow> element_set list \<Rightarrow> stmt list" where
  "orbital_stmts now uuid4 records =
     map (\<lambda>b. Insert ''satellites'' b [''norad_id''] (Some (take_over [''cospar_id'', ''name''])))
       (batches 1000 (orbital_satellites now records))
   @ map (\<lambda>b. Insert ''orbital_elements'' b ELEMENT_KEY None) (batches 1000 (orbital_elements now uuid4 records))"

text \<open>\<open>fetch\<close> is \<open>Celestrak.get_group\<close> of the group \<open>active\<close>.\<close>

definition store_elements ::
  "'s engine \<Rightarrow> 's nats \<Rightarrow> datetime \<Rightarrow> (nat \<Rightarrow> nat) \<Rightarrow> element_set list \<Rightarrow> ('s, unit) io" where
  "store_elements E N now uuid4 records =
     (if records = [] then throw (ProviderUnavailableError ''CelesTrak returned no parsable element sets'')
      else bindc (eng_tx E (orbital_stmts now uuid4 records)) (\<lambda>_.
        publish_event E N ''object.updated'' (event_count ''celestrak'' records)))"

definition ingest_orbital_elements ::
  "'s engine \<Rightarrow> 's nats \<Rightarrow> datetime \<Rightarrow> (nat \<Rightarrow> nat) \<Rightarrow> ('s, element_set list) io \<Rightarrow> ('s, unit) io" where
  "ingest_orbital_elements E N now uuid4 fetch = (\<lambda>s. case fetch s of
      (Inl (CelestrakNotModifiedError g), s1) \<Rightarrow> (Inr (), s1)
    | (Inl e, s1) \<Rightarrow> (Inl e, s1)
    | (Inr records, s1) \<Rightarrow> store_elements E N now uuid4 records s1)"

section \<open>Space weather\<close>

definition index_row :: "datetime \<Rightarrow> nat \<Rightarrow> geomagnetic \<Rightarrow> row" where
  "index_row now uuid k = row_of [(''id'', CUuid uuid), (''timestamp'', CTime (k_at k)),
     (''kp_index'', CNum (k_index k)), (''created_at'', CTime now)]"

definition wind_row :: "datetime \<Rightarrow> nat \<Rightarrow> solar_wind \<Rightarrow> row" where
  "wind_row now uuid w = row_of [(''id'', CUuid uuid), (''timestamp'', CTime (wind_at w)),
     (''speed_km_s'', CNum (speed_km_s w)), (''density_cm3'', CNum (density_cm3 w)),
     (''temperature_k'', CNum (temperature_k w)), (''created_at'', CTime now)]"

definition WIND_COLUMNS :: "string list" where
  "WIND_COLUMNS = [''speed_km_s'', ''density_cm3'', ''temperature_k'']"

definition weather_stmts ::
  "datetime \<Rightarrow> (nat \<Rightarrow> nat) \<Rightarrow> geomagnetic list \<Rightarrow> solar_wind list \<Rightarrow> stmt list" where
  "weather_stmts now uuid4 indices winds =
     (if indices = [] then [] else [Insert ''space_weather_indices''
        (numbered 0 (\<lambda>i. index_row now (uuid4 i)) indices) [''timestamp''] (Some (take_over [''kp_index'']))])
   @ (if winds = [] then [] else [Insert ''solar_wind''
        (numbered (length indices) (\<lambda>i. wind_row now (uuid4 i)) winds) [''timestamp''] (Some (take_over WIND_COLUMNS))])"

definition storm_alert :: "geomagnetic list \<Rightarrow> (string \<times> pyval) list option" where
  "storm_alert indices =
     (if indices \<noteq> [] \<and> f_le (Fin GEOMAGNETIC_STORM_KP) (k_index (last indices))
      then Some [(''provider'', PStr ''noaa-swpc''), (''kp_index'', PFloat (repr_float (k_index (last indices))))]
      else None)"

text \<open>The fetches are \<open>Noaa.get_planetary_k\<close> and \<open>Noaa.get_solar_wind\<close>.\<close>

definition ingest_space_weather ::
  "'s engine \<Rightarrow> 's nats \<Rightarrow> datetime \<Rightarrow> (nat \<Rightarrow> nat) \<Rightarrow> ('s, geomagnetic list) io \<Rightarrow> ('s, solar_wind list) io
     \<Rightarrow> ('s, unit) io" where
  "ingest_space_weather E N now uuid4 fetch_k fetch_wind =
     bindc fetch_k (\<lambda>indices. bindc fetch_wind (\<lambda>winds.
       if indices = [] \<and> winds = []
       then throw (ProviderUnavailableError ''NOAA SWPC returned no valid observations'')
       else bindc (eng_tx E (weather_stmts now uuid4 indices winds)) (\<lambda>_.
         case storm_alert indices of None \<Rightarrow> ret ()
         | Some data \<Rightarrow> publish_event E N ''space_weather.alert'' data)))"

section \<open>Close approaches\<close>

definition OBJECT_COLUMNS :: "string list" where
  "OBJECT_COLUMNS = [''name'', ''absolute_magnitude_h'', ''estimated_diameter_min_km'',
     ''estimated_diameter_max_km'', ''is_potentially_hazardous'', ''is_sentry_object'']"

definition APPROACH_KEY :: "string list" where
  "APPROACH_KEY = [''neo_id'', ''close_approach_date'', ''orbiting_body'']"

definition APPROACH_COLUMNS :: "string list" where
  "APPROACH_COLUMNS = [''relative_velocity_kms'', ''miss_distance_au'']"

definition approach_stmts :: "row list \<Rightarrow> row list \<Rightarrow> stmt list" where
  "approach_stmts objects approaches =
     map (\<lambda>b. Insert ''near_earth_objects'' b [''id''] (Some (take_over OBJECT_COLUMNS))) (batches 1000 objects)
   @ map (\<lambda>b. Insert ''close_approaches'' b APPROACH_KEY (Some (take_over APPROACH_COLUMNS)))
       (batches 1000 approaches)"

definition store_close_approaches ::
  "'s engine \<Rightarrow> 's nats \<Rightarrow> string \<Rightarrow> (exn + row) list \<Rightarrow> (exn + row) list \<Rightarrow> ('s, unit) io" where
  "store_close_approaches E N provider_id objects approaches =
     bindc (pure (bind_rows (\<lambda>r. r) objects)) (\<lambda>os.
     bindc (pure (bind_rows (\<lambda>r. r) approaches)) (\<lambda>as.
     bindc (eng_tx E (approach_stmts os as)) (\<lambda>_.
       publish_event E N ''object.updated'' (event_count provider_id objects))))"

definition object_row ::
  "datetime \<Rightarrow> string \<Rightarrow> cell \<Rightarrow> pyfloat option \<Rightarrow> pyfloat option \<Rightarrow> pyfloat option \<Rightarrow> bool \<Rightarrow> bool \<Rightarrow> row" where
  "object_row now neo_id name h dmin dmax hazardous sentry = row_of [(''id'', CText neo_id), (''name'', name),
     (''absolute_magnitude_h'', opt_num h), (''estimated_diameter_min_km'', opt_num dmin),
     (''estimated_diameter_max_km'', opt_num dmax), (''is_potentially_hazardous'', CBool hazardous),
     (''is_sentry_object'', CBool sentry), (''created_at'', CTime now)]"

definition approach_row_of :: "datetime \<Rightarrow> nat \<Rightarrow> string \<Rightarrow> datetime \<Rightarrow> pyfloat \<Rightarrow> pyfloat \<Rightarrow> cell \<Rightarrow> row" where
  "approach_row_of now uuid neo_id t v d body = row_of [(''id'', CUuid uuid), (''neo_id'', CText neo_id),
     (''close_approach_date'', CTime t), (''relative_velocity_kms'', CNum v), (''miss_distance_au'', CNum d),
     (''orbiting_body'', body), (''created_at'', CTime now)]"

definition jpl_objects :: "datetime \<Rightarrow> close_approach list \<Rightarrow> string list \<Rightarrow> string list \<Rightarrow> row list" where
  "jpl_objects now records hazardous sentry = map snd (index_by (map (\<lambda>r. (designation r,
     object_row now (designation r) (CText (approach_name r)) (absolute_magnitude_h r) (diameter_min_km r)
       (diameter_max_km r) (designation r \<in> set hazardous) (designation r \<in> set sentry))) records))"

definition jpl_approaches :: "datetime \<Rightarrow> (nat \<Rightarrow> nat) \<Rightarrow> close_approach list \<Rightarrow> row list" where
  "jpl_approaches now uuid4 records = map snd (index_by (map (\<lambda>(i, r). ((designation r, approach_at r),
     approach_row_of now (uuid4 i) (designation r) (approach_at r) (relative_velocity_kms r)
       (miss_distance_au r) (CText ''Earth''))) (List.enumerate 0 records)))"

text \<open>The fetches are those of \<open>Jpl\<close>.\<close>

definition ingest_jpl_close_approaches ::
  "'s engine \<Rightarrow> 's nats \<Rightarrow> datetime \<Rightarrow> (nat \<Rightarrow> nat) \<Rightarrow> ('s, close_approach list) io \<Rightarrow> ('s, string list) io
     \<Rightarrow> ('s, string list) io \<Rightarrow> ('s, unit) io" where
  "ingest_jpl_close_approaches E N now uuid4 fetch fetch_hazardous fetch_sentry =
     bindc fetch (\<lambda>records. bindc fetch_hazardous (\<lambda>hazardous. bindc fetch_sentry (\<lambda>sentry.
       store_close_approaches E N ''jpl-ssd'' (map Inr (jpl_objects now records hazardous sentry))
         (map Inr (jpl_approaches now uuid4 records)))))"

section \<open>The feed of NASA\<close>

record nasa_approach =
  na_neo :: string
  na_at :: datetime
  na_velocity :: pyfloat
  na_distance :: pyfloat
  na_body :: pyval

definition nasa_approach :: "string \<Rightarrow> pyval \<Rightarrow> exn + nasa_approach option" where
  "nasa_approach neo_id approach =
     bindr (vget approach ''close_approach_date_full'') (\<lambda>full.
     bindr (vget approach ''close_approach_date'') (\<lambda>day.
     bindr (get_or approach ''relative_velocity'' (PDict [])) (\<lambda>rv.
     bindr (bindr (vget rv ''kilometers_per_second'') ingest_float) (\<lambda>velocity.
     bindr (get_or approach ''miss_distance'' (PDict [])) (\<lambda>md.
     bindr (bindr (vget md ''astronomical'') ingest_float) (\<lambda>distance.
       let timestamp = py_or full day in
       case (velocity, distance) of
         (Some v, Some d) \<Rightarrow>
           (if \<not> truth timestamp then Inr None
            else bindr (nasa_datetime (py_str timestamp)) (\<lambda>t.
              bindr (vget approach ''orbiting_body'') (\<lambda>body.
                let body = py_or body (PStr ''Earth'') in
                if hashable body then Inr (Some \<lparr>na_neo = neo_id, na_at = t, na_velocity = v, na_distance = d, na_body = body\<rparr>)
                else Inl TypeError)))
       | _ \<Rightarrow> Inr None))))))"

record nasa_object =
  no_id :: string
  no_name :: pyval
  no_h :: "pyfloat option"
  no_dmin :: "pyfloat option"
  no_dmax :: "pyfloat option"
  no_hazardous :: bool
  no_sentry :: bool

definition nasa_item :: "pyval \<Rightarrow> exn + (nasa_object \<times> nasa_approach list)" where
  "nasa_item item =
     bindr (subscript item ''id'') (\<lambda>ident.
     bindr (get_or item ''estimated_diameter'' (PDict [])) (\<lambda>diameter.
     bindr (get_or diameter ''kilometers'' (PDict [])) (\<lambda>kilometers.
     bindr (vget item ''name'') (\<lambda>name.
     bindr (bindr (vget item ''absolute_magnitude_h'') ingest_float) (\<lambda>h.
     bindr (bindr (vget kilometers ''estimated_diameter_min'') ingest_float) (\<lambda>dmin.
     bindr (bindr (vget kilometers ''estimated_diameter_max'') ingest_float) (\<lambda>dmax.
     bindr (vget item ''is_potentially_hazardous_asteroid'') (\<lambda>hazardous.
     bindr (vget item ''is_sentry_object'') (\<lambda>sentry.
     bindr (bindr (get_or item ''close_approach_data'' (PList [])) items) (\<lambda>data.
     bindr (collect (nasa_approach (py_str ident)) data) (\<lambda>approaches.
       Inr (\<lparr>no_id = py_str ident, no_name = py_or name (PStr (py_str ident)), no_h = h, no_dmin = dmin,
         no_dmax = dmax, no_hazardous = truth hazardous, no_sentry = truth sentry\<rparr>, approaches))))))))))))"

definition nasa_day :: "pyval \<Rightarrow> exn + (nasa_object \<times> nasa_approach list) list" where
  "nasa_day daily = bindr (items daily) (collect (\<lambda>i. bindr (nasa_item i) (\<lambda>x. Inr (Some x))))"

definition nasa_feed :: "pyval \<Rightarrow> exn + (nasa_object \<times> nasa_approach list) list" where
  "nasa_feed feed =
     bindr (bindr (get_or feed ''near_earth_objects'' (PDict [])) values_of) (\<lambda>days.
     bindr (collect (\<lambda>d. bindr (nasa_day d) (\<lambda>x. Inr (Some x))) days) (\<lambda>xs. Inr (concat xs)))"

definition nasa_object_row :: "datetime \<Rightarrow> nasa_object \<Rightarrow> exn + row" where
  "nasa_object_row now x = bindr (bind_text (no_name x)) (\<lambda>name.
     Inr (object_row now (no_id x) name (no_h x) (no_dmin x) (no_dmax x) (no_hazardous x) (no_sentry x)))"

definition nasa_approach_row :: "datetime \<Rightarrow> nat \<Rightarrow> nasa_approach \<Rightarrow> exn + row" where
  "nasa_approach_row now uuid a = bindr (bind_text (na_body a)) (\<lambda>body.
     Inr (approach_row_of now uuid (na_neo a) (na_at a) (na_velocity a) (na_distance a) body))"

definition nasa_objects :: "datetime \<Rightarrow> (nasa_object \<times> nasa_approach list) list \<Rightarrow> (exn + row) list" where
  "nasa_objects now xs = map snd (index_by (map (\<lambda>(x, _). (no_id x, nasa_object_row now x)) xs))"

definition nasa_approaches ::
  "datetime \<Rightarrow> (nat \<Rightarrow> nat) \<Rightarrow> (nasa_object \<times> nasa_approach list) list \<Rightarrow> (exn + row) list" where
  "nasa_approaches now uuid4 xs = map snd (index_by (map (\<lambda>(i, a). ((na_neo a, na_at a, na_body a),
     nasa_approach_row now (uuid4 i) a)) (List.enumerate 0 (concat (map snd xs)))))"

text \<open>\<open>today\<close> counts days from 1970-01-01; \<open>fetch\<close> is \<open>Jpl.get_neo_feed\<close>.\<close>

definition ingest_nasa_neos ::
  "'s engine \<Rightarrow> 's nats \<Rightarrow> datetime \<Rightarrow> int \<Rightarrow> (nat \<Rightarrow> nat) \<Rightarrow> (string \<Rightarrow> string \<Rightarrow> ('s, pyval) io) \<Rightarrow> ('s, unit) io" where
  "ingest_nasa_neos E N now today uuid4 fetch =
     bindc (fetch (date_isoformat today) (date_isoformat (today + 7))) (\<lambda>feed.
     bindc (pure (nasa_feed feed)) (\<lambda>xs.
       store_close_approaches E N ''nasa-neows'' (nasa_objects now xs) (nasa_approaches now uuid4 xs)))"

section \<open>Launches\<close>

definition launch_fields :: "upcoming_launch \<Rightarrow> (string \<times> cell) list" where
  "launch_fields l =
     [(''id'', CText (launch_id l)), (''name'', CText (launch_name l)), (''status'', opt_text (launch_status l)),
      (''window_start'', CTime (window_start l)), (''window_end'', opt_time (window_end l)),
      (''provider'', CText (launch_provider l)), (''operator'', opt_text (operator_name l)),
      (''vehicle'', opt_text (vehicle l)), (''pad'', opt_text (pad l)), (''location'', opt_text (location l)),
      (''latitude'', opt_num (latitude l)), (''longitude'', opt_num (longitude l)),
      (''mission_description'', opt_text (mission_description l)),
      (''weather_summary'', opt_text (weather_summary l)), (''info_url'', opt_text (info_url l))]"

definition launch_row :: "datetime \<Rightarrow> upcoming_launch \<Rightarrow> row" where
  "launch_row now l = row_of (launch_fields l @ [(''created_at'', CTime now), (''updated_at'', CTime now)])"

definition LAUNCH_COLUMNS :: "string list" where
  "LAUNCH_COLUMNS = [''name'', ''status'', ''window_start'', ''window_end'', ''operator'', ''vehicle'', ''pad'',
     ''location'', ''latitude'', ''longitude'', ''mission_description'', ''weather_summary'', ''info_url'']"

definition withdrawn :: "datetime \<Rightarrow> upcoming_launch list \<Rightarrow> row \<Rightarrow> bool" where
  "withdrawn now launches r \<longleftrightarrow>
     (\<exists>t. r ''window_start'' = CTime t \<and> now \<le> t) \<and> r ''id'' \<notin> CText ` launch_id ` set launches"

definition launch_stmts :: "datetime \<Rightarrow> upcoming_launch list \<Rightarrow> stmt list" where
  "launch_stmts now launches =
     [Insert ''launches'' (map (launch_row now) launches) [''id''] (Some (take_over LAUNCH_COLUMNS)),
      Delete ''launches'' (withdrawn now launches)]"

definition replace_upcoming_launches :: "'s engine \<Rightarrow> datetime \<Rightarrow> upcoming_launch list \<Rightarrow> ('s, unit) io" where
  "replace_upcoming_launches E now launches = eng_tx E (launch_stmts now launches)"

definition launch_source ::
  "'s engine \<Rightarrow> datetime \<Rightarrow> (string \<Rightarrow> ('s, upcoming_launch list) io) \<Rightarrow> string \<Rightarrow> ('s, upcoming_launch list) io" where
  "launch_source E now fetch provider_id =
     bindc (fetch provider_id) (\<lambda>launches.
       if launches = [] then throw (ProviderUnavailableError (provider_id @ '' returned no upcoming launches''))
       else bindc (replace_upcoming_launches E now launches) (\<lambda>_. ret launches))"

fun launch_attempts ::
  "'s engine \<Rightarrow> 's nats \<Rightarrow> datetime \<Rightarrow> (string \<Rightarrow> ('s, upcoming_launch list) io) \<Rightarrow> string list \<Rightarrow> string list \<Rightarrow> ('s, unit) io" where
  "launch_attempts E N now fetch failures [] = throw (ProviderUnavailableError
     (if failures = [] then ''No launch provider is configured'' else join_with ''; '' failures))"
| "launch_attempts E N now fetch failures (p # ps) = (\<lambda>s. case launch_source E now fetch p s of
      (Inl e, s1) \<Rightarrow>
        (if is_Exception e
         then bindc (provider_health E now p ''error'' (Some (safe_error e))) (\<lambda>_.
           launch_attempts E N now fetch (failures @ [p @ '': '' @ safe_error e]) ps) s1
         else (Inl e, s1))
    | (Inr launches, s1) \<Rightarrow>
        bindc (provider_health E now p ''active'' None) (\<lambda>_.
          publish_event E N ''launch.updated'' (event_count p launches)) s1)"

definition ingest_launches ::
  "'s engine \<Rightarrow> 's nats \<Rightarrow> settings \<Rightarrow> datetime \<Rightarrow> (string \<Rightarrow> ('s, upcoming_launch list) io) \<Rightarrow> ('s, unit) io" where
  "ingest_launches E N cfg now fetch =
     launch_attempts E N now fetch [] (filter (\<lambda>p. p \<in> set (configured_providers cfg)) LAUNCH_SOURCES)"

section \<open>Batches of upserts\<close>

lemma concat_batches: "0 < n \<Longrightarrow> concat (batches n xs) = xs"
  by (induction n xs rule: batches.induct) (subst batches.simps, auto)

lemma batches_Nil [simp]: "batches n [] = []"
  by (subst batches.simps) simp

lemma batches_parts: "b \<in> set (batches n xs) \<Longrightarrow> \<exists>k. b = take n (drop k xs)"
proof (induction n xs rule: batches.induct)
  case (1 n xs)
  show ?case
  proof (cases "xs = [] \<or> n = 0")
    case True
    with "1.prems" show ?thesis by (subst (asm) batches.simps) simp
  next
    case False
    with "1.prems" have "b = take n xs \<or> b \<in> set (batches n (drop n xs))" by (subst (asm) batches.simps) simp
    then show ?thesis
    proof
      assume "b = take n xs"
      then show ?thesis by (intro exI [of _ 0]) simp
    next
      assume "b \<in> set (batches n (drop n xs))"
      from "1.IH" [OF False this] show ?thesis by (auto simp: add.commute)
    qed
  qed
qed

lemma batches_length: "b \<in> set (batches n xs) \<Longrightarrow> length b \<le> n"
  by (auto dest!: batches_parts)

lemma batches_distinct: "distinct (map f xs) \<Longrightarrow> b \<in> set (batches n xs) \<Longrightarrow> distinct (map f b)"
  by (auto dest!: batches_parts simp flip: take_map drop_map)

abbreviation insert_all :: "string \<Rightarrow> string list \<Rightarrow> (row \<Rightarrow> row \<Rightarrow> row) option \<Rightarrow> row list list \<Rightarrow> stmt list" where
  "insert_all t key upd bs \<equiv> map (\<lambda>b. Insert t b key upd) bs"

lemma insert_all_spec:
  assumes "exec_all (insert_all t key upd bs) d = Some d'" "keyed key (d t)" "keeps_key key upd"
    "\<forall>r\<in>set (concat bs). CNull \<notin> set (key_of key r)"
  shows "keyed key (d' t)" and "by_key key (d' t) = fold (put_key key upd) (concat bs) (by_key key (d t))"
    and "u \<noteq> t \<Longrightarrow> d' u = d u"
proof -
  have "keyed key (d' t) \<and> by_key key (d' t) = fold (put_key key upd) (concat bs) (by_key key (d t))
    \<and> (u \<noteq> t \<longrightarrow> d' u = d u)"
    using assms(1,2,4)
  proof (induction bs arbitrary: d)
    case (Cons b bs)
    from Cons.prems(1) obtain tbl where tbl: "insert_rows key upd b (d t) = Some tbl"
      and rest: "exec_all (insert_all t key upd bs) (d(t := tbl)) = Some d'"
      by (auto split: option.splits)
    have spec: "keyed key tbl \<and> by_key key tbl = fold (put_key key upd) b (by_key key (d t))"
      by (rule insert_rows_spec [OF tbl Cons.prems(2) assms(3)]) (use Cons.prems(3) in auto)
    have "keyed key (d' t) \<and> by_key key (d' t) = fold (put_key key upd) (concat bs) (by_key key ((d(t := tbl)) t))
      \<and> (u \<noteq> t \<longrightarrow> d' u = (d(t := tbl)) u)"
      by (rule Cons.IH [OF rest]) (use spec Cons.prems(3) in auto)
    with spec show ?case by simp
  qed simp
  then show "keyed key (d' t)" and "by_key key (d' t) = fold (put_key key upd) (concat bs) (by_key key (d t))"
    and "u \<noteq> t \<Longrightarrow> d' u = d u" by blast+
qed

lemma insert_all_defined:
  assumes "keeps_key key upd" "upd = None \<or> (\<forall>b\<in>set bs. distinct (map (key_of key) b))"
  shows "\<exists>d'. exec_all (insert_all t key upd bs) d = Some d'"
  using assms(2)
proof (induction bs arbitrary: d)
  case (Cons b bs)
  then have "upd = None \<or> distinct (map (key_of key) b)" by auto
  then obtain tbl where "insert_rows key upd b (d t) = Some tbl" by (rule insert_rows_defined [OF assms(1)])
  with Cons show ?case by auto
qed simp

text \<open>A list of rows with distinct keys, in batches: the table becomes the map with the rows put in.\<close>

lemma upsert_runs:
  assumes "0 < n" "keyed key (d t)" "keeps_key key upd" "\<forall>r\<in>set rows. CNull \<notin> set (key_of key r)"
    and "upd = None \<or> distinct (map (key_of key) rows)"
  obtains d' where "exec_all (insert_all t key upd (batches n rows)) d = Some d'" "keyed key (d' t)"
    "by_key key (d' t) = upserted key upd rows (by_key key (d t))" "\<And>u. u \<noteq> t \<Longrightarrow> d' u = d u"
proof -
  from assms(5) have "upd = None \<or> (\<forall>b\<in>set (batches n rows). distinct (map (key_of key) b))"
    using batches_distinct by blast
  then obtain d' where d': "exec_all (insert_all t key upd (batches n rows)) d = Some d'"
    using insert_all_defined [OF assms(3)] by blast
  have "\<forall>r\<in>set (concat (batches n rows)). CNull \<notin> set (key_of key r)"
    using assms(1,4) by (simp add: concat_batches)
  note insert_all_spec [OF d' assms(2,3) this]
  with d' that show ?thesis by (simp add: concat_batches assms(1) fold_put_key_upserted [OF assms(5)])
qed

text \<open>Two tables, one after the other.\<close>

lemma upsert_two:
  assumes "0 < n" "keyed key1 (d t1)" "keeps_key key1 upd1" "\<forall>r\<in>set rows1. CNull \<notin> set (key_of key1 r)"
    "upd1 = None \<or> distinct (map (key_of key1) rows1)"
    and "keyed key2 (d t2)" "keeps_key key2 upd2" "\<forall>r\<in>set rows2. CNull \<notin> set (key_of key2 r)"
    "upd2 = None \<or> distinct (map (key_of key2) rows2)" "t1 \<noteq> t2"
  obtains d' where "exec_all (insert_all t1 key1 upd1 (batches n rows1) @ insert_all t2 key2 upd2 (batches n rows2)) d = Some d'"
    "keyed key1 (d' t1)" "keyed key2 (d' t2)"
    "by_key key1 (d' t1) = upserted key1 upd1 rows1 (by_key key1 (d t1))"
    "by_key key2 (d' t2) = upserted key2 upd2 rows2 (by_key key2 (d t2))"
    "\<And>u. u \<noteq> t1 \<Longrightarrow> u \<noteq> t2 \<Longrightarrow> d' u = d u"
proof -
  obtain d1 where 1: "exec_all (insert_all t1 key1 upd1 (batches n rows1)) d = Some d1" "keyed key1 (d1 t1)"
    "by_key key1 (d1 t1) = upserted key1 upd1 rows1 (by_key key1 (d t1))" "\<And>u. u \<noteq> t1 \<Longrightarrow> d1 u = d u"
    by (rule upsert_runs [where n = n and key = key1 and upd = upd1 and rows = rows1 and d = d and t = t1])
      (use assms in auto)
  have t2: "d1 t2 = d t2" using 1(4) assms(10) by simp
  obtain d2 where 2: "exec_all (insert_all t2 key2 upd2 (batches n rows2)) d1 = Some d2" "keyed key2 (d2 t2)"
    "by_key key2 (d2 t2) = upserted key2 upd2 rows2 (by_key key2 (d1 t2))" "\<And>u. u \<noteq> t2 \<Longrightarrow> d2 u = d1 u"
    by (rule upsert_runs [where n = n and key = key2 and upd = upd2 and rows = rows2 and d = d1 and t = t2])
      (use assms t2 in auto)
  show ?thesis
    by (rule that [of d2]) (use 1 2 t2 assms(10) in \<open>simp_all add: exec_all_append\<close>)
qed

section \<open>Rows of a dictionary\<close>

text \<open>A dictionary indexed by the key of its rows has rows with distinct keys, one for each key.\<close>

lemma index_by_rows:
  assumes "\<And>x. x \<in> set xs \<Longrightarrow> key_of key (f x) = g (k x)" "inj g"
  defines "rows \<equiv> map snd (index_by (map (\<lambda>x. (k x, f x)) xs))"
  shows "distinct (map (key_of key) rows)" and "set rows \<subseteq> f ` set xs"
    and "key_of key ` set rows = g ` k ` set xs"
proof -
  let ?kvs = "map (\<lambda>x. (k x, f x)) xs"
  have mem: "\<exists>x\<in>set xs. p = (k x, f x)" if "p \<in> set (index_by ?kvs)" for p
    using that set_index_by [of ?kvs] by auto
  have keys: "map (key_of key) rows = map g (map fst (index_by ?kvs))"
    unfolding rows_def map_map comp_def using mem assms(1) by (intro map_cong) fastforce+
  show "distinct (map (key_of key) rows)"
    unfolding keys distinct_map using distinct_index_by [of ?kvs] assms(2) by (auto simp: distinct_map inj_on_def)
  show "set rows \<subseteq> f ` set xs" unfolding rows_def using mem by fastforce
  have "key_of key ` set rows = set (map (key_of key) rows)" by simp
  also have "\<dots> = g ` fst ` set (index_by ?kvs)" unfolding keys by (simp only: set_map)
  also have "\<dots> = g ` fst ` set ?kvs" by (simp only: keys_index_by)
  finally show "key_of key ` set rows = g ` k ` set xs" by (simp add: image_image)
qed

lemma set_numbered: "set (numbered n f xs) = {f (n + i) (xs ! i) | i. i < length xs}"
  by (auto simp: numbered_def in_set_enumerate_eq image_iff) (metis add_diff_inverse_nat fst_conv le_add1 less_diff_conv2 linorder_not_less snd_conv add_diff_cancel_left' nat_add_left_cancel_less)+

section \<open>Publishing\<close>

lemma polite_publish_event [simp]: "polite (publish_event E N ev data)"
  unfolding publish_event_def by (rule polite_catch)

lemma polite_provider_health [simp]: "polite (provider_health E now p status err)"
  unfolding provider_health_def by (rule polite_catch)

definition subscriber :: "string \<Rightarrow> row \<Rightarrow> bool" where
  "subscriber ev w \<longleftrightarrow> subscribed ev (w ''events'') = Inr True"

definition deliveries :: "string \<Rightarrow> (string \<times> pyval) list \<Rightarrow> row list \<Rightarrow> (string \<times> string) list" where
  "deliveries ev data ws = map (\<lambda>w. (OUTBOUND, envelope w ev data)) (filter (subscriber ev) ws)"

context platform
begin

lemma publish_each_quiet: "publish_each N ev data ws s = (r, s') \<Longrightarrow> view s' = view s \<and> r \<noteq> Inl CancelledError"
proof (induction ws arbitrary: s)
  case (Cons w ws)
  obtain s1 where s1: "js_publish N OUTBOUND (envelope w ev data) s = (Inr (), s1)" "view s1 = view s"
    using publishes by metis
  have "subscribed ev (w ''events'') \<noteq> Inl CancelledError"
    by (cases "(ev, w ''events'')" rule: subscribed.cases)
      (auto simp: member_of_def bindr_def TypeError_def split: option.splits sum.splits elim!: items.elims)
  with Cons s1 show ?case by (auto simp: bindc_apply pure_def split: sum.splits if_splits)
qed auto

lemma publish_event_quiet:
  obtains s' where "publish_event E N ev data s = (Inr (), s')" "view s' = view s"
proof -
  obtain rows s1 where s1: "eng_select E (select_from ''webhooks'' active) s = (Inr rows, s1)" "view s1 = view s"
    using selects by metis
  obtain r s2 where s2: "publish_each N ev data rows s1 = (r, s2)" by (cases "publish_each N ev data rows s1")
  from publish_each_quiet [OF s2] s1 s2 show ?thesis
    by (intro that [of s2]) (auto simp: publish_event_def catchc_apply bindc_apply is_Exception_def split: sum.splits)
qed

lemma publish_each_sent:
  assumes "\<forall>w\<in>set ws. \<exists>b. subscribed ev (w ''events'') = Inr b"
  obtains s' where "publish_each N ev data ws s = (Inr (), s')" "sent s' = sent s @ deliveries ev data ws"
proof -
  have "\<exists>s'. publish_each N ev data ws s = (Inr (), s') \<and> sent s' = sent s @ deliveries ev data ws"
    using assms
  proof (induction ws arbitrary: s)
    case (Cons w ws)
    obtain s1 where s1: "js_publish N OUTBOUND (envelope w ev data) s = (Inr (), s1)"
      "sent s1 = sent s @ [(OUTBOUND, envelope w ev data)]"
      using publishes by metis
    from Cons.prems obtain b where b: "subscribed ev (w ''events'') = Inr b" by auto
    from Cons.IH [of s1] Cons.IH [of s] Cons.prems b s1 show ?case
      by (cases b) (auto simp: bindc_apply pure_def deliveries_def subscriber_def)
  qed (simp add: deliveries_def)
  with that show ?thesis by blast
qed

end

section \<open>Orbital elements are stored\<close>

lemmas row_keys = key_of_def row_of_def

lemma satellite_key [simp]: "key_of [''norad_id''] (satellite_row now r) = [CInt (norad_id r)]"
  by (simp add: row_keys satellite_row_def)

lemma element_key [simp]: "key_of ELEMENT_KEY (element_row now u r) = [CInt (norad_id r), CText ''celestrak'', CTime (epoch r)]"
  by (simp add: row_keys element_row_def ELEMENT_KEY_def)

lemma inj_CInt: "inj (\<lambda>i. [CInt i])"
  by (rule injI) simp

lemma orbital_satellites_rows:
  "distinct (map (key_of [''norad_id'']) (orbital_satellites now records))"
  "set (orbital_satellites now records) \<subseteq> satellite_row now ` set records"
  "key_of [''norad_id''] ` set (orbital_satellites now records) = (\<lambda>r. [CInt (norad_id r)]) ` set records"
  unfolding orbital_satellites_def
  using index_by_rows [where xs = records and key = "[''norad_id'']" and f = "satellite_row now" and k = norad_id, OF _ inj_CInt]
  by (simp_all add: image_image)

lemma orbital_elements_rows:
  "r \<in> set (orbital_elements now uuid4 records) \<Longrightarrow> \<exists>x\<in>set records. \<exists>u. r = element_row now u x"
  by (auto simp: orbital_elements_def set_numbered)

lemma orbital_runs:
  assumes "keyed [''norad_id''] (d ''satellites'')" "keyed ELEMENT_KEY (d ''orbital_elements'')"
  obtains d' where "exec_all (orbital_stmts now uuid4 records) d = Some d'"
    "keyed [''norad_id''] (d' ''satellites'')" "keyed ELEMENT_KEY (d' ''orbital_elements'')"
    "by_key [''norad_id''] (d' ''satellites'') =
        upserted [''norad_id''] (Some (take_over [''cospar_id'', ''name''])) (orbital_satellites now records)
          (by_key [''norad_id''] (d ''satellites''))"
    "by_key ELEMENT_KEY (d' ''orbital_elements'') =
        upserted ELEMENT_KEY None (orbital_elements now uuid4 records) (by_key ELEMENT_KEY (d ''orbital_elements''))"
    "\<And>u. u \<noteq> ''satellites'' \<Longrightarrow> u \<noteq> ''orbital_elements'' \<Longrightarrow> d' u = d u"
proof -
  have keeps: "keeps_key [''norad_id''] (Some (take_over [''cospar_id'', ''name'']))"
    by (rule keeps_key_take_over) simp
  have n1: "\<forall>r\<in>set (orbital_satellites now records). CNull \<notin> set (key_of [''norad_id''] r)"
    using orbital_satellites_rows(2) [of now records] by auto
  have n2: "\<forall>r\<in>set (orbital_elements now uuid4 records). CNull \<notin> set (key_of ELEMENT_KEY r)"
    by (auto dest!: orbital_elements_rows)
  have d1: "Some (take_over [''cospar_id'', ''name'']) = None
      \<or> distinct (map (key_of [''norad_id'']) (orbital_satellites now records))"
    by (rule disjI2, rule orbital_satellites_rows(1))
  have d2: "None = None \<or> distinct (map (key_of ELEMENT_KEY) (orbital_elements now uuid4 records))"
    by (rule disjI1, rule refl)
  have "(0::nat) < 1000" "''satellites'' \<noteq> ''orbital_elements''" by simp_all
  from upsert_two [OF this(1) assms(1) keeps n1 d1 assms(2) keeps_key_None n2 d2 this(2)] that
  show ?thesis unfolding orbital_stmts_def .
qed

context platform
begin

text \<open>A transaction followed by an announcement.\<close>

lemma tx_then_publish:
  assumes "exec_all ss (view s) = Some d"
  obtains s' where "bindc (eng_tx E ss) (\<lambda>_. publish_event E N ev data) s = (Inr (), s')" "view s' = d"
  using runs [OF assms] publish_event_quiet [of ev data] by (metis bindc_Inr)

end

text \<open>
  C14: A catalogue is stored. When the database is up, the job of the orbital elements succeeds, whatever
  the records and however they fall into batches: each satellite of the catalogue is there with the
  name and the designator of the feed and keeps its other columns, each element set is there once
  and those stored before are not touched, every satellite of a stored element exists, and no other
  table changes.
\<close>

theorem orbital_catalogue_stored:
  assumes "platform E view N sent" "fetch s = (Inr records, s1)" "records \<noteq> []"
    and "keyed [''norad_id''] (view s1 ''satellites'')" "keyed ELEMENT_KEY (view s1 ''orbital_elements'')"
  shows "\<exists>s'. ingest_orbital_elements E N now uuid4 fetch s = (Inr (), s')
    \<and> keyed [''norad_id''] (view s' ''satellites'') \<and> keyed ELEMENT_KEY (view s' ''orbital_elements'')
    \<and> by_key [''norad_id''] (view s' ''satellites'') =
        upserted [''norad_id''] (Some (take_over [''cospar_id'', ''name''])) (orbital_satellites now records)
          (by_key [''norad_id''] (view s1 ''satellites''))
    \<and> by_key ELEMENT_KEY (view s' ''orbital_elements'') =
        upserted ELEMENT_KEY None (orbital_elements now uuid4 records) (by_key ELEMENT_KEY (view s1 ''orbital_elements''))
    \<and> (\<forall>r\<in>set records. by_key [''norad_id''] (view s' ''satellites'') [CInt (norad_id r)] \<noteq> None)
    \<and> (\<forall>t. t \<notin> {''satellites'', ''orbital_elements''} \<longrightarrow> view s' t = view s1 t)"
proof -
  obtain d' where run: "exec_all (orbital_stmts now uuid4 records) (view s1) = Some d'"
    and d': "keyed [''norad_id''] (d' ''satellites'')" "keyed ELEMENT_KEY (d' ''orbital_elements'')"
      "by_key [''norad_id''] (d' ''satellites'') =
        upserted [''norad_id''] (Some (take_over [''cospar_id'', ''name''])) (orbital_satellites now records)
          (by_key [''norad_id''] (view s1 ''satellites''))"
      "by_key ELEMENT_KEY (d' ''orbital_elements'') =
        upserted ELEMENT_KEY None (orbital_elements now uuid4 records) (by_key ELEMENT_KEY (view s1 ''orbital_elements''))"
    and other: "\<And>u. u \<noteq> ''satellites'' \<Longrightarrow> u \<noteq> ''orbital_elements'' \<Longrightarrow> d' u = view s1 u"
    by (rule orbital_runs [where d = "view s1" and now = now and ?uuid4.0 = uuid4 and records = records, OF assms(4,5)])
      (rule that)
  obtain s' where s': "bindc (eng_tx E (orbital_stmts now uuid4 records))
      (\<lambda>_. publish_event E N ''object.updated'' (event_count ''celestrak'' records)) s1 = (Inr (), s')" "view s' = d'"
    by (rule platform.tx_then_publish [OF assms(1) run])
  have "ingest_orbital_elements E N now uuid4 fetch s = (Inr (), s')"
    using assms(2,3) s'(1) by (simp add: ingest_orbital_elements_def store_elements_def)
  moreover have "by_key [''norad_id''] (d' ''satellites'') [CInt (norad_id r)] \<noteq> None" if "r \<in> set records" for r
    using that orbital_satellites_rows(3) [of now records] unfolding d'(3) upserted_dom by auto
  ultimately show ?thesis using d' other s'(2) by simp
qed

definition iss :: element_set where
  "iss = \<lparr>norad_id = 25544, object_name = ''ISS'', cospar_id = Some ''1998-067A'', epoch = 0, inclination = Fin 51,
     right_ascension = Fin 0, eccentricity = Fin 0, argument_of_perigee = Fin 0, mean_anomaly = Fin 0,
     mean_motion = Fin 15, tle_line1 = ''1'', tle_line2 = ''2''\<rparr>"

abbreviation empty_world :: world where
  "empty_world \<equiv> \<lparr>w_db = \<lambda>_. [], w_sent = [], w_streams = []\<rparr>"

theorem orbital_catalogue_stored_witness:
  "\<exists>s' r. ingest_orbital_elements world_engine world_nats 5 (\<lambda>i. i) (ret [iss]) empty_world = (Inr (), s')
    \<and> by_key [''norad_id''] (w_db s' ''satellites'') [CInt 25544] = Some r"
proof -
  have "keyed key (w_db empty_world t)" for key t by (simp add: keyed_def)
  with orbital_catalogue_stored [OF world.platform_axioms, of "ret [iss]" empty_world "[iss]" empty_world 5 "\<lambda>i. i"]
  show ?thesis by (auto simp: iss_def)
qed

section \<open>Launches are replaced\<close>

definition upcoming :: "datetime \<Rightarrow> row \<Rightarrow> bool" where
  "upcoming now r \<longleftrightarrow> (\<exists>t. r ''window_start'' = CTime t \<and> now \<le> t)"

text \<open>
  What a feed makes of the table: its launches are there with every column of the feed but the provider,
  which is that of the first sighting; of the others those still to come are gone, the past ones stay.
\<close>

definition launches_replaced :: "datetime \<Rightarrow> upcoming_launch list \<Rightarrow> row list \<Rightarrow> row list \<Rightarrow> bool" where
  "launches_replaced now ls tbl tbl' \<longleftrightarrow> keyed [''id''] tbl'
     \<and> (\<forall>l\<in>set ls. \<exists>r. by_key [''id''] tbl' [CText (launch_id l)] = Some r
          \<and> (\<forall>(c, v)\<in>set (launch_fields l). c \<noteq> ''provider'' \<longrightarrow> r c = v))
     \<and> (\<forall>i. i \<notin> CText ` launch_id ` set ls \<longrightarrow> by_key [''id''] tbl' [i] =
          (case by_key [''id''] tbl [i] of None \<Rightarrow> None | Some r \<Rightarrow> if upcoming now r then None else Some r))"

lemma keyed_filter: "keyed key tbl \<Longrightarrow> keyed key (filter P tbl)"
  by (auto simp: keyed_def distinct_map intro: inj_on_subset)

lemma by_key_filter:
  assumes "keyed key tbl"
  shows "by_key key (filter P tbl) k = (case by_key key tbl k of None \<Rightarrow> None | Some r \<Rightarrow> if P r then Some r else None)"
  using assms
proof (induction tbl)
  case (Cons r tbl)
  then have k: "keyed key tbl" "key_of key r \<notin> key_of key ` set tbl" by (auto simp: keyed_def)
  have "by_key key tbl (key_of key r) = None" using k(2) by (simp add: by_key_None)
  with Cons.IH [OF k(1)] show ?case by (cases "k = key_of key r") auto
qed simp

lemma id_key [simp]: "key_of [''id''] r = [r ''id'']"
  by (simp add: key_of_def)

lemma launch_row_id [simp]: "launch_row now l ''id'' = CText (launch_id l)"
  by (simp add: launch_row_def launch_fields_def row_of_def)

lemma launch_fields_names:
  "map fst (launch_fields l) = [''id'', ''name'', ''status'', ''window_start'', ''window_end'', ''provider'', ''operator'',
     ''vehicle'', ''pad'', ''location'', ''latitude'', ''longitude'', ''mission_description'', ''weather_summary'', ''info_url'']"
  by (simp add: launch_fields_def)

lemma launch_row_field:
  assumes "(c, v) \<in> set (launch_fields l)"
  shows "launch_row now l c = v"
proof -
  have "distinct (map fst (launch_fields l))" by (simp add: launch_fields_names)
  then have "map_of (launch_fields l) c = Some v" using assms by simp
  then show ?thesis by (simp add: launch_row_def row_of_def map_add_def)
qed

lemma launch_columns:
  assumes "(c, v) \<in> set (launch_fields l)" "c \<noteq> ''provider''"
  shows "c = ''id'' \<or> c \<in> set LAUNCH_COLUMNS"
proof -
  have "set (map fst (launch_fields l)) \<subseteq> insert ''id'' (insert ''provider'' (set LAUNCH_COLUMNS))"
    by (simp add: launch_fields_names LAUNCH_COLUMNS_def)
  moreover have "c \<in> set (map fst (launch_fields l))" using assms(1) by force
  ultimately show ?thesis using assms(2) by blast
qed

lemma id_not_updated: "take_over LAUNCH_COLUMNS old new ''id'' = old ''id''"
  by (simp add: take_over_def LAUNCH_COLUMNS_def)

lemma joined_field:
  assumes "(c, v) \<in> set (launch_fields l)" "c \<noteq> ''provider''" "old ''id'' = CText (launch_id l)"
  shows "take_over LAUNCH_COLUMNS old (launch_row now l) c = v"
proof -
  have new: "launch_row now l c = v" by (rule launch_row_field [OF assms(1)])
  from launch_columns [OF assms(1,2)] show ?thesis
  proof
    assume "c = ''id''"
    with new assms(3) show ?thesis by (simp only: id_not_updated launch_row_id)
  next
    assume "c \<in> set LAUNCH_COLUMNS"
    with new show ?thesis by (simp add: take_over_def)
  qed
qed

lemma launch_runs:
  assumes "keyed [''id''] (d ''launches'')" "distinct (map launch_id ls)"
  obtains d' where "exec_all (launch_stmts now ls) d = Some d'"
    "launches_replaced now ls (d ''launches'') (d' ''launches'')" "\<And>t. t \<noteq> ''launches'' \<Longrightarrow> d' t = d t"
proof -
  let ?rows = "map (launch_row now) ls" and ?upd = "Some (take_over LAUNCH_COLUMNS)" and ?m = "by_key [''id''] (d ''launches'')"
  have keeps: "keeps_key [''id''] ?upd" by (rule keeps_key_take_over) (simp add: LAUNCH_COLUMNS_def)
  have dist: "distinct (map (key_of [''id'']) ?rows)"
    using assms(2) by (simp add: distinct_map comp_def inj_on_def)
  obtain tbl where tbl: "insert_rows [''id''] ?upd ?rows (d ''launches'') = Some tbl"
    by (rule insert_rows_defined [OF keeps]) (use dist in blast)
  have "\<forall>r\<in>set ?rows. CNull \<notin> set (key_of [''id''] r)" by auto
  from insert_rows_spec [OF tbl assms(1) keeps this] dist
  have k: "keyed [''id''] tbl" and m: "by_key [''id''] tbl = upserted [''id''] ?upd ?rows ?m"
    by (simp_all add: fold_put_key_upserted)
  let ?tbl = "filter (\<lambda>r. \<not> withdrawn now ls r) tbl"
  note find = by_key_filter [OF k, of "\<lambda>r. \<not> withdrawn now ls r"]
  have "\<exists>r. by_key [''id''] ?tbl [CText (launch_id l)] = Some r
      \<and> (\<forall>(c, v)\<in>set (launch_fields l). c \<noteq> ''provider'' \<longrightarrow> r c = v)" if l: "l \<in> set ls" for l
  proof -
    let ?k = "[CText (launch_id l)]"
    obtain r where r: "by_key [''id''] tbl ?k = Some r"
      and cases: "?m ?k = None \<and> r = launch_row now l \<or> (\<exists>old. ?m ?k = Some old \<and> r = take_over LAUNCH_COLUMNS old (launch_row now l))"
      using upserted_row [OF dist, of "launch_row now l" ?upd ?m] l unfolding m by (cases "?m ?k") simp_all
    from by_key_SomeD [OF r] have id: "r ''id'' = CText (launch_id l)" by simp
    then have "\<not> withdrawn now ls r" using l by (simp add: withdrawn_def)
    moreover have "r c = v" if f: "(c, v) \<in> set (launch_fields l)" "c \<noteq> ''provider''" for c v
      using cases
    proof
      assume "\<exists>old. ?m ?k = Some old \<and> r = take_over LAUNCH_COLUMNS old (launch_row now l)"
      then obtain old where old: "r = take_over LAUNCH_COLUMNS old (launch_row now l)" by blast
      with id have "old ''id'' = CText (launch_id l)" by (simp only: id_not_updated)
      from joined_field [where old = old, OF f this] old show ?thesis by simp
    qed (use launch_row_field [OF f(1)] in simp)
    ultimately show ?thesis using r by (auto simp: find)
  qed
  moreover have "by_key [''id''] ?tbl [i] =
      (case ?m [i] of None \<Rightarrow> None | Some r \<Rightarrow> if upcoming now r then None else Some r)"
    if i: "i \<notin> CText ` launch_id ` set ls" for i
  proof -
    have "[i] \<notin> key_of [''id''] ` set ?rows" using i by auto
    then have "by_key [''id''] tbl [i] = ?m [i]" unfolding m by (rule upserted_other)
    moreover have "withdrawn now ls r = upcoming now r" if "?m [i] = Some r" for r
      using by_key_SomeD [OF that] i by (auto simp: withdrawn_def upcoming_def)
    ultimately show ?thesis by (auto simp: find split: option.splits)
  qed
  ultimately have "launches_replaced now ls (d ''launches'') ?tbl"
    using keyed_filter [OF k] by (simp add: launches_replaced_def)
  then show ?thesis
    by (intro that [of "d(''launches'' := ?tbl)"]) (use tbl in \<open>simp_all add: launch_stmts_def\<close>)
qed

section \<open>Fallback of the launch sources\<close>

context platform
begin

lemma provider_health_quiet:
  obtains s' where "provider_health E now p status err s = (Inr (), s')"
    "\<And>t. t \<noteq> ''provider_health'' \<Longrightarrow> view s' t = view s t"
proof -
  obtain rows s1 where s1: "eng_select E (select_from ''provider_health'' (\<lambda>r. r ''id'' = CText p)) s = (Inr rows, s1)"
    "view s1 = view s" using selects by metis
  have tx: "\<exists>s'. eng_tx E [st] s1 = (Inr (), s') \<and> (\<forall>t. t \<noteq> ''provider_health'' \<longrightarrow> view s' t = view s t)"
    if "\<exists>d. exec st (view s1) = Some d \<and> (\<forall>t. t \<noteq> ''provider_health'' \<longrightarrow> d t = view s1 t)" for st
  proof -
    from that obtain d where d: "exec_all [st] (view s1) = Some d" "\<forall>t. t \<noteq> ''provider_health'' \<longrightarrow> d t = view s1 t" by auto
    obtain s' where "eng_tx E [st] s1 = (Inr (), s')" "view s' = d" using runs [OF d(1)] by metis
    with d(2) s1(2) show ?thesis by auto
  qed
  consider "rows = []" | r where "rows = [r]" | "rows \<noteq> []" "tl rows \<noteq> []" by (cases rows; cases "tl rows") auto
  then have "\<exists>s'. provider_health E now p status err s = (Inr (), s') \<and> (\<forall>t. t \<noteq> ''provider_health'' \<longrightarrow> view s' t = view s t)"
  proof cases
    case 1
    obtain s' where "eng_tx E [Add ''provider_health'' [row_of ((''id'', CText p) # health_fields now status err)]] s1 = (Inr (), s')"
      "\<forall>t. t \<noteq> ''provider_health'' \<longrightarrow> view s' t = view s t"
      using tx [of "Add ''provider_health'' [row_of ((''id'', CText p) # health_fields now status err)]"] by auto
    with 1 s1 show ?thesis by (auto simp: provider_health_def write_provider_health_def catchc_apply bindc_apply)
  next
    case (2 r)
    obtain s' where "eng_tx E [Update ''provider_health'' (\<lambda>r. r ''id'' = CText p) (assign (health_fields now status err))] s1 = (Inr (), s')"
      "\<forall>t. t \<noteq> ''provider_health'' \<longrightarrow> view s' t = view s t"
      using tx [of "Update ''provider_health'' (\<lambda>r. r ''id'' = CText p) (assign (health_fields now status err))"] by auto
    with 2 s1 show ?thesis by (auto simp: provider_health_def write_provider_health_def catchc_apply bindc_apply)
  next
    case 3
    with s1 show ?thesis
      by (auto simp: provider_health_def write_provider_health_def catchc_apply bindc_apply is_Exception_def)
  qed
  with that show ?thesis by blast
qed

end

text \<open>A source is usable when it answers with a launch; otherwise the reason it is passed over.\<close>

fun usable :: "exn + upcoming_launch list \<Rightarrow> bool" where
  "usable (Inl e) = False"
| "usable (Inr ls) = (ls \<noteq> [])"

fun reason :: "string \<Rightarrow> exn + upcoming_launch list \<Rightarrow> exn" where
  "reason p (Inl e) = e"
| "reason p (Inr ls) = ProviderUnavailableError (p @ '' returned no upcoming launches'')"

definition passed_over :: "(string \<Rightarrow> exn + upcoming_launch list) \<Rightarrow> string \<Rightarrow> string" where
  "passed_over answer p = p @ '': '' @ safe_error (reason p (answer p))"

context platform
begin

lemma source_fails:
  assumes "\<not> usable (answer p)" "\<And>s. \<exists>s1. fetch p s = (answer p, s1) \<and> view s1 = view s"
  obtains s1 where "launch_source E now fetch p s = (Inl (reason p (answer p)), s1)" "view s1 = view s"
proof -
  obtain s1 where "fetch p s = (answer p, s1)" "view s1 = view s" using assms(2) by blast
  with assms(1) that show ?thesis by (cases "answer p") (auto simp: launch_source_def bindc_apply)
qed

lemma source_answers:
  assumes "answer p = Inr ls" "ls \<noteq> []" "distinct (map launch_id ls)" "keyed [''id''] (view s ''launches'')"
    and "\<And>s. \<exists>s1. fetch p s = (answer p, s1) \<and> view s1 = view s"
  obtains s1 where "launch_source E now fetch p s = (Inr ls, s1)"
    "launches_replaced now ls (view s ''launches'') (view s1 ''launches'')"
    "\<And>t. t \<noteq> ''launches'' \<Longrightarrow> view s1 t = view s t"
proof -
  obtain s0 where s0: "fetch p s = (Inr ls, s0)" "view s0 = view s" using assms(1,5) by metis
  obtain d where d: "exec_all (launch_stmts now ls) (view s) = Some d"
    "launches_replaced now ls (view s ''launches'') (d ''launches'')" "\<And>t. t \<noteq> ''launches'' \<Longrightarrow> d t = view s t"
    by (rule launch_runs [where d = "view s" and now = now, OF assms(4,3)]) (rule that)
  obtain s1 where "eng_tx E (launch_stmts now ls) s0 = (Inr (), s1)" "view s1 = d"
    using runs [of _ s0] d(1) s0(2) by metis
  with d s0 assms(2) show ?thesis
    by (intro that [of s1]) (auto simp: launch_source_def bindc_apply replace_upcoming_launches_def)
qed

lemma launch_attempts_spec:
  assumes "\<forall>p s. \<exists>s1. fetch p s = (answer p, s1) \<and> view s1 = view s" "\<forall>p. answer p \<noteq> Inl CancelledError"
    and "\<forall>p ls. answer p = Inr ls \<longrightarrow> distinct (map launch_id ls)" "keyed [''id''] (view s ''launches'')"
  shows "case find (\<lambda>p. usable (answer p)) ps of
      None \<Rightarrow> \<exists>s'. launch_attempts E N now fetch fs ps s = (Inl (ProviderUnavailableError
          (if fs @ ps = [] then ''No launch provider is configured'' else join_with ''; '' (fs @ map (passed_over answer) ps))), s')
        \<and> (\<forall>t. t \<noteq> ''provider_health'' \<longrightarrow> view s' t = view s t)
    | Some p \<Rightarrow> \<exists>s' ls. answer p = Inr ls \<and> launch_attempts E N now fetch fs ps s = (Inr (), s')
        \<and> launches_replaced now ls (view s ''launches'') (view s' ''launches'')
        \<and> (\<forall>t. t \<notin> {''provider_health'', ''launches''} \<longrightarrow> view s' t = view s t)"
  using assms(4)
proof (induction ps arbitrary: fs s)
  case (Cons p ps)
  show ?case
  proof (cases "usable (answer p)")
    case False
    from source_fails [where answer = answer and fetch = fetch and p = p, OF False] assms(1) obtain s1
      where s1: "launch_source E now fetch p s = (Inl (reason p (answer p)), s1)" "view s1 = view s" by metis
    have "is_Exception (reason p (answer p))"
      using assms(2) [rule_format, of p] by (cases "answer p") (auto simp: is_Exception_def)
    moreover obtain s2 where s2: "provider_health E now p ''error'' (Some (safe_error (reason p (answer p)))) s1 = (Inr (), s2)"
      "\<And>t. t \<noteq> ''provider_health'' \<Longrightarrow> view s2 t = view s1 t" by (rule provider_health_quiet) (rule that)
    ultimately have step: "launch_attempts E N now fetch fs (p # ps) s =
        launch_attempts E N now fetch (fs @ [passed_over answer p]) ps s2"
      using s1 by (simp add: bindc_apply passed_over_def)
    have same: "view s2 ''launches'' = view s ''launches''" using s1 s2 by simp
    from Cons.IH [of s2 "fs @ [passed_over answer p]"] Cons.prems same False s1 s2 show ?thesis
      unfolding step by (simp split: option.splits)
  next
    case True
    then obtain ls where ls: "answer p = Inr ls" "ls \<noteq> []" by (cases "answer p") auto
    obtain s1 where s1: "launch_source E now fetch p s = (Inr ls, s1)"
      "launches_replaced now ls (view s ''launches'') (view s1 ''launches'')"
      "\<And>t. t \<noteq> ''launches'' \<Longrightarrow> view s1 t = view s t"
      by (rule source_answers [where answer = answer and fetch = fetch and p = p and now = now and s = s, OF ls])
        (use assms(1,3) ls(1) Cons.prems that in blast)+
    obtain s2 where s2: "provider_health E now p ''active'' None s1 = (Inr (), s2)"
      "\<And>t. t \<noteq> ''provider_health'' \<Longrightarrow> view s2 t = view s1 t" by (rule provider_health_quiet) (rule that)
    obtain s3 where s3: "publish_event E N ''launch.updated'' (event_count p ls) s2 = (Inr (), s3)" "view s3 = view s2"
      by (rule publish_event_quiet)
    from True ls(1) s1 s2 s3 show ?thesis by (auto simp: bindc_apply)
  qed
qed auto

end

abbreviation configured_sources :: "settings \<Rightarrow> string list" where
  "configured_sources cfg \<equiv> filter (\<lambda>p. p \<in> set (configured_providers cfg)) LAUNCH_SOURCES"


text \<open>
  C38: When no source helps. If every configured source fails or has no launch, the job raises the error that
  the retry loop counts, whose text names every source in turn with its reason, and only the provider
  health is touched: no stored launch is lost.
\<close>

theorem launches_all_fail:
  assumes "platform E view N sent" "keyed [''id''] (view s ''launches'')"
    and "\<forall>p s. \<exists>s1. fetch p s = (answer p, s1) \<and> view s1 = view s" "\<forall>p. answer p \<noteq> Inl CancelledError"
    and "\<forall>p ls. answer p = Inr ls \<longrightarrow> distinct (map launch_id ls)"
    and "\<forall>p\<in>set (configured_sources cfg). \<not> usable (answer p)"
  shows "\<exists>s'. ingest_launches E N cfg now fetch s = (Inl (ProviderUnavailableError
        (if configured_sources cfg = [] then ''No launch provider is configured''
         else join_with ''; '' (map (passed_over answer) (configured_sources cfg)))), s')
    \<and> (\<forall>t. t \<noteq> ''provider_health'' \<longrightarrow> view s' t = view s t)"
proof -
  have "find (\<lambda>p. usable (answer p)) (configured_sources cfg) = None"
    using assms(6) by (simp only: find_None_iff) blast
  from platform.launch_attempts_spec [where ps = "configured_sources cfg" and now = now and fs = "[]"
        and answer = answer and fetch = fetch and s = s, OF assms(1,3,4,5,2), unfolded this option.case, folded ingest_launches_def]
  show ?thesis by (simp only: append_Nil)
qed

definition one_launch :: upcoming_launch where
  "one_launch = \<lparr>launch_id = ''x'', launch_name = ''X'', launch_status = None, window_start = 100, window_end = None,
     launch_provider = ''rocketlaunch-live'', operator_name = None, vehicle = None, pad = None, location = None,
     latitude = None, longitude = None, mission_description = None, weather_summary = None, info_url = None\<rparr>"

definition second_answers :: "string \<Rightarrow> exn + upcoming_launch list" where
  "second_answers p = (if p = ''rocketlaunch-live'' then Inr [one_launch] else Inl TimeoutError)"

definition both_sources :: settings where
  "both_sources = (default_settings [] [] [] [])\<lparr>enable_space_devs_public_api := True, enable_rocketlaunch_live := True\<rparr>"

lemma both_configured: "configured_sources both_sources = [''the-space-devs'', ''rocketlaunch-live'']"
  by (simp add: configured_providers_def both_sources_def LAUNCH_SOURCES_def)


theorem launches_all_fail_witness:
  "\<exists>s'. ingest_launches world_engine world_nats both_sources 5 (\<lambda>p s. (Inr [], s)) empty_world =
     (Inl (ProviderUnavailableError (''the-space-devs: ProviderUnavailableError: the-space-devs returned no upcoming launches; ''
        @ ''rocketlaunch-live: ProviderUnavailableError: rocketlaunch-live returned no upcoming launches'')), s')"
proof -
  have keyed: "keyed [''id''] (w_db empty_world ''launches'')" by (simp add: keyed_def)
  have fetch: "\<forall>p s. \<exists>s1. (\<lambda>p s. (Inr [], s)) p s = ((\<lambda>_. Inr []) p, s1) \<and> w_db s1 = w_db s" by simp
  have calm: "\<forall>p. (\<lambda>_. Inr []) p \<noteq> Inl CancelledError" by simp
  have dist: "\<forall>p ls. (\<lambda>_. Inr []) p = Inr ls \<longrightarrow> distinct (map launch_id ls)" by simp
  have dead: "\<forall>p\<in>set (configured_sources both_sources). \<not> usable ((\<lambda>_. Inr []) p)" by simp
  from launches_all_fail [where now = 5, OF world.platform_axioms keyed fetch calm dist dead]
  show ?thesis unfolding both_configured by (auto simp: passed_over_def safe_error_def)
qed

section \<open>Who is told of an event\<close>

text \<open>
  C39: Exactly the subscribers are told. When database and bus are up and the events of the active webhooks can be read,
  an event is published once for each active webhook that subscribes to it and for no other, with the
  webhook's id in the envelope, and the database is not changed.
\<close>

theorem event_reaches_subscribers:
  assumes "platform E view N sent"
    and "\<forall>w\<in>set (view s ''webhooks''). active w \<longrightarrow> (\<exists>b. subscribed event_name (w ''events'') = Inr b)"
  shows "\<exists>s' ws. publish_event E N event_name data s = (Inr (), s') \<and> view s' = view s
    \<and> mset ws = mset (filter (\<lambda>w. active w \<and> subscribed event_name (w ''events'') = Inr True) (view s ''webhooks''))
    \<and> sent s' = sent s @ map (\<lambda>w. (OUTBOUND, envelope w event_name data)) ws"
proof -
  obtain rows s1 where s1: "eng_select E (select_from ''webhooks'' active) s = (Inr rows, s1)"
    "answers (select_from ''webhooks'' active) (view s) rows" "view s1 = view s" "sent s1 = sent s"
    by (rule platform.selects [OF assms(1)]) (rule that)
  then have rows: "mset rows = mset (filter active (view s ''webhooks''))" by (simp add: answers_select_from)
  then have "set rows = set (filter active (view s ''webhooks''))" by (rule mset_eq_setD)
  with assms(2) have "\<forall>w\<in>set rows. \<exists>b. subscribed event_name (w ''events'') = Inr b" by simp
  then obtain s2 where s2: "publish_each N event_name data rows s1 = (Inr (), s2)"
    "sent s2 = sent s1 @ deliveries event_name data rows"
    by (rule platform.publish_each_sent [OF assms(1)]) (rule that)
  have "view s2 = view s" using platform.publish_each_quiet [OF assms(1) s2(1)] s1(3) by simp
  moreover have "mset (filter (subscriber event_name) rows) =
      mset (filter (\<lambda>w. active w \<and> subscribed event_name (w ''events'') = Inr True) (view s ''webhooks''))"
    using rows by (simp add: subscriber_def filter_filter_mset conj_commute)
  moreover have "publish_event E N event_name data s = (Inr (), s2)"
    using s1(1) s2(1) by (simp add: publish_event_def catchc_apply bindc_apply)
  ultimately show ?thesis
    using s1(4) s2(2) unfolding deliveries_def by (intro exI [of _ s2] exI [of _ "filter (subscriber event_name) rows"]) simp
qed

definition hook :: row where
  "hook = row_of [(''id'', CText ''h''), (''events'', CText (dumps (PList [PStr ''launch.updated'']))), (''active'', CBool True)]"

theorem event_reaches_subscribers_witness:
  "\<exists>s'. publish_event world_engine world_nats ''launch.updated'' [] (empty_world\<lparr>w_db := \<lambda>_. [hook]\<rparr>) = (Inr (), s')
    \<and> w_sent s' = [(OUTBOUND, envelope hook ''launch.updated'' [])]"
proof -
  have sub: "subscribed ''launch.updated'' (hook ''events'') = Inr True"
    using loads_dumps [of "PList [PStr ''launch.updated'']"] by (simp add: hook_def row_of_def member_of_def)
  have act: "active hook" by (simp add: hook_def active_def row_of_def)
  from event_reaches_subscribers [OF world.platform_axioms, of "empty_world\<lparr>w_db := \<lambda>_. [hook]\<rparr>" "''launch.updated''" "[]"]
  show ?thesis using sub act by auto
qed

section \<open>Storing the same observations again\<close>

lemma upserted_again:
  assumes "list_all2 (\<lambda>a b. key_of key a = key_of key b \<and> (\<forall>c\<in>set cs. a c = b c)) rows rows'"
  shows "upserted key (Some (take_over cs)) rows' (upserted key (Some (take_over cs)) rows m) =
    upserted key (Some (take_over cs)) rows m"
proof
  fix k
  have "rel_option (\<lambda>a b. \<forall>c\<in>set cs. a c = b c) (find (\<lambda>r. key_of key r = k) rows) (find (\<lambda>r. key_of key r = k) rows')"
    using assms by (induction rule: list_all2_induct) auto
  then show "upserted key (Some (take_over cs)) rows' (upserted key (Some (take_over cs)) rows m) k =
      upserted key (Some (take_over cs)) rows m k"
    by (cases "m k") (auto simp: upserted_def take_over_def elim!: option.rel_cases split: option.splits)
qed

lemma numbered_again:
  "(\<And>i j x. P (f i x) (g j x)) \<Longrightarrow> list_all2 P (numbered n f xs) (numbered n' g xs)"
  by (simp add: numbered_def list_all2_conv_all_nth nth_enumerate_eq)

lemma upserted_Nil [simp]: "upserted key upd [] m = m"
  by (rule ext) (simp add: upserted_def)

lemma upsert_once:
  assumes "keyed key (d t)" "keeps_key key upd" "\<forall>r\<in>set rows. CNull \<notin> set (key_of key r)" "distinct (map (key_of key) rows)"
  obtains d' where "exec_all (if rows = [] then [] else [Insert t rows key upd]) d = Some d'" "keyed key (d' t)"
    "by_key key (d' t) = upserted key upd rows (by_key key (d t))" "\<And>u. u \<noteq> t \<Longrightarrow> d' u = d u"
proof -
  obtain tbl where tbl: "insert_rows key upd rows (d t) = Some tbl"
    by (rule insert_rows_defined [OF assms(2)]) (use assms(4) in blast)
  from insert_rows_spec [OF tbl assms(1-3)] assms(4)
  have "keyed key tbl \<and> by_key key tbl = upserted key upd rows (by_key key (d t))" by (simp add: fold_put_key_upserted)
  with tbl assms(1) show ?thesis
    by (intro that [of "if rows = [] then d else d(t := tbl)"]) auto
qed

abbreviation index_rows :: "datetime \<Rightarrow> (nat \<Rightarrow> nat) \<Rightarrow> geomagnetic list \<Rightarrow> row list" where
  "index_rows now uuid4 indices \<equiv> numbered 0 (\<lambda>i. index_row now (uuid4 i)) indices"

abbreviation wind_rows :: "datetime \<Rightarrow> (nat \<Rightarrow> nat) \<Rightarrow> nat \<Rightarrow> solar_wind list \<Rightarrow> row list" where
  "wind_rows now uuid4 n winds \<equiv> numbered n (\<lambda>i. wind_row now (uuid4 i)) winds"

lemma index_row_key [simp]: "key_of [''timestamp''] (index_row now u k) = [CTime (k_at k)]"
  by (simp add: row_keys index_row_def)

lemma wind_row_key [simp]: "key_of [''timestamp''] (wind_row now u w) = [CTime (wind_at w)]"
  by (simp add: row_keys wind_row_def)

lemma numbered_keys:
  "(\<And>i x. key_of key (f i x) = g x) \<Longrightarrow> map (key_of key) (numbered n f xs) = map g xs"
  by (simp add: numbered_def list_eq_iff_nth_eq nth_enumerate_eq)

lemma numbered_Nil [simp]: "numbered n f xs = [] \<longleftrightarrow> xs = []"
  by (auto simp: numbered_def enumerate_eq_zip)

lemma weather_keys:
  "map (key_of [''timestamp'']) (index_rows now uuid4 indices) = map (\<lambda>k. [CTime (k_at k)]) indices"
  "map (key_of [''timestamp'']) (wind_rows now uuid4 n winds) = map (\<lambda>w. [CTime (wind_at w)]) winds"
  by (rule numbered_keys, simp)+

lemma no_null_keys:
  assumes "map (key_of key) rows = map (\<lambda>x. [CTime (f x)]) xs"
  shows "\<forall>r\<in>set rows. CNull \<notin> set (key_of key r)"
proof
  fix r assume "r \<in> set rows"
  then have "key_of key r \<in> set (map (key_of key) rows)" by simp
  then show "CNull \<notin> set (key_of key r)" unfolding assms by auto
qed

lemma index_row_kp [simp]: "index_row now u k ''kp_index'' = CNum (k_index k)"
  by (simp add: index_row_def row_of_def)

lemma weather_runs:
  assumes "keyed [''timestamp''] (d ''space_weather_indices'')" "keyed [''timestamp''] (d ''solar_wind'')"
    and "distinct (map k_at indices)" "distinct (map wind_at winds)"
  obtains d' where "exec_all (weather_stmts now uuid4 indices winds) d = Some d'"
    "keyed [''timestamp''] (d' ''space_weather_indices'')" "keyed [''timestamp''] (d' ''solar_wind'')"
    "by_key [''timestamp''] (d' ''space_weather_indices'') = upserted [''timestamp''] (Some (take_over [''kp_index'']))
       (index_rows now uuid4 indices) (by_key [''timestamp''] (d ''space_weather_indices''))"
    "by_key [''timestamp''] (d' ''solar_wind'') = upserted [''timestamp''] (Some (take_over WIND_COLUMNS))
       (wind_rows now uuid4 (length indices) winds) (by_key [''timestamp''] (d ''solar_wind''))"
proof -
  let ?I = "index_rows now uuid4 indices" and ?W = "wind_rows now uuid4 (length indices) winds"
  have keep: "keeps_key [''timestamp''] (Some (take_over [''kp_index'']))" "keeps_key [''timestamp''] (Some (take_over WIND_COLUMNS))"
    by (rule keeps_key_take_over; simp add: WIND_COLUMNS_def)+
  have dist: "distinct (map (key_of [''timestamp'']) ?I)" "distinct (map (key_of [''timestamp'']) ?W)"
    unfolding weather_keys using assms(3,4) by (simp_all add: distinct_map inj_on_def)
  obtain d1 where d1: "exec_all (if ?I = [] then [] else [Insert ''space_weather_indices'' ?I [''timestamp''] (Some (take_over [''kp_index'']))]) d = Some d1"
    "keyed [''timestamp''] (d1 ''space_weather_indices'')"
    "by_key [''timestamp''] (d1 ''space_weather_indices'') = upserted [''timestamp''] (Some (take_over [''kp_index''])) ?I
       (by_key [''timestamp''] (d ''space_weather_indices''))" "\<And>u. u \<noteq> ''space_weather_indices'' \<Longrightarrow> d1 u = d u"
    by (rule upsert_once [where d = d and t = "''space_weather_indices''", OF assms(1) keep(1) no_null_keys [OF weather_keys(1)] dist(1)])
      (rule that)
  have wind: "d1 ''solar_wind'' = d ''solar_wind''" by (rule d1(4)) simp
  have "keyed [''timestamp''] (d1 ''solar_wind'')" using assms(2) by (simp only: wind)
  then obtain d2 where d2: "exec_all (if ?W = [] then [] else [Insert ''solar_wind'' ?W [''timestamp''] (Some (take_over WIND_COLUMNS))]) d1 = Some d2"
    "keyed [''timestamp''] (d2 ''solar_wind'')"
    "by_key [''timestamp''] (d2 ''solar_wind'') = upserted [''timestamp''] (Some (take_over WIND_COLUMNS)) ?W
       (by_key [''timestamp''] (d1 ''solar_wind''))" "\<And>u. u \<noteq> ''solar_wind'' \<Longrightarrow> d2 u = d1 u"
    by (rule upsert_once [where d = d1 and t = "''solar_wind''", OF _ keep(2) no_null_keys [OF weather_keys(2)] dist(2)])
      (rule that)
  have index: "d2 ''space_weather_indices'' = d1 ''space_weather_indices''" by (rule d2(4)) simp
  show ?thesis
  proof (rule that [of d2])
    show "exec_all (weather_stmts now uuid4 indices winds) d = Some d2"
      using d1(1) d2(1) by (simp add: weather_stmts_def exec_all_append del: exec_all.simps)
  qed (use d1 d2 wind index in simp_all)
qed



end
