(* ===== verification/Schema.thy ===== *)
theory Schema
  imports Sql
begin

text \<open>
  The database schema, twice: as the ORM classes declare it (\<open>src/storage/models.py\<close>) and as the
  migrations build it (\<open>src/storage/migrations/versions\<close>). A migration is the list of operations it
  hands to Alembic; their meaning is that of the SQL and TimescaleDB statements they stand for, on a
  catalogue of tables and on the rows. The theorems compare the two, and say what the migrations that remove
  duplicates leave and which migrations a downgrade undoes.
\<close>

section \<open>Tables\<close>

datatype coltype = TInteger | TBigInteger | TFloat | TBoolean | TText | TString "nat option" | TTimestamptz | TUuid

record column_def =
  c_name :: string
  c_type :: coltype
  c_null :: bool
  c_default :: "string option"

record foreign_key =
  fk_name :: "string option"
  fk_cols :: "string list"
  fk_table :: string
  fk_refs :: "string list"
  fk_cascade :: bool

record index_def =
  i_name :: string
  i_cols :: "string list"
  i_unique :: bool

record table =
  t_cols :: "column_def list"
  t_pk :: "string list"
  t_fks :: "foreign_key list"
  t_indexes :: "index_def list"
  t_hyper :: "string option"
  t_retention :: "string option"

type_synonym schema = "(string \<times> table) list"

definition required :: "string \<Rightarrow> coltype \<Rightarrow> column_def" where
  "required n t = \<lparr>c_name = n, c_type = t, c_null = False, c_default = None\<rparr>"

definition nullable :: "string \<Rightarrow> coltype \<Rightarrow> column_def" where
  "nullable n t = \<lparr>c_name = n, c_type = t, c_null = True, c_default = None\<rparr>"

definition defaulted :: "string \<Rightarrow> coltype \<Rightarrow> string \<Rightarrow> column_def" where
  "defaulted n t d = \<lparr>c_name = n, c_type = t, c_null = False, c_default = Some d\<rparr>"

definition now_col :: "string \<Rightarrow> column_def" where
  "now_col n = defaulted n TTimestamptz ''now()''"

section \<open>Operations\<close>

datatype ddl =
    CreateExtension string
  | CreateTable string "column_def list" "string list" "foreign_key list"
  | DropTable string
  | AddColumn string column_def
  | DropColumn string string
  | CreateIndex string string "string list" bool
  | DropIndex string string
  | CreateForeignKey string foreign_key
  | DropConstraint string string
  | CreateHypertable string string bool
  | AddRetention string string
  | RemoveRetention string
  | DeleteOlderDuplicates string "string list"
  | Execute stmt

definition column_names :: "table \<Rightarrow> string list" where
  "column_names t = map c_name (t_cols t)"

text \<open>An index expression names a column, perhaps with a direction.\<close>

definition column_of :: "string \<Rightarrow> string" where
  "column_of e = takeWhile (\<lambda>c. c \<noteq> CHR '' '') e"

text \<open>
  \<open>DELETE FROM t current_row USING t duplicate WHERE current_row.key = duplicate.key AND
  current_row.ctid < duplicate.ctid\<close>: a row goes when a later one has its key.
\<close>

fun delete_older :: "string list \<Rightarrow> row list \<Rightarrow> row list" where
  "delete_older key [] = []"
| "delete_older key (r # rs) =
     (if list_ex (same_key key r) rs then delete_older key rs else r # delete_older key rs)"

fun no_conflict :: "string list \<Rightarrow> row list \<Rightarrow> bool" where
  "no_conflict key [] = True"
| "no_conflict key (r # rs) = (\<not> list_ex (same_key key r) rs \<and> no_conflict key rs)"

definition references :: "string \<Rightarrow> string \<times> table \<Rightarrow> bool" where
  "references n = (\<lambda>(m, t). m \<noteq> n \<and> list_ex (\<lambda>f. fk_table f = n) (t_fks t))"

definition index_names :: "schema \<Rightarrow> string list" where
  "index_names s = concat (map (\<lambda>(n, t). map i_name (t_indexes t)) s)"

definition with_table :: "schema \<Rightarrow> string \<Rightarrow> (table \<Rightarrow> table option) \<Rightarrow> schema option" where
  "with_table s n f = (case map_of s n of None \<Rightarrow> None
     | Some t \<Rightarrow> map_option (\<lambda>t'. AList.update n t' s) (f t))"

definition guarded :: "bool \<Rightarrow> 'a \<Rightarrow> 'a option" where
  "guarded b x = (if b then Some x else None)"

text \<open>
  What an operation does to the catalogue; \<open>None\<close> is an error. A hypertable's unique indexes must
  contain its time column, an existing retention policy stays as it is (\<open>if_not_exists => TRUE\<close>), and
  \<open>d\<close> is looked at where a constraint is checked against the rows.
\<close>

fun alter :: "db \<Rightarrow> ddl \<Rightarrow> schema \<Rightarrow> schema option" where
  "alter d (CreateExtension e) s = Some s"
| "alter d (CreateTable n cols pk fks) s =
     guarded (map_of s n = None \<and> set pk \<subseteq> c_name ` set cols \<and> list_all (\<lambda>f. map_of s (fk_table f) \<noteq> None) fks)
       (s @ [(n, \<lparr>t_cols = cols, t_pk = pk, t_fks = fks, t_indexes = [], t_hyper = None, t_retention = None\<rparr>)])"
| "alter d (DropTable n) s =
     guarded (map_of s n \<noteq> None \<and> \<not> list_ex (references n) s) (AList.delete n s)"
| "alter d (AddColumn n c) s = with_table s n (\<lambda>t.
     guarded (c_name c \<notin> set (column_names t) \<and> (c_null c \<or> c_default c \<noteq> None \<or> d n = []))
       (t\<lparr>t_cols := t_cols t @ [c]\<rparr>))"
| "alter d (DropColumn n c) s = with_table s n (\<lambda>t.
     guarded (c \<in> set (column_names t) \<and> c \<notin> set (t_pk t))
       (t\<lparr>t_cols := filter (\<lambda>k. c_name k \<noteq> c) (t_cols t),
          t_indexes := filter (\<lambda>i. c \<notin> column_of ` set (i_cols i)) (t_indexes t),
          t_fks := filter (\<lambda>f. c \<notin> set (fk_cols f)) (t_fks t)\<rparr>))"
| "alter d (CreateIndex i n cols u) s = with_table s n (\<lambda>t.
     guarded (i \<notin> set (index_names s) \<and> column_of ` set cols \<subseteq> set (column_names t)
         \<and> (u \<longrightarrow> no_conflict cols (d n) \<and> (case t_hyper t of None \<Rightarrow> True | Some h \<Rightarrow> h \<in> set cols)))
       (t\<lparr>t_indexes := t_indexes t @ [\<lparr>i_name = i, i_cols = cols, i_unique = u\<rparr>]\<rparr>))"
| "alter d (DropIndex i n) s = with_table s n (\<lambda>t.
     guarded (list_ex (\<lambda>x. i_name x = i) (t_indexes t))
       (t\<lparr>t_indexes := filter (\<lambda>x. i_name x \<noteq> i) (t_indexes t)\<rparr>))"
| "alter d (CreateForeignKey n f) s = with_table s n (\<lambda>t.
     guarded (map_of s (fk_table f) \<noteq> None \<and> set (fk_cols f) \<subseteq> set (column_names t)
         \<and> \<not> list_ex (\<lambda>g. fk_name g = fk_name f) (t_fks t))
       (t\<lparr>t_fks := t_fks t @ [f]\<rparr>))"
| "alter d (DropConstraint c n) s = with_table s n (\<lambda>t.
     guarded (list_ex (\<lambda>f. fk_name f = Some c) (t_fks t))
       (t\<lparr>t_fks := filter (\<lambda>f. fk_name f \<noteq> Some c) (t_fks t)\<rparr>))"
| "alter d (CreateHypertable n c if_not_exists) s = with_table s n (\<lambda>t.
     if t_hyper t \<noteq> None then guarded if_not_exists t
     else guarded (c \<in> set (t_pk t) \<and> d n = []
         \<and> list_all (\<lambda>i. i_unique i \<longrightarrow> c \<in> set (i_cols i)) (t_indexes t)) (t\<lparr>t_hyper := Some c\<rparr>))"
| "alter d (AddRetention n interval) s = with_table s n (\<lambda>t.
     guarded (t_hyper t \<noteq> None)
       (case t_retention t of None \<Rightarrow> t\<lparr>t_retention := Some interval\<rparr> | Some old \<Rightarrow> t))"
| "alter d (RemoveRetention n) s = with_table s n (\<lambda>t. guarded (t_hyper t \<noteq> None) (t\<lparr>t_retention := None\<rparr>))"
| "alter d (DeleteOlderDuplicates n key) s = with_table s n (\<lambda>t. guarded (set key \<subseteq> set (column_names t)) t)"
| "alter d (Execute st) s = Some s"

text \<open>What it does to the rows.\<close>

fun change :: "ddl \<Rightarrow> db \<Rightarrow> db option" where
  "change (DropTable n) d = Some (d(n := []))"
| "change (DeleteOlderDuplicates n key) d = Some (d(n := delete_older key (d n)))"
| "change (Execute st) d = exec st d"
| "change (AddColumn n c) d = Some d"
| "change (DropColumn n c) d = Some (d(n := map (\<lambda>r. r(c := CNull)) (d n)))"
| "change _ d = Some d"

fun migrate :: "ddl list \<Rightarrow> schema \<times> db \<Rightarrow> (schema \<times> db) option" where
  "migrate [] sd = Some sd"
| "migrate (x # xs) (s, d) =
     (case alter d x s of None \<Rightarrow> None
      | Some s' \<Rightarrow> (case change x d of None \<Rightarrow> None | Some d' \<Rightarrow> migrate xs (s', d')))"

section \<open>The migrations\<close>

definition SEEDED_PROVIDERS :: "string list" where
  "SEEDED_PROVIDERS = [''space-track'', ''celestrak'', ''nasa-neows'', ''noaa-swpc'', ''the-space-devs'',
     ''jpl-horizons'', ''esa'']"

definition provider_row :: "datetime \<Rightarrow> string \<Rightarrow> row" where
  "provider_row now p = row_of [(''id'', CText p), (''status'', CText ''unknown''), (''updated_at'', CTime now)]"

definition upgrade_0001 :: "ddl list" where
  "upgrade_0001 =
     [CreateExtension ''timescaledb'',
      CreateTable ''satellites''
       [required ''norad_id'' TInteger,
        nullable ''cospar_id'' (TString None),
        required ''name'' (TString None),
        nullable ''operator'' (TString None),
        nullable ''country'' (TString None),
        nullable ''object_type'' (TString None),
        nullable ''orbit_class'' (TString None),
        nullable ''status'' (TString None),
        now_col ''created_at'',
        now_col ''updated_at'']
       [''norad_id''] [],
      CreateIndex ''ix_satellites_cospar_id'' ''satellites'' [''cospar_id''] False,
      CreateTable ''orbital_elements''
       [required ''id'' TUuid,
        required ''norad_id'' TInteger,
        required ''epoch'' TTimestamptz,
        nullable ''inclination'' TFloat,
        nullable ''right_ascension'' TFloat,
        nullable ''eccentricity'' TFloat,
        nullable ''argument_of_perigee'' TFloat,
        nullable ''mean_anomaly'' TFloat,
        nullable ''mean_motion'' TFloat,
        required ''provider'' (TString None),
        now_col ''created_at'']
       [''id'', ''epoch''] [\<lparr>fk_name = None, fk_cols = [''norad_id''], fk_table = ''satellites'', fk_refs = [''norad_id''], fk_cascade = False\<rparr>],
      CreateHypertable ''orbital_elements'' ''epoch'' False,
      CreateIndex ''ix_orbital_elements_epoch'' ''orbital_elements'' [''epoch''] False,
      CreateIndex ''ix_orbital_elements_norad_id'' ''orbital_elements'' [''norad_id''] False]"

definition downgrade_0001 :: "ddl list" where
  "downgrade_0001 =
     [DropTable ''orbital_elements'',
      DropTable ''satellites'']"

text \<open>
  Revision 0002 creates thirteen tables: the operational ones, then those of observations, re-entries,
  collections and webhooks.
\<close>

definition operations_tables :: "ddl list" where
  "operations_tables =
     [CreateTable ''provider_health''
       [required ''id'' (TString None),
        required ''status'' (TString None),
        nullable ''last_success_at'' TTimestamptz,
        nullable ''last_error_at'' TTimestamptz,
        nullable ''error_message'' (TString None),
        now_col ''updated_at'']
       [''id''] [],
      CreateTable ''api_keys''
       [required ''id'' (TString None),
        required ''hashed_key'' (TString None),
        required ''scopes'' (TString None),
        defaulted ''is_active'' TBoolean ''true'',
        now_col ''created_at'']
       [''id''] [],
      CreateIndex ''ix_api_keys_hashed_key'' ''api_keys'' [''hashed_key''] True,
      CreateTable ''launches''
       [required ''id'' (TString None),
        required ''name'' (TString None),
        nullable ''status'' (TString None),
        nullable ''window_start'' TTimestamptz,
        nullable ''window_end'' TTimestamptz,
        nullable ''provider'' (TString None),
        now_col ''created_at'',
        now_col ''updated_at'']
       [''id''] [],
      CreateIndex ''ix_launches_window_start'' ''launches'' [''window_start''] False,
      CreateTable ''conjunction_events''
       [required ''id'' (TString None),
        required ''norad_id_1'' TInteger,
        required ''norad_id_2'' TInteger,
        required ''tca'' TTimestamptz,
        required ''miss_distance'' TFloat,
        nullable ''probability'' TFloat,
        now_col ''created_at'']
       [''id''] [\<lparr>fk_name = None, fk_cols = [''norad_id_1''], fk_table = ''satellites'', fk_refs = [''norad_id''], fk_cascade = True\<rparr>],
      CreateIndex ''ix_conjunction_events_norad_id_1'' ''conjunction_events'' [''norad_id_1''] False,
      CreateIndex ''ix_conjunction_events_tca'' ''conjunction_events'' [''tca''] False,
      CreateTable ''satellite_decays''
       [required ''norad_id'' TInteger,
        required ''decay_date'' TTimestamptz,
        nullable ''confidence'' (TString None),
        now_col ''created_at'',
        now_col ''updated_at'']
       [''norad_id''] [\<lparr>fk_name = None, fk_cols = [''norad_id''], fk_table = ''satellites'', fk_refs = [''norad_id''], fk_cascade = True\<rparr>]]"

definition observation_tables :: "ddl list" where
  "observation_tables =
     [CreateTable ''near_earth_objects''
       [required ''id'' (TString None),
        required ''name'' (TString None),
        nullable ''absolute_magnitude_h'' TFloat,
        nullable ''estimated_diameter_min_km'' TFloat,
        nullable ''estimated_diameter_max_km'' TFloat,
        required ''is_potentially_hazardous'' TBoolean,
        required ''is_sentry_object'' TBoolean,
        now_col ''created_at'']
       [''id''] [],
      CreateTable ''close_approaches''
       [required ''id'' TUuid,
        required ''neo_id'' (TString None),
        required ''close_approach_date'' TTimestamptz,
        required ''relative_velocity_kms'' TFloat,
        required ''miss_distance_au'' TFloat,
        required ''orbiting_body'' (TString None),
        now_col ''created_at'']
       [''id''] [\<lparr>fk_name = None, fk_cols = [''neo_id''], fk_table = ''near_earth_objects'', fk_refs = [''id''], fk_cascade = True\<rparr>],
      CreateIndex ''ix_close_approaches_neo_id'' ''close_approaches'' [''neo_id''] False,
      CreateIndex ''ix_close_approaches_date'' ''close_approaches'' [''close_approach_date''] False,
      CreateTable ''space_weather_indices''
       [required ''id'' TUuid,
        required ''timestamp'' TTimestamptz,
        required ''kp_index'' TFloat,
        nullable ''ap_index'' TFloat,
        now_col ''created_at'']
       [''id'', ''timestamp''] [],
      CreateIndex ''ix_space_weather_indices_timestamp'' ''space_weather_indices'' [''timestamp''] False,
      CreateHypertable ''space_weather_indices'' ''timestamp'' True,
      CreateTable ''solar_wind''
       [required ''id'' TUuid,
        required ''timestamp'' TTimestamptz,
        required ''speed_km_s'' TFloat,
        required ''density_cm3'' TFloat,
        required ''temperature_k'' TFloat,
        now_col ''created_at'']
       [''id'', ''timestamp''] [],
      CreateIndex ''ix_solar_wind_timestamp'' ''solar_wind'' [''timestamp''] False,
      CreateHypertable ''solar_wind'' ''timestamp'' True,
      CreateTable ''reentry_events''
       [required ''id'' (TString None),
        required ''norad_id'' TInteger,
        required ''expected_reentry_time'' TTimestamptz,
        nullable ''latitude'' TFloat,
        nullable ''longitude'' TFloat,
        now_col ''created_at'']
       [''id''] [\<lparr>fk_name = None, fk_cols = [''norad_id''], fk_table = ''satellites'', fk_refs = [''norad_id''], fk_cascade = True\<rparr>],
      CreateIndex ''ix_reentry_events_norad_id'' ''reentry_events'' [''norad_id''] False,
      CreateTable ''eo_collections''
       [required ''id'' (TString None),
        required ''name'' (TString None),
        required ''provider'' (TString None),
        now_col ''created_at'']
       [''id''] [],
      CreateTable ''webhooks''
       [required ''id'' (TString None),
        required ''url'' (TString None),
        required ''events'' TText,
        nullable ''secret_hash'' (TString None),
        defaulted ''active'' TBoolean ''true'',
        now_col ''created_at'',
        now_col ''updated_at'']
       [''id''] [],
      CreateTable ''webhook_deliveries''
       [required ''id'' TUuid,
        required ''webhook_id'' (TString None),
        required ''payload'' TText,
        nullable ''status_code'' TInteger,
        defaulted ''attempt'' TInteger ''1'',
        defaulted ''success'' TBoolean ''false'',
        now_col ''attempted_at'']
       [''id''] [\<lparr>fk_name = None, fk_cols = [''webhook_id''], fk_table = ''webhooks'', fk_refs = [''id''], fk_cascade = True\<rparr>],
      CreateIndex ''ix_webhook_deliveries_webhook_id'' ''webhook_deliveries'' [''webhook_id''] False,
      CreateIndex ''ix_webhook_deliveries_attempted_at'' ''webhook_deliveries'' [''attempted_at''] False]"

definition upgrade_0002 :: "datetime \<Rightarrow> ddl list" where
  "upgrade_0002 now = operations_tables @ observation_tables @
     [AddColumn ''orbital_elements'' (nullable ''tle_line1'' (TString None)),
      AddColumn ''orbital_elements'' (nullable ''tle_line2'' (TString None)),
      Execute (Insert ''provider_health'' (map (provider_row now) SEEDED_PROVIDERS) [''id''] None)]"

definition downgrade_0002 :: "ddl list" where
  "downgrade_0002 =
     [DropTable ''webhook_deliveries'',
      DropTable ''webhooks'',
      DropTable ''eo_collections'',
      DropTable ''reentry_events'',
      DropTable ''solar_wind'',
      DropTable ''space_weather_indices'',
      DropTable ''close_approaches'',
      DropTable ''near_earth_objects'',
      DropTable ''satellite_decays'',
      DropTable ''conjunction_events'',
      DropTable ''launches'',
      DropTable ''api_keys'',
      DropTable ''provider_health'',
      DropColumn ''orbital_elements'' ''tle_line2'',
      DropColumn ''orbital_elements'' ''tle_line1'']"

definition upgrade_0003 :: "ddl list" where
  "upgrade_0003 =
     [CreateTable ''request_metrics''
       [required ''id'' TUuid,
        required ''timestamp'' TTimestamptz,
        required ''route'' (TString (Some 255)),
        required ''method'' (TString (Some 8)),
        required ''status_code'' TInteger,
        required ''duration_ms'' TFloat,
        required ''response_bytes'' TBigInteger,
        nullable ''api_key_id'' (TString None),
        nullable ''ip_fingerprint'' (TString (Some 64)),
        nullable ''cache_state'' (TString (Some 16)),
        nullable ''error_code'' (TString (Some 64))]
       [''id'', ''timestamp''] [],
      CreateIndex ''ix_request_metrics_timestamp'' ''request_metrics'' [''timestamp''] False,
      CreateIndex ''ix_request_metrics_route_timestamp'' ''request_metrics'' [''route'', ''timestamp''] False,
      CreateIndex ''ix_request_metrics_api_key_timestamp'' ''request_metrics'' [''api_key_id'', ''timestamp''] False,
      CreateHypertable ''request_metrics'' ''timestamp'' True,
      AddRetention ''request_metrics'' ''30 days'']"

definition downgrade_0003 :: "ddl list" where
  "downgrade_0003 =
     [DropTable ''request_metrics'']"

definition upgrade_0004 :: "ddl list" where
  "upgrade_0004 =
     [AddColumn ''webhooks'' (nullable ''secret_ciphertext'' TText),
      AddColumn ''webhooks'' (nullable ''owner_api_key_id'' (TString None)),
      CreateForeignKey ''webhooks'' \<lparr>fk_name = Some ''fk_webhooks_owner_api_key'', fk_cols = [''owner_api_key_id''], fk_table = ''api_keys'', fk_refs = [''id''], fk_cascade = True\<rparr>,
      CreateIndex ''ix_webhooks_owner_api_key_id'' ''webhooks'' [''owner_api_key_id''] False]"

definition downgrade_0004 :: "ddl list" where
  "downgrade_0004 =
     [DropIndex ''ix_webhooks_owner_api_key_id'' ''webhooks'',
      DropConstraint ''fk_webhooks_owner_api_key'' ''webhooks'',
      DropColumn ''webhooks'' ''owner_api_key_id'',
      DropColumn ''webhooks'' ''secret_ciphertext'']"

definition upgrade_0005 :: "ddl list" where
  "upgrade_0005 =
     [DeleteOlderDuplicates ''space_weather_indices'' [''timestamp''],
      CreateIndex ''uq_space_weather_indices_timestamp'' ''space_weather_indices'' [''timestamp''] True,
      CreateIndex ''uq_orbital_elements_source_epoch'' ''orbital_elements'' [''norad_id'', ''provider'', ''epoch''] True]"

definition downgrade_0005 :: "ddl list" where
  "downgrade_0005 =
     [DropIndex ''uq_orbital_elements_source_epoch'' ''orbital_elements'',
      DropIndex ''uq_space_weather_indices_timestamp'' ''space_weather_indices'']"

definition upgrade_0006 :: "ddl list" where
  "upgrade_0006 =
     [DeleteOlderDuplicates ''solar_wind'' [''timestamp''],
      CreateIndex ''uq_solar_wind_timestamp'' ''solar_wind'' [''timestamp''] True,
      DeleteOlderDuplicates ''close_approaches'' [''neo_id'', ''close_approach_date'', ''orbiting_body''],
      CreateIndex ''uq_close_approach_identity'' ''close_approaches'' [''neo_id'', ''close_approach_date'', ''orbiting_body''] True]"

definition downgrade_0006 :: "ddl list" where
  "downgrade_0006 =
     [DropIndex ''uq_close_approach_identity'' ''close_approaches'',
      DropIndex ''uq_solar_wind_timestamp'' ''solar_wind'']"

definition upgrade_0007 :: "ddl list" where
  "upgrade_0007 =
     [CreateTable ''endpoint_metric_buckets''
       [required ''bucket'' TTimestamptz,
        required ''route'' (TString (Some 255)),
        required ''method'' (TString (Some 8)),
        required ''request_count'' TBigInteger,
        required ''server_error_count'' TBigInteger,
        required ''duration_sum_ms'' TFloat,
        required ''duration_max_ms'' TFloat,
        required ''response_bytes'' TBigInteger,
        required ''cache_hit_count'' TBigInteger]
       [''bucket'', ''route'', ''method''] [],
      CreateIndex ''ix_endpoint_metric_buckets_route_bucket'' ''endpoint_metric_buckets'' [''route'', ''bucket''] False,
      CreateHypertable ''endpoint_metric_buckets'' ''bucket'' True,
      AddRetention ''endpoint_metric_buckets'' ''90 days'']"

definition downgrade_0007 :: "ddl list" where
  "downgrade_0007 =
     [DropTable ''endpoint_metric_buckets'']"

definition upgrade_0008 :: "ddl list" where
  "upgrade_0008 =
     [AddColumn ''webhooks'' (nullable ''owner_ip_fingerprint'' (TString (Some 64))),
      CreateIndex ''ix_webhooks_owner_ip_fingerprint'' ''webhooks'' [''owner_ip_fingerprint''] False,
      DropConstraint ''fk_webhooks_owner_api_key'' ''webhooks'',
      DropIndex ''ix_webhooks_owner_api_key_id'' ''webhooks'',
      DropColumn ''webhooks'' ''owner_api_key_id'',
      DropTable ''api_keys'',
      DropTable ''request_metrics'']"

definition LAUNCH_TEXT_COLUMNS :: "string list" where
  "LAUNCH_TEXT_COLUMNS = [''operator'', ''vehicle'', ''pad'', ''location'', ''mission_description'', ''weather_summary'', ''info_url'']"

definition RETENTION :: "(string \<times> string) list" where
  "RETENTION = [(''orbital_elements'', ''45 days''), (''space_weather_indices'', ''120 days''),
     (''solar_wind'', ''120 days''), (''endpoint_metric_buckets'', ''30 days'')]"

definition upgrade_0009 :: "ddl list" where
  "upgrade_0009 =
     map (\<lambda>c. AddColumn ''launches'' (nullable c (TString None))) LAUNCH_TEXT_COLUMNS
     @ [AddColumn ''launches'' (nullable ''latitude'' TFloat),
        AddColumn ''launches'' (nullable ''longitude'' TFloat),
        CreateIndex ''ix_orbital_elements_norad_epoch_desc'' ''orbital_elements'' [''norad_id'', ''epoch DESC''] False]
     @ map (\<lambda>(table, interval). AddRetention table interval) RETENTION"

definition downgrade_0009 :: "ddl list" where
  "downgrade_0009 =
     map (\<lambda>(table, interval). RemoveRetention table) RETENTION
     @ [DropIndex ''ix_orbital_elements_norad_epoch_desc'' ''orbital_elements'',
        DropColumn ''launches'' ''longitude'',
        DropColumn ''launches'' ''latitude'']
     @ map (DropColumn ''launches'') (rev LAUNCH_TEXT_COLUMNS)"

definition upgrade_0010 :: "ddl list" where
  "upgrade_0010 =
     [Execute (Delete ''provider_health'' (\<lambda>r. r ''id'' = CText ''jpl-horizons'' \<or> r ''id'' = CText ''esa''))]"

definition downgrade_0010 :: "ddl list" where
  "downgrade_0010 =
     []"

text \<open>The chain of revisions, each with the operations of its upgrade and, unless it refuses, its downgrade.\<close>

record revision =
  rev_id :: string
  rev_down :: "string option"
  rev_upgrade :: "ddl list"
  rev_downgrade :: "ddl list option"

definition revisions :: "datetime \<Rightarrow> revision list" where
  "revisions now =
     [\<lparr>rev_id = ''0001'', rev_down = None, rev_upgrade = upgrade_0001, rev_downgrade = Some downgrade_0001\<rparr>,
      \<lparr>rev_id = ''0002'', rev_down = Some ''0001'', rev_upgrade = upgrade_0002 now, rev_downgrade = Some downgrade_0002\<rparr>,
      \<lparr>rev_id = ''0003'', rev_down = Some ''0002'', rev_upgrade = upgrade_0003, rev_downgrade = Some downgrade_0003\<rparr>,
      \<lparr>rev_id = ''0004'', rev_down = Some ''0003'', rev_upgrade = upgrade_0004, rev_downgrade = Some downgrade_0004\<rparr>,
      \<lparr>rev_id = ''0005'', rev_down = Some ''0004'', rev_upgrade = upgrade_0005, rev_downgrade = Some downgrade_0005\<rparr>,
      \<lparr>rev_id = ''0006'', rev_down = Some ''0005'', rev_upgrade = upgrade_0006, rev_downgrade = Some downgrade_0006\<rparr>,
      \<lparr>rev_id = ''0007'', rev_down = Some ''0006'', rev_upgrade = upgrade_0007, rev_downgrade = Some downgrade_0007\<rparr>,
      \<lparr>rev_id = ''0008'', rev_down = Some ''0007'', rev_upgrade = upgrade_0008, rev_downgrade = None\<rparr>,
      \<lparr>rev_id = ''0009'', rev_down = Some ''0008'', rev_upgrade = upgrade_0009, rev_downgrade = Some downgrade_0009\<rparr>,
      \<lparr>rev_id = ''0010'', rev_down = Some ''0009'', rev_upgrade = upgrade_0010, rev_downgrade = Some downgrade_0010\<rparr>]"

section \<open>The ORM classes\<close>

record mapped_column =
  mc_name :: string
  mc_type :: coltype
  mc_null :: bool
  mc_pk :: bool
  mc_fk :: "string option"
  mc_index :: bool
  mc_default :: "string option"
  mc_server_now :: bool
  mc_onupdate_now :: bool

record model =
  m_table :: string
  m_cols :: "mapped_column list"

definition mandatory :: "string \<Rightarrow> coltype \<Rightarrow> mapped_column" where
  "mandatory n t = \<lparr>mc_name = n, mc_type = t, mc_null = False, mc_pk = False, mc_fk = None, mc_index = False,
     mc_default = None, mc_server_now = False, mc_onupdate_now = False\<rparr>"

definition optional :: "string \<Rightarrow> coltype \<Rightarrow> mapped_column" where
  "optional n t = (mandatory n t)\<lparr>mc_null := True\<rparr>"

definition stamp :: "string \<Rightarrow> mapped_column" where
  "stamp n = (mandatory n TTimestamptz)\<lparr>mc_server_now := True\<rparr>"

definition touched :: "string \<Rightarrow> mapped_column" where
  "touched n = (stamp n)\<lparr>mc_onupdate_now := True\<rparr>"

definition primary :: "mapped_column \<Rightarrow> mapped_column" where "primary c = c\<lparr>mc_pk := True\<rparr>"
definition indexed :: "mapped_column \<Rightarrow> mapped_column" where "indexed c = c\<lparr>mc_index := True\<rparr>"
definition refers :: "string \<Rightarrow> mapped_column \<Rightarrow> mapped_column" where "refers r c = c\<lparr>mc_fk := Some r\<rparr>"
definition initially :: "string \<Rightarrow> mapped_column \<Rightarrow> mapped_column" where "initially v c = c\<lparr>mc_default := Some v\<rparr>"

definition Satellite :: model where
  "Satellite = \<lparr>m_table = ''satellites'', m_cols =
     [primary (mandatory ''norad_id'' TInteger),
      indexed (optional ''cospar_id'' (TString None)),
      mandatory ''name'' (TString None),
      optional ''operator'' (TString None),
      optional ''country'' (TString None),
      optional ''object_type'' (TString None),
      optional ''orbit_class'' (TString None),
      optional ''status'' (TString None),
      stamp ''created_at'',
      touched ''updated_at'']\<rparr>"

definition OrbitalElement :: model where
  "OrbitalElement = \<lparr>m_table = ''orbital_elements'', m_cols =
     [initially ''uuid4'' (primary (mandatory ''id'' TUuid)),
      indexed (refers ''satellites.norad_id'' (mandatory ''norad_id'' TInteger)),
      indexed (primary (mandatory ''epoch'' TTimestamptz)),
      optional ''inclination'' TFloat,
      optional ''right_ascension'' TFloat,
      optional ''eccentricity'' TFloat,
      optional ''argument_of_perigee'' TFloat,
      optional ''mean_anomaly'' TFloat,
      optional ''mean_motion'' TFloat,
      optional ''tle_line1'' (TString None),
      optional ''tle_line2'' (TString None),
      mandatory ''provider'' (TString None),
      stamp ''created_at'']\<rparr>"

definition ConjunctionEvent :: model where
  "ConjunctionEvent = \<lparr>m_table = ''conjunction_events'', m_cols =
     [primary (mandatory ''id'' (TString None)),
      indexed (refers ''satellites.norad_id'' (mandatory ''norad_id_1'' TInteger)),
      indexed (mandatory ''norad_id_2'' TInteger),
      indexed (mandatory ''tca'' TTimestamptz),
      mandatory ''miss_distance'' TFloat,
      optional ''probability'' TFloat,
      stamp ''created_at'']\<rparr>"

definition SatelliteDecay :: model where
  "SatelliteDecay = \<lparr>m_table = ''satellite_decays'', m_cols =
     [primary (refers ''satellites.norad_id'' (mandatory ''norad_id'' TInteger)),
      mandatory ''decay_date'' TTimestamptz,
      optional ''confidence'' (TString None),
      stamp ''created_at'',
      touched ''updated_at'']\<rparr>"

definition NearEarthObject :: model where
  "NearEarthObject = \<lparr>m_table = ''near_earth_objects'', m_cols =
     [primary (mandatory ''id'' (TString None)),
      mandatory ''name'' (TString None),
      optional ''absolute_magnitude_h'' TFloat,
      optional ''estimated_diameter_min_km'' TFloat,
      optional ''estimated_diameter_max_km'' TFloat,
      mandatory ''is_potentially_hazardous'' TBoolean,
      mandatory ''is_sentry_object'' TBoolean,
      stamp ''created_at'']\<rparr>"

definition CloseApproach :: model where
  "CloseApproach = \<lparr>m_table = ''close_approaches'', m_cols =
     [initially ''uuid4'' (primary (mandatory ''id'' TUuid)),
      indexed (refers ''near_earth_objects.id'' (mandatory ''neo_id'' (TString None))),
      indexed (mandatory ''close_approach_date'' TTimestamptz),
      mandatory ''relative_velocity_kms'' TFloat,
      mandatory ''miss_distance_au'' TFloat,
      mandatory ''orbiting_body'' (TString None),
      stamp ''created_at'']\<rparr>"

definition SpaceWeatherIndex :: model where
  "SpaceWeatherIndex = \<lparr>m_table = ''space_weather_indices'', m_cols =
     [initially ''uuid4'' (primary (mandatory ''id'' TUuid)),
      indexed (primary (mandatory ''timestamp'' TTimestamptz)),
      mandatory ''kp_index'' TFloat,
      optional ''ap_index'' TFloat,
      stamp ''created_at'']\<rparr>"

definition SolarWind :: model where
  "SolarWind = \<lparr>m_table = ''solar_wind'', m_cols =
     [initially ''uuid4'' (primary (mandatory ''id'' TUuid)),
      indexed (primary (mandatory ''timestamp'' TTimestamptz)),
      mandatory ''speed_km_s'' TFloat,
      mandatory ''density_cm3'' TFloat,
      mandatory ''temperature_k'' TFloat,
      stamp ''created_at'']\<rparr>"

definition ReentryEvent :: model where
  "ReentryEvent = \<lparr>m_table = ''reentry_events'', m_cols =
     [primary (mandatory ''id'' (TString None)),
      indexed (refers ''satellites.norad_id'' (mandatory ''norad_id'' TInteger)),
      mandatory ''expected_reentry_time'' TTimestamptz,
      optional ''latitude'' TFloat,
      optional ''longitude'' TFloat,
      stamp ''created_at'']\<rparr>"

definition EarthObservationCollection :: model where
  "EarthObservationCollection = \<lparr>m_table = ''eo_collections'', m_cols =
     [primary (mandatory ''id'' (TString None)),
      mandatory ''name'' (TString None),
      mandatory ''provider'' (TString None),
      stamp ''created_at'']\<rparr>"

definition Launch :: model where
  "Launch = \<lparr>m_table = ''launches'', m_cols =
     [primary (mandatory ''id'' (TString None)),
      mandatory ''name'' (TString None),
      optional ''status'' (TString None),
      indexed (optional ''window_start'' TTimestamptz),
      optional ''window_end'' TTimestamptz,
      optional ''provider'' (TString None),
      optional ''operator'' (TString None),
      optional ''vehicle'' (TString None),
      optional ''pad'' (TString None),
      optional ''location'' (TString None),
      optional ''latitude'' TFloat,
      optional ''longitude'' TFloat,
      optional ''mission_description'' (TString None),
      optional ''weather_summary'' (TString None),
      optional ''info_url'' (TString None),
      stamp ''created_at'',
      touched ''updated_at'']\<rparr>"

definition Webhook :: model where
  "Webhook = \<lparr>m_table = ''webhooks'', m_cols =
     [primary (mandatory ''id'' (TString None)),
      mandatory ''url'' (TString None),
      mandatory ''events'' TText,
      optional ''secret_hash'' (TString None),
      optional ''secret_ciphertext'' TText,
      indexed (optional ''owner_ip_fingerprint'' (TString (Some 64))),
      initially ''true'' (mandatory ''active'' TBoolean),
      stamp ''created_at'',
      touched ''updated_at'']\<rparr>"

definition WebhookDelivery :: model where
  "WebhookDelivery = \<lparr>m_table = ''webhook_deliveries'', m_cols =
     [initially ''uuid4'' (primary (mandatory ''id'' TUuid)),
      indexed (refers ''webhooks.id'' (mandatory ''webhook_id'' (TString None))),
      mandatory ''payload'' TText,
      optional ''status_code'' TInteger,
      initially ''1'' (mandatory ''attempt'' TInteger),
      initially ''false'' (mandatory ''success'' TBoolean),
      stamp ''attempted_at'']\<rparr>"

definition ProviderHealth :: model where
  "ProviderHealth = \<lparr>m_table = ''provider_health'', m_cols =
     [primary (mandatory ''id'' (TString None)),
      mandatory ''status'' (TString None),
      optional ''last_success_at'' TTimestamptz,
      optional ''last_error_at'' TTimestamptz,
      optional ''error_message'' (TString None),
      touched ''updated_at'']\<rparr>"

definition EndpointMetricBucket :: model where
  "EndpointMetricBucket = \<lparr>m_table = ''endpoint_metric_buckets'', m_cols =
     [primary (mandatory ''bucket'' TTimestamptz),
      primary (mandatory ''route'' (TString (Some 255))),
      primary (mandatory ''method'' (TString (Some 8))),
      mandatory ''request_count'' TBigInteger,
      mandatory ''server_error_count'' TBigInteger,
      mandatory ''duration_sum_ms'' TFloat,
      mandatory ''duration_max_ms'' TFloat,
      mandatory ''response_bytes'' TBigInteger,
      mandatory ''cache_hit_count'' TBigInteger]\<rparr>"

definition models :: "model list" where
  "models = [Satellite, OrbitalElement, ConjunctionEvent, SatelliteDecay, NearEarthObject, CloseApproach,
     SpaceWeatherIndex, SolarWind, ReentryEvent, EarthObservationCollection, Launch, Webhook, WebhookDelivery,
     ProviderHealth, EndpointMetricBucket]"

section \<open>Agreement\<close>

text \<open>A column of a class and its table: type, NULL, and \<open>now()\<close> as the default where the class says so.\<close>

definition column_agrees :: "table \<Rightarrow> mapped_column \<Rightarrow> bool" where
  "column_agrees t m \<longleftrightarrow> list_ex (\<lambda>c. c_name c = mc_name m \<and> c_type c = mc_type m \<and> c_null c = mc_null m
     \<and> (mc_server_now m \<longrightarrow> c_default c = Some ''now()'')) (t_cols t)"

definition same_members :: "string list \<Rightarrow> string list \<Rightarrow> bool" where
  "same_members xs ys \<longleftrightarrow> list_all (\<lambda>x. x \<in> set ys) xs \<and> list_all (\<lambda>y. y \<in> set xs) ys \<and> length xs = length ys"

definition foreign_key_name :: "foreign_key \<Rightarrow> string" where
  "foreign_key_name f = join_with '','' (fk_cols f) @ ''>'' @ fk_table f @ ''.'' @ join_with '','' (fk_refs f)"

definition agrees :: "table \<Rightarrow> model \<Rightarrow> bool" where
  "agrees t m \<longleftrightarrow> list_all (column_agrees t) (m_cols m)
     \<and> same_members (column_names t) (map mc_name (m_cols m))
     \<and> same_members (t_pk t) (map mc_name (filter mc_pk (m_cols m)))
     \<and> same_members (map foreign_key_name (t_fks t))
         (concat (map (\<lambda>c. case mc_fk c of None \<Rightarrow> [] | Some r \<Rightarrow> [mc_name c @ ''>'' @ r]) (m_cols m)))"

text \<open>Columns a class declares as indexed although no index starts with them.\<close>

definition unindexed :: "table \<Rightarrow> model \<Rightarrow> (string \<times> string) list" where
  "unindexed t m = map (\<lambda>c. (m_table m, mc_name c)) (filter (\<lambda>c. mc_index c
     \<and> \<not> list_ex (\<lambda>i. i_cols i \<noteq> [] \<and> hd (i_cols i) = mc_name c) (t_indexes t)) (m_cols m))"

definition compare :: "model list \<Rightarrow> schema \<Rightarrow> (bool \<times> (string \<times> string) list) list" where
  "compare ms s = map (\<lambda>m. case map_of s (m_table m) of
     None \<Rightarrow> (False, []) | Some t \<Rightarrow> (agrees t m, unindexed t m)) ms"

definition tally :: "(bool \<times> (string \<times> string) list) list \<Rightarrow> bool \<times> (string \<times> string) list" where
  "tally cs = (list_all fst cs, concat (map snd cs))"

lemma compare_mem:
  assumes "tally (compare ms s) = (True, us)" "m \<in> set ms"
  shows "\<exists>t. map_of s (m_table m) = Some t \<and> agrees t m \<and> set (unindexed t m) \<subseteq> set us"
proof -
  from assms have "fst (case map_of s (m_table m) of None \<Rightarrow> (False, []) | Some t \<Rightarrow> (agrees t m, unindexed t m))"
    by (auto simp: compare_def tally_def list_all_iff)
  then obtain t where t: "map_of s (m_table m) = Some t" "agrees t m" by (auto split: option.splits)
  with assms(2) have "(True, unindexed t m) \<in> set (compare ms s)"
    unfolding compare_def set_map by (intro image_eqI [of _ _ m]) simp_all
  moreover from assms(1) have "us = concat (map snd (compare ms s))" by (simp add: tally_def)
  ultimately have "set (unindexed t m) \<subseteq> set us" by force
  with t show ?thesis by blast
qed

section \<open>What the chain builds\<close>

text \<open>The rows the second migration seeds, and the catalogue after \<open>0002\<close>, after \<open>0007\<close> and at the head.\<close>

definition seeded :: "datetime \<Rightarrow> db" where
  "seeded now = (\<lambda>_. [])(''provider_health'' := map (provider_row now) SEEDED_PROVIDERS)"

definition catalogue_0002 :: schema where
  "catalogue_0002 =
    [(''satellites'', \<lparr>t_cols =
        [required ''norad_id'' TInteger, nullable ''cospar_id'' (TString None), required ''name'' (TString None), nullable ''operator'' (TString None), nullable ''country'' (TString None), nullable ''object_type'' (TString None), nullable ''orbit_class'' (TString None), nullable ''status'' (TString None), now_col ''created_at'', now_col ''updated_at''],
      t_pk = [''norad_id''], t_fks = [],
      t_indexes = [\<lparr>i_name = ''ix_satellites_cospar_id'', i_cols = [''cospar_id''], i_unique = False\<rparr>],
      t_hyper = None, t_retention = None\<rparr>),
     (''orbital_elements'', \<lparr>t_cols =
        [required ''id'' TUuid, required ''norad_id'' TInteger, required ''epoch'' TTimestamptz, nullable ''inclination'' TFloat, nullable ''right_ascension'' TFloat, nullable ''eccentricity'' TFloat, nullable ''argument_of_perigee'' TFloat, nullable ''mean_anomaly'' TFloat, nullable ''mean_motion'' TFloat, required ''provider'' (TString None), now_col ''created_at'', nullable ''tle_line1'' (TString None), nullable ''tle_line2'' (TString None)],
      t_pk = [''id'', ''epoch''], t_fks = [\<lparr>fk_name = None, fk_cols = [''norad_id''], fk_table = ''satellites'', fk_refs = [''norad_id''], fk_cascade = False\<rparr>],
      t_indexes = [\<lparr>i_name = ''ix_orbital_elements_epoch'', i_cols = [''epoch''], i_unique = False\<rparr>,
        \<lparr>i_name = ''ix_orbital_elements_norad_id'', i_cols = [''norad_id''], i_unique = False\<rparr>],
      t_hyper = Some ''epoch'', t_retention = None\<rparr>),
     (''provider_health'', \<lparr>t_cols =
        [required ''id'' (TString None), required ''status'' (TString None), nullable ''last_success_at'' TTimestamptz, nullable ''last_error_at'' TTimestamptz, nullable ''error_message'' (TString None), now_col ''updated_at''],
      t_pk = [''id''], t_fks = [],
      t_indexes = [],
      t_hyper = None, t_retention = None\<rparr>),
     (''api_keys'', \<lparr>t_cols =
        [required ''id'' (TString None), required ''hashed_key'' (TString None), required ''scopes'' (TString None), defaulted ''is_active'' TBoolean ''true'', now_col ''created_at''],
      t_pk = [''id''], t_fks = [],
      t_indexes = [\<lparr>i_name = ''ix_api_keys_hashed_key'', i_cols = [''hashed_key''], i_unique = True\<rparr>],
      t_hyper = None, t_retention = None\<rparr>),
     (''launches'', \<lparr>t_cols =
        [required ''id'' (TString None), required ''name'' (TString None), nullable ''status'' (TString None), nullable ''window_start'' TTimestamptz, nullable ''window_end'' TTimestamptz, nullable ''provider'' (TString None), now_col ''created_at'', now_col ''updated_at''],
      t_pk = [''id''], t_fks = [],
      t_indexes = [\<lparr>i_name = ''ix_launches_window_start'', i_cols = [''window_start''], i_unique = False\<rparr>],
      t_hyper = None, t_retention = None\<rparr>),
     (''conjunction_events'', \<lparr>t_cols =
        [required ''id'' (TString None), required ''norad_id_1'' TInteger, required ''norad_id_2'' TInteger, required ''tca'' TTimestamptz, required ''miss_distance'' TFloat, nullable ''probability'' TFloat, now_col ''created_at''],
      t_pk = [''id''], t_fks = [\<lparr>fk_name = None, fk_cols = [''norad_id_1''], fk_table = ''satellites'', fk_refs = [''norad_id''], fk_cascade = True\<rparr>],
      t_indexes = [\<lparr>i_name = ''ix_conjunction_events_norad_id_1'', i_cols = [''norad_id_1''], i_unique = False\<rparr>,
        \<lparr>i_name = ''ix_conjunction_events_tca'', i_cols = [''tca''], i_unique = False\<rparr>],
      t_hyper = None, t_retention = None\<rparr>),
     (''satellite_decays'', \<lparr>t_cols =
        [required ''norad_id'' TInteger, required ''decay_date'' TTimestamptz, nullable ''confidence'' (TString None), now_col ''created_at'', now_col ''updated_at''],
      t_pk = [''norad_id''], t_fks = [\<lparr>fk_name = None, fk_cols = [''norad_id''], fk_table = ''satellites'', fk_refs = [''norad_id''], fk_cascade = True\<rparr>],
      t_indexes = [],
      t_hyper = None, t_retention = None\<rparr>),
     (''near_earth_objects'', \<lparr>t_cols =
        [required ''id'' (TString None), required ''name'' (TString None), nullable ''absolute_magnitude_h'' TFloat, nullable ''estimated_diameter_min_km'' TFloat, nullable ''estimated_diameter_max_km'' TFloat, required ''is_potentially_hazardous'' TBoolean, required ''is_sentry_object'' TBoolean, now_col ''created_at''],
      t_pk = [''id''], t_fks = [],
      t_indexes = [],
      t_hyper = None, t_retention = None\<rparr>),
     (''close_approaches'', \<lparr>t_cols =
        [required ''id'' TUuid, required ''neo_id'' (TString None), required ''close_approach_date'' TTimestamptz, required ''relative_velocity_kms'' TFloat, required ''miss_distance_au'' TFloat, required ''orbiting_body'' (TString None), now_col ''created_at''],
      t_pk = [''id''], t_fks = [\<lparr>fk_name = None, fk_cols = [''neo_id''], fk_table = ''near_earth_objects'', fk_refs = [''id''], fk_cascade = True\<rparr>],
      t_indexes = [\<lparr>i_name = ''ix_close_approaches_neo_id'', i_cols = [''neo_id''], i_unique = False\<rparr>,
        \<lparr>i_name = ''ix_close_approaches_date'', i_cols = [''close_approach_date''], i_unique = False\<rparr>],
      t_hyper = None, t_retention = None\<rparr>),
     (''space_weather_indices'', \<lparr>t_cols =
        [required ''id'' TUuid, required ''timestamp'' TTimestamptz, required ''kp_index'' TFloat, nullable ''ap_index'' TFloat, now_col ''created_at''],
      t_pk = [''id'', ''timestamp''], t_fks = [],
      t_indexes = [\<lparr>i_name = ''ix_space_weather_indices_timestamp'', i_cols = [''timestamp''], i_unique = False\<rparr>],
      t_hyper = Some ''timestamp'', t_retention = None\<rparr>),
     (''solar_wind'', \<lparr>t_cols =
        [required ''id'' TUuid, required ''timestamp'' TTimestamptz, required ''speed_km_s'' TFloat, required ''density_cm3'' TFloat, required ''temperature_k'' TFloat, now_col ''created_at''],
      t_pk = [''id'', ''timestamp''], t_fks = [],
      t_indexes = [\<lparr>i_name = ''ix_solar_wind_timestamp'', i_cols = [''timestamp''], i_unique = False\<rparr>],
      t_hyper = Some ''timestamp'', t_retention = None\<rparr>),
     (''reentry_events'', \<lparr>t_cols =
        [required ''id'' (TString None), required ''norad_id'' TInteger, required ''expected_reentry_time'' TTimestamptz, nullable ''latitude'' TFloat, nullable ''longitude'' TFloat, now_col ''created_at''],
      t_pk = [''id''], t_fks = [\<lparr>fk_name = None, fk_cols = [''norad_id''], fk_table = ''satellites'', fk_refs = [''norad_id''], fk_cascade = True\<rparr>],
      t_indexes = [\<lparr>i_name = ''ix_reentry_events_norad_id'', i_cols = [''norad_id''], i_unique = False\<rparr>],
      t_hyper = None, t_retention = None\<rparr>),
     (''eo_collections'', \<lparr>t_cols =
        [required ''id'' (TString None), required ''name'' (TString None), required ''provider'' (TString None), now_col ''created_at''],
      t_pk = [''id''], t_fks = [],
      t_indexes = [],
      t_hyper = None, t_retention = None\<rparr>),
     (''webhooks'', \<lparr>t_cols =
        [required ''id'' (TString None), required ''url'' (TString None), required ''events'' TText, nullable ''secret_hash'' (TString None), defaulted ''active'' TBoolean ''true'', now_col ''created_at'', now_col ''updated_at''],
      t_pk = [''id''], t_fks = [],
      t_indexes = [],
      t_hyper = None, t_retention = None\<rparr>),
     (''webhook_deliveries'', \<lparr>t_cols =
        [required ''id'' TUuid, required ''webhook_id'' (TString None), required ''payload'' TText, nullable ''status_code'' TInteger, defaulted ''attempt'' TInteger ''1'', defaulted ''success'' TBoolean ''false'', now_col ''attempted_at''],
      t_pk = [''id''], t_fks = [\<lparr>fk_name = None, fk_cols = [''webhook_id''], fk_table = ''webhooks'', fk_refs = [''id''], fk_cascade = True\<rparr>],
      t_indexes = [\<lparr>i_name = ''ix_webhook_deliveries_webhook_id'', i_cols = [''webhook_id''], i_unique = False\<rparr>,
        \<lparr>i_name = ''ix_webhook_deliveries_attempted_at'', i_cols = [''attempted_at''], i_unique = False\<rparr>],
      t_hyper = None, t_retention = None\<rparr>)]"

definition catalogue_0007 :: schema where
  "catalogue_0007 =
    [(''satellites'', \<lparr>t_cols =
        [required ''norad_id'' TInteger, nullable ''cospar_id'' (TString None), required ''name'' (TString None), nullable ''operator'' (TString None), nullable ''country'' (TString None), nullable ''object_type'' (TString None), nullable ''orbit_class'' (TString None), nullable ''status'' (TString None), now_col ''created_at'', now_col ''updated_at''],
      t_pk = [''norad_id''], t_fks = [],
      t_indexes = [\<lparr>i_name = ''ix_satellites_cospar_id'', i_cols = [''cospar_id''], i_unique = False\<rparr>],
      t_hyper = None, t_retention = None\<rparr>),
     (''orbital_elements'', \<lparr>t_cols =
        [required ''id'' TUuid, required ''norad_id'' TInteger, required ''epoch'' TTimestamptz, nullable ''inclination'' TFloat, nullable ''right_ascension'' TFloat, nullable ''eccentricity'' TFloat, nullable ''argument_of_perigee'' TFloat, nullable ''mean_anomaly'' TFloat, nullable ''mean_motion'' TFloat, required ''provider'' (TString None), now_col ''created_at'', nullable ''tle_line1'' (TString None), nullable ''tle_line2'' (TString None)],
      t_pk = [''id'', ''epoch''], t_fks = [\<lparr>fk_name = None, fk_cols = [''norad_id''], fk_table = ''satellites'', fk_refs = [''norad_id''], fk_cascade = False\<rparr>],
      t_indexes = [\<lparr>i_name = ''ix_orbital_elements_epoch'', i_cols = [''epoch''], i_unique = False\<rparr>,
        \<lparr>i_name = ''ix_orbital_elements_norad_id'', i_cols = [''norad_id''], i_unique = False\<rparr>,
        \<lparr>i_name = ''uq_orbital_elements_source_epoch'', i_cols = [''norad_id'', ''provider'', ''epoch''], i_unique = True\<rparr>],
      t_hyper = Some ''epoch'', t_retention = None\<rparr>),
     (''provider_health'', \<lparr>t_cols =
        [required ''id'' (TString None), required ''status'' (TString None), nullable ''last_success_at'' TTimestamptz, nullable ''last_error_at'' TTimestamptz, nullable ''error_message'' (TString None), now_col ''updated_at''],
      t_pk = [''id''], t_fks = [],
      t_indexes = [],
      t_hyper = None, t_retention = None\<rparr>),
     (''api_keys'', \<lparr>t_cols =
        [required ''id'' (TString None), required ''hashed_key'' (TString None), required ''scopes'' (TString None), defaulted ''is_active'' TBoolean ''true'', now_col ''created_at''],
      t_pk = [''id''], t_fks = [],
      t_indexes = [\<lparr>i_name = ''ix_api_keys_hashed_key'', i_cols = [''hashed_key''], i_unique = True\<rparr>],
      t_hyper = None, t_retention = None\<rparr>),
     (''launches'', \<lparr>t_cols =
        [required ''id'' (TString None), required ''name'' (TString None), nullable ''status'' (TString None), nullable ''window_start'' TTimestamptz, nullable ''window_end'' TTimestamptz, nullable ''provider'' (TString None), now_col ''created_at'', now_col ''updated_at''],
      t_pk = [''id''], t_fks = [],
      t_indexes = [\<lparr>i_name = ''ix_launches_window_start'', i_cols = [''window_start''], i_unique = False\<rparr>],
      t_hyper = None, t_retention = None\<rparr>),
     (''conjunction_events'', \<lparr>t_cols =
        [required ''id'' (TString None), required ''norad_id_1'' TInteger, required ''norad_id_2'' TInteger, required ''tca'' TTimestamptz, required ''miss_distance'' TFloat, nullable ''probability'' TFloat, now_col ''created_at''],
      t_pk = [''id''], t_fks = [\<lparr>fk_name = None, fk_cols = [''norad_id_1''], fk_table = ''satellites'', fk_refs = [''norad_id''], fk_cascade = True\<rparr>],
      t_indexes = [\<lparr>i_name = ''ix_conjunction_events_norad_id_1'', i_cols = [''norad_id_1''], i_unique = False\<rparr>,
        \<lparr>i_name = ''ix_conjunction_events_tca'', i_cols = [''tca''], i_unique = False\<rparr>],
      t_hyper = None, t_retention = None\<rparr>),
     (''satellite_decays'', \<lparr>t_cols =
        [required ''norad_id'' TInteger, required ''decay_date'' TTimestamptz, nullable ''confidence'' (TString None), now_col ''created_at'', now_col ''updated_at''],
      t_pk = [''norad_id''], t_fks = [\<lparr>fk_name = None, fk_cols = [''norad_id''], fk_table = ''satellites'', fk_refs = [''norad_id''], fk_cascade = True\<rparr>],
      t_indexes = [],
      t_hyper = None, t_retention = None\<rparr>),
     (''near_earth_objects'', \<lparr>t_cols =
        [required ''id'' (TString None), required ''name'' (TString None), nullable ''absolute_magnitude_h'' TFloat, nullable ''estimated_diameter_min_km'' TFloat, nullable ''estimated_diameter_max_km'' TFloat, required ''is_potentially_hazardous'' TBoolean, required ''is_sentry_object'' TBoolean, now_col ''created_at''],
      t_pk = [''id''], t_fks = [],
      t_indexes = [],
      t_hyper = None, t_retention = None\<rparr>),
     (''close_approaches'', \<lparr>t_cols =
        [required ''id'' TUuid, required ''neo_id'' (TString None), required ''close_approach_date'' TTimestamptz, required ''relative_velocity_kms'' TFloat, required ''miss_distance_au'' TFloat, required ''orbiting_body'' (TString None), now_col ''created_at''],
      t_pk = [''id''], t_fks = [\<lparr>fk_name = None, fk_cols = [''neo_id''], fk_table = ''near_earth_objects'', fk_refs = [''id''], fk_cascade = True\<rparr>],
      t_indexes = [\<lparr>i_name = ''ix_close_approaches_neo_id'', i_cols = [''neo_id''], i_unique = False\<rparr>,
        \<lparr>i_name = ''ix_close_approaches_date'', i_cols = [''close_approach_date''], i_unique = False\<rparr>,
        \<lparr>i_name = ''uq_close_approach_identity'', i_cols = [''neo_id'', ''close_approach_date'', ''orbiting_body''], i_unique = True\<rparr>],
      t_hyper = None, t_retention = None\<rparr>),
     (''space_weather_indices'', \<lparr>t_cols =
        [required ''id'' TUuid, required ''timestamp'' TTimestamptz, required ''kp_index'' TFloat, nullable ''ap_index'' TFloat, now_col ''created_at''],
      t_pk = [''id'', ''timestamp''], t_fks = [],
      t_indexes = [\<lparr>i_name = ''ix_space_weather_indices_timestamp'', i_cols = [''timestamp''], i_unique = False\<rparr>,
        \<lparr>i_name = ''uq_space_weather_indices_timestamp'', i_cols = [''timestamp''], i_unique = True\<rparr>],
      t_hyper = Some ''timestamp'', t_retention = None\<rparr>),
     (''solar_wind'', \<lparr>t_cols =
        [required ''id'' TUuid, required ''timestamp'' TTimestamptz, required ''speed_km_s'' TFloat, required ''density_cm3'' TFloat, required ''temperature_k'' TFloat, now_col ''created_at''],
      t_pk = [''id'', ''timestamp''], t_fks = [],
      t_indexes = [\<lparr>i_name = ''ix_solar_wind_timestamp'', i_cols = [''timestamp''], i_unique = False\<rparr>,
        \<lparr>i_name = ''uq_solar_wind_timestamp'', i_cols = [''timestamp''], i_unique = True\<rparr>],
      t_hyper = Some ''timestamp'', t_retention = None\<rparr>),
     (''reentry_events'', \<lparr>t_cols =
        [required ''id'' (TString None), required ''norad_id'' TInteger, required ''expected_reentry_time'' TTimestamptz, nullable ''latitude'' TFloat, nullable ''longitude'' TFloat, now_col ''created_at''],
      t_pk = [''id''], t_fks = [\<lparr>fk_name = None, fk_cols = [''norad_id''], fk_table = ''satellites'', fk_refs = [''norad_id''], fk_cascade = True\<rparr>],
      t_indexes = [\<lparr>i_name = ''ix_reentry_events_norad_id'', i_cols = [''norad_id''], i_unique = False\<rparr>],
      t_hyper = None, t_retention = None\<rparr>),
     (''eo_collections'', \<lparr>t_cols =
        [required ''id'' (TString None), required ''name'' (TString None), required ''provider'' (TString None), now_col ''created_at''],
      t_pk = [''id''], t_fks = [],
      t_indexes = [],
      t_hyper = None, t_retention = None\<rparr>),
     (''webhooks'', \<lparr>t_cols =
        [required ''id'' (TString None), required ''url'' (TString None), required ''events'' TText, nullable ''secret_hash'' (TString None), defaulted ''active'' TBoolean ''true'', now_col ''created_at'', now_col ''updated_at'', nullable ''secret_ciphertext'' TText, nullable ''owner_api_key_id'' (TString None)],
      t_pk = [''id''], t_fks = [\<lparr>fk_name = Some ''fk_webhooks_owner_api_key'', fk_cols = [''owner_api_key_id''], fk_table = ''api_keys'', fk_refs = [''id''], fk_cascade = True\<rparr>],
      t_indexes = [\<lparr>i_name = ''ix_webhooks_owner_api_key_id'', i_cols = [''owner_api_key_id''], i_unique = False\<rparr>],
      t_hyper = None, t_retention = None\<rparr>),
     (''webhook_deliveries'', \<lparr>t_cols =
        [required ''id'' TUuid, required ''webhook_id'' (TString None), required ''payload'' TText, nullable ''status_code'' TInteger, defaulted ''attempt'' TInteger ''1'', defaulted ''success'' TBoolean ''false'', now_col ''attempted_at''],
      t_pk = [''id''], t_fks = [\<lparr>fk_name = None, fk_cols = [''webhook_id''], fk_table = ''webhooks'', fk_refs = [''id''], fk_cascade = True\<rparr>],
      t_indexes = [\<lparr>i_name = ''ix_webhook_deliveries_webhook_id'', i_cols = [''webhook_id''], i_unique = False\<rparr>,
        \<lparr>i_name = ''ix_webhook_deliveries_attempted_at'', i_cols = [''attempted_at''], i_unique = False\<rparr>],
      t_hyper = None, t_retention = None\<rparr>),
     (''request_metrics'', \<lparr>t_cols =
        [required ''id'' TUuid, required ''timestamp'' TTimestamptz, required ''route'' (TString (Some 255)), required ''method'' (TString (Some 8)), required ''status_code'' TInteger, required ''duration_ms'' TFloat, required ''response_bytes'' TBigInteger, nullable ''api_key_id'' (TString None), nullable ''ip_fingerprint'' (TString (Some 64)), nullable ''cache_state'' (TString (Some 16)), nullable ''error_code'' (TString (Some 64))],
      t_pk = [''id'', ''timestamp''], t_fks = [],
      t_indexes = [\<lparr>i_name = ''ix_request_metrics_timestamp'', i_cols = [''timestamp''], i_unique = False\<rparr>,
        \<lparr>i_name = ''ix_request_metrics_route_timestamp'', i_cols = [''route'', ''timestamp''], i_unique = False\<rparr>,
        \<lparr>i_name = ''ix_request_metrics_api_key_timestamp'', i_cols = [''api_key_id'', ''timestamp''], i_unique = False\<rparr>],
      t_hyper = Some ''timestamp'', t_retention = Some ''30 days''\<rparr>),
     (''endpoint_metric_buckets'', \<lparr>t_cols =
        [required ''bucket'' TTimestamptz, required ''route'' (TString (Some 255)), required ''method'' (TString (Some 8)), required ''request_count'' TBigInteger, required ''server_error_count'' TBigInteger, required ''duration_sum_ms'' TFloat, required ''duration_max_ms'' TFloat, required ''response_bytes'' TBigInteger, required ''cache_hit_count'' TBigInteger],
      t_pk = [''bucket'', ''route'', ''method''], t_fks = [],
      t_indexes = [\<lparr>i_name = ''ix_endpoint_metric_buckets_route_bucket'', i_cols = [''route'', ''bucket''], i_unique = False\<rparr>],
      t_hyper = Some ''bucket'', t_retention = Some ''90 days''\<rparr>)]"

definition catalogue_head :: schema where
  "catalogue_head =
    [(''satellites'', \<lparr>t_cols =
        [required ''norad_id'' TInteger, nullable ''cospar_id'' (TString None), required ''name'' (TString None), nullable ''operator'' (TString None), nullable ''country'' (TString None), nullable ''object_type'' (TString None), nullable ''orbit_class'' (TString None), nullable ''status'' (TString None), now_col ''created_at'', now_col ''updated_at''],
      t_pk = [''norad_id''], t_fks = [],
      t_indexes = [\<lparr>i_name = ''ix_satellites_cospar_id'', i_cols = [''cospar_id''], i_unique = False\<rparr>],
      t_hyper = None, t_retention = None\<rparr>),
     (''orbital_elements'', \<lparr>t_cols =
        [required ''id'' TUuid, required ''norad_id'' TInteger, required ''epoch'' TTimestamptz, nullable ''inclination'' TFloat, nullable ''right_ascension'' TFloat, nullable ''eccentricity'' TFloat, nullable ''argument_of_perigee'' TFloat, nullable ''mean_anomaly'' TFloat, nullable ''mean_motion'' TFloat, required ''provider'' (TString None), now_col ''created_at'', nullable ''tle_line1'' (TString None), nullable ''tle_line2'' (TString None)],
      t_pk = [''id'', ''epoch''], t_fks = [\<lparr>fk_name = None, fk_cols = [''norad_id''], fk_table = ''satellites'', fk_refs = [''norad_id''], fk_cascade = False\<rparr>],
      t_indexes = [\<lparr>i_name = ''ix_orbital_elements_epoch'', i_cols = [''epoch''], i_unique = False\<rparr>,
        \<lparr>i_name = ''ix_orbital_elements_norad_id'', i_cols = [''norad_id''], i_unique = False\<rparr>,
        \<lparr>i_name = ''uq_orbital_elements_source_epoch'', i_cols = [''norad_id'', ''provider'', ''epoch''], i_unique = True\<rparr>,
        \<lparr>i_name = ''ix_orbital_elements_norad_epoch_desc'', i_cols = [''norad_id'', ''epoch DESC''], i_unique = False\<rparr>],
      t_hyper = Some ''epoch'', t_retention = Some ''45 days''\<rparr>),
     (''provider_health'', \<lparr>t_cols =
        [required ''id'' (TString None), required ''status'' (TString None), nullable ''last_success_at'' TTimestamptz, nullable ''last_error_at'' TTimestamptz, nullable ''error_message'' (TString None), now_col ''updated_at''],
      t_pk = [''id''], t_fks = [],
      t_indexes = [],
      t_hyper = None, t_retention = None\<rparr>),
     (''launches'', \<lparr>t_cols =
        [required ''id'' (TString None), required ''name'' (TString None), nullable ''status'' (TString None), nullable ''window_start'' TTimestamptz, nullable ''window_end'' TTimestamptz, nullable ''provider'' (TString None), now_col ''created_at'', now_col ''updated_at'', nullable ''operator'' (TString None), nullable ''vehicle'' (TString None), nullable ''pad'' (TString None), nullable ''location'' (TString None), nullable ''mission_description'' (TString None), nullable ''weather_summary'' (TString None), nullable ''info_url'' (TString None), nullable ''latitude'' TFloat, nullable ''longitude'' TFloat],
      t_pk = [''id''], t_fks = [],
      t_indexes = [\<lparr>i_name = ''ix_launches_window_start'', i_cols = [''window_start''], i_unique = False\<rparr>],
      t_hyper = None, t_retention = None\<rparr>),
     (''conjunction_events'', \<lparr>t_cols =
        [required ''id'' (TString None), required ''norad_id_1'' TInteger, required ''norad_id_2'' TInteger, required ''tca'' TTimestamptz, required ''miss_distance'' TFloat, nullable ''probability'' TFloat, now_col ''created_at''],
      t_pk = [''id''], t_fks = [\<lparr>fk_name = None, fk_cols = [''norad_id_1''], fk_table = ''satellites'', fk_refs = [''norad_id''], fk_cascade = True\<rparr>],
      t_indexes = [\<lparr>i_name = ''ix_conjunction_events_norad_id_1'', i_cols = [''norad_id_1''], i_unique = False\<rparr>,
        \<lparr>i_name = ''ix_conjunction_events_tca'', i_cols = [''tca''], i_unique = False\<rparr>],
      t_hyper = None, t_retention = None\<rparr>),
     (''satellite_decays'', \<lparr>t_cols =
        [required ''norad_id'' TInteger, required ''decay_date'' TTimestamptz, nullable ''confidence'' (TString None), now_col ''created_at'', now_col ''updated_at''],
      t_pk = [''norad_id''], t_fks = [\<lparr>fk_name = None, fk_cols = [''norad_id''], fk_table = ''satellites'', fk_refs = [''norad_id''], fk_cascade = True\<rparr>],
      t_indexes = [],
      t_hyper = None, t_retention = None\<rparr>),
     (''near_earth_objects'', \<lparr>t_cols =
        [required ''id'' (TString None), required ''name'' (TString None), nullable ''absolute_magnitude_h'' TFloat, nullable ''estimated_diameter_min_km'' TFloat, nullable ''estimated_diameter_max_km'' TFloat, required ''is_potentially_hazardous'' TBoolean, required ''is_sentry_object'' TBoolean, now_col ''created_at''],
      t_pk = [''id''], t_fks = [],
      t_indexes = [],
      t_hyper = None, t_retention = None\<rparr>),
     (''close_approaches'', \<lparr>t_cols =
        [required ''id'' TUuid, required ''neo_id'' (TString None), required ''close_approach_date'' TTimestamptz, required ''relative_velocity_kms'' TFloat, required ''miss_distance_au'' TFloat, required ''orbiting_body'' (TString None), now_col ''created_at''],
      t_pk = [''id''], t_fks = [\<lparr>fk_name = None, fk_cols = [''neo_id''], fk_table = ''near_earth_objects'', fk_refs = [''id''], fk_cascade = True\<rparr>],
      t_indexes = [\<lparr>i_name = ''ix_close_approaches_neo_id'', i_cols = [''neo_id''], i_unique = False\<rparr>,
        \<lparr>i_name = ''ix_close_approaches_date'', i_cols = [''close_approach_date''], i_unique = False\<rparr>,
        \<lparr>i_name = ''uq_close_approach_identity'', i_cols = [''neo_id'', ''close_approach_date'', ''orbiting_body''], i_unique = True\<rparr>],
      t_hyper = None, t_retention = None\<rparr>),
     (''space_weather_indices'', \<lparr>t_cols =
        [required ''id'' TUuid, required ''timestamp'' TTimestamptz, required ''kp_index'' TFloat, nullable ''ap_index'' TFloat, now_col ''created_at''],
      t_pk = [''id'', ''timestamp''], t_fks = [],
      t_indexes = [\<lparr>i_name = ''ix_space_weather_indices_timestamp'', i_cols = [''timestamp''], i_unique = False\<rparr>,
        \<lparr>i_name = ''uq_space_weather_indices_timestamp'', i_cols = [''timestamp''], i_unique = True\<rparr>],
      t_hyper = Some ''timestamp'', t_retention = Some ''120 days''\<rparr>),
     (''solar_wind'', \<lparr>t_cols =
        [required ''id'' TUuid, required ''timestamp'' TTimestamptz, required ''speed_km_s'' TFloat, required ''density_cm3'' TFloat, required ''temperature_k'' TFloat, now_col ''created_at''],
      t_pk = [''id'', ''timestamp''], t_fks = [],
      t_indexes = [\<lparr>i_name = ''ix_solar_wind_timestamp'', i_cols = [''timestamp''], i_unique = False\<rparr>,
        \<lparr>i_name = ''uq_solar_wind_timestamp'', i_cols = [''timestamp''], i_unique = True\<rparr>],
      t_hyper = Some ''timestamp'', t_retention = Some ''120 days''\<rparr>),
     (''reentry_events'', \<lparr>t_cols =
        [required ''id'' (TString None), required ''norad_id'' TInteger, required ''expected_reentry_time'' TTimestamptz, nullable ''latitude'' TFloat, nullable ''longitude'' TFloat, now_col ''created_at''],
      t_pk = [''id''], t_fks = [\<lparr>fk_name = None, fk_cols = [''norad_id''], fk_table = ''satellites'', fk_refs = [''norad_id''], fk_cascade = True\<rparr>],
      t_indexes = [\<lparr>i_name = ''ix_reentry_events_norad_id'', i_cols = [''norad_id''], i_unique = False\<rparr>],
      t_hyper = None, t_retention = None\<rparr>),
     (''eo_collections'', \<lparr>t_cols =
        [required ''id'' (TString None), required ''name'' (TString None), required ''provider'' (TString None), now_col ''created_at''],
      t_pk = [''id''], t_fks = [],
      t_indexes = [],
      t_hyper = None, t_retention = None\<rparr>),
     (''webhooks'', \<lparr>t_cols =
        [required ''id'' (TString None), required ''url'' (TString None), required ''events'' TText, nullable ''secret_hash'' (TString None), defaulted ''active'' TBoolean ''true'', now_col ''created_at'', now_col ''updated_at'', nullable ''secret_ciphertext'' TText, nullable ''owner_ip_fingerprint'' (TString (Some 64))],
      t_pk = [''id''], t_fks = [],
      t_indexes = [\<lparr>i_name = ''ix_webhooks_owner_ip_fingerprint'', i_cols = [''owner_ip_fingerprint''], i_unique = False\<rparr>],
      t_hyper = None, t_retention = None\<rparr>),
     (''webhook_deliveries'', \<lparr>t_cols =
        [required ''id'' TUuid, required ''webhook_id'' (TString None), required ''payload'' TText, nullable ''status_code'' TInteger, defaulted ''attempt'' TInteger ''1'', defaulted ''success'' TBoolean ''false'', now_col ''attempted_at''],
      t_pk = [''id''], t_fks = [\<lparr>fk_name = None, fk_cols = [''webhook_id''], fk_table = ''webhooks'', fk_refs = [''id''], fk_cascade = True\<rparr>],
      t_indexes = [\<lparr>i_name = ''ix_webhook_deliveries_webhook_id'', i_cols = [''webhook_id''], i_unique = False\<rparr>,
        \<lparr>i_name = ''ix_webhook_deliveries_attempted_at'', i_cols = [''attempted_at''], i_unique = False\<rparr>],
      t_hyper = None, t_retention = None\<rparr>),
     (''endpoint_metric_buckets'', \<lparr>t_cols =
        [required ''bucket'' TTimestamptz, required ''route'' (TString (Some 255)), required ''method'' (TString (Some 8)), required ''request_count'' TBigInteger, required ''server_error_count'' TBigInteger, required ''duration_sum_ms'' TFloat, required ''duration_max_ms'' TFloat, required ''response_bytes'' TBigInteger, required ''cache_hit_count'' TBigInteger],
      t_pk = [''bucket'', ''route'', ''method''], t_fks = [],
      t_indexes = [\<lparr>i_name = ''ix_endpoint_metric_buckets_route_bucket'', i_cols = [''route'', ''bucket''], i_unique = False\<rparr>],
      t_hyper = Some ''bucket'', t_retention = Some ''90 days''\<rparr>)]"

lemma migrate_append: "migrate (xs @ ys) sd = (case migrate xs sd of None \<Rightarrow> None | Some sd' \<Rightarrow> migrate ys sd')"
  by (induction xs sd rule: migrate.induct) (auto split: option.splits)

fun changes :: "ddl list \<Rightarrow> db \<Rightarrow> db option" where
  "changes [] d = Some d"
| "changes (x # xs) d = (case change x d of None \<Rightarrow> None | Some d' \<Rightarrow> changes xs d')"

lemma migrate_changes: "migrate xs (s, d) = Some (s', d') \<Longrightarrow> changes xs d = Some d'"
  by (induction xs arbitrary: s d) (auto split: option.splits)

lemma changes_append: "changes (xs @ ys) d = (case changes xs d of None \<Rightarrow> None | Some d' \<Rightarrow> changes ys d')"
  by (induction xs arbitrary: d) (auto split: option.splits)

lemma migrate_parts:
  assumes "map_option fst (migrate xs (s, d)) = Some s'" "changes xs d = Some d'"
  shows "migrate xs (s, d) = Some (s', d')"
  using assms migrate_changes by (fastforce split: option.splits)

lemma insert_seeds:
  "insert_rows [''id''] None (map (provider_row now) SEEDED_PROVIDERS) [] = Some (map (provider_row now) SEEDED_PROVIDERS)"
  by (simp add: insert_rows_def SEEDED_PROVIDERS_def same_key_def key_of_def provider_row_def row_of_def)

lemma changes_0002: "changes (upgrade_0001 @ upgrade_0002 now) (\<lambda>_. []) = Some (seeded now)"
  by (simp add: upgrade_0001_def upgrade_0002_def operations_tables_def observation_tables_def insert_seeds seeded_def)

lemma changes_0007:
  "changes (upgrade_0003 @ upgrade_0004 @ upgrade_0005 @ upgrade_0006 @ upgrade_0007) (seeded now) = Some (seeded now)"
  by (simp add: upgrade_0003_def upgrade_0004_def upgrade_0005_def upgrade_0006_def upgrade_0007_def seeded_def
      fun_upd_idem)

lemma upto_0002: "map_option fst (migrate (upgrade_0001 @ upgrade_0002 now) ([], \<lambda>_. [])) = Some catalogue_0002"
  by code_simp

text \<open>Operations that neither read nor write the rows of other tables than \<open>p\<close> because of the rows of \<open>p\<close>.\<close>

fun blind :: "string \<Rightarrow> ddl \<Rightarrow> bool" where
  "blind p (AddColumn n c) = (n \<noteq> p)"
| "blind p (CreateIndex i n cols u) = (n \<noteq> p)"
| "blind p (CreateHypertable n c b) = (n \<noteq> p)"
| "blind p (Execute (Delete n q)) = (n = p)"
| "blind p (Execute st) = False"
| "blind p x = True"

lemma migrate_blind:
  assumes "list_all (blind p) xs" "\<And>n. n \<noteq> p \<Longrightarrow> d n = d' n"
  shows "map_option fst (migrate xs (s, d)) = map_option fst (migrate xs (s, d'))"
  using assms
proof (induction xs arbitrary: s d d')
  case (Cons x xs)
  have a: "alter d x s = alter d' x s"
    using Cons.prems by (cases x) (auto simp: with_table_def cong: option.case_cong if_cong)
  obtain e e' where e: "change x d = Some e" "change x d' = Some e'" "\<And>n. n \<noteq> p \<Longrightarrow> e n = e' n"
    using Cons.prems by (cases "(p, x)" rule: blind.cases) auto
  show ?case
  proof (cases "alter d' x s")
    case (Some s')
    with a e Cons.IH [of e e' s'] Cons.prems(1) show ?thesis by simp
  qed (simp add: a)
qed simp

lemma upto_0007:
  "map_option fst (migrate (upgrade_0003 @ upgrade_0004 @ upgrade_0005 @ upgrade_0006 @ upgrade_0007)
     (catalogue_0002, \<lambda>_. [])) = Some catalogue_0007"
  by code_simp

lemma upto_head:
  "map_option fst (migrate (upgrade_0008 @ upgrade_0009 @ upgrade_0010) (catalogue_0007, \<lambda>_. [])) = Some catalogue_head"
  by code_simp

lemma seeded_0007:
  "map_option fst (migrate (upgrade_0003 @ upgrade_0004 @ upgrade_0005 @ upgrade_0006 @ upgrade_0007)
     (catalogue_0002, seeded now)) = Some catalogue_0007"
  using upto_0007
  by (subst migrate_blind [where p = "''provider_health''" and d' = "\<lambda>_. []"])
     (simp_all add: upgrade_0003_def upgrade_0004_def upgrade_0005_def upgrade_0006_def upgrade_0007_def seeded_def
        del: migrate.simps)

lemma seeded_head:
  "map_option fst (migrate (upgrade_0008 @ upgrade_0009 @ upgrade_0010) (catalogue_0007, seeded now)) = Some catalogue_head"
  using upto_head
  by (subst migrate_blind [where p = "''provider_health''" and d' = "\<lambda>_. []"])
     (simp_all add: upgrade_0008_def upgrade_0009_def upgrade_0010_def LAUNCH_TEXT_COLUMNS_def RETENTION_def seeded_def
        del: migrate.simps)

lemma migrate_head: "\<exists>d. migrate (concat (map rev_upgrade (revisions now))) ([], \<lambda>_. []) = Some (catalogue_head, d)"
proof -
  have "concat (map rev_upgrade (revisions now)) = (upgrade_0001 @ upgrade_0002 now)
      @ (upgrade_0003 @ upgrade_0004 @ upgrade_0005 @ upgrade_0006 @ upgrade_0007)
      @ (upgrade_0008 @ upgrade_0009 @ upgrade_0010)"
    by (simp add: revisions_def)
  moreover obtain d where "migrate (upgrade_0008 @ upgrade_0009 @ upgrade_0010) (catalogue_0007, seeded now) = Some (catalogue_head, d)"
    using seeded_head [of now] by (auto simp del: migrate.simps)
  ultimately show ?thesis
    by (simp only: migrate_append [of "upgrade_0001 @ upgrade_0002 now"]
        migrate_append [of "upgrade_0003 @ upgrade_0004 @ upgrade_0005 @ upgrade_0006 @ upgrade_0007"]
        migrate_parts [OF upto_0002 changes_0002] migrate_parts [OF seeded_0007 changes_0007] option.case) blast
qed

lemma compare_first: "tally (compare (take 8 models) catalogue_head) = (True, [(''conjunction_events'', ''norad_id_2'')])"
  by code_simp

lemma compare_rest: "tally (compare (drop 8 models) catalogue_head) = (True, [])"
  by code_simp

lemma head_tables: "same_members (map fst catalogue_head) (map m_table models)"
  by code_simp



text \<open>After all migrations the metric buckets are kept for 90 days: the later policy of 30 days is not applied.\<close>

lemma metric_retention:
  "\<exists>d t. migrate (concat (map rev_upgrade (revisions now))) ([], \<lambda>_. []) = Some (catalogue_head, d)
     \<and> map_of catalogue_head ''endpoint_metric_buckets'' = Some t \<and> t_retention t = Some ''90 days''"
  using migrate_head [of now] by (auto simp: catalogue_head_def)

section \<open>Removing duplicates\<close>

lemma delete_older_subset: "set (delete_older key rows) \<subseteq> set rows"
  by (induction rows) auto

lemma delete_older_keys:
  "CNull \<notin> set k \<Longrightarrow> k \<in> key_of key ` set (delete_older key rows) \<longleftrightarrow> k \<in> key_of key ` set rows"
  by (induction rows) (auto simp: list_ex_iff same_key_def)

lemma delete_older_no_conflict: "no_conflict key (delete_older key rows)"
  by (induction rows) (use delete_older_subset in \<open>auto simp: list_ex_iff\<close>)

lemma delete_older_keyed:
  assumes "\<forall>r\<in>set rows. CNull \<notin> set (key_of key r)"
  shows "keyed key (delete_older key rows)
    \<and> by_key key (delete_older key rows) = map_of (rev (map (\<lambda>r. (key_of key r, r)) rows))"
  using assms
proof (induction rows)
  case Nil
  then show ?case by (simp add: keyed_def)
next
  case (Cons r rows)
  then have ih: "keyed key (delete_older key rows)"
    "by_key key (delete_older key rows) = map_of (rev (map (\<lambda>r. (key_of key r, r)) rows))"
    and n: "CNull \<notin> set (key_of key r)" by auto
  have dom: "key_of key r \<in> key_of key ` set rows \<longleftrightarrow> list_ex (same_key key r) rows"
    using n by (auto simp: list_ex_iff same_key_def)
  have m: "map_of (rev (map (\<lambda>r. (key_of key r, r)) rows)) k = None \<longleftrightarrow> k \<notin> key_of key ` set rows" for k
    by (auto simp: map_of_eq_None_iff image_image)
  have "map_of (rev (map (\<lambda>r. (key_of key r, r)) (r # rows))) k
      = (if k \<notin> key_of key ` set rows \<and> k = key_of key r then Some r
         else map_of (rev (map (\<lambda>r. (key_of key r, r)) rows)) k)" for k
    using m [of k] by (auto simp: map_add_def split: option.splits)
  then show ?case
    using ih n dom delete_older_keys [OF n, of key rows] m
    by (auto simp: keyed_def fun_eq_iff image_iff)
qed

end
