(* ===== verification/Api.thy ===== *)
theory Api
  imports Queue Cache_Layer Capabilities
begin

text \<open>
  What the request handlers share: the response models (\<open>src/api/models.py\<close>), the meta part of every
  response (\<open>src/api/utils.py\<close>) and the services a handler uses. A handler is a computation over
  those services that ends with the value it returns, the result of \<open>model_dump\<close>, or with an exception.
\<close>

section \<open>Columns as Python values\<close>

text \<open>\<open>str\<close> of a UUID: 32 hexadecimal digits in five groups.\<close>

definition hex_digits :: "nat \<Rightarrow> nat \<Rightarrow> string" where
  "hex_digits w n = map (\<lambda>i. hex_digit (n div 16 ^ i mod 16)) (rev [0..<w])"

definition uuid_str :: "nat \<Rightarrow> string" where
  "uuid_str n = (let h = hex_digits 32 n in
     take 8 h @ ''-'' @ take 4 (drop 8 h) @ ''-'' @ take 4 (drop 12 h) @ ''-'' @ take 4 (drop 16 h) @ ''-'' @ drop 20 h)"

text \<open>A value of a column; a \<open>datetime\<close> or a \<open>UUID\<close> is an object with its \<open>str\<close>.\<close>

fun cell_value :: "cell \<Rightarrow> pyval" where
  "cell_value CNull = PNone"
| "cell_value (CBool b) = PBool b"
| "cell_value (CInt i) = PInt i"
| "cell_value (CNum x) = PFloat (repr_float x)"
| "cell_value (CText s) = PStr s"
| "cell_value (CTime t) = PObject (datetime_str t)"
| "cell_value (CUuid u) = PObject (uuid_str u)"

definition columns_of :: "string list \<Rightarrow> row \<Rightarrow> pyval" where
  "columns_of cs r = PDict (map (\<lambda>c. (c, cell_value (r c))) cs)"

section \<open>Services\<close>

text \<open>
  \<open>app_cached\<close> is \<open>cached\<close> of the cache layer with its clock, token and the number of running tasks
  fixed; \<open>app_now\<close> is the clock of the request.
\<close>

type_synonym 's cache_call = "string \<Rightarrow> ('s, pyval) io \<Rightarrow> int \<Rightarrow> int \<Rightarrow> ('s, pyval \<times> string \<times> int) io"

record 's app =
  app_settings :: settings
  app_db :: "'s engine"
  app_cached :: "'s cache_call"
  app_now :: datetime

text \<open>The cache layer in that place: the value is computed in no time, the refresh task is not followed.\<close>

definition cache_service ::
  "'s valkey \<Rightarrow> settings \<Rightarrow> nat \<Rightarrow> (nat \<Rightarrow> nat) \<Rightarrow> (nat \<Rightarrow> 's \<Rightarrow> 's) \<Rightarrow> nat \<Rightarrow> string \<Rightarrow> 's cache_call" where
  "cache_service V cfg t clock env n_tasks token cache_key compute ttl stale s =
     (case cached V cfg t clock env n_tasks token (\<lambda>s. case compute s of (r, s') \<Rightarrow> ((0, r), s')) cache_key ttl stale s of
        Some ((r, _), s') \<Rightarrow> (r, s')
      | None \<Rightarrow> (Inl CacheBusyError, s))"

section \<open>Response models\<close>

record freshness_meta =
  state :: string
  age_seconds :: int
  target_ttl_seconds :: int
  max_stale_seconds :: int

record provider_coverage_meta =
  configured_provider_count :: nat
  healthy_provider_count :: nat
  independent_provider_count :: nat
  resilience :: string

record response_meta =
  resource :: string
  requested_at :: datetime
  last_updated_at :: datetime
  freshness :: freshness_meta
  provider_coverage :: provider_coverage_meta
  sources :: "string list"
  partial :: bool
  warnings :: "string list"

definition dump_freshness :: "freshness_meta \<Rightarrow> pyval" where
  "dump_freshness f = PDict [(''state'', PStr (state f)), (''age_seconds'', PInt (age_seconds f)),
     (''target_ttl_seconds'', PInt (target_ttl_seconds f)), (''max_stale_seconds'', PInt (max_stale_seconds f))]"

definition dump_coverage :: "provider_coverage_meta \<Rightarrow> pyval" where
  "dump_coverage c = PDict [(''configured_provider_count'', PInt (int (configured_provider_count c))),
     (''healthy_provider_count'', PInt (int (healthy_provider_count c))),
     (''independent_provider_count'', PInt (int (independent_provider_count c))), (''resilience'', PStr (resilience c))]"

definition dump_meta :: "response_meta \<Rightarrow> pyval" where
  "dump_meta m = PDict [(''resource'', PStr (resource m)), (''canonical_schema_version'', PStr ''v1''),
     (''requested_at'', PObject (datetime_str (requested_at m))),
     (''last_updated_at'', PObject (datetime_str (last_updated_at m))),
     (''freshness'', dump_freshness (freshness m)), (''provider_coverage'', dump_coverage (provider_coverage m)),
     (''sources'', PList (map PStr (sources m))), (''partial'', PBool (partial m)),
     (''warnings'', PList (map PStr (warnings m)))]"

text \<open>\<open>APIResponse(data=data, meta=meta).model_dump()\<close>\<close>

definition api_response :: "pyval \<Rightarrow> response_meta \<Rightarrow> pyval" where
  "api_response data m = PDict [(''data'', data), (''meta'', dump_meta m)]"

section \<open>\<open>build_meta\<close>\<close>

fun iso_or_none :: "cell \<Rightarrow> pyval" where
  "iso_or_none (CTime t) = PStr (isoformat t)"
| "iso_or_none c = PNone"

fun text_of :: "cell \<Rightarrow> string" where
  "text_of (CText s) = s"
| "text_of c = []"

definition health_entry :: "row \<Rightarrow> string \<times> pyval" where
  "health_entry r = (text_of (r ''id''), PDict [(''status'', cell_value (r ''status'')),
     (''last_success_at'', iso_or_none (r ''last_success_at''))])"

definition load_health :: "'s engine \<Rightarrow> string list \<Rightarrow> ('s, pyval) io" where
  "load_health E srcs = bindc (eng_select E (select_from ''provider_health'' (\<lambda>r. r ''id'' \<in> CText ` set srcs)))
     (\<lambda>rows. ret (PDict (index_by (map health_entry rows))))"

text \<open>\<open>health_map.get(source, {}).get("status") == "active"\<close>\<close>

definition is_active :: "pyval \<Rightarrow> string \<Rightarrow> exn + bool" where
  "is_active health src = bindr (get_or health src (PDict [])) (\<lambda>h. bindr (vget h ''status'') (\<lambda>st.
     Inr (st = PStr ''active'')))"

definition last_success :: "pyval \<Rightarrow> exn + datetime option" where
  "last_success h = bindr (vget h ''last_success_at'') (\<lambda>v.
     if \<not> truth v then Inr None
     else (case fromisoformat (py_str v) of
         None \<Rightarrow> Inl (ValueError ''Invalid isoformat string'') | Some p \<Rightarrow> Inr (Some (as_utc p))))"

definition resilience_of :: "nat \<Rightarrow> nat \<Rightarrow> string" where
  "resilience_of configured healthy =
     (if 2 \<le> configured \<and> 2 \<le> healthy then ''high''
      else if 2 \<le> configured \<and> healthy = 1 then ''medium'' else ''limited'')"

definition sources_of :: "settings \<Rightarrow> string list \<Rightarrow> string list" where
  "sources_of cfg srcs = filter (\<lambda>p. p \<in> set (configured_providers cfg)) srcs"

definition inactive :: "pyval \<Rightarrow> string list \<Rightarrow> exn + string list" where
  "inactive health srcs = collect (\<lambda>p. bindr (is_active health p) (\<lambda>a. Inr (if a then None else Some p))) srcs"

definition meta_of :: "settings \<Rightarrow> datetime \<Rightarrow> string \<Rightarrow> string list \<Rightarrow> int \<Rightarrow> int \<Rightarrow> pyval \<Rightarrow> exn + response_meta" where
  "meta_of cfg now res srcs ttl max_stale health =
     (let configured_sources = sources_of cfg srcs; configured = length configured_sources
      in bindr (inactive health configured_sources) (\<lambda>bad.
         bindr (bindr (values_of health) (collect last_success)) (\<lambda>successes.
         let healthy = configured - length bad
         in Inr \<lparr>resource = res, requested_at = now,
              last_updated_at = (if successes = [] then now else Max (set successes)),
              freshness = \<lparr>state = ''fresh'', age_seconds = 0, target_ttl_seconds = ttl, max_stale_seconds = max_stale\<rparr>,
              provider_coverage = \<lparr>configured_provider_count = configured, healthy_provider_count = healthy,
                independent_provider_count = configured, resilience = resilience_of configured healthy\<rparr>,
              sources = configured_sources, partial = healthy < configured,
              warnings = map (\<lambda>p. ''Provider '' @ [CHR 0x27] @ p @ [CHR 0x27] @ '' is not active'') bad\<rparr>)))"

definition health_key :: "string list \<Rightarrow> string" where
  "health_key configured_sources = ''provider-health:'' @ join_with '','' (sort configured_sources)"

definition build_meta :: "'s app \<Rightarrow> string \<Rightarrow> string list \<Rightarrow> int \<Rightarrow> int \<Rightarrow> ('s, response_meta) io" where
  "build_meta A res srcs ttl max_stale =
     (let configured_sources = sources_of (app_settings A) srcs
      in bindc (app_cached A (health_key configured_sources) (load_health (app_db A) configured_sources) 30 300)
           (\<lambda>(health_map, _, _). pure (meta_of (app_settings A) (app_now A) res srcs ttl max_stale health_map)))"

text \<open>The last line of most handlers, with the default ages.\<close>

definition respond :: "'s app \<Rightarrow> string \<Rightarrow> string list \<Rightarrow> pyval \<Rightarrow> ('s, pyval) io" where
  "respond A res srcs data = bindc (build_meta A res srcs 3600 86400) (\<lambda>m. ret (api_response data m))"

text \<open>Reading one row.\<close>

fun scalar_one_or_none :: "row list \<Rightarrow> exn + row option" where
  "scalar_one_or_none [] = Inr None"
| "scalar_one_or_none [r] = Inr (Some r)"
| "scalar_one_or_none rows = Inl (OtherError ''MultipleResultsFound'')"

lemma scalar_one: "scalar_one_or_none rows = Inr (Some r) \<longleftrightarrow> rows = [r]"
  by (cases rows rule: scalar_one_or_none.cases) auto

section \<open>Handlers leave the database alone unless they write\<close>

locale handlers = database "app_db A" view for A :: "'s app" and view :: "'s \<Rightarrow> db" +
  assumes cached_keeps: "keeps view f \<Longrightarrow> keeps view (app_cached A k f ttl stale)"
begin

lemma select_keeps [intro, simp]: "keeps view (eng_select (app_db A) q)"
  unfolding keeps_def using select_quiet by blast

lemma load_health_keeps: "keeps view (load_health (app_db A) srcs)"
  unfolding load_health_def by (rule keeps_bindc) simp_all

lemma build_meta_keeps: "keeps view (build_meta A res srcs ttl max_stale)"
  unfolding build_meta_def Let_def by (rule keeps_bindc) (auto intro: cached_keeps load_health_keeps)

lemma respond_keeps [intro, simp]: "keeps view (respond A res srcs data)"
  unfolding respond_def by (rule keeps_bindc) (simp_all add: build_meta_keeps)

end

text \<open>The cache layer over a Valkey that shares no state with the database.\<close>

definition valkey_keeps :: "'s valkey \<Rightarrow> ('s \<Rightarrow> 'v) \<Rightarrow> bool" where
  "valkey_keeps V view \<longleftrightarrow> (\<forall>t k. keeps view (vk_get V t k)) \<and> (\<forall>t k v ex nx. keeps view (vk_set V t k v ex nx))
     \<and> (\<forall>t ks. keeps view (vk_delete V t ks)) \<and> (\<forall>t k. keeps view (vk_exists V t k)) \<and> (\<forall>t k. keeps view (vk_incr V t k))
     \<and> (\<forall>t k n. keeps view (vk_expire V t k n)) \<and> (\<forall>t k. keeps view (vk_ttl V t k))
     \<and> (\<forall>t k f. keeps view (vk_hget V t k f)) \<and> (\<forall>t k kvs. keeps view (vk_hset V t k kvs))"

lemma valkey_keepsD:
  assumes "valkey_keeps V view"
  shows "keeps view (vk_get V t k)" "keeps view (vk_set V t k v ex nx)" "keeps view (vk_delete V t ks)"
    "keeps view (vk_exists V t k)" "keeps view (vk_incr V t k)" "keeps view (vk_expire V t k n)"
    "keeps view (vk_ttl V t k)" "keeps view (vk_hget V t k f)" "keeps view (vk_hset V t k kvs)"
  using assms by (simp_all add: valkey_keeps_def)

lemma scripts_keep:
  assumes "valkey_keeps V view"
  shows "keeps view (read_lua V t lk dk ttl stale now token)" "keeps view (unlock_lua V t lk token)"
    "keeps view (store_lua V t dk lk token v now n)"
  unfolding read_lua_def unlock_lua_def store_lua_def take_lock_def Let_def
  by (auto intro!: keeps_bindc valkey_keepsD [OF assms] split: option.splits)

lemma compute_and_store_keeps:
  assumes "valkey_keeps V view" "\<And>s r s'. compute s = (r, s') \<Longrightarrow> view s' = view s"
  shows "keeps view (compute_and_store V cfg t compute dk lk token stale)"
  unfolding keeps_def
proof (intro allI impI)
  fix s r s' assume run: "compute_and_store V cfg t compute dk lk token stale s = (r, s')"
  obtain dur out s1 where c: "compute s = ((dur, out), s1)" by (metis prod.collapse)
  have "keeps view (catchc (case wait_for (cache_compute_timeout_seconds cfg) dur out of Inl e \<Rightarrow> throw e
      | Inr v \<Rightarrow> store_value V cfg t' dk lk token stale v) (\<lambda>e. bindc (unlock_lua V t' lk token) (\<lambda>_. throw e)))" for t'
    using scripts_keep [OF assms(1)]
    by (intro keeps_catchc) (auto simp: store_value_def Let_def intro!: keeps_bindc split: sum.splits)
  from keepsD [OF this] run c have "view s' = view s1" by (auto simp: compute_and_store_def Let_def)
  with assms(2) [OF c] show "view s' = view s" by simp
qed

lemma wait_fill_keeps:
  assumes "valkey_keeps V view" "\<And>i s. view (env i s) = view s" "wait_fill V clock env dk until i s = Some p"
  shows "view (snd p) = view s"
proof -
  let ?P = "\<lambda>V clock env dk until i s p. valkey_keeps V view \<longrightarrow> (\<forall>i s. view (env i s) = view s) \<longrightarrow> view (snd p) = view s"
  have "?P V clock env dk until i s p"
  proof (rule wait_fill.raw_induct [where P = ?P, OF _ assms(3)], intro impI)
    fix wf :: "'a valkey \<Rightarrow> _" and V clock env dk until i s p
    assume ih: "\<And>V clock env dk until i s p. wf V clock env dk until i s = Some p \<Longrightarrow> ?P V clock env dk until i s p"
      and run: "(if rat_of_nat (clock i) < until then case vk_hget V (clock i + 25) dk ''v'' (env i s) of
           (Inl e, s') \<Rightarrow> Some (Inl e, s')
         | (Inr None, s') \<Rightarrow> wf V clock env dk until (Suc i) s'
         | (Inr (Some raw), s') \<Rightarrow> (case loads raw of None \<Rightarrow> Some (Inl json_error, s') | Some value \<Rightarrow> Some (Inr (value, ''fresh'', 0), s'))
        else Some (Inl CacheBusyError, s)) = Some p"
      and V: "valkey_keeps V view" and env: "\<forall>i s. view (env i s) = view s"
    obtain r s1 where g: "vk_hget V (clock i + 25) dk ''v'' (env i s) = (r, s1)" by (metis prod.collapse)
    have s1: "view s1 = view s" using keepsD [OF valkey_keepsD(8) [OF V] g] env by simp
    from run g s1 ih [of V clock env dk until "Suc i" s1 p] V env show "view (snd p) = view s"
      by (auto split: if_splits sum.splits option.splits)
  qed
  with assms show ?thesis by blast
qed

lemma cache_service_keeps:
  assumes "valkey_keeps V view" "\<And>i s. view (env i s) = view s" "keeps view f"
  shows "keeps view (cache_service V cfg t clock env n_tasks token cache_key f ttl stale)"
  unfolding keeps_def
proof (intro allI impI)
  fix s r s' assume run: "cache_service V cfg t clock env n_tasks token cache_key f ttl stale s = (r, s')"
  let ?f = "\<lambda>s. case f s of (r, s') \<Rightarrow> ((0, r), s')" and ?dk = "data_key_of cache_key" and ?lk = "lock_key_of cache_key"
  obtain x s1 where read: "read_lua V t ?lk ?dk ttl stale (int (t div 1000)) token s = (x, s1)" by (metis prod.collapse)
  have s1: "view s1 = view s" by (rule keepsD [OF scripts_keep(1) [OF assms(1)] read])
  have compute: "view s2 = view s1" if "compute_and_store V cfg t ?f ?dk ?lk token n s1 = (y, s2)" for y s2 n
    by (rule keepsD [OF compute_and_store_keeps [OF assms(1)] that]) (auto dest: keepsD [OF assms(3)] split: prod.splits)
  have wait: "view s2 = view s1" if "wait_fill V clock env ?dk u 0 s1 = Some (y, s2)" for u y s2
    using wait_fill_keeps [OF assms(1,2) that] by simp
  from run read s1 compute wait show "view s' = view s"
    by (auto simp: cache_service_def cached_def Let_def split: if_splits option.splits prod.splits sum.splits)
qed

section \<open>The documented site\<close>

record site =
  s_kv :: kv
  s_db :: db

definition on_kv :: "(kv, 'a) io \<Rightarrow> (site, 'a) io" where
  "on_kv m = (\<lambda>s. case m (s_kv s) of (r, k) \<Rightarrow> (r, s\<lparr>s_kv := k\<rparr>))"

definition site_valkey :: "site valkey" where
  "site_valkey = \<lparr>vk_get = \<lambda>t k. on_kv (doc_get t k), vk_set = \<lambda>t k v ex nx. on_kv (doc_set t k v ex nx),
     vk_delete = \<lambda>t ks. on_kv (doc_delete t ks), vk_exists = \<lambda>t k. on_kv (doc_exists t k),
     vk_incr = \<lambda>t k. on_kv (doc_incr t k), vk_expire = \<lambda>t k n. on_kv (doc_expire t k n),
     vk_ttl = \<lambda>t k. on_kv (doc_ttl t k), vk_hget = \<lambda>t k f. on_kv (doc_hget t k f),
     vk_hset = \<lambda>t k kvs. on_kv (doc_hset t k kvs)\<rparr>"

definition site_engine :: "site engine" where
  "site_engine = \<lparr>eng_tx = \<lambda>ss s. case doc_tx ss (s_db s) of (r, d) \<Rightarrow> (r, s\<lparr>s_db := d\<rparr>),
     eng_select = \<lambda>q s. (fst (doc_select q (s_db s)), s)\<rparr>"

definition site_app :: "settings \<Rightarrow> nat \<Rightarrow> site app" where
  "site_app cfg t = \<lparr>app_settings = cfg, app_db = site_engine,
     app_cached = cache_service site_valkey cfg t (\<lambda>i. t + 25 * i) (\<lambda>_ s. s) 0 ''token'', app_now = 1000 * int t\<rparr>"

lemma on_kv_keeps [simp]: "keeps s_db (on_kv m)"
  by (auto simp: keeps_def on_kv_def split: prod.splits)

lemma site_keeps: "valkey_keeps site_valkey s_db"
  by (simp add: valkey_keeps_def site_valkey_def)

interpretation site_db: database_up site_engine s_db
proof unfold_locales
  fix q :: query and s s' :: site and rows
  assume "eng_select site_engine q s = (Inr rows, s')"
  then show "answers q (s_db s) rows"
    using doc_db.select_answers [of q "s_db s" rows "s_db s"]
    by (auto simp: site_engine_def doc_engine_def doc_select_def)
qed (auto simp: site_engine_def doc_tx_def doc_select_def split: option.splits)

interpretation site: handlers "site_app cfg t" s_db for cfg t
proof unfold_locales
  fix f :: "(site, pyval) io" and k ttl stale
  assume "keeps s_db f"
  then show "keeps s_db (app_cached (site_app cfg t) k f ttl stale)"
    by (simp add: site_app_def cache_service_keeps [OF site_keeps])
qed (use site_db.tx_done site_db.tx_failed site_db.select_answers site_db.select_quiet in \<open>auto simp: site_app_def\<close>)

end
