(* ===== verification/Webhooks.thy ===== *)
theory Webhooks
  imports Api Security
begin

text \<open>
  The webhook endpoints (\<open>src/api/routers/webhooks.py\<close>) and the encryption of their secrets
  (\<open>src/core/webhook_secrets.py\<close>). Fernet, SHA-256 and Base64 are parameters, as are the URL check
  (\<open>Security.validate_webhook_url\<close> with its parser and resolver) and the random identifiers and tokens.

  The theorems say that a client sees and changes its own webhooks only, that a request is carried out
  once for an idempotency key, and that a failed commit gives the key back.
\<close>

section \<open>Secrets\<close>

text \<open>\<open>fernet_decrypt\<close> answers \<open>None\<close> for \<open>InvalidToken\<close>; a token also depends on time and randomness.\<close>

record crypto =
  sha256 :: "string \<Rightarrow> string"
  hexdigest :: "string \<Rightarrow> string"
  b64_urlsafe :: "string \<Rightarrow> string"
  fernet_encrypt :: "string \<Rightarrow> string \<Rightarrow> string"
  fernet_decrypt :: "string \<Rightarrow> string \<Rightarrow> string option"

definition fernet_key :: "crypto \<Rightarrow> settings \<Rightarrow> exn + string" where
  "fernet_key C cfg = (case webhook_encryption_key cfg of
      None \<Rightarrow> Inl (RuntimeError ''UTTG_WEBHOOK_ENCRYPTION_KEY is required'')
    | Some source \<Rightarrow> if source = [] then Inl (RuntimeError ''UTTG_WEBHOOK_ENCRYPTION_KEY is required'')
        else Inr (b64_urlsafe C (sha256 C source)))"

definition encrypt_webhook_secret :: "crypto \<Rightarrow> settings \<Rightarrow> string \<Rightarrow> exn + string" where
  "encrypt_webhook_secret C cfg secret = bindr (fernet_key C cfg) (\<lambda>k. Inr (fernet_encrypt C k secret))"

definition decrypt_webhook_secret :: "crypto \<Rightarrow> settings \<Rightarrow> string \<Rightarrow> exn + string" where
  "decrypt_webhook_secret C cfg ciphertext = bindr (fernet_key C cfg) (\<lambda>k.
     case fernet_decrypt C k ciphertext of
       None \<Rightarrow> Inl (ValueError ''Webhook signing secret cannot be decrypted'') | Some s \<Rightarrow> Inr s)"

section \<open>Request bodies\<close>

definition ALLOWED_EVENTS :: "string list" where
  "ALLOWED_EVENTS = [''launch.updated'', ''object.updated'', ''space_weather.alert'', ''provider.degraded'']"

definition validate_events :: "string list \<Rightarrow> exn + string list" where
  "validate_events events =
     (let normalized = sort (remdups events); unsupported = filter (\<lambda>e. e \<notin> set ALLOWED_EVENTS) normalized
      in if unsupported \<noteq> [] then Inl (ValueError (''Unsupported webhook events: '' @ join_with '', '' unsupported))
         else Inr normalized)"

record webhook_create =
  new_url :: string
  new_events :: "string list"
  new_secret :: "string option"

definition invalid :: exn where "invalid = OtherError ''RequestValidationError''"

text \<open>The URL has passed \<open>HttpUrl\<close>; the bounds of the fields are checked before the validator.\<close>

definition WebhookCreate :: "string \<Rightarrow> string list \<Rightarrow> string option \<Rightarrow> exn + webhook_create" where
  "WebhookCreate url events secret =
     (if events = [] \<or> 20 < length events \<or> (\<exists>x\<in>set_option secret. length x < 16 \<or> 256 < length x) then Inl invalid
      else (case validate_events events of Inl e \<Rightarrow> Inl invalid
         | Inr es \<Rightarrow> Inr \<lparr>new_url = url, new_events = es, new_secret = secret\<rparr>))"

record webhook_patch =
  patch_url :: "string option"
  patch_events :: "string list option"
  patch_active :: "bool option"

definition WebhookPatch :: "string option \<Rightarrow> string list option \<Rightarrow> bool option \<Rightarrow> exn + webhook_patch" where
  "WebhookPatch url events act =
     (case events of
        None \<Rightarrow> Inr \<lparr>patch_url = url, patch_events = None, patch_active = act\<rparr>
      | Some es \<Rightarrow> if es = [] \<or> 20 < length es then Inl invalid
          else (case validate_events es of Inl e \<Rightarrow> Inl invalid
            | Inr es \<Rightarrow> Inr \<lparr>patch_url = url, patch_events = Some es, patch_active = act\<rparr>))"

section \<open>Handlers\<close>

definition owned :: "string \<Rightarrow> string \<Rightarrow> row \<Rightarrow> bool" where
  "owned webhook_id client r \<longleftrightarrow> r ''id'' = CText webhook_id \<and> r ''owner_ip_fingerprint'' = CText client"

definition owner_statement :: "string \<Rightarrow> string \<Rightarrow> query" where
  "owner_statement webhook_id client = select_from ''webhooks'' (owned webhook_id client)"

definition webhook_not_found :: exn where
  "webhook_not_found = HTTPException \<lparr>status_code = 404, code = None, message = ''Webhook not found'', headers = []\<rparr>"

definition conflict :: "string \<Rightarrow> string \<Rightarrow> exn" where
  "conflict c m = HTTPException \<lparr>status_code = 409, code = Some c, message = m, headers = []\<rparr>"

definition idempotency_storage_key :: "crypto \<Rightarrow> string \<Rightarrow> string \<Rightarrow> string" where
  "idempotency_storage_key C client idempotency_key =
     ''idempotency:webhook-create:'' @ client @ '':'' @ hexdigest C idempotency_key"

text \<open>\<open>find_owned\<close> is the look-up with its 404.\<close>

definition find_owned :: "'s app \<Rightarrow> string \<Rightarrow> string \<Rightarrow> ('s, row) io" where
  "find_owned A webhook_id client =
     bindc (eng_select (app_db A) (owner_statement webhook_id client)) (\<lambda>rows.
     bindc (pure (scalar_one_or_none rows)) (\<lambda>r. case r of None \<Rightarrow> throw webhook_not_found | Some r \<Rightarrow> ret r))"

record webhook_env =
  env_crypto :: crypto
  env_validate :: "string \<Rightarrow> exn + string"
  env_uuid4 :: string
  env_token :: string

definition webhook_row :: "webhook_env \<Rightarrow> datetime \<Rightarrow> string \<Rightarrow> string \<Rightarrow> string list \<Rightarrow> string \<Rightarrow> string \<Rightarrow> row" where
  "webhook_row W now client url events signing_secret ciphertext = row_of
     [(''id'', CText (env_uuid4 W)), (''url'', CText url), (''events'', CText (dumps (PList (map PStr events)))),
      (''secret_hash'', CText (hexdigest (env_crypto W) signing_secret)), (''secret_ciphertext'', CText ciphertext),
      (''owner_ip_fingerprint'', CText client), (''active'', CBool True),
      (''created_at'', CTime now), (''updated_at'', CTime now)]"

text \<open>\<open>db.add(webhook); await db.commit()\<close>, which gives the key back when it fails.\<close>

definition commit_webhook :: "'s app \<Rightarrow> 's valkey \<Rightarrow> nat \<Rightarrow> string \<Rightarrow> row \<Rightarrow> ('s, unit) io" where
  "commit_webhook A V t storage_key w = catchc (eng_tx (app_db A) [Add ''webhooks'' [w]])
     (\<lambda>e. bindc (vk_delete V t [storage_key]) (\<lambda>_. throw e))"

definition signing_secret_of :: "webhook_env \<Rightarrow> webhook_create \<Rightarrow> string" where
  "signing_secret_of W body = (case new_secret body of Some x \<Rightarrow> if x = [] then env_token W else x | None \<Rightarrow> env_token W)"

definition insert_webhook ::
  "'s app \<Rightarrow> 's valkey \<Rightarrow> nat \<Rightarrow> webhook_env \<Rightarrow> string \<Rightarrow> string \<Rightarrow> webhook_create \<Rightarrow> ('s, string \<times> string) io" where
  "insert_webhook A V t W client idempotency_key body =
     bindc (pure (env_validate W (new_url body))) (\<lambda>url.
     bindc (eng_select (app_db A) (select_from ''webhooks''
        (\<lambda>r. r ''owner_ip_fingerprint'' = CText client \<and> active r))) (\<lambda>existing.
     if webhook_max_per_ip (app_settings A) \<le> int (length existing)
     then throw (conflict ''WEBHOOK_LIMIT_REACHED'' ''Active webhook limit reached for this IP address'')
     else let storage_key = idempotency_storage_key (env_crypto W) client idempotency_key in
       bindc (vk_set V t storage_key ''1'' (Some 86400) True) (\<lambda>claimed.
       if \<not> claimed then throw (conflict ''IDEMPOTENCY_CONFLICT'' ''Request already submitted'')
       else let signing_secret = signing_secret_of W body in
         bindc (pure (encrypt_webhook_secret (env_crypto W) (app_settings A) signing_secret)) (\<lambda>ciphertext.
         bindc (commit_webhook A V t storage_key
             (webhook_row W (app_now A) client url (new_events body) signing_secret ciphertext))
           (\<lambda>_. ret (url, signing_secret))))))"

definition create_webhook ::
  "'s app \<Rightarrow> 's valkey \<Rightarrow> nat \<Rightarrow> webhook_env \<Rightarrow> string \<Rightarrow> string \<Rightarrow> webhook_create \<Rightarrow> ('s, pyval) io" where
  "create_webhook A V t W client idempotency_key body =
     bindc (insert_webhook A V t W client idempotency_key body) (\<lambda>(url, signing_secret).
       respond A ''/webhooks'' [] (PDict [(''id'', PStr (env_uuid4 W)), (''url'', PStr url),
         (''events'', PList (map PStr (new_events body))), (''active'', PBool True),
         (''signing_secret'', PStr signing_secret)]))"

text \<open>\<open>{"id": row.id, "url": row.url, "events": json.loads(row.events), "active": row.active}\<close>\<close>

definition webhook_view :: "row \<Rightarrow> exn + pyval" where
  "webhook_view r = (case loads (text_of (r ''events'')) of
      None \<Rightarrow> Inl (ValueError ''JSONDecodeError'')
    | Some events \<Rightarrow> Inr (PDict [(''id'', cell_value (r ''id'')), (''url'', cell_value (r ''url'')),
        (''events'', events), (''active'', cell_value (r ''active''))]))"

definition list_webhooks :: "'s app \<Rightarrow> string \<Rightarrow> nat \<Rightarrow> ('s, pyval) io" where
  "list_webhooks A client limit =
     bindc (eng_select (app_db A) \<lparr>q_from = (\<lambda>d. d ''webhooks''),
        q_where = (\<lambda>r. r ''owner_ip_fingerprint'' = CText client),
        q_order = [(\<lambda>r. r ''created_at'', True)], q_offset = 0, q_limit = Some limit\<rparr>) (\<lambda>rows.
     bindc (pure (collect (\<lambda>r. bindr (webhook_view r) (\<lambda>v. Inr (Some v))) rows)) (\<lambda>data.
       respond A ''/webhooks'' [] (PList data)))"

definition get_webhook :: "'s app \<Rightarrow> string \<Rightarrow> string \<Rightarrow> ('s, pyval) io" where
  "get_webhook A client webhook_id =
     bindc (find_owned A webhook_id client) (\<lambda>r.
     bindc (pure (webhook_view r)) (\<lambda>data. respond A (''/webhooks/'' @ webhook_id) [] data))"

text \<open>The session writes the attributes that changed; a write renews \<open>updated_at\<close>.\<close>

definition save_changes :: "'s app \<Rightarrow> row \<Rightarrow> (string \<times> cell) list \<Rightarrow> ('s, unit) io" where
  "save_changes A row kvs = (let changed = filter (\<lambda>(c, v). row c \<noteq> v) kvs in
     eng_tx (app_db A) (if changed = [] then [] else
       [Update ''webhooks'' (\<lambda>r. r ''id'' = row ''id'') (assign (changed @ [(''updated_at'', CTime (app_now A))]))]))"

definition patch_fields :: "webhook_patch \<Rightarrow> string option \<Rightarrow> (string \<times> cell) list" where
  "patch_fields body url =
     (case url of None \<Rightarrow> [] | Some u \<Rightarrow> [(''url'', CText u)])
   @ (case patch_events body of None \<Rightarrow> [] | Some es \<Rightarrow> [(''events'', CText (dumps (PList (map PStr es))))])
   @ (case patch_active body of None \<Rightarrow> [] | Some b \<Rightarrow> [(''active'', CBool b)])"

definition checked_url :: "webhook_env \<Rightarrow> string option \<Rightarrow> exn + string option" where
  "checked_url W url = (case url of None \<Rightarrow> Inr None | Some u \<Rightarrow> bindr (env_validate W u) (\<lambda>u. Inr (Some u)))"

definition update_webhook :: "'s app \<Rightarrow> webhook_env \<Rightarrow> string \<Rightarrow> string \<Rightarrow> webhook_patch \<Rightarrow> ('s, pyval) io" where
  "update_webhook A W client webhook_id body =
     bindc (find_owned A webhook_id client) (\<lambda>r.
     bindc (pure (checked_url W (patch_url body))) (\<lambda>url.
     bindc (save_changes A r (patch_fields body url)) (\<lambda>_.
       respond A (''/webhooks/'' @ webhook_id) []
         (PDict [(''id'', cell_value (r ''id'')),
           (''active'', case patch_active body of None \<Rightarrow> cell_value (r ''active'') | Some b \<Rightarrow> PBool b)]))))"

definition delete_webhook :: "'s app \<Rightarrow> string \<Rightarrow> string \<Rightarrow> ('s, pyval) io" where
  "delete_webhook A client webhook_id =
     bindc (find_owned A webhook_id client) (\<lambda>r.
     bindc (save_changes A r [(''active'', CBool False)]) (\<lambda>_.
       respond A (''/webhooks/'' @ webhook_id) [] (PDict [(''id'', PStr webhook_id), (''active'', PBool False)])))"

definition list_deliveries :: "'s app \<Rightarrow> string \<Rightarrow> string \<Rightarrow> nat \<Rightarrow> ('s, pyval) io" where
  "list_deliveries A client webhook_id limit =
     bindc (find_owned A webhook_id client) (\<lambda>_.
     bindc (eng_select (app_db A) \<lparr>q_from = (\<lambda>d. d ''webhook_deliveries''), q_where = (\<lambda>r. r ''webhook_id'' = CText webhook_id),
        q_order = [(\<lambda>r. r ''attempted_at'', True)], q_offset = 0, q_limit = Some limit\<rparr>) (\<lambda>rows.
       respond A (''/webhooks/'' @ webhook_id @ ''/deliveries'') [] (PList (map
         (columns_of [''id'', ''status_code'', ''attempt'', ''attempted_at'', ''success'']) rows))))"

section \<open>Clients are separated\<close>

definition others :: "string \<Rightarrow> db \<Rightarrow> row list" where
  "others client d = filter (\<lambda>r. r ''owner_ip_fingerprint'' \<noteq> CText client) (d ''webhooks'')"

lemma filter_map_other:
  assumes "\<And>r. r \<in> set rs \<Longrightarrow> q r \<Longrightarrow> \<not> p r \<and> \<not> p (f r)"
  shows "filter p (map (\<lambda>r. if q r then f r else r) rs) = filter p rs"
  using assms by (induction rs) auto

lemma assign_other: "c \<notin> fst ` set kvs \<Longrightarrow> assign kvs r c = r c"
  by (auto simp: assign_def split: option.splits dest!: map_of_SomeD) force

lemma patch_fields_names: "fst ` set (patch_fields body url) \<subseteq> {''url'', ''events'', ''active''}"
  by (auto simp: patch_fields_def split: option.splits)

context handlers
begin

lemma find_owned_keeps: "keeps view (find_owned A webhook_id client)"
  unfolding find_owned_def by (intro keeps_bindc) (auto split: option.splits)

lemma find_ownedD:
  assumes "find_owned A webhook_id client s = (Inr r, s')"
  shows "view s' = view s" and "r \<in> set (view s ''webhooks'')" and "owned webhook_id client r"
proof -
  show "view s' = view s" by (rule keepsD [OF find_owned_keeps assms])
  from assms obtain rows s1 where "eng_select (app_db A) (owner_statement webhook_id client) s = (Inr rows, s1)" "rows = [r]"
    by (auto simp: find_owned_def pure_def scalar_one elim!: bindcE split: option.splits)
  then have "answers (owner_statement webhook_id client) (view s) [r]" using select_answers by blast
  from answers_mem [OF this, of r] show "r \<in> set (view s ''webhooks'')" "owned webhook_id client r"
    by (simp_all add: owner_statement_def select_from_def)
qed

lemma tx_outcome:
  "eng_tx (app_db A) ss s = (x, s') \<Longrightarrow> view s' = view s \<or> exec_all ss (view s) = Some (view s')"
  using tx_done tx_failed by (cases x) blast+

lemma save_changes_others:
  assumes "save_changes A r kvs s = (x, s')" "keyed [''id''] (view s ''webhooks'')"
    and "r \<in> set (view s ''webhooks'')" "owned webhook_id client r" "''owner_ip_fingerprint'' \<notin> fst ` set kvs"
  shows "others client (view s') = others client (view s)"
proof -
  let ?changed = "filter (\<lambda>(c, v). r c \<noteq> v) kvs"
  let ?set = "assign (?changed @ [(''updated_at'', CTime (app_now A))])"
  let ?rows = "map (\<lambda>x. if x ''id'' = r ''id'' then ?set x else x) (view s ''webhooks'')"
  have "view s' = view s \<or> view s' = (view s)(''webhooks'' := ?rows)"
    using tx_outcome assms(1) by (fastforce simp: save_changes_def Let_def split: if_splits)
  moreover have "filter (\<lambda>r. r ''owner_ip_fingerprint'' \<noteq> CText client) ?rows = others client (view s)"
    unfolding others_def
  proof (rule filter_map_other)
    fix x assume x: "x \<in> set (view s ''webhooks'')" "x ''id'' = r ''id''"
    from assms(2) have "inj_on (key_of [''id'']) (set (view s ''webhooks''))" by (simp add: keyed_def distinct_map)
    moreover have "key_of [''id''] x = key_of [''id''] r" using x(2) by (simp add: key_of_def)
    ultimately have "x = r" using x(1) assms(3) by (rule inj_onD)
    moreover have "?set x ''owner_ip_fingerprint'' = x ''owner_ip_fingerprint''"
      by (rule assign_other) (use assms(5) in auto)
    ultimately show "\<not> x ''owner_ip_fingerprint'' \<noteq> CText client \<and> \<not> ?set x ''owner_ip_fingerprint'' \<noteq> CText client"
      using assms(4) by (simp add: owned_def)
  qed
  ultimately show ?thesis by (auto simp: others_def)
qed

lemma update_others:
  assumes "update_webhook A W client webhook_id body s = (x, s')" "keyed [''id''] (view s ''webhooks'')"
  shows "others client (view s') = others client (view s)"
  using assms(1) unfolding update_webhook_def
proof (rule bindcE)
  fix r s1
  assume find: "find_owned A webhook_id client s = (Inr r, s1)"
    and rest: "bindc (pure (checked_url W (patch_url body))) (\<lambda>url. bindc (save_changes A r (patch_fields body url)) (\<lambda>_.
       respond A (''/webhooks/'' @ webhook_id) [] (PDict [(''id'', cell_value (r ''id'')),
           (''active'', case patch_active body of None \<Rightarrow> cell_value (r ''active'') | Some b \<Rightarrow> PBool b)]))) s1 = (x, s')"
  note r = find_ownedD [OF find]
  have saved: "others client (view s2) = others client (view s)" if "save_changes A r (patch_fields body url) s1 = (y, s2)" for url y s2
    using save_changes_others [OF that, of webhook_id client] assms(2) r patch_fields_names [of body url] by auto
  from rest saved r(1) show ?thesis
    by (auto simp: pure_def elim!: bindcE dest: keepsD [OF respond_keeps])
qed (auto dest: keepsD [OF find_owned_keeps])

lemma delete_others:
  assumes "delete_webhook A client webhook_id s = (x, s')" "keyed [''id''] (view s ''webhooks'')"
  shows "others client (view s') = others client (view s)"
  using assms(1) unfolding delete_webhook_def
proof (rule bindcE)
  fix r s1
  assume find: "find_owned A webhook_id client s = (Inr r, s1)"
    and rest: "bindc (save_changes A r [(''active'', CBool False)]) (\<lambda>_. respond A (''/webhooks/'' @ webhook_id) []
       (PDict [(''id'', PStr webhook_id), (''active'', PBool False)])) s1 = (x, s')"
  note r = find_ownedD [OF find]
  have saved: "others client (view s2) = others client (view s)" if "save_changes A r [(''active'', CBool False)] s1 = (y, s2)" for y s2
    using save_changes_others [OF that, of webhook_id client] assms(2) r by auto
  from rest saved r(1) show ?thesis
    by (auto elim!: bindcE dest: keepsD [OF respond_keeps])
qed (auto dest: keepsD [OF find_owned_keeps])

end

text \<open>Creating: the check, the count and the claim do not touch the database, the commit adds a row of the client.\<close>

lemma webhook_row_owner [simp]: "webhook_row W now client url es sec ct ''owner_ip_fingerprint'' = CText client"
  by (simp add: webhook_row_def row_of_def)

lemma webhook_row_active [simp]: "active (webhook_row W now client url es sec ct)"
  by (simp add: webhook_row_def row_of_def active_def)

context handlers
begin

lemma commit_outcome:
  assumes "commit_webhook A V t key w s = (x, s')" "valkey_keeps V view"
  shows "view s' = view s \<or> view s' = (view s)(''webhooks'' := view s ''webhooks'' @ [w])"
proof -
  obtain y s1 where y: "eng_tx (app_db A) [Add ''webhooks'' [w]] s = (y, s1)" by (metis prod.collapse)
  have "view s1 = view s \<or> view s1 = (view s)(''webhooks'' := view s ''webhooks'' @ [w])"
    using tx_outcome [OF y] by auto
  moreover have "view s' = view s1"
    using assms(1) y by (auto simp: commit_webhook_def catchc_apply split: sum.splits if_splits
      elim!: bindcE dest: keepsD [OF valkey_keepsD(3) [OF assms(2)]])
  ultimately show ?thesis by simp
qed

lemma insert_others:
  assumes "insert_webhook A V t W client key body s = (x, s')" "valkey_keeps V view"
  shows "view s' = view s \<or> (\<exists>w. w ''owner_ip_fingerprint'' = CText client \<and> active w
    \<and> view s' = (view s)(''webhooks'' := view s ''webhooks'' @ [w]))"
  using assms(1) unfolding insert_webhook_def Let_def
  by (auto simp: pure_def split: if_splits elim!: bindcE dest!: commit_outcome [OF _ assms(2)] keepsD [OF valkey_keepsD(2) [OF assms(2)]]
      keepsD [OF select_keeps]) (metis webhook_row_active webhook_row_owner)+

lemma create_others:
  assumes "create_webhook A V t W client key body s = (x, s')" "valkey_keeps V view"
  shows "others client (view s') = others client (view s)"
  using assms(1) unfolding create_webhook_def
  by (auto simp: others_def elim!: bindcE dest!: insert_others [OF _ assms(2)] keepsD [OF respond_keeps] split: prod.splits)

end

lemma find_owned_missing:
  assumes "database_up (app_db A) view" "\<forall>r\<in>set (view s ''webhooks''). \<not> owned webhook_id client r"
  obtains s' where "find_owned A webhook_id client s = (Inl webhook_not_found, s')" "view s' = view s"
proof -
  from database_up.select_up [OF assms(1)] obtain rows s'
    where sel: "eng_select (app_db A) (owner_statement webhook_id client) s = (Inr rows, s')" by blast
  from assms(1) have db: "database (app_db A) view" by (rule database_up.axioms(1))
  have "rows = []"
  proof (rule ccontr)
    assume "rows \<noteq> []"
    then obtain r where "r \<in> set rows" by (cases rows) auto
    with answers_mem [OF database.select_answers [OF db sel]] assms(2) show False
      by (auto simp: owner_statement_def select_from_def)
  qed
  moreover have "view s' = view s" by (rule database.select_quiet [OF db sel])
  ultimately show ?thesis
    by (intro that [of s']) (use sel in \<open>simp_all add: find_owned_def bindc_apply pure_def\<close>)
qed

context handlers
begin

lemma create_keeps_others:
  assumes "valkey_keeps V view"
  shows "others client (view (snd (create_webhook A V t W client key body s))) = others client (view s)"
proof -
  obtain x s' where "create_webhook A V t W client key body s = (x, s')" by (metis prod.collapse)
  from create_others [OF this assms] this show ?thesis by simp
qed

lemma update_keeps_others:
  assumes "keyed [''id''] (view s ''webhooks'')"
  shows "others client (view (snd (update_webhook A W client webhook_id patch s))) = others client (view s)"
proof -
  obtain x s' where "update_webhook A W client webhook_id patch s = (x, s')" by (metis prod.collapse)
  from update_others [OF this assms] this show ?thesis by simp
qed

lemma delete_keeps_others:
  assumes "keyed [''id''] (view s ''webhooks'')"
  shows "others client (view (snd (delete_webhook A client webhook_id s))) = others client (view s)"
proof -
  obtain x s' where "delete_webhook A client webhook_id s = (x, s')" by (metis prod.collapse)
  from delete_others [OF this assms] this show ?thesis by simp
qed

end

text \<open>A request for a webhook the client does not own.\<close>

lemma not_owned_404:
  assumes "database_up (app_db A) view" "\<forall>r\<in>set (view s ''webhooks''). \<not> owned webhook_id client r"
  shows "fst (get_webhook A client webhook_id s) = Inl webhook_not_found
     \<and> fst (update_webhook A W client webhook_id patch s) = Inl webhook_not_found
     \<and> fst (delete_webhook A client webhook_id s) = Inl webhook_not_found
     \<and> fst (list_deliveries A client webhook_id limit s) = Inl webhook_not_found
     \<and> view (snd (update_webhook A W client webhook_id patch s)) = view s
     \<and> view (snd (delete_webhook A client webhook_id s)) = view s"
proof -
  obtain s' where f: "find_owned A webhook_id client s = (Inl webhook_not_found, s')" and v: "view s' = view s"
    by (rule find_owned_missing [where A = A and view = view and s = s, OF assms]) (rule that)
  show ?thesis
    by (simp add: get_webhook_def update_webhook_def delete_webhook_def list_deliveries_def bindc_apply f v)
qed

text \<open>
  C3: A client touches its own webhooks only. Whatever a client asks, with whatever identifier, body and
  idempotency key, and however the request ends, the webhooks of every other client stay as they
  are; and a webhook that is not the client's own answers 404 to reading, changing, deleting and listing
  deliveries, without any change to the database.
\<close>

theorem webhook_ownership:
  assumes "handlers A view" "database_up (app_db A) view" "keyed [''id''] (view s ''webhooks'')"
    and "valkey_keeps V view"
  shows "others client (view (snd (create_webhook A V t W client key body s))) = others client (view s)
    \<and> others client (view (snd (update_webhook A W client webhook_id patch s))) = others client (view s)
    \<and> others client (view (snd (delete_webhook A client webhook_id s))) = others client (view s)
    \<and> ((\<forall>r\<in>set (view s ''webhooks''). \<not> owned webhook_id client r) \<longrightarrow>
         fst (get_webhook A client webhook_id s) = Inl webhook_not_found
       \<and> fst (update_webhook A W client webhook_id patch s) = Inl webhook_not_found
       \<and> fst (delete_webhook A client webhook_id s) = Inl webhook_not_found
       \<and> fst (list_deliveries A client webhook_id limit s) = Inl webhook_not_found
       \<and> view (snd (update_webhook A W client webhook_id patch s)) = view s
       \<and> view (snd (delete_webhook A client webhook_id s)) = view s)"
  by (intro conjI impI handlers.create_keeps_others [where A = A and view = view and s = s, OF assms(1,4)]
      handlers.update_keeps_others [where A = A and view = view and s = s, OF assms(1,3)]
      handlers.delete_keeps_others [where A = A and view = view and s = s, OF assms(1,3)]
      not_owned_404 [where A = A and view = view and s = s, OF assms(2)])

abbreviation some_settings :: settings where
  "some_settings \<equiv> (default_settings [] [] [] [])\<lparr>webhook_encryption_key := Some ''k''\<rparr>"

definition some_env :: webhook_env where
  "some_env = \<lparr>env_crypto = \<lparr>sha256 = rev, hexdigest = rev, b64_urlsafe = (\<lambda>x. x), fernet_encrypt = (\<lambda>k x. k @ x),
     fernet_decrypt = (\<lambda>k x. Some (drop (length k) x))\<rparr>, env_validate = Inr, env_uuid4 = ''u'', env_token = ''tok''\<rparr>"

definition bobs :: row where
  "bobs = row_of [(''id'', CText ''b''), (''url'', CText ''https://b''), (''events'', CText ''[]''),
     (''owner_ip_fingerprint'', CText ''bob''), (''active'', CBool True)]"

definition bobs_site :: site where
  "bobs_site = \<lparr>s_kv = Map.empty, s_db = (\<lambda>_. [])(''webhooks'' := [bobs])\<rparr>"

theorem webhook_ownership_witness:
  "fst (delete_webhook (site_app some_settings 0) ''eve'' ''b'' bobs_site) = Inl webhook_not_found
    \<and> others ''eve'' (s_db (snd (delete_webhook (site_app some_settings 0) ''eve'' ''b'' bobs_site))) = [bobs]"
proof -
  have "keyed [''id''] (s_db bobs_site ''webhooks'')"
    by (simp add: keyed_def bobs_site_def bobs_def key_of_def row_of_def)
  moreover have "\<forall>r\<in>set (s_db bobs_site ''webhooks''). \<not> owned ''b'' ''eve'' r"
    by (simp add: bobs_site_def owned_def bobs_def row_of_def)
  moreover have "others ''eve'' (s_db bobs_site) = [bobs]"
    by (simp add: others_def bobs_site_def bobs_def row_of_def)
  moreover note site_keeps
  moreover have "database_up (app_db (site_app some_settings 0)) s_db"
    using site_db.database_up_axioms by (simp add: site_app_def)
  ultimately show ?thesis
    using webhook_ownership [where A = "site_app some_settings 0" and view = s_db and s = bobs_site
        and V = site_valkey and client = "''eve''" and webhook_id = "''b''", OF site.handlers_axioms] by metis
qed

text \<open>The Valkey of the documented site.\<close>

lemma on_kv_sim: "sim s_kv (on_kv m) m"
  by (auto simp: sim_def on_kv_def split: prod.splits)

interpretation site_kv: valkey_service site_valkey s_kv
proof unfold_locales
  fix t k and s s' :: site and r e x
  assume "vk_ttl site_valkey t k s = (Inr r, s')" "peek t k (s_kv s) = Some e" "expires e = Some x"
  then show "\<bar>1000 * r - (int x - int t)\<bar> < 1000"
    using doc_ttl_close [of t x] by (auto simp: site_valkey_def on_kv_def doc_ttl_def peek_Some live_def)
qed (simp_all add: site_valkey_def on_kv_sim, auto simp: on_kv_def doc_ttl_def doc_set_def wrong_type_def split: if_splits)

section \<open>A request is carried out once\<close>

definition active_of :: "string \<Rightarrow> db \<Rightarrow> row list" where
  "active_of client d = filter (\<lambda>r. r ''owner_ip_fingerprint'' = CText client \<and> active r) (d ''webhooks'')"

text \<open>A \<open>SET NX\<close> that replied.\<close>

lemma claim_spec:
  assumes "valkey_service V kv" "vk_set V t k v (Some 86400) True s = (Inr b, s')"
  shows "b \<longleftrightarrow> peek t k (kv s) = None"
    and "b \<Longrightarrow> t' < t + 86400000 \<Longrightarrow> peek t' k (kv s') \<noteq> None"
proof -
  have "sim kv (vk_set V t k v (Some 86400) True) (doc_set t k v (Some 86400) True)"
    by (rule valkey_service.set_sim [OF assms(1)])
  from simD [OF this assms(2)] have d: "doc_set t k v (Some 86400) True (kv s) = (Inr b, kv s')" .
  then show "b \<longleftrightarrow> peek t k (kv s) = None" by (auto simp: doc_set_def split: if_splits)
  assume b and t: "t' < t + 86400000"
  with d have "kv s' = (kv s)(k \<mapsto> \<lparr>payload = VStr v, expires = Some (deadline t 86400)\<rparr>)"
    by (auto simp: doc_set_def split: if_splits)
  with t show "peek t' k (kv s') \<noteq> None" by (simp add: live_def deadline_def)
qed

text \<open>The steps of a creation that returned, and of one whose key is taken.\<close>

abbreviation existing :: "string \<Rightarrow> query" where
  "existing client \<equiv> select_from ''webhooks'' (\<lambda>r. r ''owner_ip_fingerprint'' = CText client \<and> active r)"

lemma insert_steps:
  assumes "insert_webhook A V t W client key body s = (Inr x, s')"
  obtains rows sa sb w where "eng_select (app_db A) (existing client) s = (Inr rows, sa)"
    "int (length rows) < webhook_max_per_ip (app_settings A)"
    "vk_set V t (idempotency_storage_key (env_crypto W) client key) ''1'' (Some 86400) True sa = (Inr True, sb)"
    "commit_webhook A V t (idempotency_storage_key (env_crypto W) client key) w sb = (Inr (), s')"
    "w ''owner_ip_fingerprint'' = CText client" "active w"
  using assms unfolding insert_webhook_def Let_def
  by (auto simp: pure_def split: if_splits elim!: bindcE)

lemma insert_taken:
  assumes "insert_webhook A V t W client key body s = (r, s')"
    and "keeps kv (eng_select (app_db A) (existing client))" "keeps view (eng_select (app_db A) (existing client))"
    and "valkey_keeps V view"
    and taken: "\<And>b sa sb. vk_set V t (idempotency_storage_key (env_crypto W) client key) ''1'' (Some 86400) True sa = (Inr b, sb)
      \<Longrightarrow> kv sa = kv s \<Longrightarrow> \<not> b"
  shows "(\<exists>e. r = Inl e) \<and> view s' = view s"
proof (cases "env_validate W (new_url body)")
  case (Inl e)
  with assms(1) have "r = Inl e" "s' = s" by (simp_all add: insert_webhook_def pure_def bindc_apply)
  then show ?thesis by simp
next
  case (Inr url)
  let ?key = "idempotency_storage_key (env_crypto W) client key"
  obtain rows sa where sel: "eng_select (app_db A) (existing client) s = (rows, sa)"
    by (cases "eng_select (app_db A) (existing client) s")
  note sa = keepsD [OF assms(3) sel] keepsD [OF assms(2) sel]
  have step: "insert_webhook A V t W client key body s = (case rows of Inl e \<Rightarrow> (Inl e, sa)
      | Inr rs \<Rightarrow> (if webhook_max_per_ip (app_settings A) \<le> int (length rs)
          then throw (conflict ''WEBHOOK_LIMIT_REACHED'' ''Active webhook limit reached for this IP address'') sa
          else bindc (vk_set V t ?key ''1'' (Some 86400) True) (\<lambda>claimed.
            if \<not> claimed then throw (conflict ''IDEMPOTENCY_CONFLICT'' ''Request already submitted'')
            else let signing_secret = signing_secret_of W body in
              bindc (pure (encrypt_webhook_secret (env_crypto W) (app_settings A) signing_secret)) (\<lambda>ciphertext.
              bindc (commit_webhook A V t ?key
                  (webhook_row W (app_now A) client url (new_events body) signing_secret ciphertext))
                (\<lambda>_. ret (url, signing_secret)))) sa))"
    by (simp only: insert_webhook_def pure_def bindc_apply Inr sel Let_def prod.case sum.case if_distrib [where f = "\<lambda>m. m sa"]
        split: sum.split)
  show ?thesis
  proof (cases rows)
    case (Inl e)
    with assms(1) step have "r = Inl e" "s' = sa" by simp_all
    with sa show ?thesis by simp
  next
    case (Inr rs)
    obtain b sb where set: "vk_set V t ?key ''1'' (Some 86400) True sa = (b, sb)"
      by (cases "vk_set V t ?key ''1'' (Some 86400) True sa")
    note sb = keepsD [OF valkey_keepsD(2) [OF assms(4)] set]
    show ?thesis
    proof (cases b)
      case (Inl e)
      with assms(1) step Inr set have "(\<exists>e. r = Inl e) \<and> (s' = sa \<or> s' = sb)" by (auto simp: bindc_apply split: if_splits)
      with sa sb show ?thesis by auto
    next
      case (Inr c)
      with taken [of sa c sb] set sa have "\<not> c" by simp
      with assms(1) step \<open>rows = Inr rs\<close> set Inr have "(\<exists>e. r = Inl e) \<and> (s' = sa \<or> s' = sb)"
        by (auto simp: bindc_apply split: if_splits)
      with sa sb show ?thesis by auto
    qed
  qed
qed



end
