(* ===== verification/Worker.thy ===== *)
theory Worker
  imports Webhooks Ingest "HOL-Library.Sublist"
begin

text \<open>
  The delivery worker (\<open>src/ingestion/worker.py\<close>). It takes messages from the event stream, looks the webhook
  up, posts the signed event to its URL up to \<open>webhook_max_attempts\<close> times, records each attempt in the
  database, and hands an event nobody took to the dead-letter subject. HTTP, HMAC, the resolver behind
  the URL check, the clock and the message broker are parameters.

  The locale \<open>courier\<close> says what each of them does to what can be seen from outside; the theorems are that
  every message is settled exactly once, that the attempts are numbered, recorded and bounded, that an event
  is delivered or dead-lettered, and that what arrives is what was published, signed with the
  secret the client was given.
\<close>

section \<open>The services of the worker\<close>

record queued =
  msg_no :: nat
  msg_data :: string

record 's worker =
  wk_settings :: settings
  wk_db :: "'s engine"
  wk_nats :: "'s nats"
  wk_crypto :: crypto
  wk_hmac :: "string \<Rightarrow> string \<Rightarrow> string"
  wk_validate :: "string \<Rightarrow> ('s, string) io"
  wk_post :: "string \<Rightarrow> string \<Rightarrow> (string \<times> string) list \<Rightarrow> ('s, int) io"
  wk_ack :: "nat \<Rightarrow> ('s, unit) io"
  wk_term :: "nat \<Rightarrow> ('s, unit) io"
  wk_sleep :: "rat \<Rightarrow> ('s, unit) io"
  wk_now :: "'s \<Rightarrow> datetime"
  wk_uuid4 :: "('s, nat) io"
  wk_subscribe :: "string \<Rightarrow> string \<Rightarrow> ('s, unit) io"
  wk_fetch :: "int \<Rightarrow> ('s, queued list) io"

text \<open>The subclasses of \<open>httpx.HTTPError\<close>.\<close>

definition HTTP_ERRORS :: "string list" where
  "HTTP_ERRORS = [''ConnectTimeout'', ''ReadTimeout'', ''WriteTimeout'', ''PoolTimeout'', ''ConnectError'', ''ReadError'',
     ''WriteError'', ''CloseError'', ''LocalProtocolError'', ''RemoteProtocolError'', ''ProxyError'',
     ''UnsupportedProtocol'', ''DecodingError'', ''TooManyRedirects'', ''HTTPStatusError'']"

fun is_HTTPError :: "exn \<Rightarrow> bool" where
  "is_HTTPError (OtherError n) \<longleftrightarrow> n \<in> set HTTP_ERRORS"
| "is_HTTPError e \<longleftrightarrow> False"

section \<open>One delivery\<close>

text \<open>\<open>hmac.new(secret, payload, sha256).hexdigest()\<close> is \<open>wk_hmac secret payload\<close>.\<close>

definition signature :: "'s worker \<Rightarrow> string \<Rightarrow> string \<Rightarrow> string" where
  "signature W message_body secret = ''sha256='' @ wk_hmac W secret message_body"

fun opt_int :: "int option \<Rightarrow> cell" where
  "opt_int None = CNull"
| "opt_int (Some i) = CInt i"

definition delivery_row :: "nat \<Rightarrow> datetime \<Rightarrow> cell \<Rightarrow> string \<Rightarrow> int option \<Rightarrow> nat \<Rightarrow> bool \<Rightarrow> row" where
  "delivery_row uuid now webhook_id body status attempt success = row_of
     [(''id'', CUuid uuid), (''webhook_id'', webhook_id), (''payload'', CText body), (''status_code'', opt_int status),
      (''attempt'', CInt (int attempt)), (''success'', CBool success), (''attempted_at'', CTime now)]"

definition record_delivery ::
  "'s worker \<Rightarrow> cell \<Rightarrow> string \<Rightarrow> int option \<Rightarrow> nat \<Rightarrow> bool \<Rightarrow> ('s, unit) io" where
  "record_delivery W webhook_id body status attempt success =
     bindc (wk_uuid4 W) (\<lambda>u s.
       eng_tx (wk_db W) [Add ''webhook_deliveries'' [delivery_row u (wk_now W s) webhook_id body status attempt success]] s)"

text \<open>\<open>int(time.time())\<close>; a datetime counts microseconds.\<close>

definition delivery_headers :: "'s worker \<Rightarrow> string \<Rightarrow> string \<Rightarrow> datetime \<Rightarrow> string \<Rightarrow> string \<Rightarrow> (string \<times> string) list" where
  "delivery_headers W delivery_id event_name now body secret =
     [(''Content-Type'', ''application/json''), (''User-Agent'', ''UTTG-Webhook/1.0''), (''X-UTTG-Delivery'', delivery_id),
      (''X-UTTG-Event'', event_name), (''X-UTTG-Timestamp'', show_int (now div 1000000)),
      (''X-UTTG-Signature'', signature W body secret)]"

text \<open>The checked URL and the secret; a \<open>ValueError\<close> rejects the webhook.\<close>

definition target_of :: "'s worker \<Rightarrow> row \<Rightarrow> ('s, string \<times> string) io" where
  "target_of W webhook =
     bindc (wk_validate W (text_of (webhook ''url''))) (\<lambda>url.
     bindc (pure (decrypt_webhook_secret (wk_crypto W) (wk_settings W) (text_of (webhook ''secret_ciphertext'')))) (\<lambda>secret.
       ret (url, secret)))"

definition post_once :: "'s worker \<Rightarrow> string \<Rightarrow> string \<Rightarrow> (string \<times> string) list \<Rightarrow> ('s, int option) io" where
  "post_once W url body hdrs = (\<lambda>s. case wk_post W url body hdrs s of
      (Inr status, s') \<Rightarrow> (Inr (Some status), s')
    | (Inl e, s') \<Rightarrow> (if is_HTTPError e then (Inr None, s') else (Inl e, s')))"

definition successful :: "int option \<Rightarrow> bool" where
  "successful status = (case status of None \<Rightarrow> False | Some c \<Rightarrow> 200 \<le> c \<and> c < 300)"

definition deliver_once :: "'s worker \<Rightarrow> row \<Rightarrow> string \<Rightarrow> string \<Rightarrow> string \<Rightarrow> nat \<Rightarrow> ('s, bool) io" where
  "deliver_once W webhook body event_name delivery_id attempt = (\<lambda>s. case target_of W webhook s of
      (Inl e, s1) \<Rightarrow>
        (if is_ValueError e
         then bindc (record_delivery W (webhook ''id'') body None attempt False) (\<lambda>_. ret False) s1
         else (Inl e, s1))
    | (Inr (url, secret), s1) \<Rightarrow>
        bindc (post_once W url body (delivery_headers W delivery_id event_name (wk_now W s1) body secret)) (\<lambda>status.
        bindc (record_delivery W (webhook ''id'') body status attempt (successful status)) (\<lambda>_.
          ret (successful status))) s1)"

section \<open>All attempts\<close>

fun attempts :: "'s worker \<Rightarrow> row \<Rightarrow> string \<Rightarrow> string \<Rightarrow> string \<Rightarrow> nat list \<Rightarrow> ('s, bool) io" where
  "attempts W webhook body event_name delivery_id [] = ret False"
| "attempts W webhook body event_name delivery_id (attempt # rest) =
     bindc (deliver_once W webhook body event_name delivery_id attempt) (\<lambda>ok.
       if ok then ret True
       else bindc (if int attempt < webhook_max_attempts (wk_settings W)
                   then wk_sleep W (min (2 ^ attempt) 30) else ret ())
              (\<lambda>_. attempts W webhook body event_name delivery_id rest))"

definition event_body :: "string \<Rightarrow> (string \<times> pyval) list \<Rightarrow> datetime \<Rightarrow> string" where
  "event_body event_name event_data now = dumps (PDict
     [(''event'', PStr event_name), (''data'', PDict event_data), (''created_at'', PStr (isoformat now))])"

text \<open>\<open>range(1, settings.webhook_max_attempts + 1)\<close>\<close>

definition attempt_numbers :: "'s worker \<Rightarrow> nat list" where
  "attempt_numbers W = [1..<Suc (nat (webhook_max_attempts (wk_settings W)))]"

definition dispatch_event :: "'s worker \<Rightarrow> row \<Rightarrow> string \<Rightarrow> (string \<times> pyval) list \<Rightarrow> ('s, bool) io" where
  "dispatch_event W webhook event_name event_data = (\<lambda>s.
     let body = event_body event_name event_data (wk_now W s)
     in if webhook_max_body_bytes (wk_settings W) < int (length body) then (Inr False, s)
        else bindc (wk_uuid4 W) (\<lambda>u. attempts W webhook body event_name (uuid_str u) (attempt_numbers W)) s)"

section \<open>One message\<close>

text \<open>Everything the first \<open>try\<close> can raise is one of the exceptions it catches.\<close>

definition read_envelope :: "string \<Rightarrow> exn + string \<times> string \<times> (string \<times> pyval) list" where
  "read_envelope data = (case loads data of
      None \<Rightarrow> Inl (ValueError ''JSONDecodeError'')
    | Some env \<Rightarrow>
        bindr (subscript env ''webhook_id'') (\<lambda>webhook_id.
        bindr (subscript env ''event'') (\<lambda>event_name.
        bindr (get_or env ''data'' (PDict [])) (\<lambda>event_data.
          case event_data of PDict kvs \<Rightarrow> Inr (py_str webhook_id, py_str event_name, kvs)
          | _ \<Rightarrow> Inl (ValueError ''Event data must be an object'')))))"

definition DLQ :: string where "DLQ = ''events.webhooks.dlq''"

definition dead_letter :: "string \<Rightarrow> string \<Rightarrow> (string \<times> pyval) list \<Rightarrow> string" where
  "dead_letter webhook_id event_name event_data = dumps (PDict
     [(''webhook_id'', PStr webhook_id), (''event'', PStr event_name), (''data'', PDict event_data)])"

definition active_webhook :: "string \<Rightarrow> query" where
  "active_webhook webhook_id = select_from ''webhooks'' (\<lambda>r. r ''id'' = CText webhook_id \<and> active r)"

text \<open>The webhook when it exists, is active and subscribes to the event.\<close>

definition recipient :: "'s worker \<Rightarrow> string \<Rightarrow> string \<Rightarrow> ('s, row option) io" where
  "recipient W webhook_id event_name =
     bindc (eng_select (wk_db W) (active_webhook webhook_id)) (\<lambda>rows.
     bindc (pure (scalar_one_or_none rows)) (\<lambda>found. case found of
         None \<Rightarrow> ret None
       | Some webhook \<Rightarrow> bindc (pure (subscribed event_name (webhook ''events''))) (\<lambda>yes.
           ret (if yes then Some webhook else None))))"

definition deliver :: "'s worker \<Rightarrow> nat \<Rightarrow> row \<Rightarrow> string \<Rightarrow> string \<Rightarrow> (string \<times> pyval) list \<Rightarrow> ('s, unit) io" where
  "deliver W no webhook webhook_id event_name event_data =
     bindc (dispatch_event W webhook event_name event_data) (\<lambda>delivered.
       if delivered then wk_ack W no
       else bindc (js_publish (wk_nats W) DLQ (dead_letter webhook_id event_name event_data)) (\<lambda>_. wk_ack W no))"

definition handle_message :: "'s worker \<Rightarrow> queued \<Rightarrow> ('s, unit) io" where
  "handle_message W m = (case read_envelope (msg_data m) of
      Inl e \<Rightarrow> wk_term W (msg_no m)
    | Inr (webhook_id, event_name, event_data) \<Rightarrow>
        bindc (recipient W webhook_id event_name) (\<lambda>found. case found of
            None \<Rightarrow> wk_ack W (msg_no m)
          | Some webhook \<Rightarrow> deliver W (msg_no m) webhook webhook_id event_name event_data))"

section \<open>The loop\<close>

text \<open>
  \<open>asyncio.gather\<close>: every message is handled, here one after the other, and the first exception comes out;
  a cancellation stops them all.
\<close>

fun handle_all :: "'s worker \<Rightarrow> queued list \<Rightarrow> ('s, unit) io" where
  "handle_all W [] = ret ()"
| "handle_all W (m # ms) = (\<lambda>s. case handle_message W m s of
      (Inr _, s1) \<Rightarrow> handle_all W ms s1
    | (Inl e, s1) \<Rightarrow> (if is_Exception e then (case handle_all W ms s1 of (_, s2) \<Rightarrow> (Inl e, s2)) else (Inl e, s1)))"

definition worker_pass :: "'s worker \<Rightarrow> ('s, unit) io" where
  "worker_pass W = catchc
     (bindc (wk_fetch W (webhook_batch_size (wk_settings W))) (handle_all W))
     (\<lambda>e. if e = TimeoutError then ret () else wk_sleep W (1 / 2))"

text \<open>The loop ends by cancellation only; \<open>n\<close> counts its passes, and \<open>None\<close> says that it still runs.\<close>

fun worker_loop :: "nat \<Rightarrow> 's worker \<Rightarrow> 's \<Rightarrow> exn option \<times> 's" where
  "worker_loop 0 W s = (None, s)"
| "worker_loop (Suc n) W s = (case worker_pass W s of
      (Inr _, s1) \<Rightarrow> worker_loop n W s1
    | (Inl e, s1) \<Rightarrow> (Some e, s1))"

definition run_worker :: "nat \<Rightarrow> 's worker \<Rightarrow> 's \<Rightarrow> (exn + unit) option \<times> 's" where
  "run_worker n W s = (case bindc (connect_nats (wk_nats W) (nats_url (wk_settings W))) (\<lambda>_.
       bindc (ensure_event_stream (wk_nats W)) (\<lambda>_. wk_subscribe W OUTBOUND ''webhook-workers'')) s of
      (Inl e, s1) \<Rightarrow> (Some (Inl e), s1)
    | (Inr _, s1) \<Rightarrow> (case worker_loop n W s1 of
        (None, s2) \<Rightarrow> (None, s2)
      | (Some e, s2) \<Rightarrow> (case close_nats (wk_nats W) s2 of
            (Inl e', s3) \<Rightarrow> (Some (Inl e'), s3)
          | (Inr _, s3) \<Rightarrow> (Some (if e = CancelledError then Inr () else Inl e), s3))))"

section \<open>What can be seen from outside\<close>

datatype settlement = Ack | Term

record seen =
  seen_db :: db
  seen_sent :: "(string \<times> string) list"
  seen_posts :: "(string \<times> string \<times> (string \<times> string) list) list"
  seen_settled :: "(nat \<times> settlement) list"

text \<open>What a step adds to the deliveries and the posts; it settles nothing and changes no other table.\<close>

definition adds ::
  "('s \<Rightarrow> seen) \<Rightarrow> row list \<Rightarrow> (string \<times> string \<times> (string \<times> string) list) list \<Rightarrow> 's \<Rightarrow> 's \<Rightarrow> bool" where
  "adds view rows posts s s' \<longleftrightarrow> view s' = (view s)
     \<lparr>seen_db := (seen_db (view s))(''webhook_deliveries'' := seen_db (view s) ''webhook_deliveries'' @ rows),
      seen_posts := seen_posts (view s) @ posts\<rparr>"

text \<open>What each service does to it; a call that fails may or may not have had its effect.\<close>

locale courier =
  fixes W :: "'s worker" and seen :: "'s \<Rightarrow> seen"
  assumes worker_tx: "eng_tx (wk_db W) ss s = (r, s') \<Longrightarrow>
      (\<exists>e. r = Inl e) \<and> seen s' = seen s
      \<or> (\<exists>d. exec_all ss (seen_db (seen s)) = Some d \<and> seen s' = (seen s)\<lparr>seen_db := d\<rparr>)"
    and worker_select: "eng_select (wk_db W) q s = (found, s') \<Longrightarrow>
      seen s' = seen s \<and> (\<forall>rows. found = Inr rows \<longrightarrow> answers q (seen_db (seen s)) rows)"
    and worker_publish: "js_publish (wk_nats W) subj msg s = (r, s') \<Longrightarrow>
      (\<exists>e. r = Inl e) \<and> seen s' = seen s \<or> seen s' = (seen s)\<lparr>seen_sent := seen_sent (seen s) @ [(subj, msg)]\<rparr>"
    and worker_ack: "wk_ack W n s = (r, s') \<Longrightarrow>
      (\<exists>e. r = Inl e) \<and> seen s' = seen s \<or> seen s' = (seen s)\<lparr>seen_settled := seen_settled (seen s) @ [(n, Ack)]\<rparr>"
    and worker_term: "wk_term W n s = (r, s') \<Longrightarrow>
      (\<exists>e. r = Inl e) \<and> seen s' = seen s \<or> seen s' = (seen s)\<lparr>seen_settled := seen_settled (seen s) @ [(n, Term)]\<rparr>"
    and worker_post: "wk_post W url body hdrs s = (status, s') \<Longrightarrow>
      seen s' = (seen s)\<lparr>seen_posts := seen_posts (seen s) @ [(url, body, hdrs)]\<rparr>"
    and worker_validate: "keeps seen (wk_validate W url)"
    and worker_sleep: "keeps seen (wk_sleep W t)"
    and worker_uuid4: "keeps seen (wk_uuid4 W)"
begin

lemma worker_db: "database (wk_db W) (\<lambda>s. seen_db (seen s))"
  by unfold_locales (use worker_tx worker_select in fastforce)+

lemma adds_none: "seen s' = seen s \<Longrightarrow> adds seen [] [] s s'"
  by (simp add: adds_def)

lemma adds_trans: "adds seen rows posts s s1 \<Longrightarrow> adds seen rows' posts' s1 s2 \<Longrightarrow> adds seen (rows @ rows') (posts @ posts') s s2"
  by (simp add: adds_def)

lemma target_keeps: "keeps seen (target_of W webhook)"
  unfolding target_of_def by (intro keeps_bindc worker_validate keeps_simps)

lemma record_delivery_adds:
  assumes "record_delivery W webhook_id body status attempt success s = (Inr u, s')"
  shows "\<exists>uuid now. adds seen [delivery_row uuid now webhook_id body status attempt success] [] s s'"
proof -
  from assms obtain uuid s1 where u: "wk_uuid4 W s = (Inr uuid, s1)"
    and tx: "eng_tx (wk_db W) [Add ''webhook_deliveries'' [delivery_row uuid (wk_now W s1) webhook_id body status attempt success]] s1
      = (Inr u, s')"
    by (auto simp: record_delivery_def elim: bindcE)
  from keepsD [OF worker_uuid4 u] worker_tx [OF tx] show ?thesis by (auto simp: adds_def)
qed

lemma post_once_adds:
  assumes "post_once W url body hdrs s = (r, s')"
  shows "adds seen [] [(url, body, hdrs)] s s'"
proof -
  obtain r1 s1 where p: "wk_post W url body hdrs s = (r1, s1)" by (metis prod.collapse)
  with assms have "s' = s1" by (auto simp: post_once_def split: sum.splits if_splits)
  with worker_post [OF p] show ?thesis by (simp add: adds_def)
qed

end

text \<open>
  The record of some attempts: the rows carry the webhook and the body, the numbers are those tried in that order,
  and only the last one of a delivery that came off is a success.
\<close>

definition delivery_log :: "row \<Rightarrow> string \<Rightarrow> nat list \<Rightarrow> bool \<Rightarrow> row list \<Rightarrow> bool" where
  "delivery_log webhook body ns ok rows \<longleftrightarrow>
     (\<forall>r\<in>set rows. r ''webhook_id'' = webhook ''id'' \<and> r ''payload'' = CText body)
   \<and> map (\<lambda>r. r ''attempt'') rows = map (\<lambda>n. CInt (int n)) (take (length rows) ns)
   \<and> map (\<lambda>r. r ''success'') rows =
       (if ok then replicate (length rows - 1) (CBool False) @ [CBool True] else replicate (length ns) (CBool False))"

lemma delivery_row_fields [simp]:
  "delivery_row u now w body status n ok ''webhook_id'' = w" "delivery_row u now w body status n ok ''payload'' = CText body"
  "delivery_row u now w body status n ok ''attempt'' = CInt (int n)" "delivery_row u now w body status n ok ''success'' = CBool ok"
  by (simp_all add: delivery_row_def row_of_def)

lemma delivery_log_none: "delivery_log webhook body [] False []"
  by (simp add: delivery_log_def)

lemma delivery_log_last:
  "delivery_log webhook body (n # ns) True [delivery_row u now (webhook ''id'') body status n True]"
  by (simp add: delivery_log_def)

lemma delivery_log_Cons:
  assumes "delivery_log webhook body ns ok rows"
  shows "delivery_log webhook body (n # ns) ok (delivery_row u now (webhook ''id'') body status n False # rows)"
proof -
  from assms have "ok \<Longrightarrow> rows \<noteq> []" by (auto simp: delivery_log_def)
  with assms show ?thesis by (cases rows) (auto simp: delivery_log_def)
qed

lemma delivery_log_bound:
  assumes "delivery_log webhook body ns ok rows"
  shows "length rows \<le> length ns" and "\<not> ok \<Longrightarrow> length rows = length ns" and "ok \<Longrightarrow> rows \<noteq> []"
proof -
  from assms have "map (\<lambda>r. r ''attempt'') rows = map (\<lambda>n. CInt (int n)) (take (length rows) ns)" by (simp add: delivery_log_def)
  from arg_cong [OF this, of length] show "length rows \<le> length ns" by simp
  from assms have m: "map (\<lambda>r. r ''success'') rows =
       (if ok then replicate (length rows - 1) (CBool False) @ [CBool True] else replicate (length ns) (CBool False))"
    by (simp add: delivery_log_def)
  from arg_cong [OF this, of length] show "\<not> ok \<Longrightarrow> length rows = length ns" "ok \<Longrightarrow> rows \<noteq> []" by auto
qed

context courier
begin

lemma deliver_once_log:
  assumes "deliver_once W webhook body event_name delivery_id n s = (Inr ok, s')"
  shows "\<exists>uuid now status posts. adds seen [delivery_row uuid now (webhook ''id'') body status n ok] posts s s'
    \<and> length posts \<le> 1 \<and> (\<forall>p\<in>set posts. fst (snd p) = body) \<and> (ok \<longrightarrow> posts \<noteq> [])"
proof (cases "target_of W webhook s")
  case (Pair r s1)
  have s1: "adds seen [] [] s s1" by (intro adds_none keepsD [OF target_keeps Pair])
  show ?thesis
  proof (cases r)
    case (Inl e)
    with assms Pair have rec: "record_delivery W (webhook ''id'') body None n False s1 = (Inr (), s')" "\<not> ok"
      by (auto simp: deliver_once_def split: if_splits elim!: bindcE)
    from record_delivery_adds [OF rec(1)] adds_trans [OF s1] rec(2) show ?thesis by fastforce
  next
    case (Inr t)
    obtain url secret where t: "t = (url, secret)" by (cases t)
    let ?hdrs = "delivery_headers W delivery_id event_name (wk_now W s1) body secret"
    from assms Pair Inr t obtain status s2 where post: "post_once W url body ?hdrs s1 = (Inr status, s2)"
      and rec: "record_delivery W (webhook ''id'') body status n (successful status) s2 = (Inr (), s')"
      and ok: "ok = successful status"
      by (auto simp: deliver_once_def elim!: bindcE)
    from record_delivery_adds [OF rec] obtain uuid now where
      "adds seen [delivery_row uuid now (webhook ''id'') body status n ok] [] s2 s'" unfolding ok by blast
    from adds_trans [OF adds_trans [OF s1 post_once_adds [OF post]] this]
    have "adds seen [delivery_row uuid now (webhook ''id'') body status n ok] [(url, body, ?hdrs)] s s'" by simp
    then show ?thesis by force
  qed
qed

lemma attempts_log:
  assumes "attempts W webhook body event_name delivery_id ns s = (Inr ok, s')"
  shows "\<exists>rows posts. adds seen rows posts s s' \<and> delivery_log webhook body ns ok rows \<and> length posts \<le> length rows
    \<and> (\<forall>p\<in>set posts. fst (snd p) = body) \<and> (ok \<longrightarrow> posts \<noteq> [])"
  using assms
proof (induction ns arbitrary: s)
  case Nil
  then have "adds seen [] [] s s'" "\<not> ok" by (auto intro: adds_none)
  with delivery_log_none [of webhook body] show ?case by fastforce
next
  case (Cons n ns)
  from Cons.prems obtain ok1 s1 where once: "deliver_once W webhook body event_name delivery_id n s = (Inr ok1, s1)"
    and rest: "(if ok1 then ret True else bindc (if int n < webhook_max_attempts (wk_settings W)
        then wk_sleep W (min (2 ^ n) 30) else ret ()) (\<lambda>_. attempts W webhook body event_name delivery_id ns)) s1 = (Inr ok, s')"
    by (auto elim: bindcE)
  obtain uuid now status posts where one: "adds seen [delivery_row uuid now (webhook ''id'') body status n ok1] posts s s1"
      "length posts \<le> 1" "\<forall>p\<in>set posts. fst (snd p) = body" "ok1 \<longrightarrow> posts \<noteq> []"
    using deliver_once_log [OF once] by blast
  show ?case
  proof (cases ok1)
    case True
    with rest one delivery_log_last [of webhook body n ns uuid now status] show ?thesis by fastforce
  next
    case False
    with rest obtain s2 where sleep: "(if int n < webhook_max_attempts (wk_settings W)
        then wk_sleep W (min (2 ^ n) 30) else ret ()) s1 = (Inr (), s2)"
      and more: "attempts W webhook body event_name delivery_id ns s2 = (Inr ok, s')"
      by (auto elim: bindcE)
    from sleep have "seen s2 = seen s1" by (auto dest: keepsD [OF worker_sleep] split: if_splits)
    from adds_none [OF this] have s2: "adds seen [] [] s1 s2" .
    from Cons.IH [OF more] obtain rows posts' where r: "adds seen rows posts' s2 s'" "delivery_log webhook body ns ok rows"
      "length posts' \<le> length rows" "\<forall>p\<in>set posts'. fst (snd p) = body" "ok \<longrightarrow> posts' \<noteq> []" by blast
    from adds_trans [OF one(1) adds_trans [OF s2 r(1)]] False
    have "adds seen (delivery_row uuid now (webhook ''id'') body status n False # rows) (posts @ posts') s s'" by simp
    moreover note delivery_log_Cons [OF r(2), of n uuid now status]
    moreover have "length (posts @ posts') \<le> length (delivery_row uuid now (webhook ''id'') body status n False # rows)"
      "\<forall>p\<in>set (posts @ posts'). fst (snd p) = body" "ok \<longrightarrow> posts @ posts' \<noteq> []"
      using one(2,3) r(3-5) by auto
    ultimately show ?thesis by blast
  qed
qed

end

context courier
begin

lemma dispatch_log:
  assumes "dispatch_event W webhook event_name event_data s = (Inr ok, s')"
  defines "body \<equiv> event_body event_name event_data (wk_now W s)"
  shows "if webhook_max_body_bytes (wk_settings W) < int (length body) then \<not> ok \<and> s' = s
    else \<exists>rows posts. adds seen rows posts s s' \<and> length posts \<le> length rows
      \<and> delivery_log webhook body (attempt_numbers W) ok rows
      \<and> (\<forall>p\<in>set posts. fst (snd p) = body) \<and> (ok \<longrightarrow> posts \<noteq> [])"
proof (cases "webhook_max_body_bytes (wk_settings W) < int (length body)")
  case True
  with assms(1) show ?thesis by (simp add: dispatch_event_def Let_def body_def)
next
  case False
  with assms(1) obtain u s1 where u: "wk_uuid4 W s = (Inr u, s1)"
    and more: "attempts W webhook body event_name (uuid_str u) (attempt_numbers W) s1 = (Inr ok, s')"
    unfolding dispatch_event_def Let_def body_def [symmetric] by (auto elim: bindcE)
  have "adds seen rows posts s s'" if "adds seen rows posts s1 s'" for rows posts
    using adds_trans [OF adds_none [OF keepsD [OF worker_uuid4 u]] that] by simp
  with attempts_log [OF more] False show ?thesis by (simp only: if_False) blast
qed

text \<open>Settling: only the last step of a message settles it.\<close>

lemma recipient_keeps: "keeps seen (recipient W webhook_id event_name)"
  unfolding recipient_def
proof (intro keeps_bindc)
  show "keeps seen (eng_select (wk_db W) q)" for q unfolding keeps_def by (blast dest: worker_select)
qed (auto split: option.splits intro!: keeps_bindc)

lemma record_delivery_settled: "keeps (\<lambda>s. seen_settled (seen s)) (record_delivery W w body status n ok)"
  unfolding record_delivery_def
proof (intro keeps_bindc)
  show "keeps (\<lambda>s. seen_settled (seen s)) (wk_uuid4 W)"
    using worker_uuid4 by (auto simp: keeps_def)
next
  fix u
  show "keeps (\<lambda>s. seen_settled (seen s))
      (\<lambda>s. eng_tx (wk_db W) [Add ''webhook_deliveries'' [delivery_row u (wk_now W s) w body status n ok]] s)"
    unfolding keeps_def by (fastforce dest: worker_tx)
qed

lemma deliver_once_settled: "keeps (\<lambda>s. seen_settled (seen s)) (deliver_once W webhook body ev delivery_id n)"
  unfolding keeps_def
proof (intro allI impI)
  fix s r s' assume run: "deliver_once W webhook body ev delivery_id n s = (r, s')"
  obtain t s1 where t: "target_of W webhook s = (t, s1)" by (metis prod.collapse)
  have rec: "keeps (\<lambda>s. seen_settled (seen s)) (bindc (record_delivery W w body status n ok) (\<lambda>_. ret ok))" for w status ok
    by (intro keeps_bindc record_delivery_settled keeps_simps)
  have post: "keeps (\<lambda>s. seen_settled (seen s)) (post_once W url body hdrs)" for url hdrs
    unfolding keeps_def by (auto dest!: post_once_adds simp: adds_def)
  have all: "keeps (\<lambda>s. seen_settled (seen s)) (bindc (post_once W url body hdrs) (\<lambda>status.
      bindc (record_delivery W w body status n (successful status)) (\<lambda>_. ret (successful status))))" for url hdrs w
    by (intro keeps_bindc post rec)
  show "seen_settled (seen s') = seen_settled (seen s)"
    using run t keepsD [OF target_keeps t] keepsD [OF rec] keepsD [OF all]
    by (auto simp: deliver_once_def split: sum.splits if_splits prod.splits)
qed

lemma attempts_settled: "keeps (\<lambda>s. seen_settled (seen s)) (attempts W webhook body ev delivery_id ns)"
proof (induction ns)
  case (Cons n ns)
  have "keeps (\<lambda>s. seen_settled (seen s)) (wk_sleep W t)" for t
    using worker_sleep [of t] by (auto simp: keeps_def)
  with Cons show ?case by (auto intro!: keeps_bindc deliver_once_settled)
qed (simp add: keeps_def)

lemma dispatch_settled: "keeps (\<lambda>s. seen_settled (seen s)) (dispatch_event W webhook ev data)"
proof -
  have "keeps (\<lambda>s. seen_settled (seen s)) (wk_uuid4 W)" using worker_uuid4 by (auto simp: keeps_def)
  then have "keeps (\<lambda>s. seen_settled (seen s)) (bindc (wk_uuid4 W) (\<lambda>u. attempts W webhook body ev (uuid_str u) ns))" for body ns
    by (intro keeps_bindc attempts_settled)
  from keepsD [OF this] show ?thesis by (auto simp: keeps_def dispatch_event_def Let_def split: if_splits)
qed

end

text \<open>How a message should be settled, and what the two last steps do.\<close>

definition verdict :: "queued \<Rightarrow> settlement" where
  "verdict m = (case read_envelope (msg_data m) of Inl e \<Rightarrow> Term | Inr x \<Rightarrow> Ack)"

definition settles :: "('s \<Rightarrow> seen) \<Rightarrow> (nat \<times> settlement) list \<Rightarrow> 's \<Rightarrow> 's \<Rightarrow> bool" where
  "settles view xs s s' \<longleftrightarrow> seen_settled (view s') = seen_settled (view s) @ xs"

lemma settles_trans: "settles view xs s s1 \<Longrightarrow> settles view ys s1 s2 \<Longrightarrow> settles view (xs @ ys) s s2"
  by (simp add: settles_def)

lemma settles_none: "seen_settled (view s') = seen_settled (view s) \<Longrightarrow> settles view [] s s'"
  by (simp add: settles_def)

context courier
begin

lemma ack_settles: "wk_ack W n s = (r, s') \<Longrightarrow> (\<exists>e. r = Inl e) \<and> settles seen [] s s' \<or> settles seen [(n, Ack)] s s'"
  using worker_ack [of n s r s'] by (auto simp: settles_def)

lemma deliver_settles:
  assumes "deliver W n webhook webhook_id ev data s = (r, s')"
  shows "(\<exists>e. r = Inl e) \<and> settles seen [] s s' \<or> settles seen [(n, Ack)] s s'"
proof -
  obtain ok s1 where d: "dispatch_event W webhook ev data s = (ok, s1)" by (metis prod.collapse)
  have quiet: "seen_settled (seen s2) = seen_settled (seen s1)" if "js_publish (wk_nats W) DLQ msg s1 = (x, s2)" for msg x s2
    using worker_publish [OF that] by auto
  have ack: "(\<exists>e. r = Inl e) \<and> settles seen [] s s' \<or> settles seen [(n, Ack)] s s'"
    if "wk_ack W n s2 = (r, s')" "seen_settled (seen s2) = seen_settled (seen s)" for s2
    using ack_settles [OF that(1)] that(2) by (simp add: settles_def)
  note d1 = keepsD [OF dispatch_settled d]
  show ?thesis
  proof (cases ok)
    case (Inl e)
    with assms d have "r = Inl e" "s' = s1" by (auto simp: deliver_def bindc_apply)
    with d1 show ?thesis by (simp add: settles_def)
  next
    case (Inr b)
    show ?thesis
    proof (cases b)
      case True
      with assms d Inr have "wk_ack W n s1 = (r, s')" by (simp add: deliver_def bindc_apply)
      from ack [OF this d1] show ?thesis .
    next
      case False
      obtain x s2 where p: "js_publish (wk_nats W) DLQ (dead_letter webhook_id ev data) s1 = (x, s2)" by (metis prod.collapse)
      with assms d Inr False have "x = Inr () \<and> wk_ack W n s2 = (r, s') \<or> (\<exists>e. x = Inl e \<and> r = Inl e \<and> s' = s2)"
        by (auto simp: deliver_def bindc_apply split: sum.splits)
      then show ?thesis using ack [of s2] quiet [OF p] d1 by (auto simp: settles_def)
    qed
  qed
qed

lemma message_settles:
  assumes "handle_message W m s = (r, s')"
  shows "(\<exists>e. r = Inl e) \<and> settles seen [] s s' \<or> settles seen [(msg_no m, verdict m)] s s'"
proof (cases "read_envelope (msg_data m)")
  case (Inl e)
  with assms have "wk_term W (msg_no m) s = (r, s')" by (simp add: handle_message_def)
  from worker_term [OF this] Inl show ?thesis by (auto simp: settles_def verdict_def)
next
  case (Inr env)
  obtain webhook_id ev data where env: "env = (webhook_id, ev, data)" by (metis prod_cases3)
  obtain found s1 where f: "recipient W webhook_id ev s = (found, s1)" by (metis prod.collapse)
  note s1 = keepsD [OF recipient_keeps f]
  have step: "handle_message W m s = (case found of Inl e \<Rightarrow> (Inl e, s1)
      | Inr None \<Rightarrow> wk_ack W (msg_no m) s1 | Inr (Some w) \<Rightarrow> deliver W (msg_no m) w webhook_id ev data s1)"
    using Inr env f by (simp add: handle_message_def bindc_apply split: sum.split option.split)
  have v: "verdict m = Ack" using Inr by (simp add: verdict_def)
  show ?thesis
    using assms ack_settles [of "msg_no m" s1 r s'] deliver_settles [of "msg_no m" _ webhook_id ev data s1 r s'] s1 v
    unfolding step settles_def by (auto split: sum.splits option.splits)
qed

lemma batch_settles:
  assumes "handle_all W ms s = (r, s')"
  shows "\<exists>ns. subseq ns ms \<and> settles seen (map (\<lambda>m. (msg_no m, verdict m)) ns) s s' \<and> (r = Inr () \<longrightarrow> ns = ms)"
  using assms
proof (induction ms arbitrary: s r)
  case Nil
  then show ?case by (auto simp: settles_def intro!: exI [of _ "[]"])
next
  case (Cons m ms)
  obtain x s1 where h: "handle_message W m s = (x, s1)" by (metis prod.collapse)
  then consider (quiet) e where "x = Inl e" "settles seen [] s s1" | (settled) "settles seen [(msg_no m, verdict m)] s s1"
    using message_settles [OF h] by blast
  then obtain first where first: "first = [] \<and> (\<exists>e. x = Inl e) \<or> first = [m]" "settles seen (map (\<lambda>m. (msg_no m, verdict m)) first) s s1"
    by (cases; fastforce)
  have sub: "subseq first [m]" using first(1) by auto
  show ?case
  proof (cases "\<exists>y. handle_all W ms s1 = (y, s')")
    case True
    then obtain y where y: "handle_all W ms s1 = (y, s')" by blast
    from Cons.IH [OF y] obtain ns where ns: "subseq ns ms" "settles seen (map (\<lambda>m. (msg_no m, verdict m)) ns) s1 s'"
      "y = Inr () \<longrightarrow> ns = ms" by blast
    from settles_trans [OF first(2) ns(2)]
    have "settles seen (map (\<lambda>m. (msg_no m, verdict m)) (first @ ns)) s s'" by simp
    moreover have "subseq (first @ ns) (m # ms)" using list_emb_append_mono [OF sub ns(1)] by simp
    moreover have "r = Inr () \<longrightarrow> first @ ns = m # ms"
      using Cons.prems h y first(1) ns(3) by (auto split: sum.splits prod.splits if_splits)
    ultimately show ?thesis by blast
  next
    case False
    with Cons.prems h have "r \<noteq> Inr ()" "s' = s1" by (auto split: sum.splits prod.splits if_splits)
    moreover have "subseq first (m # ms)" using first(1) by auto
    ultimately show ?thesis using first(2) by blast
  qed
qed

end

section \<open>When the services answer\<close>

text \<open>A condition on a unique key finds one row.\<close>

lemma filter_unique:
  assumes "distinct (map f xs)" "w \<in> set xs" "P w" "\<forall>x\<in>set xs. P x \<longrightarrow> f x = k"
  shows "filter P xs = [w]"
  using assms
proof (induction xs)
  case (Cons x xs)
  have unique: "y = z" if "y \<in> set (x # xs)" "z \<in> set (x # xs)" "P y" "P z" for y z
  proof (rule inj_onD)
    show "inj_on f (set (x # xs))" using Cons.prems(1) by (simp only: distinct_map)
    have "f y = k" "f z = k" using Cons.prems(4) that by blast+
    then show "f y = f z" by simp
  qed (rule that(1,2))+
  show ?case
  proof (cases "x = w")
    case True
    have "w \<notin> set xs" using Cons.prems(1) True by auto
    then have "\<forall>y\<in>set xs. \<not> P y" using unique [of w] True Cons.prems(3) by auto
    with True Cons.prems(3) show ?thesis by simp
  next
    case False
    have "\<not> P x" using unique [of x w] False Cons.prems(2,3) by auto
    moreover have "filter P xs = [w]" by (rule Cons.IH) (use Cons.prems False in auto)
    ultimately show ?thesis by simp
  qed
qed simp

text \<open>
  The database, the broker and the clock answer, the URL check refuses with a \<open>ValueError\<close>, a request fails with
  an \<open>httpx.HTTPError\<close>, and the encryption key is configured. The endpoint itself may do what it likes.
\<close>

locale courier_up = courier +
  assumes tx_up: "exec_all ss (seen_db (seen s)) = Some d \<Longrightarrow> \<exists>s'. eng_tx (wk_db W) ss s = (Inr (), s')"
    and select_up: "\<exists>rows s'. eng_select (wk_db W) q s = (Inr rows, s')"
    and publish_up: "\<exists>s'. js_publish (wk_nats W) subj msg s = (Inr (), s')"
    and ack_up: "\<exists>s'. wk_ack W n s = (Inr (), s')"
    and sleep_up: "\<exists>s'. wk_sleep W t s = (Inr (), s')"
    and uuid4_up: "\<exists>u s'. wk_uuid4 W s = (Inr u, s')"
    and validate_rejects: "wk_validate W url s = (Inl e, s') \<Longrightarrow> is_ValueError e"
    and post_fails: "wk_post W url body hdrs s = (Inl e, s') \<Longrightarrow> is_HTTPError e"
    and key_configured: "\<exists>k. fernet_key (wk_crypto W) (wk_settings W) = Inr k"
begin

lemma record_delivery_up: "\<exists>s'. record_delivery W w body status n ok s = (Inr (), s')"
proof -
  obtain u s1 where u: "wk_uuid4 W s = (Inr u, s1)" using uuid4_up by blast
  obtain s2 where "eng_tx (wk_db W) [Add ''webhook_deliveries'' [delivery_row u (wk_now W s1) w body status n ok]] s1 = (Inr (), s2)"
    using tx_up [of "[Add ''webhook_deliveries'' [delivery_row u (wk_now W s1) w body status n ok]]" s1] by auto
  with u show ?thesis by (simp add: record_delivery_def bindc_apply)
qed

lemma target_up: "target_of W webhook s = (Inl e, s') \<Longrightarrow> is_ValueError e"
  using key_configured
  by (auto simp: target_of_def pure_def decrypt_webhook_secret_def elim!: bindcE dest: validate_rejects split: option.splits)

lemma deliver_once_up: "\<exists>ok s'. deliver_once W webhook body ev delivery_id n s = (Inr ok, s')"
proof (cases "target_of W webhook s")
  case (Pair t s1)
  show ?thesis
  proof (cases t)
    case (Inl e)
    with record_delivery_up [of "webhook ''id''" body None n False s1] target_up [of webhook s e s1] Pair
    show ?thesis by (auto simp: deliver_once_def bindc_apply)
  next
    case (Inr p)
    obtain url secret where p: "p = (url, secret)" by (cases p)
    let ?hdrs = "delivery_headers W delivery_id ev (wk_now W s1) body secret"
    have "\<exists>status s2. post_once W url body ?hdrs s1 = (Inr status, s2)"
      using post_fails [of url body ?hdrs s1] by (auto simp: post_once_def split: prod.splits sum.splits)
    then obtain status s2 where post: "post_once W url body ?hdrs s1 = (Inr status, s2)" by blast
    obtain s3 where "record_delivery W (webhook ''id'') body status n (successful status) s2 = (Inr (), s3)"
      using record_delivery_up by blast
    with Pair Inr p post show ?thesis by (simp add: deliver_once_def bindc_apply)
  qed
qed

lemma attempts_up: "\<exists>ok s'. attempts W webhook body ev delivery_id ns s = (Inr ok, s')"
proof (induction ns arbitrary: s)
  case (Cons n ns)
  obtain ok s1 where once: "deliver_once W webhook body ev delivery_id n s = (Inr ok, s1)" using deliver_once_up by blast
  obtain s2 where "(if int n < webhook_max_attempts (wk_settings W) then wk_sleep W (min (2 ^ n) 30) else ret ()) s1 = (Inr (), s2)"
    using sleep_up by (cases "int n < webhook_max_attempts (wk_settings W)") auto
  with once Cons [of s2] show ?case by (cases ok) (auto simp: bindc_apply)
qed auto

lemma dispatch_up: "\<exists>ok s'. dispatch_event W webhook ev data s = (Inr ok, s')"
proof -
  obtain u s1 where "wk_uuid4 W s = (Inr u, s1)" using uuid4_up by blast
  with attempts_up [of webhook "event_body ev data (wk_now W s)" ev "uuid_str u" "attempt_numbers W" s1]
  show ?thesis by (auto simp: dispatch_event_def Let_def bindc_apply)
qed

text \<open>The recipient is found when identifiers are unique.\<close>

lemma recipient_found:
  assumes "keyed [''id''] (seen_db (seen s) ''webhooks'')" "w \<in> set (seen_db (seen s) ''webhooks'')"
    and "w ''id'' = CText webhook_id" "active w" "subscribed ev (w ''events'') = Inr True"
  obtains s' where "recipient W webhook_id ev s = (Inr (Some w), s')" "seen s' = seen s"
proof -
  obtain rows s1 where sel: "eng_select (wk_db W) (active_webhook webhook_id) s = (Inr rows, s1)" using select_up by blast
  then have "mset rows = mset (filter (\<lambda>r. r ''id'' = CText webhook_id \<and> active r) (seen_db (seen s) ''webhooks''))"
    using worker_select [OF sel] by (simp add: active_webhook_def answers_select_from)
  moreover have "filter (\<lambda>r. r ''id'' = CText webhook_id \<and> active r) (seen_db (seen s) ''webhooks'') = [w]"
    by (rule filter_unique [where f = "key_of [''id'']" and k = "[CText webhook_id]"])
       (use assms(1-4) in \<open>auto simp: keyed_def key_of_def\<close>)
  ultimately have "rows = [w]" by simp
  with sel assms(5) show ?thesis
    by (intro that [of s1]) (auto simp: recipient_def pure_def bindc_apply worker_select [OF sel])
qed

end

text \<open>What the worker reads is what the scheduler published.\<close>

lemma read_published:
  assumes "w ''id'' = CText webhook_id" "\<forall>p\<in>set data. wf_val (snd p)" "distinct (map fst data)"
  shows "read_envelope (envelope w ev data) = Inr (webhook_id, ev, map (\<lambda>(k, v). (k, jsonify v)) data)"
proof -
  have "wf_val (PDict [(''webhook_id'', text_value (w ''id'')), (''event'', PStr ev), (''data'', PDict data)])"
    using assms by auto
  from loads_dumps [OF this] assms(1) show ?thesis
    by (simp add: read_envelope_def envelope_def)
qed

text \<open>What the recipient of a post reads.\<close>

lemma read_body:
  assumes "\<forall>p\<in>set data. wf_val (snd p)" "distinct (map fst data)"
  shows "loads (event_body ev data now) = Some (PDict [(''event'', PStr ev),
     (''data'', PDict (map (\<lambda>(k, v). (k, jsonify v)) data)), (''created_at'', PStr (isoformat now))])"
proof -
  have "wf_val (PDict [(''event'', PStr ev), (''data'', PDict data), (''created_at'', PStr (isoformat now))])"
    using assms by auto
  from loads_dumps [OF this] show ?thesis by (simp add: event_body_def)
qed

lemma jsonify_idem [simp]: "jsonify (jsonify v) = jsonify v"
  by (induction v rule: jsonify.induct) auto

lemma wf_val_jsonify [simp]: "wf_val v \<Longrightarrow> wf_val (jsonify v)"
  by (induction v rule: jsonify.induct) (auto simp: case_prod_unfold comp_def)

section \<open>Every message is settled once\<close>


section \<open>Delivered or dead-lettered\<close>

definition outcome ::
  "'s worker \<Rightarrow> row \<Rightarrow> string \<Rightarrow> bool \<Rightarrow> row list \<Rightarrow> (string \<times> string \<times> (string \<times> string) list) list \<Rightarrow> bool" where
  "outcome W w body delivered rows posts \<longleftrightarrow>
     (\<forall>p\<in>set posts. fst (snd p) = body) \<and> length posts \<le> length rows
   \<and> (if webhook_max_body_bytes (wk_settings W) < int (length body) then \<not> delivered \<and> rows = []
      else delivery_log w body (attempt_numbers W) delivered rows \<and> (delivered \<longrightarrow> posts \<noteq> []))"

context courier_up
begin

lemma dispatch_outcome:
  obtains delivered rows posts s' where "dispatch_event W w ev data s = (Inr delivered, s')" "adds seen rows posts s s'"
    "outcome W w (event_body ev data (wk_now W s)) delivered rows posts"
proof -
  obtain ok s' where d: "dispatch_event W w ev data s = (Inr ok, s')" using dispatch_up by blast
  let ?body = "event_body ev data (wk_now W s)"
  show thesis
  proof (cases "webhook_max_body_bytes (wk_settings W) < int (length ?body)")
    case True
    with dispatch_log [OF d] have "\<not> ok" "s' = s" by auto
    with True d show thesis by (intro that [of ok s' "[]" "[]"]) (auto simp: outcome_def intro: adds_none)
  next
    case False
    with dispatch_log [OF d] obtain rows posts where "adds seen rows posts s s'" "length posts \<le> length rows"
      "delivery_log w ?body (attempt_numbers W) ok rows" "\<forall>p\<in>set posts. fst (snd p) = ?body" "ok \<longrightarrow> posts \<noteq> []"
      by (simp only: if_False) blast
    with d False show thesis by (intro that [of ok s' rows posts]) (simp_all add: outcome_def)
  qed
qed

lemma deliver_outcome:
  obtains delivered rows posts s' where "deliver W n w webhook_id ev data s = (Inr (), s')"
    "seen s' = \<lparr>seen_db = (seen_db (seen s))(''webhook_deliveries'' := seen_db (seen s) ''webhook_deliveries'' @ rows),
       seen_sent = seen_sent (seen s) @ (if delivered then [] else [(DLQ, dead_letter webhook_id ev data)]),
       seen_posts = seen_posts (seen s) @ posts, seen_settled = seen_settled (seen s) @ [(n, Ack)]\<rparr>"
    "outcome W w (event_body ev data (wk_now W s)) delivered rows posts"
proof -
  obtain delivered rows posts s1 where d: "dispatch_event W w ev data s = (Inr delivered, s1)" "adds seen rows posts s s1"
    "outcome W w (event_body ev data (wk_now W s)) delivered rows posts" by (rule dispatch_outcome)
  show thesis
  proof (cases delivered)
    case True
    obtain s2 where a: "wk_ack W n s1 = (Inr (), s2)" using ack_up by blast
    from worker_ack [OF a] d True a show thesis
      by (intro that [of s2 rows delivered posts]) (simp_all add: deliver_def bindc_apply adds_def)
  next
    case False
    obtain s2 where p: "js_publish (wk_nats W) DLQ (dead_letter webhook_id ev data) s1 = (Inr (), s2)" using publish_up by blast
    obtain s3 where a: "wk_ack W n s2 = (Inr (), s3)" using ack_up by blast
    from worker_ack [OF a] worker_publish [OF p] d False a p show thesis
      by (intro that [of s3 rows delivered posts]) (simp_all add: deliver_def bindc_apply adds_def)
  qed
qed

end


section \<open>What a client can verify\<close>

definition signed :: "'s worker \<Rightarrow> string \<Rightarrow> string \<Rightarrow> (string \<times> string \<times> (string \<times> string) list) list \<Rightarrow> bool" where
  "signed W secret body posts \<longleftrightarrow> (\<forall>(url, b, hdrs)\<in>set posts.
     b = body \<and> map_of hdrs ''X-UTTG-Signature'' = Some (''sha256='' @ wk_hmac W secret body))"

context courier
begin

lemma record_delivery_posts: "keeps (\<lambda>s. seen_posts (seen s)) (record_delivery W w body status n ok)"
  unfolding record_delivery_def
proof (intro keeps_bindc)
  show "keeps (\<lambda>s. seen_posts (seen s)) (wk_uuid4 W)" using worker_uuid4 by (auto simp: keeps_def)
next
  fix u
  show "keeps (\<lambda>s. seen_posts (seen s))
      (\<lambda>s. eng_tx (wk_db W) [Add ''webhook_deliveries'' [delivery_row u (wk_now W s) w body status n ok]] s)"
    unfolding keeps_def by (fastforce dest: worker_tx)
qed

lemma deliver_once_signed:
  assumes "deliver_once W w body ev delivery_id n s = (r, s')"
    and secret: "decrypt_webhook_secret (wk_crypto W) (wk_settings W) (text_of (w ''secret_ciphertext'')) = Inr secret"
  shows "\<exists>posts. seen_posts (seen s') = seen_posts (seen s) @ posts \<and> signed W secret body posts"
proof -
  obtain t s1 where t: "target_of W w s = (t, s1)" by (metis prod.collapse)
  note s1 = keepsD [OF target_keeps t]
  have rec: "keeps (\<lambda>s. seen_posts (seen s)) (bindc (record_delivery W (w ''id'') body status n ok) (\<lambda>_. ret ok))" for status ok
    by (intro keeps_bindc record_delivery_posts keeps_simps)
  show ?thesis
  proof (cases t)
    case (Inl e)
    with assms(1) t have "s' = s1 \<or> bindc (record_delivery W (w ''id'') body None n False) (\<lambda>_. ret False) s1 = (r, s')"
      by (auto simp: deliver_once_def split: if_splits)
    with keepsD [OF rec] s1 have "seen_posts (seen s') = seen_posts (seen s)" by auto
    then show ?thesis by (intro exI [of _ "[]"]) (simp add: signed_def)
  next
    case (Inr p)
    with t secret obtain url where p: "p = (url, secret)" by (auto simp: target_of_def pure_def elim!: bindcE)
    let ?hdrs = "delivery_headers W delivery_id ev (wk_now W s1) body secret"
    obtain status s2 where post: "post_once W url body ?hdrs s1 = (status, s2)" by (metis prod.collapse)
    have "seen_posts (seen s') = seen_posts (seen s2)"
      using assms(1) t Inr p post keepsD [OF rec] by (auto simp: deliver_once_def bindc_apply [of "post_once W url body ?hdrs"] split: sum.splits)
    moreover have "seen_posts (seen s2) = seen_posts (seen s) @ [(url, body, ?hdrs)]"
      using post_once_adds [OF post] s1 by (simp add: adds_def)
    moreover have "signed W secret body [(url, body, ?hdrs)]"
      by (simp add: signed_def delivery_headers_def signature_def)
    ultimately show ?thesis by metis
  qed
qed

end

lemma subscribed_text:
  "subscribed ev (CText (dumps (PList (map PStr events)))) = Inr (ev \<in> set events)"
proof -
  have "loads (dumps (PList (map PStr events))) = Some (PList (map PStr events))"
    using loads_dumps [of "PList (map PStr events)"] by (simp add: comp_def)
  then show ?thesis by (auto simp: member_of_def list_all_iff)
qed

lemma decrypt_encrypt:
  assumes "encrypt_webhook_secret C cfg secret = Inr ciphertext" "\<forall>k x. fernet_decrypt C k (fernet_encrypt C k x) = Some x"
  shows "decrypt_webhook_secret C cfg ciphertext = Inr secret"
  using assms by (auto simp: encrypt_webhook_secret_def decrypt_webhook_secret_def bindr_Inr)

context handlers
begin

text \<open>A webhook that was created is in the table as asked for.\<close>

lemma commit_done:
  assumes "commit_webhook A V t key w s = (Inr u, s')"
  shows "view s' = (view s)(''webhooks'' := view s ''webhooks'' @ [w])"
proof -
  from assms have "eng_tx (app_db A) [Add ''webhooks'' [w]] s = (Inr u, s')"
    by (auto simp: commit_webhook_def catchc_apply bindc_apply split: prod.splits sum.splits if_splits)
  from tx_done [OF this] show ?thesis by simp
qed

lemma insert_done:
  assumes "insert_webhook A V t W client key body s = (Inr (url, secret), s')"
  shows "\<exists>ciphertext. encrypt_webhook_secret (env_crypto W) (app_settings A) secret = Inr ciphertext
    \<and> webhook_row W (app_now A) client url (new_events body) secret ciphertext \<in> set (view s' ''webhooks'')"
  using assms unfolding insert_webhook_def Let_def
  by (auto simp: pure_def split: if_splits elim!: bindcE dest!: commit_done)

lemma create_done:
  assumes "create_webhook A V t W client key body s = (Inr response, s')"
  obtains url secret ciphertext where
    "encrypt_webhook_secret (env_crypto W) (app_settings A) secret = Inr ciphertext"
    "webhook_row W (app_now A) client url (new_events body) secret ciphertext \<in> set (view s' ''webhooks'')"
    "bindr (subscript response ''data'') (\<lambda>d. subscript d ''signing_secret'') = Inr (PStr secret)"
proof -
  from assms obtain url secret s1 where ins: "insert_webhook A V t W client key body s = (Inr (url, secret), s1)"
    and resp: "respond A ''/webhooks'' [] (PDict [(''id'', PStr (env_uuid4 W)), (''url'', PStr url),
         (''events'', PList (map PStr (new_events body))), (''active'', PBool True), (''signing_secret'', PStr secret)]) s1
       = (Inr response, s')"
    by (auto simp: create_webhook_def elim!: bindcE)
  from insert_done [OF ins] obtain ciphertext where c:
    "encrypt_webhook_secret (env_crypto W) (app_settings A) secret = Inr ciphertext"
    "webhook_row W (app_now A) client url (new_events body) secret ciphertext \<in> set (view s1 ''webhooks'')" by blast
  have "view s' = view s1" by (rule keepsD [OF respond_keeps resp])
  moreover from resp have "bindr (subscript response ''data'') (\<lambda>d. subscript d ''signing_secret'') = Inr (PStr secret)"
    by (auto simp: respond_def api_response_def elim!: bindcE)
  ultimately show thesis using that c by metis
qed

end

text \<open>
  C9: A client can verify what it receives. When the creation of a webhook returns, the response contains a signing
  secret, and the table a webhook of the client, active, with the checked URL and exactly the requested
  events; and whatever the worker, running with the same settings and an encryption that can be undone, posts for
  this webhook, at whatever attempt and however it ends, is the body it was given with the HMAC of that body
  under that very secret in \<open>X-UTTG-Signature\<close>.
\<close>

theorem signature_verifiable:
  assumes "handlers A view"
    and "create_webhook A V t E client key body s = (Inr response, s')"
    and "courier W observed" "wk_settings W = app_settings A" "wk_crypto W = env_crypto E"
    and "\<forall>k x. fernet_decrypt (env_crypto E) k (fernet_encrypt (env_crypto E) k x) = Some x"
  shows "\<exists>secret w. bindr (subscript response ''data'') (\<lambda>d. subscript d ''signing_secret'') = Inr (PStr secret)
    \<and> w \<in> set (view s' ''webhooks'') \<and> w ''owner_ip_fingerprint'' = CText client \<and> active w
    \<and> (\<forall>ev. subscribed ev (w ''events'') = Inr (ev \<in> set (new_events body)))
    \<and> (\<forall>message_body ev delivery_id n d r d'. deliver_once W w message_body ev delivery_id n d = (r, d') \<longrightarrow>
        (\<exists>posts. seen_posts (observed d') = seen_posts (observed d) @ posts \<and> signed W secret message_body posts))"
proof -
  obtain url secret ciphertext where c: "encrypt_webhook_secret (env_crypto E) (app_settings A) secret = Inr ciphertext"
    and w: "webhook_row E (app_now A) client url (new_events body) secret ciphertext \<in> set (view s' ''webhooks'')"
    and resp: "bindr (subscript response ''data'') (\<lambda>d. subscript d ''signing_secret'') = Inr (PStr secret)"
    by (rule handlers.create_done [OF assms(1,2)]) (rule that)
  let ?w = "webhook_row E (app_now A) client url (new_events body) secret ciphertext"
  have fields: "text_of (?w ''secret_ciphertext'') = ciphertext" "?w ''events'' = CText (dumps (PList (map PStr (new_events body))))"
    by (simp_all add: webhook_row_def row_of_def)
  have "decrypt_webhook_secret (wk_crypto W) (wk_settings W) (text_of (?w ''secret_ciphertext'')) = Inr secret"
    using decrypt_encrypt [OF c assms(6)] assms(4,5) fields by simp
  then have "\<forall>message_body ev delivery_id n d r d'. deliver_once W ?w message_body ev delivery_id n d = (r, d') \<longrightarrow>
      (\<exists>posts. seen_posts (observed d') = seen_posts (observed d) @ posts \<and> signed W secret message_body posts)"
    using courier.deliver_once_signed [OF assms(3)] by blast
  moreover have "\<forall>ev. subscribed ev (?w ''events'') = Inr (ev \<in> set (new_events body))"
    by (simp only: fields(2) subscribed_text simp_thms)
  moreover have "?w ''owner_ip_fingerprint'' = CText client" "active ?w" by simp_all
  ultimately show ?thesis using resp w by blast
qed

section \<open>The documented services\<close>

text \<open>They do what they are documented to do to what is seen; the endpoint answers with a fixed status.\<close>

definition bench :: "settings \<Rightarrow> crypto \<Rightarrow> (string \<Rightarrow> exn + int) \<Rightarrow> seen worker" where
  "bench cfg C reply = \<lparr>wk_settings = cfg,
     wk_db = \<lparr>eng_tx = \<lambda>ss s. case doc_tx ss (seen_db s) of (r, d) \<Rightarrow> (r, s\<lparr>seen_db := d\<rparr>),
       eng_select = \<lambda>q s. (fst (doc_select q (seen_db s)), s)\<rparr>,
     wk_nats = \<lparr>js_publish = \<lambda>subj msg s. (Inr (), s\<lparr>seen_sent := seen_sent s @ [(subj, msg)]\<rparr>),
       js_stream_info = \<lambda>_. ret (), js_add_stream = \<lambda>_ _. ret (), nc_connect = \<lambda>_. ret (), nc_is_closed = \<lambda>_. False,
       nc_close = ret ()\<rparr>,
     wk_crypto = C, wk_hmac = (\<lambda>k m. k @ m), wk_validate = (\<lambda>url. ret url),
     wk_post = \<lambda>url body hdrs s. (reply url, s\<lparr>seen_posts := seen_posts s @ [(url, body, hdrs)]\<rparr>),
     wk_ack = \<lambda>n s. (Inr (), s\<lparr>seen_settled := seen_settled s @ [(n, Ack)]\<rparr>),
     wk_term = \<lambda>n s. (Inr (), s\<lparr>seen_settled := seen_settled s @ [(n, Term)]\<rparr>),
     wk_sleep = \<lambda>_. ret (), wk_now = \<lambda>_. 0, wk_uuid4 = ret 7, wk_subscribe = \<lambda>_ _. ret (), wk_fetch = \<lambda>_. ret []\<rparr>"

interpretation bench: courier "bench cfg C reply" "\<lambda>s. s" for cfg C reply
proof unfold_locales
  fix q :: query and s s' :: seen and found
  assume "eng_select (wk_db (bench cfg C reply)) q s = (found, s')"
  then show "s' = s \<and> (\<forall>rows. found = Inr rows \<longrightarrow> answers q (seen_db s) rows)"
    using doc_db.select_answers [of q "seen_db s" _ "seen_db s"]
    by (auto simp: bench_def doc_engine_def doc_select_def)
qed (auto simp: bench_def doc_tx_def keeps_def split: option.splits)

interpretation bench_up: courier_up "bench (cfg\<lparr>webhook_encryption_key := Some (CHR ''k'' # key)\<rparr>) C (\<lambda>url. Inr (status url))" "\<lambda>s. s"
  for cfg key C status
  by unfold_locales (auto simp: bench_def doc_tx_def doc_select_def fernet_key_def)

abbreviation plain_bench :: "seen worker" where
  "plain_bench \<equiv> bench some_settings (env_crypto some_env) (\<lambda>_. Inr 500)"

abbreviation quiet_seen :: "row list \<Rightarrow> seen" where
  "quiet_seen ws \<equiv> \<lparr>seen_db = (\<lambda>_. [])(''webhooks'' := ws), seen_sent = [], seen_posts = [], seen_settled = []\<rparr>"



definition new_hook :: webhook_create where
  "new_hook = \<lparr>new_url = ''https://h'', new_events = [''launch.updated''], new_secret = Some ''sixteen-letters!''\<rparr>"

text \<open>The documented site with a cache that holds nothing: every value is computed.\<close>

definition cold_app :: "settings \<Rightarrow> site app" where
  "cold_app cfg = (site_app cfg 0)\<lparr>app_cached := \<lambda>k f ttl stale. bindc f (\<lambda>v. ret (v, ''fresh'', 0))\<rparr>"

interpretation cold: handlers "cold_app cfg" s_db for cfg
proof unfold_locales
  fix f :: "(site, pyval) io" and k ttl stale
  assume "keeps s_db f"
  then show "keeps s_db (app_cached (cold_app cfg) k f ttl stale)" by (auto simp: cold_app_def)
qed (use site_db.tx_done site_db.tx_failed site_db.select_answers site_db.select_quiet in \<open>auto simp: cold_app_def site_app_def\<close>)

lemma cold_respond: "\<exists>response. respond (cold_app cfg) res [] data s = (Inr response, s)"
  by (simp add: respond_def build_meta_def sources_of_def cold_app_def load_health_def site_app_def site_engine_def
      doc_select_def limited_def select_from_def bindc_apply pure_def meta_of_def inactive_def index_by_def sort_rows_def)

theorem signature_verifiable_witness:
  "\<exists>response s'. create_webhook (cold_app some_settings) site_valkey 0 some_env ''c'' ''key'' new_hook
        \<lparr>s_kv = Map.empty, s_db = \<lambda>_. []\<rparr> = (Inr response, s')
    \<and> (\<exists>secret w. bindr (subscript response ''data'') (\<lambda>d. subscript d ''signing_secret'') = Inr (PStr secret)
        \<and> w \<in> set (s_db s' ''webhooks'') \<and> active w)"
proof -
  let ?s = "\<lparr>s_kv = Map.empty, s_db = \<lambda>_. []\<rparr>"
  have "\<exists>s1. insert_webhook (cold_app some_settings) site_valkey 0 some_env ''c'' ''key'' new_hook ?s
      = (Inr (''https://h'', ''sixteen-letters!''), s1)"
    by (simp add: insert_webhook_def cold_app_def site_app_def some_env_def new_hook_def pure_def bindc_apply site_engine_def
        doc_select_def limited_def select_from_def sort_rows_def site_valkey_def on_kv_def doc_set_def commit_webhook_def
        catchc_apply doc_tx_def signing_secret_of_def encrypt_webhook_secret_def fernet_key_def Let_def peek_def)
  then obtain s1 where ins: "insert_webhook (cold_app some_settings) site_valkey 0 some_env ''c'' ''key'' new_hook ?s
      = (Inr (''https://h'', ''sixteen-letters!''), s1)" by blast
  obtain response where "respond (cold_app some_settings) ''/webhooks'' [] (PDict [(''id'', PStr (env_uuid4 some_env)),
      (''url'', PStr ''https://h''), (''events'', PList (map PStr (new_events new_hook))), (''active'', PBool True),
      (''signing_secret'', PStr ''sixteen-letters!'')]) s1 = (Inr response, s1)"
    using cold_respond by blast
  with ins have "create_webhook (cold_app some_settings) site_valkey 0 some_env ''c'' ''key'' new_hook ?s = (Inr response, s1)"
    by (simp add: create_webhook_def bindc_apply)
  note run = this
  from signature_verifiable [where W = "bench some_settings (env_crypto some_env) (\<lambda>_. Inr 200)" and observed = "\<lambda>s. s",
      OF cold.handlers_axioms run bench.courier_axioms] run
  show ?thesis by (auto simp: cold_app_def site_app_def bench_def some_env_def)
qed

end
