(* ===== verification/Analytics.thy ===== *)
theory Analytics
  imports Sql Settings
begin

text \<open>
  Request analytics (\<open>src/core/analytics.py\<close>): the bounded queue of metrics, the batches the writer makes of
  it, the rows a batch adds up to and the upsert that adds them to the table. The middleware that feeds the queue is
  in the theory \<open>Middleware\<close>.

  The theorem is that the counts of the table are the counts of the metrics written, however the metrics
  were divided into batches.
\<close>

section \<open>Metrics and the queue\<close>

record metric =
  m_at :: datetime
  m_route :: string
  m_method :: string
  m_status :: int
  m_duration :: pyfloat
  m_bytes :: int
  m_cache :: "string option"

text \<open>\<open>put_nowait\<close>; a full queue drops the metric. A size of 0 or less is no bound.\<close>

definition put_nowait :: "int \<Rightarrow> metric \<Rightarrow> metric list \<Rightarrow> metric list" where
  "put_nowait maxsize m q = (if 0 < maxsize \<and> maxsize \<le> int (length q) then q else q @ [m])"

text \<open>
  A batch: the first metric, then those that arrive before the deadline, up to the size. An arrival is the time an
  item can be taken; the second result is what is left in the queue.
\<close>

fun fill_batch :: "nat \<Rightarrow> rat \<Rightarrow> rat \<Rightarrow> (rat \<times> metric) list \<Rightarrow> metric list \<times> (rat \<times> metric) list" where
  "fill_batch n deadline now [] = ([], [])"
| "fill_batch 0 deadline now arrivals = ([], arrivals)"
| "fill_batch (Suc n) deadline now ((t, m) # arrivals) =
     (if deadline \<le> now \<or> deadline \<le> t then ([], (t, m) # arrivals)
      else case fill_batch n deadline (max now t) arrivals of (ms, rest) \<Rightarrow> (m # ms, rest))"

definition next_batch :: "int \<Rightarrow> rat \<Rightarrow> rat \<Rightarrow> (rat \<times> metric) list \<Rightarrow> (metric list \<times> (rat \<times> metric) list) option" where
  "next_batch batch_size flush now arrivals = (case arrivals of
      [] \<Rightarrow> None
    | (t, m) # rest \<Rightarrow> (case fill_batch (nat (batch_size - 1)) (max now t + flush) (max now t) rest of
        (ms, rest') \<Rightarrow> Some (m # ms, rest')))"

section \<open>Rows\<close>

definition minute_of :: "datetime \<Rightarrow> datetime" where
  "minute_of t = t - t mod 60000000"

definition BUCKET_KEY :: "string list" where "BUCKET_KEY = [''bucket'', ''route'', ''method'']"

record bucket_row =
  b_bucket :: datetime
  b_route :: string
  b_method :: string
  b_requests :: int
  b_errors :: int
  b_sum :: pyfloat
  b_max :: pyfloat
  b_bytes :: int
  b_hits :: int

definition key_of_metric :: "metric \<Rightarrow> datetime \<times> string \<times> string" where
  "key_of_metric m = (minute_of (m_at m), m_route m, m_method m)"

definition key_of_bucket :: "bucket_row \<Rightarrow> datetime \<times> string \<times> string" where
  "key_of_bucket b = (b_bucket b, b_route b, b_method b)"

definition empty_bucket :: "metric \<Rightarrow> bucket_row" where
  "empty_bucket m = \<lparr>b_bucket = minute_of (m_at m), b_route = m_route m, b_method = m_method m, b_requests = 0, b_errors = 0,
     b_sum = Fin 0, b_max = Fin 0, b_bytes = 0, b_hits = 0\<rparr>"

definition is_error :: "metric \<Rightarrow> bool" where "is_error m \<longleftrightarrow> 500 \<le> m_status m"
definition is_hit :: "metric \<Rightarrow> bool" where "is_hit m \<longleftrightarrow> m_cache m = Some ''fresh''"

definition add_metric :: "metric \<Rightarrow> bucket_row \<Rightarrow> bucket_row" where
  "add_metric m b = b\<lparr>b_requests := b_requests b + 1, b_errors := b_errors b + of_bool (is_error m),
     b_sum := f_add (b_sum b) (m_duration m), b_max := f_max (b_max b) (m_duration m),
     b_bytes := b_bytes b + m_bytes m, b_hits := b_hits b + of_bool (is_hit m)\<rparr>"

text \<open>The dictionary of buckets in the order they were first seen.\<close>

fun put_metric :: "metric \<Rightarrow> bucket_row list \<Rightarrow> bucket_row list" where
  "put_metric m [] = [add_metric m (empty_bucket m)]"
| "put_metric m (b # bs) = (if key_of_bucket b = key_of_metric m then add_metric m b # bs else b # put_metric m bs)"

definition aggregate :: "metric list \<Rightarrow> bucket_row list" where
  "aggregate batch = fold put_metric batch []"

definition bucket_cells :: "bucket_row \<Rightarrow> row" where
  "bucket_cells b = row_of [(''bucket'', CTime (b_bucket b)), (''route'', CText (b_route b)), (''method'', CText (b_method b)),
     (''request_count'', CInt (b_requests b)), (''server_error_count'', CInt (b_errors b)),
     (''duration_sum_ms'', CNum (b_sum b)), (''duration_max_ms'', CNum (b_max b)),
     (''response_bytes'', CInt (b_bytes b)), (''cache_hit_count'', CInt (b_hits b))]"

text \<open>\<open>+\<close> and \<open>greatest\<close> of SQL on two columns; \<open>greatest\<close> ignores NULLs.\<close>

fun cell_add :: "cell \<Rightarrow> cell \<Rightarrow> cell" where
  "cell_add (CInt a) (CInt b) = CInt (a + b)"
| "cell_add (CNum x) (CNum y) = CNum (f_add x y)"
| "cell_add x y = CNull"

definition cell_greatest :: "cell \<Rightarrow> cell \<Rightarrow> cell" where
  "cell_greatest x y = (if x = CNull then y else if y = CNull then x else max x y)"

definition merge_bucket :: "row \<Rightarrow> row \<Rightarrow> row" where
  "merge_bucket old new = assign
     [(''request_count'', cell_add (old ''request_count'') (new ''request_count'')),
      (''server_error_count'', cell_add (old ''server_error_count'') (new ''server_error_count'')),
      (''duration_sum_ms'', cell_add (old ''duration_sum_ms'') (new ''duration_sum_ms'')),
      (''duration_max_ms'', cell_greatest (old ''duration_max_ms'') (new ''duration_max_ms'')),
      (''response_bytes'', cell_add (old ''response_bytes'') (new ''response_bytes'')),
      (''cache_hit_count'', cell_add (old ''cache_hit_count'') (new ''cache_hit_count''))] old"

definition METRIC_TABLE :: string where "METRIC_TABLE = ''endpoint_metric_buckets''"

definition batch_stmt :: "metric list \<Rightarrow> stmt" where
  "batch_stmt batch = Insert METRIC_TABLE (map bucket_cells (aggregate batch)) BUCKET_KEY (Some merge_bucket)"

text \<open>A batch that cannot be written is logged and lost.\<close>

definition write_batch :: "'s engine \<Rightarrow> metric list \<Rightarrow> ('s, unit) io" where
  "write_batch E batch = catchc (eng_tx E [batch_stmt batch]) (\<lambda>_. ret ())"

text \<open>The writer over the metrics that arrive while it runs, with at most \<open>n\<close> batches.\<close>

fun writer :: "nat \<Rightarrow> 's engine \<Rightarrow> settings \<Rightarrow> (nat \<Rightarrow> rat) \<Rightarrow> (rat \<times> metric) list \<Rightarrow> ('s, (rat \<times> metric) list) io" where
  "writer 0 E cfg clock arrivals = ret arrivals"
| "writer (Suc n) E cfg clock arrivals =
     (case next_batch (analytics_batch_size cfg) (analytics_flush_seconds cfg) (clock n) arrivals of
        None \<Rightarrow> ret []
      | Some (batch, rest) \<Rightarrow> bindc (write_batch E batch) (\<lambda>_. writer n E cfg clock rest))"

section \<open>What a batch adds up to\<close>

text \<open>The four counts of a bucket and what a metric contributes to each.\<close>

definition COUNTS :: "(string \<times> (bucket_row \<Rightarrow> int) \<times> (metric \<Rightarrow> int)) list" where
  "COUNTS = [(''request_count'', b_requests, \<lambda>m. 1), (''server_error_count'', b_errors, \<lambda>m. of_bool (is_error m)),
     (''response_bytes'', b_bytes, m_bytes), (''cache_hit_count'', b_hits, \<lambda>m. of_bool (is_hit m))]"

lemma key_add_metric [simp]: "key_of_bucket (add_metric m b) = key_of_bucket b"
  by (simp add: add_metric_def key_of_bucket_def)

lemma key_empty_bucket [simp]: "key_of_bucket (empty_bucket m) = key_of_metric m"
  by (simp add: empty_bucket_def key_of_bucket_def key_of_metric_def)

lemma keys_put_metric: "key_of_bucket ` set (put_metric m bs) = insert (key_of_metric m) (key_of_bucket ` set bs)"
  by (induction bs) auto

lemma distinct_put_metric: "distinct (map key_of_bucket bs) \<Longrightarrow> distinct (map key_of_bucket (put_metric m bs))"
proof (induction bs)
  case (Cons b bs)
  then show ?case using keys_put_metric [of m bs] by auto
qed simp

lemma distinct_fold_put: "distinct (map key_of_bucket bs) \<Longrightarrow> distinct (map key_of_bucket (fold put_metric ms bs))"
  by (induction ms arbitrary: bs) (simp_all add: distinct_put_metric)

lemma distinct_aggregate: "distinct (map key_of_bucket (aggregate batch))"
  by (simp add: aggregate_def distinct_fold_put)

definition count_of :: "(bucket_row \<Rightarrow> int) \<Rightarrow> datetime \<times> string \<times> string \<Rightarrow> bucket_row list \<Rightarrow> int" where
  "count_of f k bs = sum_list (map f (filter (\<lambda>b. key_of_bucket b = k) bs))"

definition count_in :: "(metric \<Rightarrow> int) \<Rightarrow> datetime \<times> string \<times> string \<Rightarrow> metric list \<Rightarrow> int" where
  "count_in g k ms = sum_list (map g (filter (\<lambda>m. key_of_metric m = k) ms))"

lemma count_put_metric:
  assumes "(c, f, g) \<in> set COUNTS"
  shows "count_of f k (put_metric m bs) = count_of f k bs + (if key_of_metric m = k then g m else 0)"
proof -
  have "f (add_metric m b) = f b + g m" "f (empty_bucket m) = 0" for b
    using assms by (auto simp: COUNTS_def add_metric_def empty_bucket_def)
  then show ?thesis by (induction bs) (auto simp: count_of_def)
qed

lemma count_aggregate:
  assumes "(c, f, g) \<in> set COUNTS"
  shows "count_of f k (aggregate batch) = count_in g k batch"
proof -
  have "count_of f k (fold put_metric batch bs) = count_of f k bs + count_in g k batch" for bs
    by (induction batch arbitrary: bs) (auto simp: count_in_def count_put_metric [OF assms])
  then show ?thesis by (simp add: aggregate_def count_of_def)
qed

section \<open>What the table adds up to\<close>

fun cell_count :: "cell \<Rightarrow> int" where
  "cell_count (CInt i) = i"
| "cell_count c = 0"

definition stored :: "row list \<Rightarrow> string \<Rightarrow> cell list \<Rightarrow> int" where
  "stored tbl c k = (case by_key BUCKET_KEY tbl k of None \<Rightarrow> 0 | Some r \<Rightarrow> cell_count (r c))"

definition key_cells :: "datetime \<times> string \<times> string \<Rightarrow> cell list" where
  "key_cells k = (case k of (t, r, m) \<Rightarrow> [CTime t, CText r, CText m])"

text \<open>The counts of the table are numbers.\<close>

definition counted :: "row list \<Rightarrow> bool" where
  "counted tbl \<longleftrightarrow> keyed BUCKET_KEY tbl \<and> (\<forall>r\<in>set tbl. \<forall>c\<in>fst ` set COUNTS. \<exists>i. r c = CInt i)"

lemma key_cells_eq [simp]: "key_cells k = key_cells l \<longleftrightarrow> k = l"
  by (cases k; cases l) (auto simp: key_cells_def)

lemma key_bucket_cells [simp]: "key_of BUCKET_KEY (bucket_cells b) = key_cells (key_of_bucket b)"
  by (simp add: key_of_def BUCKET_KEY_def bucket_cells_def row_of_def key_cells_def key_of_bucket_def)

lemma bucket_cells_count: "(c, f, g) \<in> set COUNTS \<Longrightarrow> bucket_cells b c = CInt (f b)"
  by (auto simp: COUNTS_def bucket_cells_def row_of_def)

lemma merge_key [simp]: "keeps_key BUCKET_KEY (Some merge_bucket)"
  by (simp add: keeps_key_def BUCKET_KEY_def key_of_def merge_bucket_def assign_def)

lemma merge_count: "(c, f, g) \<in> set COUNTS \<Longrightarrow> merge_bucket old new c = cell_add (old c) (new c)"
  by (auto simp: COUNTS_def merge_bucket_def assign_def)

lemma bucket_keys:
  "distinct (map (key_of BUCKET_KEY) (map bucket_cells (aggregate batch)))"
  "\<forall>r\<in>set (map bucket_cells (aggregate batch)). CNull \<notin> set (key_of BUCKET_KEY r)"
proof -
  have "map (key_of BUCKET_KEY) (map bucket_cells (aggregate batch)) = map key_cells (map key_of_bucket (aggregate batch))"
    by simp
  then show "distinct (map (key_of BUCKET_KEY) (map bucket_cells (aggregate batch)))"
    using distinct_aggregate [of batch] by (simp add: distinct_map inj_on_def)
qed (auto simp: key_cells_def split: prod.splits)

text \<open>The upsert of a batch succeeds and adds the counts of the batch to those of the table.\<close>

lemma count_of_absent: "k \<notin> key_of_bucket ` set bs \<Longrightarrow> count_of f k bs = 0"
  by (induction bs) (auto simp: count_of_def)

lemma count_of_mem: "distinct (map key_of_bucket bs) \<Longrightarrow> b \<in> set bs \<Longrightarrow> count_of f (key_of_bucket b) bs = f b"
proof (induction bs)
  case (Cons x bs)
  show ?case
  proof (cases "b = x")
    case True
    with Cons.prems have "count_of f (key_of_bucket b) bs = 0" by (intro count_of_absent) auto
    with True show ?thesis by (simp add: count_of_def)
  next
    case False
    with Cons.prems have "b \<in> set bs" "key_of_bucket x \<noteq> key_of_bucket b" by auto
    with Cons show ?thesis by (simp add: count_of_def)
  qed
qed simp

lemma upserted_counts:
  assumes "(c, f, g) \<in> set COUNTS" "counted tbl" "distinct (map key_of_bucket bs)"
  shows "(case upserted BUCKET_KEY (Some merge_bucket) (map bucket_cells bs) (by_key BUCKET_KEY tbl) (key_cells k) of
      None \<Rightarrow> 0 | Some r \<Rightarrow> cell_count (r c)) = stored tbl c (key_cells k) + count_of f k bs"
proof (cases "k \<in> key_of_bucket ` set bs")
  case False
  then have "key_cells k \<notin> key_of BUCKET_KEY ` set (map bucket_cells bs)" by auto
  from upserted_other [OF this] count_of_absent [OF False] show ?thesis by (simp add: stored_def)
next
  case True
  then obtain b where b: "b \<in> set bs" "k = key_of_bucket b" by blast
  have "map (key_of BUCKET_KEY) (map bucket_cells bs) = map key_cells (map key_of_bucket bs)" by simp
  then have d: "distinct (map (key_of BUCKET_KEY) (map bucket_cells bs))" using assms(3) by (simp add: distinct_map inj_on_def)
  have new: "bucket_cells b c = CInt (f b)" by (rule bucket_cells_count [OF assms(1)])
  have row: "upserted BUCKET_KEY (Some merge_bucket) (map bucket_cells bs) (by_key BUCKET_KEY tbl) (key_cells k) =
      Some (case by_key BUCKET_KEY tbl (key_cells k) of None \<Rightarrow> bucket_cells b | Some old \<Rightarrow> merge_bucket old (bucket_cells b))"
    using upserted_row [OF d, of "bucket_cells b" "Some merge_bucket" "by_key BUCKET_KEY tbl"] b
    by (auto split: option.splits)
  have count: "count_of f k bs = f b" using count_of_mem [OF assms(3) b(1)] b(2) by simp
  show ?thesis
  proof (cases "by_key BUCKET_KEY tbl (key_cells k)")
    case None
    with row new count show ?thesis by (simp add: stored_def)
  next
    case (Some old)
    have "c \<in> fst ` set COUNTS" using assms(1) by force
    then obtain i where i: "old c = CInt i" using by_key_SomeD [OF Some] assms(2) unfolding counted_def by blast
    from row Some have "upserted BUCKET_KEY (Some merge_bucket) (map bucket_cells bs) (by_key BUCKET_KEY tbl) (key_cells k)
        = Some (merge_bucket old (bucket_cells b))" by simp
    moreover have "merge_bucket old (bucket_cells b) c = CInt (i + f b)"
      using merge_count [OF assms(1)] i new by simp
    ultimately show ?thesis using Some i count by (simp add: stored_def)
  qed
qed

lemma merge_counted:
  assumes "counted tbl" "keyed BUCKET_KEY tbl'"
    and "by_key BUCKET_KEY tbl' = upserted BUCKET_KEY (Some merge_bucket) (map bucket_cells bs) (by_key BUCKET_KEY tbl)"
  shows "counted tbl'"
  unfolding counted_def
proof (intro conjI ballI assms(2))
  fix r c assume r: "r \<in> set tbl'" and c: "c \<in> fst ` set COUNTS"
  then obtain f g where c': "(c, f, g) \<in> set COUNTS" by force
  from by_key_mem [OF assms(2)] r have "by_key BUCKET_KEY tbl' (key_of BUCKET_KEY r) = Some r" by blast
  then have row: "upserted BUCKET_KEY (Some merge_bucket) (map bucket_cells bs) (by_key BUCKET_KEY tbl) (key_of BUCKET_KEY r) = Some r"
    by (simp only: assms(3))
  have old: "\<exists>i. old c = CInt i" if "by_key BUCKET_KEY tbl k = Some old" for old k
    using by_key_SomeD [OF that] assms(1) c unfolding counted_def by blast
  show "\<exists>i. r c = CInt i"
  proof (cases "find (\<lambda>x. key_of BUCKET_KEY x = key_of BUCKET_KEY r) (map bucket_cells bs)")
    case None
    with row old show ?thesis by (auto simp: upserted_def)
  next
    case (Some new)
    then obtain b where b: "new = bucket_cells b" by (auto simp: find_Some_iff)
    show ?thesis
    proof (cases "by_key BUCKET_KEY tbl (key_of BUCKET_KEY r)")
      case None
      with row Some b bucket_cells_count [OF c'] show ?thesis by (auto simp: upserted_def)
    next
      case (Some x)
      from old [OF this] obtain i where i: "x c = CInt i" by blast
      from row Some \<open>find _ _ = Some new\<close> b have "r = merge_bucket x (bucket_cells b)" by (simp add: upserted_def)
      with merge_count [OF c'] i bucket_cells_count [OF c'] show ?thesis by simp
    qed
  qed
qed

lemma batch_stmt_runs:
  assumes "counted (d METRIC_TABLE)"
  obtains d' where "exec_all [batch_stmt batch] d = Some d'" "counted (d' METRIC_TABLE)" "\<And>t. t \<noteq> METRIC_TABLE \<Longrightarrow> d' t = d t"
    "\<And>c f g k. (c, f, g) \<in> set COUNTS \<Longrightarrow>
       stored (d' METRIC_TABLE) c (key_cells k) = stored (d METRIC_TABLE) c (key_cells k) + count_in g k batch"
proof -
  let ?rows = "map bucket_cells (aggregate batch)"
  have k: "keyed BUCKET_KEY (d METRIC_TABLE)" using assms by (simp add: counted_def)
  obtain tbl where tbl: "insert_rows BUCKET_KEY (Some merge_bucket) ?rows (d METRIC_TABLE) = Some tbl"
    by (rule insert_rows_defined [OF merge_key]) (use bucket_keys(1) in blast)
  have t: "keyed BUCKET_KEY tbl" "by_key BUCKET_KEY tbl = upserted BUCKET_KEY (Some merge_bucket) ?rows (by_key BUCKET_KEY (d METRIC_TABLE))"
    using insert_rows_spec [OF tbl k merge_key bucket_keys(2)] fold_put_key_upserted [of "Some merge_bucket" BUCKET_KEY ?rows]
      bucket_keys(1) by auto
  show thesis
  proof (rule that [of "d(METRIC_TABLE := tbl)"])
    show "exec_all [batch_stmt batch] d = Some (d(METRIC_TABLE := tbl))" using tbl by (simp add: batch_stmt_def)
    show "counted ((d(METRIC_TABLE := tbl)) METRIC_TABLE)" using merge_counted [OF assms t] by simp
    fix c f g k assume c: "(c, f, g) \<in> set COUNTS"
    from upserted_counts [OF c assms distinct_aggregate, where k = k] t(2) count_aggregate [OF c]
    show "stored ((d(METRIC_TABLE := tbl)) METRIC_TABLE) c (key_cells k) = stored (d METRIC_TABLE) c (key_cells k) + count_in g k batch"
      by (simp add: stored_def)
  qed simp
qed

section \<open>Every metric is counted once\<close>

lemma fill_batch_parts: "fill_batch n deadline now arrivals = (ms, rest) \<Longrightarrow> map snd arrivals = ms @ map snd rest"
  by (induction n deadline now arrivals arbitrary: ms rule: fill_batch.induct) (auto split: if_splits prod.splits)

lemma next_batch_parts:
  "next_batch batch_size flush now arrivals = Some (batch, rest) \<Longrightarrow> map snd arrivals = batch @ map snd rest \<and> batch \<noteq> []"
  by (auto simp: next_batch_def dest!: fill_batch_parts split: list.splits prod.splits)

lemma writer_counts:
  assumes "database_up E view" "counted (view s METRIC_TABLE)"
  shows "\<exists>written rest s'. writer n E cfg clock arrivals s = (Inr rest, s') \<and> map snd arrivals = written @ map snd rest
    \<and> (length arrivals \<le> n \<longrightarrow> rest = []) \<and> (\<forall>t. t \<noteq> METRIC_TABLE \<longrightarrow> view s' t = view s t)
    \<and> (\<forall>(c, f, g)\<in>set COUNTS. \<forall>k. stored (view s' METRIC_TABLE) c (key_cells k) =
        stored (view s METRIC_TABLE) c (key_cells k) + count_in g k written)"
  using assms(2)
proof (induction n arbitrary: arrivals s)
  case 0
  show ?case by (rule exI [of _ "[]"]) (auto simp: count_in_def)
next
  case (Suc n)
  show ?case
  proof (cases "next_batch (analytics_batch_size cfg) (analytics_flush_seconds cfg) (clock n) arrivals")
    case None
    then have "arrivals = []" by (auto simp: next_batch_def split: list.splits prod.splits)
    with None show ?thesis by (intro exI [of _ "[]"]) (auto simp: count_in_def)
  next
    case (Some p)
    obtain batch rest where p: "p = (batch, rest)" by (cases p)
    note parts = next_batch_parts [OF Some [unfolded p]]
    obtain d where d: "exec_all [batch_stmt batch] (view s) = Some d" "counted (d METRIC_TABLE)"
      "\<And>t. t \<noteq> METRIC_TABLE \<Longrightarrow> d t = view s t"
      "\<And>c f g k. (c, f, g) \<in> set COUNTS \<Longrightarrow>
         stored (d METRIC_TABLE) c (key_cells k) = stored (view s METRIC_TABLE) c (key_cells k) + count_in g k batch"
      by (rule batch_stmt_runs [where d = "view s", OF Suc.prems]) (rule that)
    obtain s1 where s1: "eng_tx E [batch_stmt batch] s = (Inr (), s1)" "view s1 = d"
      by (rule database_up.tx_runs [OF assms(1) d(1)]) (rule that)
    from Suc.IH [of s1 rest] d(2) s1(2) obtain written rest' s' where
      w: "writer n E cfg clock rest s1 = (Inr rest', s')" "map snd rest = written @ map snd rest'"
      "length rest \<le> n \<longrightarrow> rest' = []" "\<forall>t. t \<noteq> METRIC_TABLE \<longrightarrow> view s' t = view s1 t"
      "\<forall>(c, f, g)\<in>set COUNTS. \<forall>k. stored (view s' METRIC_TABLE) c (key_cells k) =
         stored (view s1 METRIC_TABLE) c (key_cells k) + count_in g k written" by blast
    have run: "writer (Suc n) E cfg clock arrivals s = (Inr rest', s')"
      using Some p s1(1) w(1) by (simp add: bindc_apply write_batch_def catchc_apply)
    have "length arrivals = length batch + length rest" using arg_cong [OF parts [THEN conjunct1], of length] by simp
    with parts have "length arrivals \<le> Suc n \<longrightarrow> length rest \<le> n" by (cases batch) auto
    moreover have "\<forall>(c, f, g)\<in>set COUNTS. \<forall>k. stored (view s' METRIC_TABLE) c (key_cells k) =
        stored (view s METRIC_TABLE) c (key_cells k) + count_in g k (batch @ written)"
      using w(5) d(4) s1(2) by (fastforce simp: count_in_def)
    moreover have "\<forall>t. t \<noteq> METRIC_TABLE \<longrightarrow> view s' t = view s t" using w(4) d(3) s1(2) by simp
    ultimately show ?thesis using run w(2,3) parts by (intro exI [of _ "batch @ written"]) auto
  qed
qed

text \<open>
  C11: The analytics add up. With a database that is up, the writer takes the metrics in the order they came and divides
  them into batches as the clock has it; whatever the division, every route, method and minute ends up with the
  requests, server errors, response bytes and cache hits it had plus those of the metrics written, and no other
  table changes. As many passes as there are metrics write them all.
\<close>

theorem analytics_add_up:
  assumes "database_up E view" "counted (view s METRIC_TABLE)"
  shows "\<exists>written rest s'. writer n E cfg clock arrivals s = (Inr rest, s') \<and> map snd arrivals = written @ map snd rest
    \<and> (length arrivals \<le> n \<longrightarrow> rest = []) \<and> (\<forall>t. t \<noteq> METRIC_TABLE \<longrightarrow> view s' t = view s t)
    \<and> (\<forall>(c, f, g)\<in>set COUNTS. \<forall>k. stored (view s' METRIC_TABLE) c (key_cells k) =
        stored (view s METRIC_TABLE) c (key_cells k) + sum_list (map g (filter (\<lambda>m. key_of_metric m = k) written)))"
  using writer_counts [where view = view and s = s, OF assms] unfolding count_in_def .

definition some_metric :: metric where
  "some_metric = \<lparr>m_at = 61000000, m_route = ''/v1/launches'', m_method = ''GET'', m_status = 503, m_duration = Fin 2, m_bytes = 10,
     m_cache = None\<rparr>"

theorem analytics_add_up_witness:
  "\<exists>s'. writer 1 doc_engine (default_settings [] [] [] []) (\<lambda>_. 0) [(0, some_metric)] (\<lambda>_. []) = (Inr [], s')
    \<and> stored (s' METRIC_TABLE) ''server_error_count'' [CTime 60000000, CText ''/v1/launches'', CText ''GET''] = 1"
proof -
  have ok: "counted ((\<lambda>_. []) METRIC_TABLE)" by (simp add: counted_def keyed_def)
  from analytics_add_up [where n = 1 and cfg = "default_settings [] [] [] []" and clock = "\<lambda>_. 0" and arrivals = "[(0, some_metric)]"
      and view = "\<lambda>d. d" and s = "\<lambda>_. []", OF doc_db.database_up_axioms ok]
  obtain written s' where w: "writer 1 doc_engine (default_settings [] [] [] []) (\<lambda>_. 0) [(0, some_metric)] (\<lambda>_. []) = (Inr [], s')"
    "[some_metric] = written"
    "\<forall>(c, f, g)\<in>set COUNTS. \<forall>k. stored (s' METRIC_TABLE) c (key_cells k) =
        stored [] c (key_cells k) + sum_list (map g (filter (\<lambda>m. key_of_metric m = k) written))" by auto
  have "key_of_metric some_metric = (60000000, ''/v1/launches'', ''GET'')"
    by (simp add: key_of_metric_def some_metric_def minute_of_def)
  moreover have "(''server_error_count'', b_errors, \<lambda>m. of_bool (is_error m)) \<in> set COUNTS" by (simp add: COUNTS_def)
  ultimately have "stored (s' METRIC_TABLE) ''server_error_count'' (key_cells (60000000, ''/v1/launches'', ''GET'')) = 1"
    using w(2,3) by (fastforce simp: stored_def is_error_def some_metric_def)
  with w(1) show ?thesis by (auto simp: key_cells_def)
qed

end
