(* ===== verification/Middleware.thy ===== *)
theory Middleware
  imports Analytics Pyvalue
begin

text \<open>
  The middleware of the application: the body limit and the security headers (\<open>src/core/http.py\<close>), the request
  analytics (\<open>src/core/analytics.py\<close>) and the Prometheus metrics (\<open>src/core/metrics.py\<close>), in the order
  \<open>src/api/main.py\<close> adds them.

  An ASGI application is a tree of what it does next: it ends, receives an event, sends one, reads or changes
  the part of the scope the middleware share, reads a clock, or leaves a mark in the process (a metric). A middleware
  makes one tree of another; what its closures keep in \<open>nonlocal\<close> variables are arguments. The theorems hold
  for every application.
\<close>

section \<open>Applications\<close>

datatype event =
    Request string
  | Disconnect
  | Start int "(string \<times> string) list"
  | Body string

text \<open>What the handlers leave in \<open>scope\<close>: the route, and the attributes of \<open>request.state\<close> the middleware read.\<close>

record shared =
  sh_route :: "string option"
  sh_rate :: "(int \<times> int \<times> int) option"
  sh_cache :: "string option"
  sh_request_id :: "string option"

datatype mark =
    ActiveRequests int
  | CountRequest string string int
  | ObserveLatency string string pyfloat
  | CacheHit string
  | CacheMiss string
  | PutMetric metric

datatype app =
    Finish "exn option"
  | Receive "exn + event \<Rightarrow> app"
  | Send event app
  | Inspect "shared \<Rightarrow> app"
  | Change "shared \<Rightarrow> shared" app
  | Clock "pyfloat \<times> datetime \<Rightarrow> app"
  | Uuid4 "nat \<Rightarrow> app"
  | Mark mark app

record scope =
  sc_type :: string
  sc_path :: string
  sc_method :: string
  sc_headers :: "(string \<times> string) list"

text \<open>\<open>try: p finally: f\<close>, where \<open>f\<close> may use how \<open>p\<close> ended.\<close>

primrec andthen :: "app \<Rightarrow> (exn option \<Rightarrow> app) \<Rightarrow> app" where
  "andthen (Finish r) f = f r"
| "andthen (Receive k) f = Receive (\<lambda>x. andthen (k x) f)"
| "andthen (Send ev p) f = Send ev (andthen p f)"
| "andthen (Inspect k) f = Inspect (\<lambda>x. andthen (k x) f)"
| "andthen (Change g p) f = Change g (andthen p f)"
| "andthen (Clock k) f = Clock (\<lambda>x. andthen (k x) f)"
| "andthen (Uuid4 k) f = Uuid4 (\<lambda>x. andthen (k x) f)"
| "andthen (Mark a p) f = Mark a (andthen p f)"

text \<open>A \<open>send_wrapper\<close>: what it does with an event and its state before the event goes on.\<close>

primrec wrap_send :: "('a \<Rightarrow> event \<Rightarrow> ('a \<Rightarrow> event \<Rightarrow> app) \<Rightarrow> app) \<Rightarrow> app \<Rightarrow> 'a \<Rightarrow> ('a \<Rightarrow> exn option \<Rightarrow> app) \<Rightarrow> app" where
  "wrap_send w (Finish r) a f = f a r"
| "wrap_send w (Receive k) a f = Receive (\<lambda>x. wrap_send w (k x) a f)"
| "wrap_send w (Send ev p) a f = w a ev (\<lambda>a' ev'. Send ev' (wrap_send w p a' f))"
| "wrap_send w (Inspect k) a f = Inspect (\<lambda>x. wrap_send w (k x) a f)"
| "wrap_send w (Change g p) a f = Change g (wrap_send w p a f)"
| "wrap_send w (Clock k) a f = Clock (\<lambda>x. wrap_send w (k x) a f)"
| "wrap_send w (Uuid4 k) a f = Uuid4 (\<lambda>x. wrap_send w (k x) a f)"
| "wrap_send w (Mark m p) a f = Mark m (wrap_send w p a f)"

section \<open>The body limit\<close>

definition RequestBodyTooLarge :: exn where "RequestBodyTooLarge = OtherError ''RequestBodyTooLarge''"

definition quoted :: "string \<Rightarrow> string" where "quoted s = [quote] @ s @ [quote]"

definition TOO_LARGE_BODY :: string where
  "TOO_LARGE_BODY = ''{'' @ join_with '',''
     [quoted ''type'' @ '':'' @ quoted ''https://uttg.example/problems/payload-too-large'',
      quoted ''title'' @ '':'' @ quoted ''Payload too large'', quoted ''status'' @ '':413'',
      quoted ''detail'' @ '':'' @ quoted ''Request body exceeds the configured limit'',
      quoted ''code'' @ '':'' @ quoted ''PAYLOAD_TOO_LARGE''] @ ''}''"

definition payload_too_large :: app where
  "payload_too_large = Send (Start 413 [(''content-type'', ''application/problem+json'')])
     (Send (Body TOO_LARGE_BODY) (Finish None))"

text \<open>Some \<open>content-length\<close> is above the limit or not a number.\<close>

definition declared_too_large :: "int \<Rightarrow> (string \<times> string) list \<Rightarrow> bool" where
  "declared_too_large maximum hdrs \<longleftrightarrow> list_ex (\<lambda>(n, v). map ascii_lower n = ''content-length''
     \<and> (case int_text v of None \<Rightarrow> True | Some i \<Rightarrow> maximum < i)) hdrs"

text \<open>\<open>limited_receive\<close>, with what has been consumed.\<close>

primrec limited_app :: "int \<Rightarrow> app \<Rightarrow> int \<Rightarrow> app" where
  "limited_app maximum (Finish r) n = Finish r"
| "limited_app maximum (Receive k) n = Receive (\<lambda>x. case x of
      Inr (Request b) \<Rightarrow> (if maximum < n + int (length b)
         then limited_app maximum (k (Inl RequestBodyTooLarge)) (n + int (length b))
         else limited_app maximum (k (Inr (Request b))) (n + int (length b)))
    | _ \<Rightarrow> limited_app maximum (k x) n)"
| "limited_app maximum (Send ev p) n = Send ev (limited_app maximum p n)"
| "limited_app maximum (Inspect k) n = Inspect (\<lambda>x. limited_app maximum (k x) n)"
| "limited_app maximum (Change g p) n = Change g (limited_app maximum p n)"
| "limited_app maximum (Clock k) n = Clock (\<lambda>x. limited_app maximum (k x) n)"
| "limited_app maximum (Uuid4 k) n = Uuid4 (\<lambda>x. limited_app maximum (k x) n)"
| "limited_app maximum (Mark a p) n = Mark a (limited_app maximum p n)"

definition RequestBodyLimitMiddleware :: "int \<Rightarrow> (scope \<Rightarrow> app) \<Rightarrow> scope \<Rightarrow> app" where
  "RequestBodyLimitMiddleware maximum app scope =
     (if sc_type scope \<noteq> ''http'' then app scope
      else if declared_too_large maximum (sc_headers scope) then payload_too_large
      else andthen (limited_app maximum (app scope) 0)
        (\<lambda>r. if r = Some RequestBodyTooLarge then payload_too_large else Finish r))"

section \<open>Security headers\<close>

definition is_docs :: "string \<Rightarrow> bool" where
  "is_docs path \<longleftrightarrow> starts_with ''/docs'' path \<or> path = ''/openapi.json''"

definition security_headers :: "string \<Rightarrow> (string \<times> string) list" where
  "security_headers path =
     [(''x-content-type-options'', ''nosniff''), (''x-frame-options'', ''DENY''), (''referrer-policy'', ''no-referrer''),
      (''permissions-policy'', ''camera=(), microphone=(), geolocation=()'')]
     @ (if is_docs path then []
        else [(''content-security-policy'', ''default-src '' @ [CHR 0x27] @ ''none'' @ [CHR 0x27]
          @ ''; frame-ancestors '' @ [CHR 0x27] @ ''none'' @ [CHR 0x27])])"

definition secure_send :: "string \<Rightarrow> unit \<Rightarrow> event \<Rightarrow> (unit \<Rightarrow> event \<Rightarrow> app) \<Rightarrow> app" where
  "secure_send path u ev go = (case ev of Start c hs \<Rightarrow> go () (Start c (hs @ security_headers path)) | _ \<Rightarrow> go () ev)"

definition SecurityHeadersMiddleware :: "(scope \<Rightarrow> app) \<Rightarrow> scope \<Rightarrow> app" where
  "SecurityHeadersMiddleware app scope = wrap_send (secure_send (sc_path scope)) (app scope) () (\<lambda>u. Finish)"

section \<open>Request analytics\<close>

text \<open>
  \<open>value.decode(errors="ignore")\<close> and \<open>str.encode()\<close> for the code points below 256: two bytes stand for one from
  128 on, and what is not UTF-8 is left out.
\<close>

fun decode_ignore :: "string \<Rightarrow> string" where
  "decode_ignore [] = []"
| "decode_ignore (c # cs) =
     (if (of_char c :: nat) < 128 then c # decode_ignore cs
      else case cs of [] \<Rightarrow> []
        | d # ds \<Rightarrow> (if (of_char c :: nat) \<in> {194, 195} \<and> (of_char d :: nat) \<in> {128..191}
            then char_of ((of_char c :: nat) * 64 + of_char d - 12416) # decode_ignore ds else decode_ignore cs))"

definition encode_char :: "char \<Rightarrow> string" where
  "encode_char c = (let n = of_char c :: nat in
     if n < 128 then [c] else [char_of (192 + n div 64), char_of (128 + n mod 64)])"

definition encode :: "string \<Rightarrow> string" where "encode s = concat (map encode_char s)"

definition id_char :: "char \<Rightarrow> bool" where
  "id_char c \<longleftrightarrow> isalnum [c] \<or> c \<in> set ''-_.''"

definition id_ok :: "string \<Rightarrow> bool" where
  "id_ok s \<longleftrightarrow> 1 \<le> length s \<and> length s \<le> 128 \<and> list_all id_char s"

fun offered_id :: "(string \<times> string) list \<Rightarrow> string option" where
  "offered_id [] = None"
| "offered_id ((n, v) # hs) =
     (if map ascii_lower n = ''x-request-id'' \<and> id_ok (decode_ignore v) then Some (decode_ignore v) else offered_id hs)"

definition request_id_of :: "(nat \<Rightarrow> string) \<Rightarrow> scope \<Rightarrow> (string \<Rightarrow> app) \<Rightarrow> app" where
  "request_id_of uuid_text scope k = (case offered_id (sc_headers scope) of Some i \<Rightarrow> k i | None \<Rightarrow> Uuid4 (\<lambda>u. k (uuid_text u)))"

definition analytics_send :: "string \<Rightarrow> int \<times> int \<Rightarrow> event \<Rightarrow> (int \<times> int \<Rightarrow> event \<Rightarrow> app) \<Rightarrow> app" where
  "analytics_send request_id a ev go = (case (a, ev) of
      ((status, bytes), Start c hs) \<Rightarrow> go (c, bytes) (Start c (hs @ [(''x-request-id'', encode request_id)]))
    | ((status, bytes), Body b) \<Rightarrow> go (status, bytes + int (length b)) ev
    | (a, ev) \<Rightarrow> go a ev)"

definition route_of :: "scope \<Rightarrow> shared \<Rightarrow> string" where
  "route_of scope sh = (case sh_route sh of Some r \<Rightarrow> r | None \<Rightarrow> sc_path scope)"

definition metric_of :: "scope \<Rightarrow> shared \<Rightarrow> datetime \<Rightarrow> pyfloat \<Rightarrow> int \<Rightarrow> int \<Rightarrow> metric" where
  "metric_of scope sh now elapsed status bytes = \<lparr>m_at = now, m_route = take 255 (route_of scope sh),
     m_method = take 8 (sc_method scope), m_status = status, m_duration = f_mul elapsed (Fin 1000), m_bytes = bytes,
     m_cache = sh_cache sh\<rparr>"

definition RequestAnalyticsMiddleware :: "(nat \<Rightarrow> string) \<Rightarrow> (scope \<Rightarrow> app) \<Rightarrow> scope \<Rightarrow> app" where
  "RequestAnalyticsMiddleware uuid_text app scope =
     (if sc_type scope \<noteq> ''http'' then app scope
      else request_id_of uuid_text scope (\<lambda>request_id.
        Change (\<lambda>sh. sh\<lparr>sh_request_id := Some request_id\<rparr>) (Clock (\<lambda>(started, _).
          wrap_send (analytics_send request_id) (app scope) (500, 0) (\<lambda>(status, bytes) r.
            Inspect (\<lambda>sh. Clock (\<lambda>(ended, now).
              Mark (PutMetric (metric_of scope sh now (f_sub ended started) status bytes)) (Finish r))))))))"

section \<open>Prometheus metrics\<close>

definition rate_headers :: "shared \<Rightarrow> (string \<times> string) list" where
  "rate_headers sh = (case sh_rate sh of None \<Rightarrow> []
     | Some (quota, remaining, reset) \<Rightarrow> [(''ratelimit-limit'', show_int quota), (''ratelimit-remaining'', show_int remaining),
         (''ratelimit-reset'', show_int reset)])"

definition cache_headers :: "shared \<Rightarrow> (string \<times> string) list" where
  "cache_headers sh = (case sh_cache sh of None \<Rightarrow> [] | Some c \<Rightarrow> if c = [] then [] else [(''x-cache-state'', encode c)])"

definition time_header :: "pyfloat \<Rightarrow> string \<times> string" where
  "time_header elapsed = (''x-response-time-ms'', repr_float (round2 (f_mul elapsed (Fin 1000))))"

definition prometheus_send :: "pyfloat \<Rightarrow> int \<Rightarrow> event \<Rightarrow> (int \<Rightarrow> event \<Rightarrow> app) \<Rightarrow> app" where
  "prometheus_send started status ev go = (case ev of
      Start c hs \<Rightarrow> Inspect (\<lambda>sh. Clock (\<lambda>(now, _).
        go c (Start c (hs @ rate_headers sh @ cache_headers sh @ [time_header (f_sub now started)]))))
    | _ \<Rightarrow> go status ev)"

definition cache_mark :: "string \<Rightarrow> shared \<Rightarrow> app \<Rightarrow> app" where
  "cache_mark endpoint sh p = (case sh_cache sh of None \<Rightarrow> p
     | Some c \<Rightarrow> if c = ''fresh'' then Mark (CacheHit endpoint) p else if c = [] then p else Mark (CacheMiss endpoint) p)"

definition PrometheusMiddleware :: "(scope \<Rightarrow> app) \<Rightarrow> scope \<Rightarrow> app" where
  "PrometheusMiddleware app scope =
     (if sc_type scope \<noteq> ''http'' then app scope
      else Mark (ActiveRequests 1) (Clock (\<lambda>(started, _).
        wrap_send (prometheus_send started) (app scope) 500 (\<lambda>status r.
          Clock (\<lambda>(ended, _). Inspect (\<lambda>sh. let endpoint = route_of scope sh in
            Mark (CountRequest (sc_method scope) endpoint status)
              (Mark (ObserveLatency (sc_method scope) endpoint (f_sub ended started))
                (cache_mark endpoint sh (Mark (ActiveRequests (- 1)) (Finish r))))))))))"

text \<open>The last middleware added is the outermost. CORS, the outermost of all, is the framework's.\<close>

definition middleware_stack :: "settings \<Rightarrow> (nat \<Rightarrow> string) \<Rightarrow> (scope \<Rightarrow> app) \<Rightarrow> scope \<Rightarrow> app" where
  "middleware_stack cfg uuid_text app = RequestBodyLimitMiddleware (request_body_max_bytes cfg)
     (SecurityHeadersMiddleware (RequestAnalyticsMiddleware uuid_text (PrometheusMiddleware app)))"

section \<open>Running an application\<close>

record conn =
  cn_inbox :: "(exn + event) list"
  cn_out :: "event list"
  cn_shared :: shared
  cn_clock :: "nat \<Rightarrow> pyfloat \<times> datetime"
  cn_tick :: nat
  cn_uuid :: nat
  cn_marks :: "mark list"

text \<open>A server with nothing more to deliver reports the disconnection.\<close>

primrec run :: "app \<Rightarrow> conn \<Rightarrow> exn option \<times> conn" where
  "run (Finish r) = (\<lambda>c. (r, c))"
| "run (Receive k) = (\<lambda>c. case cn_inbox c of [] \<Rightarrow> run (k (Inr Disconnect)) c
     | x # xs \<Rightarrow> run (k x) (c\<lparr>cn_inbox := xs\<rparr>))"
| "run (Send ev p) = (\<lambda>c. run p (c\<lparr>cn_out := cn_out c @ [ev]\<rparr>))"
| "run (Inspect k) = (\<lambda>c. run (k (cn_shared c)) c)"
| "run (Change g p) = (\<lambda>c. run p (c\<lparr>cn_shared := g (cn_shared c)\<rparr>))"
| "run (Clock k) = (\<lambda>c. run (k (cn_clock c (cn_tick c))) (c\<lparr>cn_tick := Suc (cn_tick c)\<rparr>))"
| "run (Uuid4 k) = (\<lambda>c. run (k (cn_uuid c)) (c\<lparr>cn_uuid := Suc (cn_uuid c)\<rparr>))"
| "run (Mark a p) = (\<lambda>c. run p (c\<lparr>cn_marks := cn_marks c @ [a]\<rparr>))"

section \<open>What the application receives behind the body limit\<close>

fun truncated :: "int \<Rightarrow> int \<Rightarrow> (exn + event) list \<Rightarrow> (exn + event) list" where
  "truncated maximum n [] = []"
| "truncated maximum n (x # xs) = (case x of
      Inr (Request b) \<Rightarrow> (if maximum < n + int (length b) then Inl RequestBodyTooLarge else x)
         # truncated maximum (n + int (length b)) xs
    | _ \<Rightarrow> x # truncated maximum n xs)"

fun body_bytes :: "(exn + event) list \<Rightarrow> int" where
  "body_bytes [] = 0"
| "body_bytes (x # xs) = (case x of Inr (Request b) \<Rightarrow> int (length b) | _ \<Rightarrow> 0) + body_bytes xs"

lemma body_bytes_nonneg: "0 \<le> body_bytes xs"
  by (induction xs) (auto split: sum.splits event.splits)

lemma truncated_over: "maximum < n \<Longrightarrow> body_bytes (truncated maximum n xs) = 0"
  by (induction xs arbitrary: n) (auto split: sum.splits event.splits)

lemma truncated_bytes: "n \<le> maximum \<Longrightarrow> n + body_bytes (truncated maximum n xs) \<le> maximum"
proof (induction xs arbitrary: n)
  case (Cons x xs)
  show ?case
  proof (cases "\<exists>b. x = Inr (Request b)")
    case True
    then obtain b where x: "x = Inr (Request b)" by blast
    show ?thesis
    proof (cases "maximum < n + int (length b)")
      case True
      with x truncated_over [OF this] Cons.prems show ?thesis by simp
    next
      case False
      with x Cons.IH [of "n + int (length b)"] show ?thesis by simp
    qed
  next
    case False
    with Cons show ?thesis by (auto split: sum.splits event.splits)
  qed
qed simp

lemma truncated_same: "n + body_bytes xs \<le> maximum \<Longrightarrow> truncated maximum n xs = xs"
proof (induction xs arbitrary: n)
  case (Cons x xs)
  have "0 \<le> body_bytes xs" by (rule body_bytes_nonneg)
  with Cons show ?case by (auto split: sum.splits event.splits)
qed simp

lemma inbox_outside:
  "c\<lparr>cn_inbox := x, cn_out := y1\<rparr> = c\<lparr>cn_out := y1, cn_inbox := x\<rparr>"
  "c\<lparr>cn_inbox := x, cn_shared := y2\<rparr> = c\<lparr>cn_shared := y2, cn_inbox := x\<rparr>"
  "c\<lparr>cn_inbox := x, cn_tick := y3\<rparr> = c\<lparr>cn_tick := y3, cn_inbox := x\<rparr>"
  "c\<lparr>cn_inbox := x, cn_uuid := y4\<rparr> = c\<lparr>cn_uuid := y4, cn_inbox := x\<rparr>"
  "c\<lparr>cn_inbox := x, cn_marks := y5\<rparr> = c\<lparr>cn_marks := y5, cn_inbox := x\<rparr>"
  by simp_all

lemma limited_run:
  "run (limited_app maximum p n) c = (r, d) \<Longrightarrow>
     \<exists>ys. run p (c\<lparr>cn_inbox := truncated maximum n (cn_inbox c)\<rparr>) = (r, d\<lparr>cn_inbox := ys\<rparr>)"
proof (induction p arbitrary: n c)
  case (Finish x)
  then show ?case by auto
next
  case (Receive k)
  show ?case
  proof (cases "cn_inbox c")
    case Nil
    with Receive.prems have "run (limited_app maximum (k (Inr Disconnect)) n) c = (r, d)" by simp
    from Receive.IH [OF rangeI this] Nil show ?thesis by simp
  next
    case (Cons x xs)
    show ?thesis
    proof (cases "\<exists>b. x = Inr (Request b)")
      case True
      then obtain b where b: "x = Inr (Request b)" by blast
      let ?y = "if maximum < n + int (length b) then Inl RequestBodyTooLarge else Inr (Request b)"
      from Receive.prems Cons b have "run (limited_app maximum (k ?y) (n + int (length b))) (c\<lparr>cn_inbox := xs\<rparr>) = (r, d)"
        by (auto split: if_splits)
      from Receive.IH [OF rangeI this] Cons b show ?thesis by (auto split: if_splits)
    next
      case False
      with Receive.prems Cons have "run (limited_app maximum (k x) n) (c\<lparr>cn_inbox := xs\<rparr>) = (r, d)"
        by (auto split: sum.splits event.splits)
      from Receive.IH [OF rangeI this] Cons False show ?thesis by (auto split: sum.splits event.splits)
    qed
  qed
next
  case (Send ev p)
  from Send.IH [of n "c\<lparr>cn_out := cn_out c @ [ev]\<rparr>"] Send.prems show ?case by (simp add: inbox_outside)
next
  case (Inspect k)
  then have "run (limited_app maximum (k (cn_shared c)) n) c = (r, d)" by simp
  from Inspect.IH [OF rangeI this] show ?case by (simp add: inbox_outside)
next
  case (Change g p)
  from Change.IH [of n "c\<lparr>cn_shared := g (cn_shared c)\<rparr>"] Change.prems show ?case by (simp add: inbox_outside)
next
  case (Clock k)
  then have "run (limited_app maximum (k (cn_clock c (cn_tick c))) n) (c\<lparr>cn_tick := Suc (cn_tick c)\<rparr>) = (r, d)" by simp
  from Clock.IH [OF rangeI this] show ?case by (simp add: inbox_outside)
next
  case (Uuid4 k)
  then have "run (limited_app maximum (k (cn_uuid c)) n) (c\<lparr>cn_uuid := Suc (cn_uuid c)\<rparr>) = (r, d)" by simp
  from Uuid4.IH [OF rangeI this] show ?case by (simp add: inbox_outside)
next
  case (Mark a p)
  from Mark.IH [of n "c\<lparr>cn_marks := cn_marks c @ [a]\<rparr>"] Mark.prems show ?case by (simp add: inbox_outside)
qed

lemma run_andthen: "run (andthen p f) c = (case run p c of (r, d) \<Rightarrow> run (f r) d)"
  by (induction p arbitrary: c) (auto split: list.splits)

definition too_large_events :: "event list" where
  "too_large_events = [Start 413 [(''content-type'', ''application/problem+json'')], Body TOO_LARGE_BODY]"

lemma run_payload_too_large: "run payload_too_large c = (None, c\<lparr>cn_out := cn_out c @ too_large_events\<rparr>)"
  by (simp add: payload_too_large_def too_large_events_def)

text \<open>
  C15: The body limit holds for every application. A request that declares too long a body, or a length that is no number,
  gets the 413 response and never reaches the application. Every other request is handled exactly as the application
  handles the input cut off at the limit: it receives at most \<open>request_body_max_bytes\<close> bytes, then the exception, and
  if it lets that exception out the 413 response follows; an input within the limit is not touched at all.
\<close>

theorem body_limit_enforced:
  assumes "sc_type scope = ''http''" "0 \<le> maximum"
  shows "if declared_too_large maximum (sc_headers scope)
    then run (RequestBodyLimitMiddleware maximum app scope) c = (None, c\<lparr>cn_out := cn_out c @ too_large_events\<rparr>)
    else \<exists>r d ys. run (app scope) (c\<lparr>cn_inbox := truncated maximum 0 (cn_inbox c)\<rparr>) = (r, d\<lparr>cn_inbox := ys\<rparr>)
      \<and> run (RequestBodyLimitMiddleware maximum app scope) c =
          (if r = Some RequestBodyTooLarge then (None, d\<lparr>cn_out := cn_out d @ too_large_events\<rparr>) else (r, d))
      \<and> body_bytes (truncated maximum 0 (cn_inbox c)) \<le> maximum
      \<and> (body_bytes (cn_inbox c) \<le> maximum \<longrightarrow> truncated maximum 0 (cn_inbox c) = cn_inbox c)"
proof (cases "declared_too_large maximum (sc_headers scope)")
  case True
  with assms show ?thesis by (simp add: RequestBodyLimitMiddleware_def run_payload_too_large)
next
  case False
  obtain r d where l: "run (limited_app maximum (app scope) 0) c = (r, d)" by (metis prod.collapse)
  from limited_run [OF l] obtain ys where
    "run (app scope) (c\<lparr>cn_inbox := truncated maximum 0 (cn_inbox c)\<rparr>) = (r, d\<lparr>cn_inbox := ys\<rparr>)" by blast
  moreover have "run (RequestBodyLimitMiddleware maximum app scope) c =
      (if r = Some RequestBodyTooLarge then (None, d\<lparr>cn_out := cn_out d @ too_large_events\<rparr>) else (r, d))"
    using assms(1) False l by (simp add: RequestBodyLimitMiddleware_def run_andthen run_payload_too_large)
  ultimately show ?thesis
    using False truncated_bytes [of 0 maximum "cn_inbox c"] truncated_same [of 0 "cn_inbox c" maximum] assms(2) by auto
qed

section \<open>Wrappers around \<open>send\<close>\<close>

text \<open>A wrapper that passes on one event for each, changed by itself and its own state only.\<close>

definition plain_wrapper :: "('a \<Rightarrow> event \<Rightarrow> ('a \<Rightarrow> event \<Rightarrow> app) \<Rightarrow> app) \<Rightarrow> ('a \<Rightarrow> event \<Rightarrow> 'a) \<Rightarrow> (event \<Rightarrow> event) \<Rightarrow> bool" where
  "plain_wrapper w upd g \<longleftrightarrow> (\<forall>a ev go. w a ev go = go (upd a ev) (g ev))"

lemma out_outside:
  "c\<lparr>cn_out := x, cn_inbox := y1\<rparr> = c\<lparr>cn_inbox := y1, cn_out := x\<rparr>"
  "c\<lparr>cn_out := x, cn_shared := y2\<rparr> = c\<lparr>cn_shared := y2, cn_out := x\<rparr>"
  "c\<lparr>cn_out := x, cn_tick := y3\<rparr> = c\<lparr>cn_tick := y3, cn_out := x\<rparr>"
  "c\<lparr>cn_out := x, cn_uuid := y4\<rparr> = c\<lparr>cn_uuid := y4, cn_out := x\<rparr>"
  "c\<lparr>cn_out := x, cn_marks := y5\<rparr> = c\<lparr>cn_marks := y5, cn_out := x\<rparr>"
  by simp_all

lemma run_wrapped:
  assumes "plain_wrapper w upd g"
  shows "\<exists>outs. cn_out (snd (run p c)) = cn_out c @ outs \<and>
     run (wrap_send w p a f) (c\<lparr>cn_out := out\<rparr>) =
       run (f (foldl upd a outs) (fst (run p c))) ((snd (run p c))\<lparr>cn_out := out @ map g outs\<rparr>)"
proof (induction p arbitrary: c a out)
  case (Finish r)
  show ?case by simp
next
  case (Receive k)
  show ?case
  proof (cases "cn_inbox c")
    case Nil
    with Receive.IH [OF rangeI, of "Inr Disconnect" c a out] show ?thesis by simp
  next
    case (Cons x xs)
    with Receive.IH [OF rangeI, of x "c\<lparr>cn_inbox := xs\<rparr>" a out] show ?thesis by (simp add: out_outside)
  qed
next
  case (Send ev p)
  have w: "w a ev go = go (upd a ev) (g ev)" for go using assms by (simp add: plain_wrapper_def)
  from Send.IH [of "c\<lparr>cn_out := cn_out c @ [ev]\<rparr>" "upd a ev" "out @ [g ev]"] obtain outs where
    "cn_out (snd (run (Send ev p) c)) = cn_out c @ ev # outs"
    "run (wrap_send w p (upd a ev) f) (c\<lparr>cn_out := out @ [g ev]\<rparr>) =
       run (f (foldl upd (upd a ev) outs) (fst (run (Send ev p) c))) ((snd (run (Send ev p) c))\<lparr>cn_out := out @ g ev # map g outs\<rparr>)"
    by auto
  then show ?case by (intro exI [of _ "ev # outs"]) (simp add: w)
next
  case (Inspect k)
  from Inspect.IH [OF rangeI, of "cn_shared c" c a out] show ?case by simp
next
  case (Change h p)
  from Change.IH [of "c\<lparr>cn_shared := h (cn_shared c)\<rparr>" a out] show ?case by (simp add: out_outside)
next
  case (Clock k)
  from Clock.IH [OF rangeI, of "cn_clock c (cn_tick c)" "c\<lparr>cn_tick := Suc (cn_tick c)\<rparr>" a out] show ?case by (simp add: out_outside)
next
  case (Uuid4 k)
  from Uuid4.IH [OF rangeI, of "cn_uuid c" "c\<lparr>cn_uuid := Suc (cn_uuid c)\<rparr>" a out] show ?case by (simp add: out_outside)
next
  case (Mark m p)
  from Mark.IH [of "c\<lparr>cn_marks := cn_marks c @ [m]\<rparr>" a out] show ?case by (simp add: out_outside)
qed

lemma run_wrapped_from:
  assumes "plain_wrapper w upd g" "run p c = (r, d)"
  obtains outs where "cn_out d = cn_out c @ outs"
    "run (wrap_send w p a f) c = run (f (foldl upd a outs) r) (d\<lparr>cn_out := cn_out c @ map g outs\<rparr>)"
  using run_wrapped [OF assms(1), of p c a f "cn_out c"] assms(2) by auto

fun secured :: "string \<Rightarrow> event \<Rightarrow> event" where
  "secured path (Start c hs) = Start c (hs @ security_headers path)"
| "secured path ev = ev"

fun identified :: "string \<Rightarrow> event \<Rightarrow> event" where
  "identified request_id (Start c hs) = Start c (hs @ [(''x-request-id'', encode request_id)])"
| "identified request_id ev = ev"

text \<open>The status last sent and the bytes sent so far.\<close>

fun next_status :: "int \<Rightarrow> event \<Rightarrow> int" where
  "next_status st (Start c hs) = c"
| "next_status st ev = st"

fun sent_bytes :: "event \<Rightarrow> int" where
  "sent_bytes (Body b) = int (length b)"
| "sent_bytes ev = 0"

definition status_of :: "event list \<Rightarrow> int" where
  "status_of outs = foldl next_status 500 outs"

lemma secure_plain: "plain_wrapper (secure_send path) (\<lambda>u ev. ()) (secured path)"
  by (auto simp: plain_wrapper_def secure_send_def split: event.splits)

lemma analytics_plain:
  "plain_wrapper (analytics_send request_id) (\<lambda>(st, n) ev. (next_status st ev, n + sent_bytes ev)) (identified request_id)"
  by (auto simp: plain_wrapper_def analytics_send_def split: event.splits)

lemma fold_analytics:
  "foldl (\<lambda>(st, n) ev. (next_status st ev, n + sent_bytes ev)) (st, n) outs =
     (foldl next_status st outs, n + sum_list (map sent_bytes outs))"
  by (induction outs arbitrary: st n) auto

lemma status_secured [simp]: "foldl next_status st (map (secured path) outs) = foldl next_status st outs"
proof -
  have "next_status st (secured path ev) = next_status st ev" for st ev by (cases ev) auto
  then show ?thesis by (induction outs arbitrary: st) auto
qed

lemma status_identified [simp]: "foldl next_status st (map (identified i) outs) = foldl next_status st outs"
proof -
  have "next_status st (identified i ev) = next_status st ev" for st ev by (cases ev) auto
  then show ?thesis by (induction outs arbitrary: st) auto
qed

lemma bytes_secured [simp]: "sent_bytes (secured path ev) = sent_bytes ev" "sent_bytes (identified i ev) = sent_bytes ev"
  by (cases ev; simp)+

text \<open>Prometheus reads a clock, so it says what is sent, not what the application would have sent alone.\<close>

lemma run_prometheus:
  "\<exists>outs own r d. run (wrap_send (prometheus_send started) p st f) c = run (f (foldl next_status st outs) r) d
     \<and> cn_out d = cn_out c @ outs \<and> cn_marks d = cn_marks c @ own"
proof (induction p arbitrary: c st)
  case (Finish r)
  show ?case by (rule exI [of _ "[]"], rule exI [of _ "[]"]) auto
next
  case (Receive k)
  show ?case
  proof (cases "cn_inbox c")
    case Nil
    with Receive.IH [OF rangeI, of "Inr Disconnect" st c] show ?thesis by simp
  next
    case (Cons x xs)
    with Receive.IH [OF rangeI, of x st "c\<lparr>cn_inbox := xs\<rparr>"] show ?thesis by simp
  qed
next
  case (Send ev p)
  obtain ev' c' where step: "run (wrap_send (prometheus_send started) (Send ev p) st f) c =
      run (wrap_send (prometheus_send started) p (next_status st ev') f) c'"
    "next_status st ev' = next_status st ev" "cn_out c' = cn_out c @ [ev']" "cn_marks c' = cn_marks c"
  proof (cases ev)
    case (Start n hs)
    let ?now = "fst (cn_clock c (cn_tick c))"
    let ?ev = "Start n (hs @ rate_headers (cn_shared c) @ cache_headers (cn_shared c) @ [time_header (f_sub ?now started)])"
    show thesis
      by (rule that [of ?ev "c\<lparr>cn_tick := Suc (cn_tick c), cn_out := cn_out c @ [?ev]\<rparr>"])
         (simp_all add: prometheus_send_def Start case_prod_beta)
  qed (use that [of ev "c\<lparr>cn_out := cn_out c @ [ev]\<rparr>"] in \<open>simp_all add: prometheus_send_def\<close>)
  from Send.IH [of "next_status st ev'" c'] obtain outs own r d where
    "run (wrap_send (prometheus_send started) p (next_status st ev') f) c' = run (f (foldl next_status (next_status st ev') outs) r) d"
    "cn_out d = cn_out c' @ outs" "cn_marks d = cn_marks c' @ own" by blast
  with step show ?case by (intro exI [of _ "ev' # outs"] exI [of _ own] exI [of _ r] exI [of _ d]) simp
next
  case (Inspect k)
  from Inspect.IH [OF rangeI, of "cn_shared c" st c] show ?case by simp
next
  case (Change h p)
  from Change.IH [of st "c\<lparr>cn_shared := h (cn_shared c)\<rparr>"] show ?case by simp
next
  case (Clock k)
  from Clock.IH [OF rangeI, of "cn_clock c (cn_tick c)" st "c\<lparr>cn_tick := Suc (cn_tick c)\<rparr>"] show ?case by simp
next
  case (Uuid4 k)
  from Uuid4.IH [OF rangeI, of "cn_uuid c" st "c\<lparr>cn_uuid := Suc (cn_uuid c)\<rparr>"] show ?case by simp
next
  case (Mark m p)
  from Mark.IH [of st "c\<lparr>cn_marks := cn_marks c @ [m]\<rparr>"] obtain outs own r d where
    "run (wrap_send (prometheus_send started) p st f) (c\<lparr>cn_marks := cn_marks c @ [m]\<rparr>) = run (f (foldl next_status st outs) r) d"
    "cn_out d = cn_out c @ outs" "cn_marks d = cn_marks c @ m # own" by auto
  then show ?case by (intro exI [of _ outs] exI [of _ "m # own"] exI [of _ r] exI [of _ d]) simp
qed

section \<open>Every request is accounted for once\<close>

lemma prometheus_accounts:
  assumes "sc_type scope = ''http''" "run (PrometheusMiddleware app scope) c = (r, d)"
  shows "\<exists>outs own endpoint t cache. cn_out d = cn_out c @ outs \<and> set cache \<subseteq> {CacheHit endpoint, CacheMiss endpoint}
    \<and> cn_marks d = cn_marks c @ ActiveRequests 1 # own @ [CountRequest (sc_method scope) endpoint (status_of outs),
        ObserveLatency (sc_method scope) endpoint t] @ cache @ [ActiveRequests (- 1)]"
proof -
  let ?started = "fst (cn_clock c (cn_tick c))"
  let ?c = "c\<lparr>cn_marks := cn_marks c @ [ActiveRequests 1], cn_tick := Suc (cn_tick c)\<rparr>"
  let ?f = "\<lambda>status r. Clock (\<lambda>(ended, _). Inspect (\<lambda>sh. let endpoint = route_of scope sh in
      Mark (CountRequest (sc_method scope) endpoint status)
        (Mark (ObserveLatency (sc_method scope) endpoint (f_sub ended ?started))
          (cache_mark endpoint sh (Mark (ActiveRequests (- 1)) (Finish r))))))"
  obtain outs own r' e where p: "run (wrap_send (prometheus_send ?started) (app scope) 500 ?f) ?c = run (?f (status_of outs) r') e"
    "cn_out e = cn_out ?c @ outs" "cn_marks e = cn_marks ?c @ own"
    using run_prometheus [of ?started "app scope" 500 ?f ?c] unfolding status_of_def by blast
  have "run (PrometheusMiddleware app scope) c = run (wrap_send (prometheus_send ?started) (app scope) 500 ?f) ?c"
    using assms(1) by (simp add: PrometheusMiddleware_def case_prod_beta)
  with assms(2) p(1) have run: "run (?f (status_of outs) r') e = (r, d)" by simp
  let ?endpoint = "route_of scope (cn_shared e)"
  let ?t = "f_sub (fst (cn_clock e (cn_tick e))) ?started"
  obtain cache where "set cache \<subseteq> {CacheHit ?endpoint, CacheMiss ?endpoint}" "cn_out d = cn_out e"
    "cn_marks d = cn_marks e @ [CountRequest (sc_method scope) ?endpoint (status_of outs),
        ObserveLatency (sc_method scope) ?endpoint ?t] @ cache @ [ActiveRequests (- 1)]"
  proof -
    let ?cache = "case sh_cache (cn_shared e) of None \<Rightarrow> []
      | Some x \<Rightarrow> if x = ''fresh'' then [CacheHit ?endpoint] else if x = [] then [] else [CacheMiss ?endpoint]"
    show thesis
      by (rule that [of ?cache]) (use run in \<open>auto simp: Let_def cache_mark_def case_prod_beta split: option.splits if_splits\<close>)
  qed
  with p(2,3) show ?thesis by (intro exI [of _ outs] exI [of _ own] exI [of _ ?endpoint] exI [of _ ?t] exI [of _ cache]) simp
qed

definition given_id :: "(nat \<Rightarrow> string) \<Rightarrow> scope \<Rightarrow> conn \<Rightarrow> string" where
  "given_id uuid_text scope c = (case offered_id (sc_headers scope) of Some i \<Rightarrow> i | None \<Rightarrow> uuid_text (cn_uuid c))"

lemma inbox_unseen:
  "given_id uuid_text scope (c\<lparr>cn_inbox := x\<rparr>) = given_id uuid_text scope c"
  "cn_out (c\<lparr>cn_inbox := x\<rparr>) = cn_out c" "cn_marks (c\<lparr>cn_inbox := x\<rparr>) = cn_marks c"
  by (simp_all add: given_id_def split: option.split)

lemma analytics_accounts:
  assumes "sc_type scope = ''http''" "run (RequestAnalyticsMiddleware uuid_text app scope) c = (r, d)"
  shows "\<exists>c' d' outs m. run (app scope) c' = (r, d') \<and> cn_out c' = cn_out c \<and> cn_marks c' = cn_marks c
    \<and> cn_out d' = cn_out c @ outs \<and> cn_out d = cn_out c @ map (identified (given_id uuid_text scope c)) outs
    \<and> cn_marks d = cn_marks d' @ [PutMetric m] \<and> m_status m = status_of outs \<and> m_bytes m = sum_list (map sent_bytes outs)"
proof -
  let ?i = "given_id uuid_text scope c"
  let ?f = "\<lambda>started. \<lambda>(status, bytes) r. Inspect (\<lambda>sh. Clock (\<lambda>(ended, now).
      Mark (PutMetric (metric_of scope sh now (f_sub ended started) status bytes)) (Finish r)))"
  obtain c' started where c': "cn_out c' = cn_out c" "cn_marks c' = cn_marks c"
    "run (RequestAnalyticsMiddleware uuid_text app scope) c = run (wrap_send (analytics_send ?i) (app scope) (500, 0) (?f started)) c'"
  proof (cases "offered_id (sc_headers scope)")
    case None
    let ?c = "c\<lparr>cn_uuid := Suc (cn_uuid c), cn_shared := (cn_shared c)\<lparr>sh_request_id := Some ?i\<rparr>, cn_tick := Suc (cn_tick c)\<rparr>"
    show thesis
      by (rule that [of ?c "fst (cn_clock c (cn_tick c))"])
         (simp_all add: assms(1) RequestAnalyticsMiddleware_def request_id_of_def given_id_def None case_prod_beta)
  next
    case (Some i)
    let ?c = "c\<lparr>cn_shared := (cn_shared c)\<lparr>sh_request_id := Some ?i\<rparr>, cn_tick := Suc (cn_tick c)\<rparr>"
    show thesis
      by (rule that [of ?c "fst (cn_clock c (cn_tick c))"])
         (simp_all add: assms(1) RequestAnalyticsMiddleware_def request_id_of_def given_id_def Some case_prod_beta)
  qed
  obtain r' d' where a: "run (app scope) c' = (r', d')" by (metis prod.collapse)
  obtain outs where o: "cn_out d' = cn_out c' @ outs"
    "run (wrap_send (analytics_send ?i) (app scope) (500, 0) (?f started)) c' =
       run (?f started (foldl (\<lambda>(st, n) ev. (next_status st ev, n + sent_bytes ev)) (500, 0) outs) r')
         (d'\<lparr>cn_out := cn_out c' @ map (identified ?i) outs\<rparr>)"
    by (rule run_wrapped_from [OF analytics_plain a, where a = "(500, 0)" and f = "?f started"]) (rule that)
  from assms(2) c'(3) o(2) have
    "run (?f started (status_of outs, sum_list (map sent_bytes outs)) r') (d'\<lparr>cn_out := cn_out c' @ map (identified ?i) outs\<rparr>) = (r, d)"
    by (simp add: fold_analytics status_of_def)
  then have "r = r'" "cn_out d = cn_out c' @ map (identified ?i) outs"
    "\<exists>m. cn_marks d = cn_marks d' @ [PutMetric m] \<and> m_status m = status_of outs \<and> m_bytes m = sum_list (map sent_bytes outs)"
    by (auto simp: case_prod_beta metric_of_def)
  with a o(1) c'(1,2) show ?thesis by metis
qed

lemma secured_run:
  assumes "run (SecurityHeadersMiddleware app scope) c = (r, d)"
  shows "\<exists>d' outs. run (app scope) c = (r, d') \<and> cn_out d' = cn_out c @ outs
    \<and> d = d'\<lparr>cn_out := cn_out c @ map (secured (sc_path scope)) outs\<rparr>"
proof -
  obtain r' d' where a: "run (app scope) c = (r', d')" by (metis prod.collapse)
  obtain outs where "cn_out d' = cn_out c @ outs"
    "run (wrap_send (secure_send (sc_path scope)) (app scope) () (\<lambda>u. Finish)) c =
       run (Finish r') (d'\<lparr>cn_out := cn_out c @ map (secured (sc_path scope)) outs\<rparr>)"
    by (rule run_wrapped_from [OF secure_plain a, where a = "()" and f = "\<lambda>u. Finish"]) (rule that)
  with assms a show ?thesis by (auto simp: SecurityHeadersMiddleware_def)
qed

lemma start_headers:
  "Start n hs \<in> set (map (secured path) (map (identified i) outs)) \<Longrightarrow>
     (''x-request-id'', encode i) \<in> set hs \<and> set (security_headers path) \<subseteq> set hs"
proof -
  assume "Start n hs \<in> set (map (secured path) (map (identified i) outs))"
  then obtain ev where "secured path (identified i ev) = Start n hs" by auto
  then show ?thesis by (cases ev) auto
qed

lemma inner_accounts:
  assumes "sc_type scope = ''http''"
    and "run (SecurityHeadersMiddleware (RequestAnalyticsMiddleware uuid_text (PrometheusMiddleware app)) scope) c = (r, d)"
  shows "\<exists>outs own endpoint t cache m. cn_out d = cn_out c @ outs
    \<and> cn_marks d = cn_marks c @ ActiveRequests 1 # own @ [CountRequest (sc_method scope) endpoint (status_of outs),
        ObserveLatency (sc_method scope) endpoint t] @ cache @ [ActiveRequests (- 1), PutMetric m]
    \<and> set cache \<subseteq> {CacheHit endpoint, CacheMiss endpoint}
    \<and> m_status m = status_of outs \<and> m_bytes m = sum_list (map sent_bytes outs)
    \<and> (\<forall>n hs. Start n hs \<in> set outs \<longrightarrow> (''x-request-id'', encode (given_id uuid_text scope c)) \<in> set hs
         \<and> set (security_headers (sc_path scope)) \<subseteq> set hs)"
proof -
  let ?i = "given_id uuid_text scope c" and ?path = "sc_path scope"
  from secured_run [OF assms(2)] obtain d1 outs1 where s1: "run (RequestAnalyticsMiddleware uuid_text (PrometheusMiddleware app) scope) c = (r, d1)"
    "cn_out d1 = cn_out c @ outs1" "d = d1\<lparr>cn_out := cn_out c @ map (secured ?path) outs1\<rparr>" by blast
  from analytics_accounts [OF assms(1) s1(1)] obtain c2 d2 outs m where s2: "run (PrometheusMiddleware app scope) c2 = (r, d2)"
    "cn_out c2 = cn_out c" "cn_marks c2 = cn_marks c" "cn_out d2 = cn_out c @ outs"
    "cn_out d1 = cn_out c @ map (identified ?i) outs" "cn_marks d1 = cn_marks d2 @ [PutMetric m]"
    "m_status m = status_of outs" "m_bytes m = sum_list (map sent_bytes outs)" by blast
  from prometheus_accounts [OF assms(1) s2(1)] obtain outs' own endpoint t cache where s3: "cn_out d2 = cn_out c2 @ outs'"
    "set cache \<subseteq> {CacheHit endpoint, CacheMiss endpoint}"
    "cn_marks d2 = cn_marks c2 @ ActiveRequests 1 # own @ [CountRequest (sc_method scope) endpoint (status_of outs'),
        ObserveLatency (sc_method scope) endpoint t] @ cache @ [ActiveRequests (- 1)]" by blast
  let ?outs = "map (secured ?path) (map (identified ?i) outs)"
  have outs: "outs' = outs" "outs1 = map (identified ?i) outs" using s1(2) s2(2,4,5) s3(1) by simp_all
  have measures: "status_of ?outs = status_of outs" "sum_list (map sent_bytes ?outs) = sum_list (map sent_bytes outs)"
    by (simp_all only: status_of_def status_secured status_identified) (simp add: comp_def)
  have "cn_out d = cn_out c @ ?outs" using s1(3) outs(2) by simp
  moreover have "cn_marks d = cn_marks c @ ActiveRequests 1 # own @ [CountRequest (sc_method scope) endpoint (status_of ?outs),
        ObserveLatency (sc_method scope) endpoint t] @ cache @ [ActiveRequests (- 1), PutMetric m]"
    using s1(3) s2(3,6) s3(3) outs(1) measures(1) by simp
  moreover have "m_status m = status_of ?outs" "m_bytes m = sum_list (map sent_bytes ?outs)"
    by (simp_all only: s2(7,8) measures)
  moreover have "\<forall>n hs. Start n hs \<in> set ?outs \<longrightarrow> (''x-request-id'', encode ?i) \<in> set hs \<and> set (security_headers ?path) \<subseteq> set hs"
    using start_headers by blast
  ultimately show ?thesis using s3(2)
    by (intro exI [of _ ?outs] exI [of _ own] exI [of _ endpoint] exI [of _ t] exI [of _ cache] exI [of _ m] conjI)
qed


text \<open>
  The outermost wrapper answers alone, so the 413 response of a body that grows too long is counted as a 500 and has
  neither the identifier nor the security headers.
\<close>

definition echo :: "scope \<Rightarrow> app" where
  "echo scope = Receive (\<lambda>x. case x of Inl e \<Rightarrow> Finish (Some e) | Inr ev \<Rightarrow> Send (Start 200 []) (Send (Body ''ok'') (Finish None)))"

definition tiny :: settings where
  "tiny = (default_settings [] [] [] [])\<lparr>request_body_max_bytes := 2\<rparr>"

definition post_scope :: scope where
  "post_scope = \<lparr>sc_type = ''http'', sc_path = ''/v1/webhooks'', sc_method = ''POST'', sc_headers = []\<rparr>"

definition fresh_conn :: "string \<Rightarrow> conn" where
  "fresh_conn body = \<lparr>cn_inbox = [Inr (Request body)], cn_out = [],
     cn_shared = \<lparr>sh_route = None, sh_rate = None, sh_cache = None, sh_request_id = None\<rparr>,
     cn_clock = (\<lambda>_. (Fin 0, 0)), cn_tick = 0, cn_uuid = 0, cn_marks = []\<rparr>"

lemma too_large_counted_as_error:
  "cn_out (snd (run (middleware_stack tiny (\<lambda>_. ''u'') echo post_scope) (fresh_conn ''abc''))) = too_large_events"
  "CountRequest ''POST'' ''/v1/webhooks'' 500 \<in>
     set (cn_marks (snd (run (middleware_stack tiny (\<lambda>_. ''u'') echo post_scope) (fresh_conn ''abc''))))"
  by (simp_all add: middleware_stack_def RequestBodyLimitMiddleware_def SecurityHeadersMiddleware_def
      RequestAnalyticsMiddleware_def PrometheusMiddleware_def echo_def tiny_def post_scope_def fresh_conn_def
      declared_too_large_def request_id_of_def cache_mark_def route_of_def RequestBodyTooLarge_def Let_def
      run_payload_too_large)

theorem body_limit_enforced_witness:
  "run (RequestBodyLimitMiddleware 2 echo post_scope) (fresh_conn ''abc'') =
     (None, (fresh_conn ''abc'')\<lparr>cn_inbox := [], cn_out := too_large_events\<rparr>)
   \<and> body_bytes (truncated 2 0 (cn_inbox (fresh_conn ''abc''))) \<le> 2"
proof -
  have h: "sc_type post_scope = ''http''" "\<not> declared_too_large 2 (sc_headers post_scope)"
    by (simp_all add: post_scope_def declared_too_large_def)
  from body_limit_enforced [OF h(1), of 2 echo "fresh_conn ''abc''"] h(2)
  have "body_bytes (truncated 2 0 (cn_inbox (fresh_conn ''abc''))) \<le> 2" by auto
  then show ?thesis
    by (simp add: RequestBodyLimitMiddleware_def h echo_def fresh_conn_def run_payload_too_large RequestBodyTooLarge_def)
qed


end
