(* ===== verification/Errors.thy ===== *)
theory Errors
  imports Api
begin

text \<open>
  The exception handlers (\<open>src/core/errors.py\<close>): the problem document a handled exception becomes. An
  exception without a handler is left to the framework, which answers 500.
\<close>

record problem =
  pr_status :: int
  pr_body :: pyval
  pr_headers :: "(string \<times> string) list"
  pr_code :: string

definition status_code_name :: "int \<Rightarrow> string" where
  "status_code_name c = (case map_of
     [(400, ''BAD_REQUEST''), (401, ''UNAUTHORIZED''), (403, ''FORBIDDEN''), (404, ''NOT_FOUND''), (409, ''CONFLICT''),
      (413, ''PAYLOAD_TOO_LARGE''), (422, ''VALIDATION_ERROR''), (429, ''RATE_LIMIT_EXCEEDED''),
      (503, ''SERVICE_UNAVAILABLE''), (504, ''UPSTREAM_TIMEOUT'')] c of None \<Rightarrow> ''REQUEST_FAILED'' | Some n \<Rightarrow> n)"

definition ascii_upper :: "char \<Rightarrow> char" where
  "ascii_upper c = (let n = of_char c :: nat in if 97 \<le> n \<and> n \<le> 122 then char_of (n - 32) else c)"

fun capitalize :: "string \<Rightarrow> string" where
  "capitalize [] = []"
| "capitalize (c # cs) = ascii_upper c # map ascii_lower cs"

definition title :: "string \<Rightarrow> string" where
  "title c = capitalize (replace_char CHR ''_'' '' '' c)"

definition problem_type :: "string \<Rightarrow> string" where
  "problem_type c = ''https://uttg.example/problems/'' @ replace_char CHR ''_'' ''-'' (map ascii_lower c)"

definition problem_body :: "string \<Rightarrow> string \<Rightarrow> int \<Rightarrow> string \<Rightarrow> string \<Rightarrow> string \<Rightarrow> string \<Rightarrow> (string \<times> pyval) list" where
  "problem_body type_url ttl status detail path c request_id =
     [(''type'', PStr type_url), (''title'', PStr ttl), (''status'', PInt status), (''detail'', PStr detail),
      (''instance'', PStr path), (''code'', PStr c), (''request_id'', PStr request_id)]"

definition cache_busy :: "string \<Rightarrow> string \<Rightarrow> problem" where
  "cache_busy path request_id = \<lparr>pr_status = 503, pr_body = PDict (problem_body
       ''https://uttg.example/problems/cache-fill-in-progress'' ''Service temporarily busy'' 503
       ''A cache fill is already in progress; retry shortly'' path ''CACHE_FILL_IN_PROGRESS'' request_id),
     pr_headers = [(''Retry-After'', ''1'')], pr_code = ''CACHE_FILL_IN_PROGRESS''\<rparr>"

definition cache_value_too_large :: "string \<Rightarrow> string \<Rightarrow> problem" where
  "cache_value_too_large path request_id = \<lparr>pr_status = 503, pr_body = PDict (problem_body
       ''https://uttg.example/problems/cache-value-too-large'' ''Response too large'' 503
       ''Computed response exceeds the cache safety limit'' path ''CACHE_VALUE_TOO_LARGE'' request_id),
     pr_headers = [], pr_code = ''CACHE_VALUE_TOO_LARGE''\<rparr>"

text \<open>A text as the detail is the message of a detail without a code.\<close>

definition http_error_response :: "http_error \<Rightarrow> string \<Rightarrow> string \<Rightarrow> problem" where
  "http_error_response e path request_id =
     (let c = (case code e of Some c \<Rightarrow> c | None \<Rightarrow> status_code_name (status_code e))
      in \<lparr>pr_status = status_code e,
          pr_body = PDict (problem_body (problem_type c) (title c) (status_code e) (message e) path c request_id),
          pr_headers = headers e, pr_code = c\<rparr>)"

definition validation_error :: "pyval list \<Rightarrow> string \<Rightarrow> string \<Rightarrow> problem" where
  "validation_error errors path request_id = \<lparr>pr_status = 422, pr_body = PDict (problem_body
       ''https://uttg.example/problems/validation-error'' ''Validation error'' 422
       ''Request parameters or body failed validation'' path ''VALIDATION_ERROR'' request_id @ [(''errors'', PList errors)]),
     pr_headers = [], pr_code = ''VALIDATION_ERROR''\<rparr>"

text \<open>Which handler an exception has; \<open>errors\<close> is \<open>exc.errors()\<close> of a validation error.\<close>

definition handle_error :: "(exn \<Rightarrow> pyval list option) \<Rightarrow> exn \<Rightarrow> string \<Rightarrow> string \<Rightarrow> problem option" where
  "handle_error errors e path request_id = (case e of
      CacheBusyError \<Rightarrow> Some (cache_busy path request_id)
    | CacheValueTooLargeError \<Rightarrow> Some (cache_value_too_large path request_id)
    | HTTPException h \<Rightarrow> Some (http_error_response h path request_id)
    | _ \<Rightarrow> map_option (\<lambda>es. validation_error es path request_id) (errors e))"

lemmas problem_defs = problem_body_def cache_busy_def cache_value_too_large_def http_error_response_def validation_error_def

text \<open>The document and the response agree, and name the same code.\<close>

lemma handled_status:
  assumes "handle_error errors e path request_id = Some p"
  shows "\<exists>kvs. pr_body p = PDict kvs \<and> map_of kvs ''status'' = Some (PInt (pr_status p))
    \<and> map_of kvs ''code'' = Some (PStr (pr_code p)) \<and> map_of kvs ''instance'' = Some (PStr path)
    \<and> map_of kvs ''request_id'' = Some (PStr request_id)"
  using assms by (auto simp: handle_error_def problem_defs Let_def split: exn.splits)

lemma handled_type:
  assumes "handle_error errors e path request_id = Some p"
  shows "\<exists>kvs. pr_body p = PDict kvs \<and> map_of kvs ''type'' = Some (PStr (problem_type (pr_code p)))"
proof -
  have "problem_type ''CACHE_FILL_IN_PROGRESS'' = ''https://uttg.example/problems/cache-fill-in-progress''"
    "problem_type ''CACHE_VALUE_TOO_LARGE'' = ''https://uttg.example/problems/cache-value-too-large''"
    "problem_type ''VALIDATION_ERROR'' = ''https://uttg.example/problems/validation-error''" by code_simp+
  with assms show ?thesis by (auto simp: handle_error_def problem_defs Let_def split: exn.splits)
qed

end
