(* ===== verification/Resources.thy ===== *)
theory Resources
  imports Api Analytics
begin

text \<open>
  The handlers of the resource routers that read the database: satellites, launches, space weather, near-earth
  objects, events, earth observation, the platform and the administration (\<open>src/api/routers\<close>), with the response models
  of \<open>src/api/schemas.py\<close>. A handler that goes through the cache also returns what it leaves in
  \<open>request.state.cache_state\<close>. The handlers of the endpoints listed as unavailable are here as they are
  written; their dependency never lets a request through.

  The theorem is about paging: who follows the cursor sees the whole catalogue.
\<close>

section \<open>Queries\<close>

definition not_found :: "string \<Rightarrow> exn" where
  "not_found m = HTTPException \<lparr>status_code = 404, code = None, message = m, headers = []\<rparr>"

definition ordered :: "string \<Rightarrow> (row \<Rightarrow> bool) \<Rightarrow> ordering \<Rightarrow> nat \<Rightarrow> query" where
  "ordered t p os n = \<lparr>q_from = (\<lambda>d. d t), q_where = p, q_order = os, q_offset = 0, q_limit = Some n\<rparr>"

definition by_asc :: "string \<Rightarrow> ordering" where "by_asc c = [(\<lambda>r. r c, False)]"
definition by_desc :: "string \<Rightarrow> ordering" where "by_desc c = [(\<lambda>r. r c, True)]"

text \<open>\<open>scalar_one_or_none\<close>, and the 404 when there is no row.\<close>

definition find_one :: "'s app \<Rightarrow> query \<Rightarrow> ('s, row option) io" where
  "find_one A q = bindc (eng_select (app_db A) q) (\<lambda>rows. pure (scalar_one_or_none rows))"

definition require_one :: "'s app \<Rightarrow> query \<Rightarrow> string \<Rightarrow> ('s, row) io" where
  "require_one A q m = bindc (find_one A q) (\<lambda>r. case r of None \<Rightarrow> throw (not_found m) | Some r \<Rightarrow> ret r)"

definition list_rows :: "'s app \<Rightarrow> query \<Rightarrow> (row \<Rightarrow> pyval) \<Rightarrow> string \<Rightarrow> string list \<Rightarrow> ('s, pyval) io" where
  "list_rows A q view_row res srcs = bindc (eng_select (app_db A) q) (\<lambda>rows. respond A res srcs (PList (map view_row rows)))"

fun time_after :: "datetime \<Rightarrow> cell \<Rightarrow> bool" where
  "time_after t (CTime x) \<longleftrightarrow> t < x"
| "time_after t c \<longleftrightarrow> False"

section \<open>Response models\<close>

definition SATELLITE_COLS :: "string list" where
  "SATELLITE_COLS = [''norad_id'', ''cospar_id'', ''name'', ''operator'', ''country'', ''object_type'', ''orbit_class'', ''status'']"

definition NEO_COLS :: "string list" where
  "NEO_COLS = [''id'', ''name'', ''absolute_magnitude_h'', ''estimated_diameter_min_km'', ''estimated_diameter_max_km'',
     ''is_potentially_hazardous'', ''is_sentry_object'']"

definition APPROACH_COLS :: "string list" where
  "APPROACH_COLS = [''neo_id'', ''close_approach_date'', ''relative_velocity_kms'', ''miss_distance_au'', ''orbiting_body'']"

definition INDEX_COLS :: "string list" where "INDEX_COLS = [''timestamp'', ''kp_index'', ''ap_index'']"
definition SOLAR_COLS :: "string list" where "SOLAR_COLS = [''timestamp'', ''speed_km_s'', ''density_cm3'', ''temperature_k'']"

definition LAUNCH_COLS :: "string list" where
  "LAUNCH_COLS = [''id'', ''name'', ''status'', ''window_start'', ''window_end'', ''provider'', ''operator'', ''vehicle'', ''pad'',
     ''location'', ''latitude'', ''longitude'', ''mission_description'', ''weather_summary'', ''info_url'']"

definition REENTRY_COLS :: "string list" where
  "REENTRY_COLS = [''id'', ''norad_id'', ''expected_reentry_time'', ''latitude'', ''longitude'']"

definition COLLECTION_COLS :: "string list" where "COLLECTION_COLS = [''id'', ''name'', ''provider'']"

section \<open>Satellites\<close>

abbreviation ORBITAL :: "string list" where "ORBITAL \<equiv> tag_sources ''Orbital''"

definition satellite_by_id :: "int \<Rightarrow> query" where
  "satellite_by_id norad_id = select_from ''satellites'' (\<lambda>r. r ''norad_id'' = CInt norad_id)"

definition load_satellite :: "'s app \<Rightarrow> int \<Rightarrow> ('s, pyval) io" where
  "load_satellite A norad_id = bindc (find_one A (satellite_by_id norad_id)) (\<lambda>r.
     ret (case r of None \<Rightarrow> PNone | Some r \<Rightarrow> columns_of SATELLITE_COLS r))"

definition get_satellite :: "'s app \<Rightarrow> int \<Rightarrow> ('s, string \<times> pyval) io" where
  "get_satellite A norad_id =
     bindc (app_cached A (''satellite:'' @ show_int norad_id) (load_satellite A norad_id) 3600 86400) (\<lambda>(data, st, _).
       if data = PNone then throw (not_found ''Satellite not found'')
       else bindc (respond A (''/satellites/'' @ show_int norad_id) ORBITAL data) (\<lambda>r. ret (st, r)))"

text \<open>A cursor of 0 is no cursor.\<close>

definition after_cursor :: "int option \<Rightarrow> row \<Rightarrow> bool" where
  "after_cursor cursor r \<longleftrightarrow> (case cursor of None \<Rightarrow> True | Some c \<Rightarrow> c = 0 \<or> CInt c < r ''norad_id'')"

definition satellite_page :: "nat \<Rightarrow> int option \<Rightarrow> query" where
  "satellite_page n cursor = ordered ''satellites'' (after_cursor cursor) (by_asc ''norad_id'') n"

definition load_satellites :: "'s app \<Rightarrow> nat \<Rightarrow> int option \<Rightarrow> ('s, pyval) io" where
  "load_satellites A n cursor = bindc (eng_select (app_db A) (satellite_page n cursor)) (\<lambda>rows.
     ret (PList (map (columns_of SATELLITE_COLS) rows)))"

definition get_satellites :: "'s app \<Rightarrow> nat \<Rightarrow> int option \<Rightarrow> ('s, string \<times> pyval) io" where
  "get_satellites A n cursor =
     bindc (app_cached A (''satellites:'' @ show_int (case cursor of None \<Rightarrow> 0 | Some c \<Rightarrow> c) @ '':'' @ show_int (int n))
        (load_satellites A n cursor) 300 3600) (\<lambda>(data, st, _).
       bindc (respond A ''/satellites'' ORBITAL data) (\<lambda>r. ret (st, r)))"

definition get_satellite_cospar :: "'s app \<Rightarrow> string \<Rightarrow> ('s, pyval) io" where
  "get_satellite_cospar A cospar_id =
     bindc (require_one A (select_from ''satellites'' (\<lambda>r. r ''cospar_id'' = CText cospar_id)) ''Satellite not found'') (\<lambda>r.
       respond A (''/satellites/by-cospar/'' @ cospar_id) ORBITAL (columns_of SATELLITE_COLS r))"

text \<open>Three views of one satellite.\<close>

definition satellite_view :: "string \<Rightarrow> string list \<Rightarrow> 's app \<Rightarrow> int \<Rightarrow> ('s, pyval) io" where
  "satellite_view suffix cols A norad_id =
     bindc (require_one A (satellite_by_id norad_id) ''Satellite not found'') (\<lambda>r.
       respond A (''/satellites/'' @ show_int norad_id @ suffix) [''space-track''] (columns_of cols r))"

definition get_satellite_identifiers :: "'s app \<Rightarrow> int \<Rightarrow> ('s, pyval) io" where
  "get_satellite_identifiers = satellite_view ''/identifiers'' [''norad_id'', ''cospar_id'']"

definition get_satellite_metadata :: "'s app \<Rightarrow> int \<Rightarrow> ('s, pyval) io" where
  "get_satellite_metadata = satellite_view ''/metadata''
     [''norad_id'', ''name'', ''operator'', ''country'', ''object_type'', ''orbit_class'', ''updated_at'']"

definition get_satellite_status :: "'s app \<Rightarrow> int \<Rightarrow> ('s, pyval) io" where
  "get_satellite_status = satellite_view ''/status'' [''norad_id'', ''status'']"

definition placeholder :: "'s app \<Rightarrow> string list \<Rightarrow> string \<Rightarrow> ('s, pyval) io" where
  "placeholder A srcs res = respond A res srcs (PList [])"

definition get_catalog_changes :: "'s app \<Rightarrow> ('s, pyval) io" where
  "get_catalog_changes A = placeholder A [''space-track''] ''/catalog/changes''"

section \<open>Launches\<close>

abbreviation LAUNCH :: "string list" where "LAUNCH \<equiv> tag_sources ''Launch''"

definition get_launches_upcoming :: "'s app \<Rightarrow> nat \<Rightarrow> ('s, pyval) io" where
  "get_launches_upcoming A n = list_rows A (ordered ''launches'' (\<lambda>r. time_after (app_now A) (r ''window_start'')) (by_asc ''window_start'') n)
     (columns_of LAUNCH_COLS) ''/launches/upcoming'' LAUNCH"

definition get_launches :: "'s app \<Rightarrow> nat \<Rightarrow> ('s, pyval) io" where
  "get_launches A n = list_rows A (ordered ''launches'' (\<lambda>_. True) (by_desc ''window_start'') n)
     (columns_of LAUNCH_COLS) ''/launches'' LAUNCH"

definition get_launch :: "'s app \<Rightarrow> string \<Rightarrow> ('s, pyval) io" where
  "get_launch A launch_id =
     bindc (require_one A (select_from ''launches'' (\<lambda>r. r ''id'' = CText launch_id)) ''Launch not found'') (\<lambda>r.
       respond A (''/launches/'' @ launch_id) LAUNCH (columns_of LAUNCH_COLS r))"

definition launch_placeholders :: "'s app \<Rightarrow> (string \<times> ('s, pyval) io) list" where
  "launch_placeholders A = map (\<lambda>p. (p, placeholder A LAUNCH p))
     [''/missions/{mission_id}'', ''/launch-vehicles'', ''/launch-sites'', ''/agencies'']"

section \<open>Space weather\<close>

abbreviation WEATHER :: "string list" where "WEATHER \<equiv> tag_sources ''Space Weather''"

definition newest :: "string \<Rightarrow> query" where
  "newest t = ordered t (\<lambda>_. True) (by_desc ''timestamp'') 1"

fun condition_of :: "cell \<Rightarrow> string" where
  "condition_of (CNum kp) = (if f_le (Fin 5) kp then ''storm'' else if f_le (Fin 4) kp then ''unsettled'' else ''quiet'')"
| "condition_of c = ''unknown''"

definition attr_or_none :: "row option \<Rightarrow> string \<Rightarrow> cell" where
  "attr_or_none r c = (case r of None \<Rightarrow> CNull | Some r \<Rightarrow> r c)"

definition load_overview :: "'s app \<Rightarrow> ('s, pyval) io" where
  "load_overview A =
     bindc (find_one A (newest ''space_weather_indices'')) (\<lambda>kp.
     bindc (find_one A (newest ''solar_wind'')) (\<lambda>wind.
       ret (PDict [(''condition'', PStr (condition_of (attr_or_none kp ''kp_index''))),
         (''kp_index'', cell_value (attr_or_none kp ''kp_index'')), (''kp_observed_at'', cell_value (attr_or_none kp ''timestamp'')),
         (''solar_wind_speed_km_s'', cell_value (attr_or_none wind ''speed_km_s'')),
         (''solar_wind_observed_at'', cell_value (attr_or_none wind ''timestamp''))])))"

definition get_sw_overview :: "'s app \<Rightarrow> ('s, string \<times> pyval) io" where
  "get_sw_overview A = bindc (app_cached A ''space-weather:overview'' (load_overview A) 60 600) (\<lambda>(data, st, _).
     bindc (respond A ''/space-weather/overview'' WEATHER data) (\<lambda>r. ret (st, r)))"

definition get_sw_indices :: "'s app \<Rightarrow> nat \<Rightarrow> ('s, pyval) io" where
  "get_sw_indices A n = list_rows A (ordered ''space_weather_indices'' (\<lambda>_. True) (by_desc ''timestamp'') n)
     (columns_of INDEX_COLS) ''/space-weather/geomagnetic-indices'' WEATHER"

definition get_sw_wind :: "'s app \<Rightarrow> nat \<Rightarrow> ('s, pyval) io" where
  "get_sw_wind A n = list_rows A (ordered ''solar_wind'' (\<lambda>_. True) (by_desc ''timestamp'') n)
     (columns_of SOLAR_COLS) ''/space-weather/solar-wind'' WEATHER"

definition weather_placeholders :: "'s app \<Rightarrow> (string \<times> ('s, pyval) io) list" where
  "weather_placeholders A = map (\<lambda>p. (p, placeholder A WEATHER p))
     [''/space-weather/solar-flares'', ''/space-weather/cmes'', ''/space-weather/solar-particle-events'',
      ''/space-weather/radiation-storms'', ''/space-weather/alerts'', ''/space-weather/events'']"

section \<open>Near-earth objects\<close>

abbreviation NEO :: "string list" where "NEO \<equiv> tag_sources ''Neo''"

definition neo_response :: "row \<Rightarrow> pyval" where "neo_response = columns_of NEO_COLS"

text \<open>An empty cursor is no cursor; texts are ordered by their characters.\<close>

definition get_neos :: "'s app \<Rightarrow> nat \<Rightarrow> string option \<Rightarrow> ('s, pyval) io" where
  "get_neos A n cursor = list_rows A (ordered ''near_earth_objects''
       (\<lambda>r. case cursor of None \<Rightarrow> True | Some c \<Rightarrow> c = [] \<or> CText c < r ''id'') (by_asc ''id'') n)
     neo_response ''/neos'' NEO"

definition get_neo_approaches :: "'s app \<Rightarrow> nat \<Rightarrow> ('s, pyval) io" where
  "get_neo_approaches A n = list_rows A (ordered ''close_approaches'' (\<lambda>_. True) (by_desc ''close_approach_date'') n)
     (columns_of APPROACH_COLS) ''/neos/close-approaches'' NEO"

definition get_neo :: "'s app \<Rightarrow> string \<Rightarrow> ('s, pyval) io" where
  "get_neo A neo_id =
     bindc (require_one A (select_from ''near_earth_objects'' (\<lambda>r. r ''id'' = CText neo_id)) ''Near Earth Object not found'') (\<lambda>r.
       respond A (''/neos/'' @ neo_id) NEO (neo_response r))"

text \<open>\<open>raise AssertionError\<close>\<close>

definition neo_placeholders :: "(string \<times> ('s, pyval) io) list" where
  "neo_placeholders = map (\<lambda>p. (p, throw (OtherError ''AssertionError''))) [''/fireballs'', ''/bodies/{body_id}'', ''/ephemeris'']"

section \<open>Events and earth observation\<close>

definition get_reentries :: "'s app \<Rightarrow> nat \<Rightarrow> ('s, pyval) io" where
  "get_reentries A n = list_rows A (ordered ''reentry_events'' (\<lambda>_. True) (by_desc ''expected_reentry_time'') n)
     (columns_of REENTRY_COLS) ''/reentries'' [''space-track'']"

definition get_reentry :: "'s app \<Rightarrow> string \<Rightarrow> ('s, pyval) io" where
  "get_reentry A event_id =
     bindc (require_one A (select_from ''reentry_events'' (\<lambda>r. r ''id'' = CText event_id)) ''Event not found'') (\<lambda>r.
       respond A (''/reentries/'' @ event_id) [''space-track''] (columns_of REENTRY_COLS r))"

definition event_placeholders :: "'s app \<Rightarrow> (string \<times> ('s, pyval) io) list" where
  "event_placeholders A = map (\<lambda>p. (p, placeholder A [''space-track''] p)) [''/object-events'', ''/events'', ''/events/{event_id}'']"

definition get_eo_collections :: "'s app \<Rightarrow> nat \<Rightarrow> ('s, pyval) io" where
  "get_eo_collections A n = list_rows A (ordered ''eo_collections'' (\<lambda>_. True) [] n)
     (columns_of COLLECTION_COLS) ''/earth-observation/collections'' [''esa'']"

definition eo_placeholders :: "'s app \<Rightarrow> (string \<times> ('s, pyval) io) list" where
  "eo_placeholders A = map (\<lambda>p. (p, placeholder A [''esa''] p))
     [''/earth-observation/products'', ''/earth-observation/products/{product_id}'', ''/earth-observation/instruments'']"

section \<open>Platform\<close>

definition health :: "('s, pyval) io" where
  "health = ret (PDict [(''status'', PStr ''ok'')])"

definition not_ready :: exn where
  "not_ready = HTTPException \<lparr>status_code = 503, code = Some ''NOT_READY'',
     message = ''One or more required dependencies are unavailable'', headers = []\<rparr>"

text \<open>\<open>SELECT 1\<close> and \<open>PING\<close>; what goes wrong is not disclosed.\<close>

definition ready :: "'s app \<Rightarrow> ('s, bool) io \<Rightarrow> ('s, pyval) io" where
  "ready A ping = bindc (catchc (bindc (eng_select (app_db A) \<lparr>q_from = (\<lambda>_. [row_of []]), q_where = (\<lambda>_. True), q_order = [],
       q_offset = 0, q_limit = None\<rparr>) (\<lambda>_. ping)) (\<lambda>_. ret False))
     (\<lambda>ok. if ok then ret (PDict [(''status'', PStr ''ready''),
         (''dependencies'', PDict [(''database'', PBool True), (''valkey'', PBool True)])]) else throw not_ready)"

definition version_info :: "('s, pyval) io" where
  "version_info = ret (PDict [(''version'', PStr ''0.1.0''), (''api_version'', PStr ''v1'')])"

text \<open>\<open>{row.id: row for row in rows}\<close>: a later row replaces an earlier one.\<close>

definition health_row :: "row list \<Rightarrow> string \<Rightarrow> row option" where
  "health_row rows p = map_of (rev (map (\<lambda>r. (text_of (r ''id''), r)) rows)) p"

definition capabilities :: "'s app \<Rightarrow> ('s, pyval) io" where
  "capabilities A = bindc (eng_select (app_db A) (select_from ''provider_health'' (\<lambda>_. True))) (\<lambda>rows.
     ret (PDict [(''capabilities'', PDict (map (\<lambda>p. (p, PDict [
         (''status'', case health_row rows p of None \<Rightarrow> PStr ''not_yet_ingested'' | Some r \<Rightarrow> cell_value (r ''status'')),
         (''last_success_at'', cell_value (attr_or_none (health_row rows p) ''last_success_at''))]))
       (sort (configured_providers (app_settings A)))))]))"

definition providers :: "'s app \<Rightarrow> ('s, pyval) io" where
  "providers A = (let configured = sort (configured_providers (app_settings A)) in
     bindc (eng_select (app_db A) (select_from ''provider_health'' (\<lambda>r. r ''id'' \<in> CText ` set configured))) (\<lambda>rows.
       respond A ''/providers'' configured (PList (map (\<lambda>p. PDict [(''id'', PStr p),
           (''status'', case health_row rows p of None \<Rightarrow> PStr ''pending'' | Some r \<Rightarrow> cell_value (r ''status'')),
           (''last_success_at'', cell_value (attr_or_none (health_row rows p) ''last_success_at'')),
           (''last_error_at'', cell_value (attr_or_none (health_row rows p) ''last_error_at''))]) configured))))"

definition get_provider :: "'s app \<Rightarrow> string \<Rightarrow> ('s, pyval) io" where
  "get_provider A provider_id =
     (if provider_id \<notin> set (configured_providers (app_settings A)) then throw (not_found ''Provider not found'')
      else bindc (require_one A (select_from ''provider_health'' (\<lambda>r. r ''id'' = CText provider_id)) ''Provider not found'') (\<lambda>r.
        respond A (''/providers/'' @ provider_id) [provider_id] (columns_of [''id'', ''status'', ''last_success_at''] r)))"

section \<open>Administration\<close>

definition ADMIN_SOURCES :: "string list" where
  "ADMIN_SOURCES = [''space-track'', ''celestrak'', ''jpl-ssd'', ''nasa-neows'', ''noaa-swpc'', ''the-space-devs'', ''rocketlaunch-live'']"

definition admin_providers_status :: "'s app \<Rightarrow> ('s, pyval) io" where
  "admin_providers_status A = list_rows A (select_from ''provider_health'' (\<lambda>_. True))
     (columns_of [''id'', ''status'', ''last_success_at'', ''last_error_at'', ''error_message'']) ''/admin/providers/status'' ADMIN_SOURCES"

definition query_cost_exceeded :: exn where
  "query_cost_exceeded = HTTPException \<lparr>status_code = 422, code = Some ''QUERY_COST_EXCEEDED'',
     message = ''Analytics range must be positive and no longer than 31 days'', headers = []\<rparr>"

text \<open>\<open>date_trunc\<close>, in a session whose time zone is UTC.\<close>

definition interval_length :: "string \<Rightarrow> int" where
  "interval_length interval = seconds (if interval = ''minute'' then 60 else if interval = ''hour'' then 3600 else 86400)"

fun date_trunc :: "string \<Rightarrow> cell \<Rightarrow> cell" where
  "date_trunc interval (CTime t) = CTime (t - t mod interval_length interval)"
| "date_trunc interval c = c"

text \<open>One group for each key, in some order; \<open>sum\<close> and \<open>max\<close> leave NULLs out and are NULL of nothing. The sum of
  a \<open>bigint\<close> column is a \<open>numeric\<close>, here the integer it stands for.
\<close>

definition groups :: "(row \<Rightarrow> cell list) \<Rightarrow> row list \<Rightarrow> (cell list \<times> row list) list" where
  "groups key rows = map (\<lambda>k. (k, filter (\<lambda>r. key r = k) rows)) (remdups (map key rows))"

definition sum_of :: "string \<Rightarrow> row list \<Rightarrow> cell" where
  "sum_of c rows = (case filter (\<lambda>x. x \<noteq> CNull) (map (\<lambda>r. r c) rows) of [] \<Rightarrow> CNull | x # xs \<Rightarrow> foldl cell_add x xs)"

definition max_of :: "string \<Rightarrow> row list \<Rightarrow> cell" where
  "max_of c rows = (case filter (\<lambda>x. x \<noteq> CNull) (map (\<lambda>r. r c) rows) of [] \<Rightarrow> CNull | x # xs \<Rightarrow> foldl max x xs)"

fun ratio :: "cell \<Rightarrow> cell \<Rightarrow> cell" where
  "ratio (CNum x) (CInt n) = (if n = 0 then CNull else CNum (f_div_by x (of_int n)))"
| "ratio x y = CNull"

definition series_row :: "cell list \<times> row list \<Rightarrow> row" where
  "series_row g = (case g of (k, rows) \<Rightarrow> row_of [(''bucket'', k ! 0), (''route'', k ! 1), (''method'', k ! 2),
     (''request_count'', sum_of ''request_count'' rows),
     (''average_duration_ms'', ratio (sum_of ''duration_sum_ms'' rows) (sum_of ''request_count'' rows)),
     (''max_duration_ms'', max_of ''duration_max_ms'' rows), (''server_errors'', sum_of ''server_error_count'' rows),
     (''response_bytes'', sum_of ''response_bytes'' rows), (''cache_hits'', sum_of ''cache_hit_count'' rows)])"

definition in_span :: "datetime \<Rightarrow> datetime \<Rightarrow> string option \<Rightarrow> row \<Rightarrow> bool" where
  "in_span start end_at route r \<longleftrightarrow> CTime start \<le> r ''bucket'' \<and> r ''bucket'' < CTime end_at
     \<and> (case route of None \<Rightarrow> True | Some x \<Rightarrow> x = [] \<or> r ''route'' = CText x)"

definition series_query :: "string \<Rightarrow> datetime \<Rightarrow> datetime \<Rightarrow> string option \<Rightarrow> query" where
  "series_query interval start end_at route = \<lparr>q_from = (\<lambda>d. map series_row
       (groups (\<lambda>r. [date_trunc interval (r ''bucket''), r ''route'', r ''method'']) (filter (in_span start end_at route) (d METRIC_TABLE)))),
     q_where = (\<lambda>_. True), q_order = by_desc ''bucket'', q_offset = 0, q_limit = Some 5000\<rparr>"

text \<open>\<open>round(x, n)\<close>, \<open>float(x or 0)\<close> and \<open>int(x or 0)\<close> of a column.\<close>

fun round_to :: "nat \<Rightarrow> pyfloat \<Rightarrow> pyfloat" where
  "round_to n (Fin a) = to_double (of_int (half_even (10 ^ n * a)) / 10 ^ n)"
| "round_to n x = x"

fun float_or_0 :: "cell \<Rightarrow> pyfloat" where
  "float_or_0 (CNum x) = x"
| "float_or_0 (CInt i) = to_double (of_int i)"
| "float_or_0 c = Fin 0"

definition series_view :: "row \<Rightarrow> pyval" where
  "series_view r = PDict [(''bucket'', cell_value (r ''bucket'')), (''route'', cell_value (r ''route'')), (''method'', cell_value (r ''method'')),
     (''request_count'', cell_value (r ''request_count'')),
     (''average_duration_ms'', PFloat (repr_float (round_to 3 (float_or_0 (r ''average_duration_ms''))))),
     (''max_duration_ms'', PFloat (repr_float (round_to 3 (float_or_0 (r ''max_duration_ms''))))),
     (''server_errors'', PInt (cell_count (r ''server_errors''))), (''response_bytes'', PInt (cell_count (r ''response_bytes''))),
     (''cache_hits'', PInt (cell_count (r ''cache_hits'')))]"

definition success_rate :: "nat \<Rightarrow> nat \<Rightarrow> pyval" where
  "success_rate ok n = (if n = 0 then PNone
     else PFloat (repr_float (round_to 4 (to_double (of_nat ok / of_nat n)))))"

text \<open>
  The bounds a client sends may lack an offset; comparing such a time with one that has an offset is a \<open>TypeError\<close>.
  The driver takes a time without offset for one of the process's zone, UTC in the images of the repository.
\<close>

definition admin_analytics ::
  "'s app \<Rightarrow> (int \<times> int option) option \<Rightarrow> (int \<times> int option) option \<Rightarrow> string \<Rightarrow> string option \<Rightarrow> ('s, pyval) io" where
  "admin_analytics A start end_opt interval route =
     (let end_at = (case end_opt of None \<Rightarrow> (app_now A, Some 0) | Some t \<Rightarrow> t);
          start_at = (case start of None \<Rightarrow> (fst end_at - seconds 86400, snd end_at) | Some t \<Rightarrow> t)
      in if (snd end_at = None) \<noteq> (snd start_at = None) then throw TypeError
         else if as_utc end_at \<le> as_utc start_at \<or> seconds (31 * 86400) < as_utc end_at - as_utc start_at then throw query_cost_exceeded
         else bindc (eng_select (app_db A) (select_from ''webhook_deliveries'' (\<lambda>_. True))) (\<lambda>deliveries.
           bindc (eng_select (app_db A) (select_from ''webhook_deliveries'' (\<lambda>r. r ''success'' = CBool True))) (\<lambda>ok.
           bindc (eng_select (app_db A) (series_query interval (as_utc start_at) (as_utc end_at) route)) (\<lambda>rows.
             respond A ''/admin/analytics/endpoints'' ADMIN_SOURCES (PDict [(''access_mode'', PStr ''public_ip_rate_limited''),
               (''webhook_deliveries_total'', PInt (int (length deliveries))), (''webhook_deliveries_success'', PInt (int (length ok))),
               (''webhook_delivery_success_rate'', success_rate (length ok) (length deliveries)),
               (''series'', PList (map series_view rows))])))))"

text \<open>A start without an offset and no end: the end is the current time, which has one.\<close>

lemma mixed_bounds_fail: "admin_analytics A (Some (t, None)) None interval route s = (Inl TypeError, s)"
  by (simp add: admin_analytics_def throw_def)

section \<open>Rows by rising key\<close>

abbreviation rising :: "('a \<Rightarrow> 'k :: linorder) \<Rightarrow> 'a list \<Rightarrow> bool" where
  "rising f xs \<equiv> sorted_wrt (\<lambda>x y. f x < f y) xs"

lemma rising_distinct: "rising f xs \<Longrightarrow> distinct (map f xs)"
  by (induction xs) auto

lemma rising_strict: "rising f xs \<Longrightarrow> sorted_wrt (<) (map f xs)"
  by (simp add: sorted_wrt_map)

lemma rising_unique:
  assumes "rising f xs" "rising f ys" "mset xs = mset ys"
  shows "xs = ys"
proof -
  have s: "set xs = set ys" using assms(3) by (rule mset_eq_setD)
  have "map f xs = map f ys"
    using rising_strict [OF assms(1)] rising_strict [OF assms(2)] s by (intro strict_sorted_equal) auto
  moreover have "inj_on f (set xs \<union> set ys)"
    using rising_distinct [OF assms(1)] s by (simp add: distinct_map)
  ultimately show ?thesis by (simp add: inj_on_map_eq_map)
qed

lemma rising_last: "rising f xs \<Longrightarrow> x \<in> set xs \<Longrightarrow> f x \<le> f (last xs)"
  by (induction xs) (auto intro: less_imp_le)

lemma rising_rest:
  assumes "rising f (xs @ ys)" "xs \<noteq> []"
  shows "filter (\<lambda>r. f (last xs) < f r) (xs @ ys) = ys"
proof -
  have "rising f xs" using assms(1) by (simp add: sorted_wrt_append)
  then have "\<not> f (last xs) < f r" if "r \<in> set xs" for r using rising_last [of f xs r] that by simp
  then have "filter (\<lambda>r. f (last xs) < f r) xs = []" by (simp add: filter_empty_conv)
  moreover have "f (last xs) < f r" if "r \<in> set ys" for r
    using assms that by (simp add: sorted_wrt_append)
  then have "filter (\<lambda>r. f (last xs) < f r) ys = ys" by (simp add: filter_id_conv)
  ultimately show ?thesis by simp
qed

lemma ordered_rising:
  assumes "sorted_wrt (row_le [(f, False)]) xs" "distinct (map f xs)"
  shows "rising f xs"
  using assms by (induction xs) (auto split: if_splits)

section \<open>Following the cursor\<close>

section \<open>Following the cursor\<close>

text \<open>What a client does that asks for page after page, giving the last number it has seen, until a page is empty.\<close>

definition norad :: "row \<Rightarrow> cell" where "norad r = r ''norad_id''"

fun norad_of :: "cell \<Rightarrow> int option" where
  "norad_of (CInt i) = Some i"
| "norad_of c = None"

fun walk :: "nat \<Rightarrow> 's app \<Rightarrow> nat \<Rightarrow> int option \<Rightarrow> ('s, row list) io" where
  "walk 0 A n cursor = ret []"
| "walk (Suc k) A n cursor = bindc (eng_select (app_db A) (satellite_page n cursor)) (\<lambda>rows.
     if rows = [] then ret [] else bindc (walk k A n (norad_of (norad (last rows)))) (\<lambda>rest. ret (rows @ rest)))"

definition satellites :: "db \<Rightarrow> row list" where "satellites d = d ''satellites''"

lemma satellite_page_answers:
  "answers (satellite_page n cursor) d rows \<longleftrightarrow> (\<exists>xs. mset xs = mset (filter (after_cursor cursor) (satellites d))
     \<and> sorted_wrt (row_le [(norad, False)]) xs \<and> rows = take n xs)"
  by (simp add: answers_def satellite_page_def ordered_def limited_def by_asc_def satellites_def norad_def [abs_def])

lemma after_cursor_Some: "i \<noteq> 0 \<Longrightarrow> after_cursor (Some i) r \<longleftrightarrow> CInt i < norad r"
  by (simp add: after_cursor_def norad_def)

lemma after_cursor_mono:
  assumes "after_cursor cursor l" "norad l < norad r"
  shows "after_cursor cursor r"
  using assms by (auto simp: after_cursor_def norad_def split: option.splits intro: less_trans)

lemma page_answer:
  assumes "answers (satellite_page n cursor) d rows" "distinct (map norad (satellites d))"
  obtains xs where "rising norad xs" "mset xs = mset (filter (after_cursor cursor) (satellites d))" "rows = take n xs"
proof -
  from assms(1) obtain xs where xs: "mset xs = mset (filter (after_cursor cursor) (satellites d))"
    "sorted_wrt (row_le [(norad, False)]) xs" "rows = take n xs"
    unfolding satellite_page_answers by blast
  have "distinct (map norad (filter (after_cursor cursor) (satellites d)))"
    using assms(2) by (rule distinct_map_filter)
  moreover have "mset (map norad xs) = mset (map norad (filter (after_cursor cursor) (satellites d)))"
    using xs(1) by simp
  ultimately have "distinct (map norad xs)" using mset_eq_imp_distinct_iff by blast
  with that [OF ordered_rising [OF xs(2)] xs(1,3)] show thesis by simp
qed

text \<open>After a page, what is left is the rest of the rows the last cursor left.\<close>

lemma after_page:
  assumes "rising norad (xs @ zs)" "xs \<noteq> []" "mset (xs @ zs) = mset (filter (after_cursor cursor) rows)"
    and "norad (last xs) = CInt i" "i \<noteq> 0"
  shows "mset zs = mset (filter (after_cursor (Some i)) rows)"
proof -
  have key: "after_cursor (Some i) = (\<lambda>r. norad (last xs) < norad r)"
    using assms(4,5) by (auto simp: after_cursor_Some)
  have "last xs \<in> set (xs @ zs)" using assms(2) by simp
  then have l: "after_cursor cursor (last xs)" using mset_eq_setD [OF assms(3)] by auto
  have "filter (after_cursor (Some i)) (filter (after_cursor cursor) rows) = filter (after_cursor (Some i)) rows"
    using after_cursor_mono [OF l] by (auto simp: key intro!: filter_cong)
  moreover have "mset (filter (after_cursor (Some i)) (xs @ zs)) = mset (filter (after_cursor (Some i)) (filter (after_cursor cursor) rows))"
    using assms(3) by (simp only: mset_filter)
  moreover have "filter (after_cursor (Some i)) (xs @ zs) = zs"
    unfolding key by (rule rising_rest [OF assms(1,2)])
  ultimately show ?thesis by (simp only:)
qed

lemma walk_pages:
  assumes "database_up (app_db A) view" "distinct (map norad (satellites (view s)))"
    and "\<forall>r\<in>set (satellites (view s)). \<exists>i. i \<noteq> 0 \<and> norad r = CInt i" "0 < n"
    and "rising norad ys" "mset ys = mset (filter (after_cursor cursor) (satellites (view s)))" "length ys < k"
  shows "\<exists>s'. walk k A n cursor s = (Inr ys, s') \<and> view s' = view s"
  using assms(2,3,5-)
proof (induction k arbitrary: cursor s ys)
  case (Suc k)
  have db: "database (app_db A) view" using assms(1) by (rule database_up.axioms(1))
  from database_up.select_up [OF assms(1), of "satellite_page n cursor" s] obtain rows s1
    where sel: "eng_select (app_db A) (satellite_page n cursor) s = (Inr rows, s1)" by blast
  have s1: "view s1 = view s" by (rule database.select_quiet [OF db sel])
  obtain xs where xs: "rising norad xs" "mset xs = mset (filter (after_cursor cursor) (satellites (view s)))" "rows = take n xs"
    using page_answer [OF database.select_answers [OF db sel] Suc.prems(1)] by blast
  have "xs = ys" using rising_unique [OF xs(1) Suc.prems(3)] xs(2) Suc.prems(4) by simp
  then have rows: "rows = take n ys" using xs(3) by simp
  show ?case
  proof (cases "ys = []")
    case True
    then show ?thesis using sel rows s1 by (simp add: bindc_apply)
  next
    case False
    then have ne: "rows \<noteq> []" using rows assms(4) by simp
    have ys: "ys = rows @ drop n ys" unfolding rows by simp
    have "last rows \<in> set ys" using last_in_set [OF ne] rows in_set_takeD by fastforce
    then have "last rows \<in> set (satellites (view s))" using mset_eq_setD [OF Suc.prems(4)] by simp
    then obtain i where i: "i \<noteq> 0" "norad (last rows) = CInt i" using Suc.prems(2) by blast
    have asc: "rising norad (rows @ drop n ys)" using Suc.prems(3) ys by simp
    have all: "mset (rows @ drop n ys) = mset (filter (after_cursor cursor) (satellites (view s)))"
      using Suc.prems(4) ys by simp
    have left: "mset (drop n ys) = mset (filter (after_cursor (Some i)) (satellites (view s1)))"
      unfolding s1 by (rule after_page [OF asc ne all i(2,1)])
    have up: "rising norad (drop n ys)" using asc by (simp add: sorted_wrt_append)
    have len: "length (drop n ys) < k" using Suc.prems(5) assms(4) False by (cases ys) auto
    have un: "distinct (map norad (satellites (view s1)))" unfolding s1 by (rule Suc.prems(1))
    have ints: "\<forall>r\<in>set (satellites (view s1)). \<exists>i. i \<noteq> 0 \<and> norad r = CInt i" unfolding s1 by (rule Suc.prems(2))
    obtain s' where w: "walk k A n (Some i) s1 = (Inr (drop n ys), s')" "view s' = view s1"
      using Suc.IH [OF un ints up left len] by blast
    have "walk (Suc k) A n cursor s = (Inr (rows @ drop n ys), s')"
      using sel ne w(1) i(2) by (simp add: bindc_apply)
    then have "walk (Suc k) A n cursor s = (Inr ys, s')" by (simp only: ys [symmetric])
    moreover have "view s' = view s" using w(2) s1 by simp
    ultimately show ?thesis by blast
  qed
qed simp

text \<open>
  C19: Who follows the cursor sees the whole catalogue. When the database answers, the catalogue numbers are
  unique and none is 0, and no page is empty by request, asking for page after page from the start, each time
  after the last number seen, ends after at most one page more than there are satellites with all of them:
  each exactly once, by rising number, and the database is as it was.
\<close>

theorem satellite_pages_complete:
  assumes "database_up (app_db A) view" "distinct (map norad (satellites (view s)))"
    and "\<forall>r\<in>set (satellites (view s)). \<exists>i. i \<noteq> 0 \<and> norad r = CInt i" "0 < n"
    and "length (satellites (view s)) < k"
  shows "\<exists>rows s'. walk k A n None s = (Inr rows, s') \<and> view s' = view s
    \<and> mset rows = mset (satellites (view s)) \<and> sorted_wrt (<) (map norad rows)"
proof -
  have "answers (satellite_page (length (satellites (view s))) None) (view s)
      (take (length (satellites (view s))) (sort_rows [(norad, False)] (filter (after_cursor None) (satellites (view s)))))"
    unfolding satellite_page_answers using sort_rows by blast
  then obtain ys where ys: "rising norad ys" "mset ys = mset (filter (after_cursor None) (satellites (view s)))"
    using page_answer [OF _ assms(2)] by blast
  have all: "filter (after_cursor None) (satellites (view s)) = satellites (view s)"
    by (simp add: after_cursor_def)
  have len: "length ys < k" using assms(5) mset_eq_length [OF ys(2)] unfolding all by simp
  obtain s' where "walk k A n None s = (Inr ys, s')" "view s' = view s"
    using walk_pages [OF assms(1-4) ys len] by blast
  then show ?thesis using ys(2) rising_strict [OF ys(1)] unfolding all by blast
qed

theorem satellite_pages_complete_witness:
  "\<exists>rows s'. walk 5 (site_app (default_settings [] [] [] []) 0) 1 None \<lparr>s_kv = Map.empty, s_db = (\<lambda>_.
        [row_of [(''norad_id'', CInt 9)], row_of [(''norad_id'', CInt 4)]])\<rparr> = (Inr rows, s')
    \<and> mset rows = mset [row_of [(''norad_id'', CInt 9)], row_of [(''norad_id'', CInt 4)]] \<and> sorted_wrt (<) (map norad rows)"
proof -
  let ?rows = "[row_of [(''norad_id'', CInt 9)], row_of [(''norad_id'', CInt 4)]]"
  let ?s = "\<lparr>s_kv = Map.empty, s_db = (\<lambda>_. ?rows)\<rparr>"
  have "app_db (site_app (default_settings [] [] [] []) 0) = site_engine" by (simp add: site_app_def)
  then have up: "database_up (app_db (site_app (default_settings [] [] [] []) 0)) s_db"
    using site_db.database_up_axioms by (simp only:)
  have rows: "satellites (s_db ?s) = ?rows" by (simp add: satellites_def)
  have un: "distinct (map norad (satellites (s_db ?s)))" unfolding rows by (simp add: norad_def row_of_def)
  have ids: "\<forall>r\<in>set (satellites (s_db ?s)). \<exists>i. i \<noteq> 0 \<and> norad r = CInt i" unfolding rows by (simp add: norad_def row_of_def)
  have len: "length (satellites (s_db ?s)) < 5" unfolding rows by simp
  show ?thesis
    using satellite_pages_complete [where n = 1 and k = 5 and s = ?s and view = s_db, OF up un ids zero_less_one len]
    unfolding rows by (elim exE conjE) (intro exI conjI)
qed

end
