(* ===== verification/Insights.thy ===== *)
theory Insights
  imports Resources
begin

text \<open>
  The handlers of \<open>src/api/routers/insights.py\<close>: counts and groupings of the catalogue, decays, the launch calendar,
  the latest observations and the coming close approaches. A grouping or a join is what the query selects from.

  The lemma at the end says what a page of a dimension of the catalogue holds.
\<close>

section \<open>Loading and caching\<close>

definition cached_data :: "'s app \<Rightarrow> string \<Rightarrow> ('s, pyval) io \<Rightarrow> int \<Rightarrow> int \<Rightarrow> ('s, pyval \<times> string) io" where
  "cached_data A key loader ttl stale = bindc (app_cached A key loader ttl stale) (\<lambda>(data, st, _). ret (data, st))"

definition cached_response ::
  "'s app \<Rightarrow> string \<Rightarrow> ('s, pyval) io \<Rightarrow> int \<Rightarrow> int \<Rightarrow> string \<Rightarrow> string list \<Rightarrow> ('s, string \<times> pyval) io" where
  "cached_response A key loader ttl stale path srcs = bindc (cached_data A key loader ttl stale) (\<lambda>(data, st).
     bindc (respond A path srcs data) (\<lambda>r. ret (st, r)))"

text \<open>\<open>.one()\<close> and \<open>.scalar_one()\<close>\<close>

definition one :: "row list \<Rightarrow> exn + row" where
  "one rows = bindr (scalar_one_or_none rows) (\<lambda>r. case r of None \<Rightarrow> Inl (OtherError ''NoResultFound'') | Some r \<Rightarrow> Inr r)"

text \<open>A query of aggregates without groups gives one row.\<close>

definition aggregates :: "string \<Rightarrow> (row list \<Rightarrow> (string \<times> cell) list) \<Rightarrow> query" where
  "aggregates t f = \<lparr>q_from = (\<lambda>d. [row_of (f (d t))]), q_where = (\<lambda>_. True), q_order = [], q_offset = 0, q_limit = None\<rparr>"

definition count_where :: "(row \<Rightarrow> bool) \<Rightarrow> row list \<Rightarrow> cell" where
  "count_where p rows = CInt (int (length (filter p rows)))"

definition select_one :: "'s app \<Rightarrow> query \<Rightarrow> ('s, row) io" where
  "select_one A q = bindc (eng_select (app_db A) q) (\<lambda>rows. pure (one rows))"

section \<open>The catalogue\<close>

definition dimension_rows :: "string \<Rightarrow> row list \<Rightarrow> row list" where
  "dimension_rows col rows = map (\<lambda>(k, rs). row_of [(''value'', hd k), (''count'', CInt (int (length rs)))])
     (groups (\<lambda>r. [r col]) (filter (\<lambda>r. r col \<noteq> CNull \<and> r col \<noteq> CText []) rows))"

definition dimension_query :: "string \<Rightarrow> nat \<Rightarrow> query" where
  "dimension_query col n = \<lparr>q_from = (\<lambda>d. dimension_rows col (d ''satellites'')), q_where = (\<lambda>_. True),
     q_order = [(\<lambda>r. r ''count'', True), (\<lambda>r. r ''value'', False)], q_offset = 0, q_limit = Some n\<rparr>"

definition dimension :: "'s app \<Rightarrow> string \<Rightarrow> nat \<Rightarrow> ('s, pyval) io" where
  "dimension A col n = bindc (eng_select (app_db A) (dimension_query col n)) (\<lambda>rows.
     ret (PList (map (\<lambda>r. PDict [(''value'', cell_value (r ''value'')), (''count'', PInt (cell_count (r ''count'')))]) rows)))"

definition dimension_handler :: "string \<Rightarrow> string \<Rightarrow> string \<Rightarrow> 's app \<Rightarrow> nat \<Rightarrow> ('s, string \<times> pyval) io" where
  "dimension_handler path col cache_name A n = cached_response A (''catalog:'' @ cache_name @ '':'' @ show_int (int n))
     (dimension A col n) 600 3600 path ORBITAL"

definition DIMENSIONS :: "(string \<times> string \<times> string) list" where
  "DIMENSIONS = [(''/catalog/countries'', ''country'', ''countries''), (''/catalog/operators'', ''operator'', ''operators''),
     (''/catalog/object-types'', ''object_type'', ''object-types''), (''/catalog/statuses'', ''status'', ''statuses''),
     (''/catalog/orbit-classes'', ''orbit_class'', ''orbit-classes'')]"

definition dimension_handlers :: "'s app \<Rightarrow> nat \<Rightarrow> (string \<times> ('s, string \<times> pyval) io) list" where
  "dimension_handlers A n = map (\<lambda>(path, col, name). (path, dimension_handler path col name A n)) DIMENSIONS"

definition summary_query :: query where
  "summary_query = aggregates ''satellites'' (\<lambda>rows. [(''total'', count_where (\<lambda>_. True) rows),
     (''with_cospar_id'', count_where (\<lambda>r. r ''cospar_id'' \<noteq> CNull) rows),
     (''active'', count_where (\<lambda>r. r ''status'' \<in> {CText ''active'', CText ''operational''}) rows)])"

definition catalog_summary :: "'s app \<Rightarrow> ('s, string \<times> pyval) io" where
  "catalog_summary A = cached_response A ''catalog:summary''
     (bindc (select_one A summary_query) (\<lambda>r. ret (columns_of [''total'', ''with_cospar_id'', ''active''] r)))
     300 3600 ''/catalog/summary'' ORBITAL"

definition DECAY_COLS :: "string list" where "DECAY_COLS = [''norad_id'', ''decay_date'', ''confidence'']"

definition catalog_decays :: "'s app \<Rightarrow> nat \<Rightarrow> ('s, string \<times> pyval) io" where
  "catalog_decays A n = cached_response A (''catalog:decays:'' @ show_int (int n))
     (bindc (eng_select (app_db A) (ordered ''satellite_decays'' (\<lambda>_. True) (by_desc ''decay_date'') n)) (\<lambda>rows.
        ret (PList (map (columns_of DECAY_COLS) rows)))) 600 3600 ''/catalog/decays'' [''space-track'']"

definition catalog_decay :: "'s app \<Rightarrow> int \<Rightarrow> ('s, pyval) io" where
  "catalog_decay A norad_id =
     bindc (require_one A (select_from ''satellite_decays'' (\<lambda>r. r ''norad_id'' = CInt norad_id)) ''Decay record not found'') (\<lambda>r.
       respond A (''/catalog/decays/'' @ show_int norad_id) [''space-track''] (columns_of DECAY_COLS r))"

section \<open>Orbits and launches\<close>

definition epochs_query :: "nat \<Rightarrow> query" where
  "epochs_query n = \<lparr>q_from = (\<lambda>d. map (\<lambda>(k, rs). row_of [(''norad_id'', hd k), (''epoch'', max_of ''epoch'' rs)])
       (groups (\<lambda>r. [r ''norad_id'']) (d ''orbital_elements''))),
     q_where = (\<lambda>_. True), q_order = by_desc ''epoch'', q_offset = 0, q_limit = Some n\<rparr>"

definition latest_orbit_epochs :: "'s app \<Rightarrow> nat \<Rightarrow> ('s, pyval) io" where
  "latest_orbit_epochs A n = list_rows A (epochs_query n) (columns_of [''norad_id'', ''epoch'']) ''/orbits/latest-epochs'' ORBITAL"

fun time_from :: "datetime \<Rightarrow> cell \<Rightarrow> bool" where
  "time_from t (CTime x) \<longleftrightarrow> t \<le> x"
| "time_from t c \<longleftrightarrow> False"

fun time_before :: "datetime \<Rightarrow> cell \<Rightarrow> bool" where
  "time_before t (CTime x) \<longleftrightarrow> x < t"
| "time_before t c \<longleftrightarrow> False"

definition next_launch :: "'s app \<Rightarrow> ('s, pyval) io" where
  "next_launch A =
     bindc (require_one A (ordered ''launches'' (\<lambda>r. time_from (app_now A) (r ''window_start'')) (by_asc ''window_start'') 1)
        ''No upcoming launch is available'') (\<lambda>r.
       respond A ''/launches/next'' LAUNCH (columns_of LAUNCH_COLS r))"

definition within_days :: "'s app \<Rightarrow> int \<Rightarrow> cell \<Rightarrow> bool" where
  "within_days A days c \<longleftrightarrow> time_from (app_now A) c \<and> time_before (app_now A + seconds (86400 * days)) c"

definition launch_calendar :: "'s app \<Rightarrow> int \<Rightarrow> ('s, pyval) io" where
  "launch_calendar A days =
     list_rows A (ordered ''launches'' (\<lambda>r. within_days A days (r ''window_start'')) (by_asc ''window_start'') 1000)
       (columns_of [''id'', ''name'', ''status'', ''window_start'']) ''/launches/calendar'' LAUNCH"

definition status_query :: query where
  "status_query = \<lparr>q_from = (\<lambda>d. map (\<lambda>(k, rs). row_of [(''status'', hd k), (''count'', CInt (int (length rs)))])
       (groups (\<lambda>r. [r ''status'']) (d ''launches''))),
     q_where = (\<lambda>_. True), q_order = by_desc ''count'', q_offset = 0, q_limit = None\<rparr>"

definition launch_statistics :: "'s app \<Rightarrow> ('s, pyval) io" where
  "launch_statistics A = bindc (eng_select (app_db A) status_query) (\<lambda>rows.
     respond A ''/launches/statistics'' LAUNCH (PDict [(''by_status'', PList (map (columns_of [''status'', ''count'']) rows))]))"

section \<open>Observations\<close>

definition latest_kp :: "'s app \<Rightarrow> ('s, pyval) io" where
  "latest_kp A = bindc (require_one A (newest ''space_weather_indices'') ''No geomagnetic observation is available'') (\<lambda>r.
     respond A ''/space-weather/geomagnetic-indices/latest'' WEATHER (columns_of INDEX_COLS r))"

definition latest_wind :: "'s app \<Rightarrow> ('s, pyval) io" where
  "latest_wind A = bindc (require_one A (newest ''solar_wind'') ''No solar-wind observation is available'') (\<lambda>r.
     respond A ''/space-weather/solar-wind/latest'' WEATHER (columns_of SOLAR_COLS r))"

text \<open>\<open>int((now - observed_at).total_seconds()) if observed_at else None\<close>\<close>

definition age_of :: "datetime \<Rightarrow> cell \<Rightarrow> exn + pyval" where
  "age_of now c = (case c of
     CTime t \<Rightarrow> bindr (int_of_float (to_double (of_int (now - t) / 1000000))) (\<lambda>i. Inr (PInt i))
   | _ \<Rightarrow> Inr PNone)"

definition weather_freshness :: "'s app \<Rightarrow> ('s, pyval) io" where
  "weather_freshness A =
     bindc (select_one A (aggregates ''space_weather_indices'' (\<lambda>rows. [(''max'', max_of ''timestamp'' rows)]))) (\<lambda>kp.
     bindc (select_one A (aggregates ''solar_wind'' (\<lambda>rows. [(''max'', max_of ''timestamp'' rows)]))) (\<lambda>wind.
     bindc (pure (age_of (app_now A) (kp ''max''))) (\<lambda>kp_age.
     bindc (pure (age_of (app_now A) (wind ''max''))) (\<lambda>wind_age.
       respond A ''/space-weather/freshness'' WEATHER (PDict [(''geomagnetic_observed_at'', cell_value (kp ''max'')),
         (''geomagnetic_age_seconds'', kp_age), (''solar_wind_observed_at'', cell_value (wind ''max'')),
         (''solar_wind_age_seconds'', wind_age)])))))"

section \<open>Near-earth objects\<close>

definition neo_counts :: query where
  "neo_counts = aggregates ''near_earth_objects'' (\<lambda>rows. [(''total'', count_where (\<lambda>_. True) rows),
     (''potentially_hazardous'', count_where (\<lambda>r. r ''is_potentially_hazardous'' = CBool True) rows),
     (''sentry'', count_where (\<lambda>r. r ''is_sentry_object'' = CBool True) rows)])"

definition neo_statistics :: "'s app \<Rightarrow> ('s, pyval) io" where
  "neo_statistics A = bindc (select_one A neo_counts) (\<lambda>r.
     respond A ''/neos/statistics'' NEO (columns_of [''total'', ''potentially_hazardous'', ''sentry''] r))"

definition hazardous_neos :: "'s app \<Rightarrow> nat \<Rightarrow> ('s, pyval) io" where
  "hazardous_neos A n =
     list_rows A (ordered ''near_earth_objects'' (\<lambda>r. r ''is_potentially_hazardous'' = CBool True) (by_asc ''id'') n)
       (columns_of [''id'', ''name'', ''absolute_magnitude_h'']) ''/neos/hazardous'' NEO"

text \<open>The join; the object's columns the handler reads do not occur in the approach.\<close>

definition NEO_JOINED :: "string list" where
  "NEO_JOINED = [''name'', ''estimated_diameter_min_km'', ''estimated_diameter_max_km'', ''is_potentially_hazardous'']"

definition approaches_with_neo :: "db \<Rightarrow> row list" where
  "approaches_with_neo d = concat (map (\<lambda>a. map (take_over NEO_JOINED a)
     (filter (\<lambda>n. n ''id'' \<noteq> CNull \<and> n ''id'' = a ''neo_id'') (d ''near_earth_objects''))) (d ''close_approaches''))"

definition upcoming_query :: "'s app \<Rightarrow> int \<Rightarrow> nat \<Rightarrow> query" where
  "upcoming_query A days n = \<lparr>q_from = approaches_with_neo, q_where = (\<lambda>r. within_days A days (r ''close_approach_date'')),
     q_order = by_asc ''close_approach_date'', q_offset = 0, q_limit = Some n\<rparr>"

definition LUNAR_DISTANCES_PER_AU :: pyfloat where
  "LUNAR_DISTANCES_PER_AU = f_div_by (to_double 149597870.7) 384400"

definition lunar_distance :: "cell \<Rightarrow> exn + pyfloat" where
  "lunar_distance c = (case c of CNum x \<Rightarrow> Inr (round_to 2 (f_mul x LUNAR_DISTANCES_PER_AU)) | _ \<Rightarrow> Inl TypeError)"

definition upcoming_view :: "row \<Rightarrow> exn + pyval option" where
  "upcoming_view r = bindr (lunar_distance (r ''miss_distance_au'')) (\<lambda>lunar. Inr (Some (PDict (
     map (\<lambda>c. (c, cell_value (r c))) [''neo_id'', ''name'', ''close_approach_date'', ''relative_velocity_kms'', ''miss_distance_au'']
     @ [(''miss_distance_lunar'', PFloat (repr_float lunar))]
     @ map (\<lambda>c. (c, cell_value (r c)))
         [''orbiting_body'', ''estimated_diameter_min_km'', ''estimated_diameter_max_km'', ''is_potentially_hazardous'']))))"

definition upcoming_approaches :: "'s app \<Rightarrow> int \<Rightarrow> nat \<Rightarrow> ('s, pyval) io" where
  "upcoming_approaches A days n = bindc (eng_select (app_db A) (upcoming_query A days n)) (\<lambda>rows.
     bindc (pure (collect upcoming_view rows)) (\<lambda>data. respond A ''/neos/close-approaches/upcoming'' NEO (PList data)))"

section \<open>What a dimension counts\<close>

lemma groups_mem: "(k, rs) \<in> set (groups key rows) \<longleftrightarrow> k \<in> key ` set rows \<and> rs = filter (\<lambda>r. key r = k) rows"
  by (auto simp: groups_def)

text \<open>Every listed value is a proper one, and its count is the number of satellites that have it.\<close>

lemma dimension_page:
  assumes "answers (dimension_query col n) d rows" "r \<in> set rows"
  shows "r ''value'' \<noteq> CNull" "r ''value'' \<noteq> CText []"
    "r ''count'' = CInt (int (length (filter (\<lambda>s. s col = r ''value'') (d ''satellites''))))"
proof -
  let ?p = "\<lambda>r. r col \<noteq> CNull \<and> r col \<noteq> CText []"
  have "r \<in> set (dimension_rows col (d ''satellites''))"
    using answers_mem [OF assms] by (simp add: dimension_query_def)
  then obtain k rs where r: "r = row_of [(''value'', hd k), (''count'', CInt (int (length rs)))]"
    and g: "(k, rs) \<in> set (groups (\<lambda>r. [r col]) (filter ?p (d ''satellites'')))"
    by (auto simp: dimension_rows_def)
  from g obtain s where s: "s \<in> set (d ''satellites'')" "?p s" "k = [s col]"
    and rs: "rs = filter (\<lambda>r. [r col] = k) (filter ?p (d ''satellites''))"
    unfolding groups_mem by auto
  have eq: "r ''value'' = s col" using r s(3) by (simp add: row_of_def)
  have "rs = filter (\<lambda>t. t col = s col) (d ''satellites'')" unfolding rs s(3) using s(2) by (auto intro!: filter_cong)
  then show "r ''count'' = CInt (int (length (filter (\<lambda>s. s col = r ''value'') (d ''satellites''))))"
    unfolding eq using r by (simp add: row_of_def)
  show "r ''value'' \<noteq> CNull" "r ''value'' \<noteq> CText []" unfolding eq using s(2) by simp_all
qed

end
