(* ===== verification/Orbital.thy ===== *)
theory Orbital
  imports Insights Errors Jpl
begin

text \<open>
  The handlers of \<open>src/api/routers/orbital.py\<close>: element sets, the position of a satellite and its ground track, and
  the element sets a client asks for by number or name. The functions of the C library (\<open>cmath\<close>) and the
  propagator of \<open>sgp4\<close> (\<open>propagator\<close>) are parameters; floats have no negative zero here.

  The theorem is about the list of element sets: each satellite once, with its newest.
\<close>

section \<open>The C library and the propagator\<close>

record cmath =
  c_sin :: "pyfloat \<Rightarrow> exn + pyfloat"
  c_cos :: "pyfloat \<Rightarrow> exn + pyfloat"
  c_atan2 :: "pyfloat \<Rightarrow> pyfloat \<Rightarrow> pyfloat"
  c_hypot :: "pyfloat \<Rightarrow> pyfloat \<Rightarrow> exn + pyfloat"
  c_sqrt :: "pyfloat \<Rightarrow> exn + pyfloat"
  c_pow :: "pyfloat \<Rightarrow> pyfloat \<Rightarrow> exn + pyfloat"

record 'sat propagator =
  twoline2rv :: "string \<Rightarrow> string \<Rightarrow> exn + 'sat"
  sgp4 :: "'sat \<Rightarrow> pyfloat \<Rightarrow> pyfloat \<Rightarrow> int \<times> (pyfloat \<times> pyfloat \<times> pyfloat)"

text \<open>\<open>x % m\<close> for a positive \<open>m\<close>: the exact remainder with the sign of \<open>x\<close>, lifted when it is negative.\<close>

definition f_rem :: "rat \<Rightarrow> rat \<Rightarrow> rat" where
  "f_rem a m = sgn a * (\<bar>a\<bar> - m * of_int \<lfloor>\<bar>a\<bar> / m\<rfloor>)"

fun f_mod :: "pyfloat \<Rightarrow> rat \<Rightarrow> pyfloat" where
  "f_mod (Fin a) m = (if f_rem a m < 0 then to_double (f_rem a m + m) else Fin (f_rem a m))"
| "f_mod x m = NaN"

definition num_lit :: "rat \<Rightarrow> pyfloat" where "num_lit = to_double"

section \<open>From an orbit to the ground\<close>

text \<open>Every instant here is in UTC.\<close>

definition julian_date :: "datetime \<Rightarrow> pyfloat \<times> pyfloat" where
  "julian_date t = (let day = t div seconds 86400; r = t mod seconds 86400 in
     (to_double (of_int (day + 719163) + 1721424.5),
      f_div_by (f_add (Fin (of_int (r div 1000000))) (f_div_by (Fin (of_int (r mod 1000000))) 1000000)) 86400))"

definition gmst_degrees :: "cmath \<Rightarrow> pyfloat \<Rightarrow> exn + pyfloat" where
  "gmst_degrees C jd_fr =
     (let since = f_sub jd_fr (num_lit 2451545); centuries = f_div_by since 36525 in
      bindr (c_pow C centuries (Fin 2)) (\<lambda>sq.
      bindr (c_pow C centuries (Fin 3)) (\<lambda>cube.
        Inr (f_mod (f_sub (f_add (f_add (num_lit 280.46061837) (f_mul (num_lit 360.98564736629) since))
            (f_mul (num_lit 0.000387933) sq)) (f_div_by cube 38710000)) 360))))"

definition SEMI_MAJOR :: pyfloat where "SEMI_MAJOR = num_lit 6378.137"

definition ECCENTRICITY_SQ :: "exn + pyfloat" where
  "ECCENTRICITY_SQ = bindr (f_div (Fin 1) (num_lit 298.257223563)) (\<lambda>flattening.
     Inr (f_mul flattening (f_sub (Fin 2) flattening)))"

text \<open>One round of the iteration, on the latitude and the altitude.\<close>

definition refine_latitude :: "cmath \<Rightarrow> pyfloat \<Rightarrow> pyfloat \<Rightarrow> pyfloat \<Rightarrow> pyfloat \<times> pyfloat \<Rightarrow> exn + pyfloat \<times> pyfloat" where
  "refine_latitude C e2 z radius la =
     bindr (c_sin C (fst la)) (\<lambda>sin_lat.
     bindr (c_pow C sin_lat (Fin 2)) (\<lambda>sin_sq.
     bindr (c_sqrt C (f_sub (Fin 1) (f_mul e2 sin_sq))) (\<lambda>root.
     bindr (f_div SEMI_MAJOR root) (\<lambda>normal.
     bindr (c_cos C (fst la)) (\<lambda>cos_lat.
     bindr (f_div radius (f_max cos_lat (num_lit (1 / 10 ^ 12)))) (\<lambda>q.
     let altitude = f_sub q normal in
     bindr (f_div (f_mul e2 normal) (f_add normal altitude)) (\<lambda>share.
       Inr (c_atan2 C z (f_mul radius (f_sub (Fin 1) share)), altitude))))))))"

fun rounds :: "nat \<Rightarrow> ('a \<Rightarrow> exn + 'a) \<Rightarrow> 'a \<Rightarrow> exn + 'a" where
  "rounds 0 f a = Inr a"
| "rounds (Suc n) f a = bindr (f a) (rounds n f)"

definition teme_to_geodetic :: "cmath \<Rightarrow> pyfloat \<times> pyfloat \<times> pyfloat \<Rightarrow> datetime \<Rightarrow> exn + pyfloat \<times> pyfloat \<times> pyfloat" where
  "teme_to_geodetic C r_km t =
     (case (julian_date t, r_km) of ((jd, fr), (x_teme, y_teme, z)) \<Rightarrow>
       bindr (gmst_degrees C (f_add jd fr)) (\<lambda>gmst_deg.
       let theta = radians gmst_deg in
       bindr (c_cos C theta) (\<lambda>cos_theta.
       bindr (c_sin C theta) (\<lambda>sin_theta.
       let x = f_add (f_mul cos_theta x_teme) (f_mul sin_theta y_teme);
           y = f_add (f_mul (f_neg sin_theta) x_teme) (f_mul cos_theta y_teme) in
       bindr ECCENTRICITY_SQ (\<lambda>e2.
       bindr (c_hypot C x y) (\<lambda>radius.
       bindr (rounds 8 (refine_latitude C e2 z radius) (c_atan2 C z (f_mul radius (f_sub (Fin 1) e2)), Fin 0)) (\<lambda>(latitude, altitude).
         Inr (degrees latitude, degrees (c_atan2 C y x), altitude))))))))"

text \<open>A minute whose propagation fails is left out.\<close>

definition track_point :: "cmath \<Rightarrow> 'sat propagator \<Rightarrow> 'sat \<Rightarrow> datetime \<Rightarrow> exn + pyval option" where
  "track_point C P sat t =
     (case sgp4 P sat (fst (julian_date t)) (snd (julian_date t)) of (error, position) \<Rightarrow>
       if error \<noteq> 0 then Inr None
       else bindr (teme_to_geodetic C position t) (\<lambda>(lat, lon, alt).
         Inr (Some (PDict [(''t'', PStr (isoformat t)), (''lat'', PFloat (repr_float (round_to 4 lat))),
           (''lon'', PFloat (repr_float (round_to 4 lon))), (''alt'', PFloat (repr_float (round_to 2 alt)))]))))"

definition propagate_track :: "cmath \<Rightarrow> 'sat propagator \<Rightarrow> string \<Rightarrow> string \<Rightarrow> datetime \<Rightarrow> nat \<Rightarrow> exn + pyval list" where
  "propagate_track C P line1 line2 start minutes =
     bindr (twoline2rv P line1 line2) (\<lambda>sat.
       collect (\<lambda>i. track_point C P sat (start + seconds (60 * int i))) [0..<minutes])"

section \<open>Element sets\<close>

definition ELEMENT_COLS :: "string list" where
  "ELEMENT_COLS = [''norad_id'', ''epoch'', ''inclination'', ''right_ascension'', ''eccentricity'', ''argument_of_perigee'',
     ''mean_anomaly'', ''mean_motion'', ''provider'']"

definition elements_query :: "int \<Rightarrow> nat \<Rightarrow> query" where
  "elements_query norad_id n = ordered ''orbital_elements'' (\<lambda>r. r ''norad_id'' = CInt norad_id) (by_desc ''epoch'') n"

text \<open>The cache keeps the epoch as text; reading it back needs a dictionary with a text in that place.\<close>

definition with_iso_epoch :: "(string \<times> pyval) list \<Rightarrow> row \<Rightarrow> pyval" where
  "with_iso_epoch kvs r = PDict (map (\<lambda>(k, v). (k, if k = ''epoch'' then iso_or_none (r ''epoch'') else v)) kvs)"

definition parse_epoch :: "pyval \<Rightarrow> exn + pyval" where
  "parse_epoch v = (case v of
     PStr s \<Rightarrow> (case fromisoformat s of None \<Rightarrow> Inl (ValueError ''Invalid isoformat string'')
       | Some p \<Rightarrow> Inr (PObject (datetime_str (as_utc p))))
   | _ \<Rightarrow> Inl TypeError)"

definition with_epoch :: "pyval \<Rightarrow> exn + pyval" where
  "with_epoch v = bindr (subscript v ''epoch'') (\<lambda>e. bindr (parse_epoch e) (\<lambda>t.
     case v of PDict kvs \<Rightarrow> Inr (PDict (map (\<lambda>(k, w). (k, if k = ''epoch'' then t else w)) kvs)) | _ \<Rightarrow> Inl TypeError))"

definition element_dict :: "string list \<Rightarrow> row \<Rightarrow> pyval" where
  "element_dict cs r = with_iso_epoch (map (\<lambda>c. (c, cell_value (r c))) cs) r"

definition aged :: "string \<Rightarrow> int \<Rightarrow> response_meta \<Rightarrow> response_meta" where
  "aged st age m = m\<lparr>freshness := (freshness m)\<lparr>state := st, age_seconds := age\<rparr>\<rparr>"

definition respond_aged :: "'s app \<Rightarrow> string \<Rightarrow> pyval \<Rightarrow> string \<Rightarrow> int \<Rightarrow> ('s, string \<times> pyval) io" where
  "respond_aged A res data st age = bindc (build_meta A res ORBITAL 3600 86400) (\<lambda>m. ret (st, api_response data (aged st age m)))"

definition load_latest :: "'s app \<Rightarrow> int \<Rightarrow> ('s, pyval) io" where
  "load_latest A norad_id = bindc (find_one A (elements_query norad_id 1)) (\<lambda>el.
     ret (case el of None \<Rightarrow> PNone | Some r \<Rightarrow> element_dict ELEMENT_COLS r))"

definition get_orbital_latest :: "'s app \<Rightarrow> int \<Rightarrow> ('s, string \<times> pyval) io" where
  "get_orbital_latest A norad_id =
     bindc (app_cached A (''oe:latest:'' @ show_int norad_id) (load_latest A norad_id) 3600 86400) (\<lambda>(payload, st, age).
       if payload = PNone then throw (not_found ''Orbital elements not found'')
       else bindc (pure (with_epoch payload)) (\<lambda>data.
         respond_aged A (''/satellites/'' @ show_int norad_id @ ''/orbital-elements/latest'') data st age))"

definition get_orbital_elements :: "'s app \<Rightarrow> int \<Rightarrow> nat \<Rightarrow> ('s, pyval) io" where
  "get_orbital_elements A norad_id n = list_rows A (elements_query norad_id n) (columns_of ELEMENT_COLS)
     (''/satellites/'' @ show_int norad_id @ ''/orbital-elements'') ORBITAL"

section \<open>Position and ground track\<close>

text \<open>\<open>if not el or not el.tle_line1 or not el.tle_line2\<close>\<close>

definition lines_of :: "row option \<Rightarrow> (string \<times> string) option" where
  "lines_of el = (case el of None \<Rightarrow> None
     | Some r \<Rightarrow> if text_of (r ''tle_line1'') = [] \<or> text_of (r ''tle_line2'') = [] then None
         else Some (text_of (r ''tle_line1''), text_of (r ''tle_line2'')))"

definition newest_lines :: "'s app \<Rightarrow> int \<Rightarrow> string \<Rightarrow> ('s, string \<times> string) io" where
  "newest_lines A norad_id m = bindc (find_one A (elements_query norad_id 1)) (\<lambda>el.
     case lines_of el of None \<Rightarrow> throw (not_found m) | Some ls \<Rightarrow> ret ls)"

definition out_of_window :: exn where
  "out_of_window = HTTPException \<lparr>status_code = 422, code = None, message = ''Position time must be within 30 days of now'', headers = []\<rparr>"

definition propagation_error :: "int \<Rightarrow> exn" where
  "propagation_error e = HTTPException \<lparr>status_code = 500, code = None,
     message = ''SGP4 propagation error code '' @ show_int e, headers = []\<rparr>"

text \<open>\<open>timedelta.days\<close> counts whole days downwards.\<close>

definition days_off :: "datetime \<Rightarrow> datetime \<Rightarrow> int" where
  "days_off t now = \<bar>(t - now) div seconds 86400\<bar>"

text \<open>The window reaches almost 31 days ahead, but only 30 days back.\<close>

lemma position_window_lopsided:
  "days_off (now + 31 * seconds 86400 - 1) now = 30" "days_off (now - 30 * seconds 86400 - 1) now = 31"
  by (simp_all add: days_off_def seconds_def)

definition get_position :: "cmath \<Rightarrow> 'sat propagator \<Rightarrow> 's app \<Rightarrow> int \<Rightarrow> (int \<times> int option) option \<Rightarrow> ('s, pyval) io" where
  "get_position C P A norad_id t_opt =
     bindc (newest_lines A norad_id ''TLE not available for this satellite'') (\<lambda>(line1, line2).
     bindc (pure (twoline2rv P line1 line2)) (\<lambda>sat.
     let instant = (case t_opt of None \<Rightarrow> app_now A | Some p \<Rightarrow> as_utc p) in
     if 30 < days_off instant (app_now A) then throw out_of_window
     else (case sgp4 P sat (fst (julian_date instant)) (snd (julian_date instant)) of (e, r) \<Rightarrow>
       if e \<noteq> 0 then throw (propagation_error e)
       else bindc (pure (teme_to_geodetic C r instant)) (\<lambda>(lat, lon, alt).
         respond A (''/satellites/'' @ show_int norad_id @ ''/position'') ORBITAL
           (PDict [(''norad_id'', PInt norad_id), (''timestamp'', PObject (datetime_str instant)),
             (''latitude'', PFloat (repr_float lat)), (''longitude'', PFloat (repr_float lon)), (''altitude'', PFloat (repr_float alt))])))))"

definition get_ground_track :: "cmath \<Rightarrow> 'sat propagator \<Rightarrow> 's app \<Rightarrow> int \<Rightarrow> nat \<Rightarrow> ('s, pyval) io" where
  "get_ground_track C P A norad_id minutes =
     bindc (newest_lines A norad_id ''TLE not available for ground track'') (\<lambda>(line1, line2).
     bindc (pure (propagate_track C P line1 line2 (app_now A - app_now A mod seconds 60) minutes)) (\<lambda>track.
       respond A (''/satellites/'' @ show_int norad_id @ ''/ground-track'') ORBITAL (PList track)))"

definition get_passes :: "'s app \<Rightarrow> int \<Rightarrow> pyfloat \<Rightarrow> pyfloat \<Rightarrow> pyfloat \<Rightarrow> ('s, pyval) io" where
  "get_passes A norad_id lat lon min_el =
     bindc (newest_lines A norad_id ''TLE not available for pass prediction'') (\<lambda>_.
       respond A (''/satellites/'' @ show_int norad_id @ ''/passes'') ORBITAL (PDict [
         (''observer'', PDict [(''lat'', PFloat (repr_float lat)), (''lon'', PFloat (repr_float lon)),
            (''min_elevation_deg'', PFloat (repr_float min_el))]),
         (''passes'', PList []), (''note'', PStr ''Pass predictions require sgp4 observer integration; TLE is available.'')]))"

section \<open>Summary and changes\<close>

fun motion_of :: "cell \<Rightarrow> pyfloat option" where
  "motion_of (CNum x) = (if x = Fin 0 then None else Some x)"
| "motion_of c = None"

definition orbit_numbers :: "cmath \<Rightarrow> pyfloat \<Rightarrow> exn + pyfloat \<times> pyfloat" where
  "orbit_numbers C mean_motion =
     bindr (f_div (Fin 1440) mean_motion) (\<lambda>period_min.
     let n_rads = f_div_by (f_mul (f_mul mean_motion (Fin 2)) (Fin math_pi)) 86400 in
     bindr (c_pow C n_rads (Fin 2)) (\<lambda>sq.
     bindr (f_div (num_lit 398600.4418) sq) (\<lambda>q.
     bindr (c_pow C q (f_div_by (Fin 1) 3)) (\<lambda>a_km. Inr (period_min, a_km)))))"

definition orbit_fields :: "cmath \<Rightarrow> row option \<Rightarrow> exn + (string \<times> pyval) list" where
  "orbit_fields C el = (case el of None \<Rightarrow> Inr []
     | Some r \<Rightarrow> (case motion_of (r ''mean_motion'') of None \<Rightarrow> Inr []
       | Some x \<Rightarrow> if \<not> f_lt (Fin 0) x then Inr []
           else bindr (orbit_numbers C x) (\<lambda>(period_min, a_km).
             Inr [(''orbital_period_minutes'', PFloat (repr_float (round_to 2 period_min))),
               (''semi_major_axis_km'', PFloat (repr_float (round_to 1 a_km))),
               (''inclination_deg'', cell_value (r ''inclination'')), (''epoch'', iso_or_none (r ''epoch''))])))"

definition get_orbit_summary :: "cmath \<Rightarrow> 's app \<Rightarrow> int \<Rightarrow> ('s, pyval) io" where
  "get_orbit_summary C A norad_id =
     bindc (find_one A (elements_query norad_id 1)) (\<lambda>el.
     bindc (pure (orbit_fields C el)) (\<lambda>fs.
       respond A (''/satellites/'' @ show_int norad_id @ ''/orbit-summary'') ORBITAL (PDict ((''norad_id'', PInt norad_id) # fs))))"

text \<open>\<open>round((x or 0) - (y or 0), n)\<close>: zero and nothing both become the integer 0.\<close>

definition rounded_change :: "nat \<Rightarrow> cell \<Rightarrow> cell \<Rightarrow> pyval" where
  "rounded_change n x y = (case (motion_of x, motion_of y) of
     (None, None) \<Rightarrow> PInt 0
   | (a, b) \<Rightarrow> PFloat (repr_float (round_to n (f_sub (case a of None \<Rightarrow> Fin 0 | Some u \<Rightarrow> u) (case b of None \<Rightarrow> Fin 0 | Some u \<Rightarrow> u)))))"

definition change_of :: "row \<times> row \<Rightarrow> pyval option" where
  "change_of p = (case p of (cur, prev) \<Rightarrow>
     if motion_of (cur ''mean_motion'') = None \<or> motion_of (prev ''mean_motion'') = None then None
     else Some (PDict [(''from_epoch'', iso_or_none (prev ''epoch'')), (''to_epoch'', iso_or_none (cur ''epoch'')),
       (''delta_mean_motion'', rounded_change 8 (cur ''mean_motion'') (prev ''mean_motion'')),
       (''delta_inclination'', rounded_change 6 (cur ''inclination'') (prev ''inclination''))]))"

definition get_orbital_changes :: "'s app \<Rightarrow> int \<Rightarrow> nat \<Rightarrow> ('s, pyval) io" where
  "get_orbital_changes A norad_id n = bindc (eng_select (app_db A) (elements_query norad_id (n + 1))) (\<lambda>rows.
     respond A (''/satellites/'' @ show_int norad_id @ ''/orbital-changes'') ORBITAL
       (PList (List.map_filter change_of (zip rows (tl rows)))))"

definition get_coverage :: "'s app \<Rightarrow> ('s, pyval) io" where
  "get_coverage A = bindc (select_one A (aggregates ''orbital_elements'' (\<lambda>rows. [(''count'', count_where (\<lambda>_. True) rows)]))) (\<lambda>r.
     respond A ''/orbits/coverage'' ORBITAL (PDict [(''total_orbital_elements'', cell_value (r ''count''))]))"

section \<open>Element sets by number or name\<close>

definition bad_ids :: "string \<Rightarrow> exn" where
  "bad_ids m = HTTPException \<lparr>status_code = 422, code = None, message = m, headers = []\<rparr>"

definition TLE_MAX_IDS :: nat where "TLE_MAX_IDS = 200"
definition TLE_MAX_AGE :: datetime where "TLE_MAX_AGE = seconds (14 * 86400)"

fun int_parts :: "string list \<Rightarrow> int list option" where
  "int_parts [] = Some []"
| "int_parts (p # ps) = (if strip p = [] then int_parts ps
     else (case int_text p of None \<Rightarrow> None | Some i \<Rightarrow> map_option ((#) i) (int_parts ps)))"

definition parse_norad_ids :: "string option \<Rightarrow> exn + int list" where
  "parse_norad_ids raw = (case raw of None \<Rightarrow> Inr []
     | Some s \<Rightarrow> if s = [] then Inr []
         else (case int_parts (split_on (CHR '','') s) of
             None \<Rightarrow> Inl (bad_ids ''ids must be comma-separated integers'')
           | Some is \<Rightarrow> let ids = sort (remdups is) in
               if TLE_MAX_IDS < length ids \<or> list_ex (\<lambda>i. \<not> (0 < i \<and> i < 1000000000)) ids
               then Inl (bad_ids (''ids accepts up to '' @ show_int (int TLE_MAX_IDS) @ '' positive catalog numbers''))
               else Inr ids))"

text \<open>
  \<open>DISTINCT ON\<close> keeps the first row of every number in the order of the query, and the limit counts the rows that are
  left: both are applied to the ordered answer.
\<close>

definition element_with_name :: "db \<Rightarrow> row list" where
  "element_with_name d = concat (map (\<lambda>e. map (take_over [''name''] e)
     (filter (\<lambda>s. s ''norad_id'' \<noteq> CNull \<and> s ''norad_id'' = e ''norad_id'') (d ''satellites''))) (d ''orbital_elements''))"

definition tle_wanted :: "datetime \<Rightarrow> int list \<Rightarrow> string option \<Rightarrow> row \<Rightarrow> bool" where
  "tle_wanted now ids prefix_opt r \<longleftrightarrow> r ''tle_line1'' \<noteq> CNull \<and> r ''tle_line2'' \<noteq> CNull \<and> time_after (now - TLE_MAX_AGE) (r ''epoch'')
     \<and> (ids = [] \<or> r ''norad_id'' \<in> CInt ` set ids)
     \<and> (case prefix_opt of None \<Rightarrow> True | Some p \<Rightarrow> p = [] \<or> starts_with p (text_of (r ''name'')))"

definition tle_query :: "datetime \<Rightarrow> int list \<Rightarrow> string option \<Rightarrow> query" where
  "tle_query now ids prefix_opt = \<lparr>q_from = element_with_name, q_where = tle_wanted now ids prefix_opt,
     q_order = [(\<lambda>r. r ''norad_id'', False), (\<lambda>r. r ''epoch'', True)], q_offset = 0, q_limit = None\<rparr>"

fun distinct_on :: "('a \<Rightarrow> 'k) \<Rightarrow> 'a list \<Rightarrow> 'a list" where
  "distinct_on f (r # s # rs) = (if f r = f s then distinct_on f (r # rs) else r # distinct_on f (s # rs))"
| "distinct_on f rs = rs"

definition tle_rows :: "nat \<Rightarrow> row list \<Rightarrow> row list" where
  "tle_rows n rows = take n (distinct_on (\<lambda>r. r ''norad_id'') rows)"

definition TLE_COLS :: "string list" where
  "TLE_COLS = [''norad_id'', ''name'', ''epoch'', ''tle_line1'', ''tle_line2'']"

definition load_tle :: "'s app \<Rightarrow> int list \<Rightarrow> string option \<Rightarrow> nat \<Rightarrow> ('s, pyval) io" where
  "load_tle A ids prefix_opt n = bindc (eng_select (app_db A) (tle_query (app_now A) ids prefix_opt)) (\<lambda>rows.
     ret (PList (map (element_dict TLE_COLS) (tle_rows n rows))))"

definition tle_key :: "int list \<Rightarrow> string option \<Rightarrow> nat \<Rightarrow> string" where
  "tle_key ids prefix_opt n = ''tle:'' @ join_with '','' (map show_int ids) @ '':''
     @ (case prefix_opt of None \<Rightarrow> [] | Some p \<Rightarrow> p) @ '':'' @ show_int (int n)"

text \<open>An empty list from the cache is loaded again.\<close>

definition get_latest_tle_sets :: "'s app \<Rightarrow> string option \<Rightarrow> string option \<Rightarrow> nat \<Rightarrow> ('s, string \<times> pyval) io" where
  "get_latest_tle_sets A ids search n =
     bindc (pure (parse_norad_ids ids)) (\<lambda>norad_ids.
     let prefix_opt = (case search of None \<Rightarrow> None | Some s \<Rightarrow> if s = [] then None else Some (map ascii_upper (strip s))) in
     bindc (app_cached A (tle_key norad_ids prefix_opt n) (load_tle A norad_ids prefix_opt n) 900 7200) (\<lambda>(cached_value, st, age).
     bindc (if truth cached_value then ret (cached_value, st, age)
            else bindc (load_tle A norad_ids prefix_opt n) (\<lambda>v. ret (v, ''miss'', 0))) (\<lambda>(payload, st, age).
     bindc (build_meta A ''/orbits/tle'' ORBITAL 3600 86400) (\<lambda>m.
     bindc (pure (bindr (items payload) (collect (\<lambda>v. bindr (with_epoch v) (\<lambda>w. Inr (Some w)))))) (\<lambda>data.
       ret (st, api_response (PList data) (aged st age m)))))))"

section \<open>Every satellite with its newest elements\<close>

definition number_of :: "row \<Rightarrow> cell" where "number_of r = r ''norad_id''"
definition set_epoch :: "row \<Rightarrow> cell" where "set_epoch r = r ''epoch''"

lemma first_of_group:
  assumes "row_le [(f, False), (g, True)] r s"
  shows "f r \<le> f s" "f r = f s \<Longrightarrow> g s \<le> g r" "f r \<noteq> f s \<Longrightarrow> f r < f s"
  using assms by (auto split: if_splits)

lemma distinct_on_subset: "set (distinct_on f xs) \<subseteq> set xs"
  by (induction f xs rule: distinct_on.induct) auto

lemma distinct_on_keys: "f ` set (distinct_on f xs) = f ` set xs"
  by (induction f xs rule: distinct_on.induct) auto

lemma distinct_on_rising: "sorted_wrt (row_le [(f, False), (g, True)]) xs \<Longrightarrow> rising f (distinct_on f xs)"
proof (induction f xs rule: distinct_on.induct)
  case (1 f r s rs)
  show ?case
  proof (cases "f r = f s")
    case False
    have "f r < f t" if "t \<in> set (distinct_on f (s # rs))" for t
    proof -
      have t: "t \<in> set (s # rs)" using that distinct_on_subset by fast
      have "f r < f s" using "1.prems" False first_of_group(3) [of f g r s] by (simp del: row_le.simps)
      moreover have "f s \<le> f t" using t "1.prems" first_of_group(1) [of f g s t] by (auto simp del: row_le.simps)
      ultimately show ?thesis by simp
    qed
    with 1 False show ?thesis by (simp del: row_le.simps)
  qed (use 1 in \<open>simp del: row_le.simps\<close>)
qed simp_all

lemma distinct_on_greatest:
  assumes "sorted_wrt (row_le [(f, False), (g, True)]) xs" "r \<in> set (distinct_on f xs)" "t \<in> set xs" "f t = f r"
  shows "g t \<le> g r"
  using assms
proof (induction f xs arbitrary: t rule: distinct_on.induct)
  case (1 f x s rs)
  have xs: "row_le [(f, False), (g, True)] x s" using "1.prems"(1) by (simp del: row_le.simps)
  show ?case
  proof (cases "f x = f s")
    case True
    then have r: "r \<in> set (distinct_on f (x # rs))" using "1.prems"(2) by simp
    have ih: "g u \<le> g r" if "u \<in> set (x # rs)" "f u = f r" for u
      using "1.IH"(1) [OF True _ r that] "1.prems"(1) by (simp del: row_le.simps)
    show ?thesis
    proof (cases "t = s")
      case True
      have "g x \<le> g r" using ih [of x] \<open>f x = f s\<close> True "1.prems"(4) by simp
      moreover have "g s \<le> g x" using first_of_group(2) [OF xs \<open>f x = f s\<close>] .
      ultimately show ?thesis using True by simp
    qed (use ih "1.prems"(3,4) in auto)
  next
    case False
    have up: "f x < f u" if "u \<in> set (s # rs)" for u
    proof -
      have "f x < f s" using first_of_group(3) [OF xs False] .
      moreover have "f s \<le> f u" using that "1.prems"(1) first_of_group(1) [of f g s u] by (auto simp del: row_le.simps)
      ultimately show ?thesis by simp
    qed
    show ?thesis
    proof (cases "r = x")
      case True
      then have "t = x" using up [of t] "1.prems"(3,4) by auto
      with True show ?thesis by simp
    next
      case r: False
      then have rr: "r \<in> set (distinct_on f (s # rs))" using "1.prems"(2) False by simp
      then have "r \<in> set (s # rs)" using distinct_on_subset by fast
      then have "t \<noteq> x" using up [of r] "1.prems"(4) by auto
      then show ?thesis using "1.IH"(2) [OF False _ rr] "1.prems" by (simp del: row_le.simps)
    qed
  qed
qed simp_all

definition newest_sets :: "(row \<Rightarrow> bool) \<Rightarrow> row list \<Rightarrow> nat \<Rightarrow> row list \<Rightarrow> bool" where
  "newest_sets p all n rows \<longleftrightarrow> rising number_of rows \<and> length rows \<le> n
     \<and> (\<forall>r\<in>set rows. r \<in> set all \<and> p r \<and> (\<forall>s\<in>set all. p s \<and> number_of s = number_of r \<longrightarrow> set_epoch s \<le> set_epoch r))
     \<and> (\<forall>s\<in>set all. p s \<longrightarrow> length rows = n \<or> (\<exists>r\<in>set rows. number_of r = number_of s))"

lemma newest_setsI:
  assumes "mset xs = mset (filter p all)" "sorted_wrt (row_le [(number_of, False), (set_epoch, True)]) xs"
  shows "newest_sets p all n (take n (distinct_on number_of xs))"
proof -
  let ?ys = "distinct_on number_of xs"
  have xs: "set xs = {r \<in> set all. p r}" using mset_eq_setD [OF assms(1)] by auto
  have ys: "set (take n ?ys) \<subseteq> set ?ys" by (rule set_take_subset)
  have up: "rising number_of (take n ?ys)" using distinct_on_rising [OF assms(2)] by (rule sorted_wrt_take)
  have mem: "r \<in> set all \<and> p r" if "r \<in> set (take n ?ys)" for r
    using that ys distinct_on_subset [of number_of xs] xs by blast
  have top: "set_epoch s \<le> set_epoch r" if "r \<in> set (take n ?ys)" "s \<in> set all" "p s" "number_of s = number_of r" for r s
    using distinct_on_greatest [OF assms(2) _ _ that(4)] that(1,2,3) ys xs by blast
  have cover: "length (take n ?ys) = n \<or> (\<exists>r\<in>set (take n ?ys). number_of r = number_of s)" if "s \<in> set all" "p s" for s
  proof (cases "n \<le> length ?ys")
    case False
    have "number_of s \<in> number_of ` set ?ys" unfolding distinct_on_keys using that xs by blast
    with False show ?thesis by auto
  qed simp
  show ?thesis unfolding newest_sets_def using up mem top cover by auto
qed

text \<open>
  C20: The element sets that are served are the newest. What the loader behind \<open>/orbits/tle\<close> returns lists at most as
  many satellites as were asked for, each once and by rising number; every set has both lines, is not older
  than 14 days and fits the numbers and the name that were asked for; no set of the same satellite that fits
  is newer; and a satellite with a set that fits is only missing when the list is full.
\<close>

theorem tle_sets_newest:
  assumes "database (app_db A) view" "load_tle A ids prefix_opt n s = (Inr v, s')"
  shows "\<exists>rows. v = PList (map (element_dict TLE_COLS) rows)
    \<and> newest_sets (tle_wanted (app_now A) ids prefix_opt) (element_with_name (view s)) n rows"
proof -
  obtain xs where sel: "eng_select (app_db A) (tle_query (app_now A) ids prefix_opt) s = (Inr xs, s')"
    and v: "v = PList (map (element_dict TLE_COLS) (tle_rows n xs))"
    using assms(2) by (auto simp: load_tle_def bindc_apply split: prod.splits sum.splits)
  have "answers (tle_query (app_now A) ids prefix_opt) (view s) xs"
    by (rule database.select_answers [OF assms(1) sel])
  then have "mset xs = mset (filter (tle_wanted (app_now A) ids prefix_opt) (element_with_name (view s)))"
    "sorted_wrt (row_le [(number_of, False), (set_epoch, True)]) xs"
    by (auto simp: answers_def tle_query_def limited_def number_of_def [abs_def] set_epoch_def [abs_def])
  from newest_setsI [OF this] v show ?thesis by (auto simp: tle_rows_def number_of_def [abs_def])
qed

theorem tle_sets_newest_witness:
  "\<exists>rows. fst (load_tle (site_app (default_settings [] [] [] []) 0) [7] None 5 \<lparr>s_kv = Map.empty, s_db = (\<lambda>_.
        [row_of [(''norad_id'', CInt 7), (''epoch'', CTime 3), (''tle_line1'', CText ''1''), (''tle_line2'', CText ''2'')]])\<rparr>)
      = Inr (PList (map (element_dict TLE_COLS) rows)) \<and> rising number_of rows \<and> length rows \<le> 5"
proof -
  let ?A = "site_app (default_settings [] [] [] []) 0" and ?s = "\<lparr>s_kv = Map.empty, s_db = (\<lambda>_.
        [row_of [(''norad_id'', CInt 7), (''epoch'', CTime 3), (''tle_line1'', CText ''1''), (''tle_line2'', CText ''2'')]])\<rparr>"
  have app: "app_db ?A = site_engine" by (simp add: site_app_def)
  then have db: "database (app_db ?A) s_db" using site_db.database_axioms by (simp only:)
  obtain v where run: "load_tle ?A [7] None 5 ?s = (Inr v, ?s)"
    by (simp add: load_tle_def bindc_apply app site_engine_def doc_select_def)
  from tle_sets_newest [where view = s_db and s = ?s, OF db run]
  show ?thesis unfolding newest_sets_def using run by auto
qed

end
