(* ===== verification/Spec2Isabelle.thy ===== *)
theory Spec2Isabelle
  imports Rate_Limit Cache_Layer Routes Security Transport Spacetrack Ingest Schema Worker Middleware Errors Orbital
begin

text \<open>
  The Unified Technical Telemetry Gateway (UTTG): a Python service that collects orbital elements, launches, space
  weather and near-Earth objects from public providers, keeps them in PostgreSQL and serves them over HTTP, with
  a Valkey cache in front and webhooks behind. This development models the program function by function and proves
  what its parts promise. File names are those under \<open>src/\<close>.

  How the program works. The ingestion process (\<open>ingestion/scheduler.py\<close>) runs seven jobs, each in one replica at a
  time thanks to a slot in Valkey. A job fetches from a provider client (\<open>providers\<close>), which goes through a transport
  with a proxy, retries and a circuit breaker, writes the records with upserts and publishes webhook events on a
  stream. The worker (\<open>ingestion/worker.py\<close>) takes the events from the stream and posts them, signed, to the
  subscribers. The API (\<open>api\<close>) passes a request through four middleware layers, the route table and its
  dependencies (rate limiter, capability) to a handler that reads the database, mostly through the response cache.

  Theories and what they model.
  \<^item> \<open>Prelude\<close>: exceptions and computations over a state (\<open>exn\<close>, \<open>io\<close>, \<open>bindc\<close>, \<open>catchc\<close>), numbers and texts in decimal.
    \<open>Pyvalue\<close>: Python values, IEEE doubles as rationals rounded to 53 bits, \<open>float\<close>, \<open>int\<close>, \<open>str\<close> and \<open>repr\<close>. \<open>Datetime\<close>:
    calendar, \<open>fromisoformat\<close>, \<open>strptime\<close>, \<open>isoformat\<close>. \<open>Json\<close>: \<open>dumps\<close> and \<open>loads\<close>.
  \<^item> \<open>Valkey\<close>, \<open>Counters\<close>: the operations of the key-value store that the program calls, as the locales \<open>valkey_service\<close> and
    \<open>valkey_up\<close> over a parameter, with the documented store as interpretation. \<open>Sql\<close>: rows, statements and queries with the
    meaning SQL gives them, and the locales \<open>database\<close> and \<open>database_up\<close>. \<open>Queue\<close> (\<open>core/queue.py\<close>): the message stream.
  \<^item> \<open>Rate_Limit\<close> (\<open>core/rate_limit.py\<close>), \<open>Cache_Layer\<close> (\<open>core/cache_layer.py\<close>), \<open>Settings\<close> (\<open>core/settings.py\<close>),
    \<open>Capabilities\<close> (\<open>core/capabilities.py\<close>, \<open>core/openapi.py\<close>), \<open>Ip_Address\<close> and \<open>Security\<close> (\<open>core/security.py\<close>,
    \<open>core/ssrf.py\<close>), \<open>Analytics\<close> (\<open>core/analytics.py\<close>), \<open>Middleware\<close> (\<open>core/http.py\<close>, \<open>core/metrics.py\<close>, the stack of
    \<open>api/main.py\<close>), \<open>Errors\<close> (\<open>core/errors.py\<close>).
  \<^item> \<open>Transport\<close> (\<open>providers/transport.py\<close>), \<open>Spacetrack\<close>, \<open>Celestrak\<close>, \<open>Noaa\<close>, \<open>Jpl\<close> (\<open>jpl.py\<close>, \<open>nasa.py\<close>) and
    \<open>Launch_Sources\<close> (\<open>spacedevs.py\<close>, \<open>rocketlaunch.py\<close>, \<open>launch_records.py\<close>): the provider clients and their parsers.
  \<^item> \<open>Scheduler\<close> and \<open>Ingest\<close> (\<open>ingestion/scheduler.py\<close>): job control and the jobs. \<open>Worker\<close> (\<open>ingestion/worker.py\<close>).
  \<^item> \<open>Schema\<close> (\<open>storage/models.py\<close>, \<open>storage/migrations/versions\<close>): the ORM classes and the revisions as changes of a
    catalogue and of its data.
  \<^item> \<open>Routes\<close>: every route with its dependencies, in the order of registration. \<open>Api\<close> (\<open>api/models.py\<close>, \<open>api/utils.py\<close>): what
    the handlers share. \<open>Webhooks\<close>, \<open>Resources\<close>, \<open>Insights\<close>, \<open>Orbital\<close> (\<open>api/routers\<close>, \<open>api/schemas.py\<close>): the handlers.

  How the model corresponds to the code. A coroutine is a function of the state of the world that gives a result or
  an exception with the new state; its services (store, database, stream, HTTP client, resolver, digests,
  random values, the C library, the sgp4 propagator) are records of functions, so the order of its calls is the order
  of the code. Atomic pieces are the ones the program relies on: a Lua script, a transaction. What one client can
  see of another is stated over step relations: the cache (readers, computations that end late, invalidations) and the
  replicas of a job. The request side of ASGI is an interaction tree (\<open>Middleware\<close>): an application receives, sends,
  reads the clock and ends; a middleware is a function on trees.

  What the lemmas show. Rate limiter: it refines counters per client, class and window. Cache: one
  computation at a time, late results dropped, hits served, every call returns, failures release the lock. Security: an
  identity cannot be chosen by headers, a stored webhook URL resolved outside the listed networks. Transport and
  clients: size bounds, errors, circuit and budget, and for every parser which entries become records. Scheduler
  and jobs: mutual exclusion, survival of failures, what a job leaves in the tables, the order of the sources. Schema: the
  migrations build the models, and every upsert has its unique index (below). Webhooks and worker: ownership,
  idempotent creation, every message settled once, delivered or dead-lettered, and the signature verifiable with the
  secret the client got. Middleware and analytics: body limit, every request counted once, the counts of the
  table add up. Handlers: the routes are the documented ones and limited; paging is complete; the element sets are the newest.

  Interfaces. Each locale states what a client of a service relies on: \<open>valkey_service\<close>, \<open>valkey_up\<close>, \<open>database\<close>, \<open>database_up\<close>,
  \<open>message_bus\<close>, \<open>message_bus_up\<close>, \<open>streams\<close>, \<open>platform\<close>, \<open>handlers\<close>, \<open>courier\<close>, \<open>courier_up\<close>; each is interpreted on documented
  behaviour (\<open>doc_valkey\<close>, \<open>doc_engine\<close>, \<open>site_app\<close>, \<open>bench\<close>, \<open>cold_app\<close>) that also drives the witnesses.

  Bounds and fuel. Integers of Python are unbounded and so is \<open>int\<close>; doubles overflow to infinities and have no negative
  zero. The JSON parser has fuel of twice the length of the text, which is enough because every second call consumes a
  character. The waiting loop of the cache is a \<open>partial_function\<close> whose termination is a theorem. A client that
  follows the cursor has fuel, and the theorem holds as soon as it exceeds the number of satellites. Characters are
  those of HOL: code points up to 255.

  Not modelled. The framework (FastAPI, Starlette, CORS, pydantic validation of parameters and response models), the
  drivers behind the parameters, asyncio scheduling inside one process (the tasks of a batch run in sequence, the
  semaphore of the transport and the start and stop of background tasks are left out), sessions and pool options
  (\<open>storage/database.py\<close>), the Alembic runner (\<open>storage/migrations/env.py\<close>), the client object of \<open>core/cache.py\<close>, logging, the
  tests, and everything that is not Python (\<open>web\<close>, \<open>deploy\<close>, \<open>infra\<close>).
\<close>

section \<open>Ingestion and the schema\<close>

text \<open>
  PostgreSQL refuses an \<open>ON CONFLICT\<close> clause whose columns have no unique index or primary key. The statements of
  all ingestion jobs:
\<close>

definition ingestion_stmts ::
  "row list \<Rightarrow> datetime \<Rightarrow> (nat \<Rightarrow> nat) \<Rightarrow> element_set list \<Rightarrow> geomagnetic list \<Rightarrow> solar_wind list \<Rightarrow> row list \<Rightarrow> row list
     \<Rightarrow> upcoming_launch list \<Rightarrow> stmt list" where
  "ingestion_stmts sats now uuid4 records indices winds objects approaches launches =
     satcat_stmts sats @ orbital_stmts now uuid4 records @ weather_stmts now uuid4 indices winds
       @ approach_stmts objects approaches @ launch_stmts now launches"

definition has_arbiter :: "schema \<Rightarrow> string \<Rightarrow> string list \<Rightarrow> bool" where
  "has_arbiter s t key \<longleftrightarrow> (case map_of s t of None \<Rightarrow> False
     | Some tbl \<Rightarrow> t_pk tbl = key \<or> list_ex (\<lambda>i. i_unique i \<and> i_cols i = key) (t_indexes tbl))"

fun arbitrated :: "schema \<Rightarrow> stmt \<Rightarrow> bool" where
  "arbitrated s (Insert t rows key upd) \<longleftrightarrow> has_arbiter s t key"
| "arbitrated s st \<longleftrightarrow> True"

lemma head_arbiters:
  "has_arbiter catalogue_head ''satellites'' [''norad_id'']"
  "has_arbiter catalogue_head ''orbital_elements'' ELEMENT_KEY"
  "has_arbiter catalogue_head ''space_weather_indices'' [''timestamp'']"
  "has_arbiter catalogue_head ''solar_wind'' [''timestamp'']"
  "has_arbiter catalogue_head ''near_earth_objects'' [''id'']"
  "has_arbiter catalogue_head ''close_approaches'' APPROACH_KEY"
  "has_arbiter catalogue_head ''launches'' [''id'']"
  by (code_simp)+

text \<open>
  C24: Every upsert has its index. On the database the migrations build, the conflict columns of every
  statement of every ingestion job are the primary key or the columns of a unique index, whatever the
  records: no job fails for want of an arbiter.
\<close>

theorem upserts_have_unique_indexes:
  "\<exists>s d. migrate (concat (map rev_upgrade (revisions t0))) ([], \<lambda>_. []) = Some (s, d)
    \<and> list_all (arbitrated s) (ingestion_stmts sats now uuid4 records indices winds objects approaches launches)"
proof -
  have "list_all (arbitrated catalogue_head) (ingestion_stmts sats now uuid4 records indices winds objects approaches launches)"
    using head_arbiters
    by (simp add: ingestion_stmts_def satcat_stmts_def orbital_stmts_def weather_stmts_def approach_stmts_def
        launch_stmts_def list.pred_map comp_def list.pred_True)
  with migrate_head [of t0] show ?thesis by blast
qed

end
